(* ===== verification/Py_Prelude.thy ===== *)
theory Py_Prelude
  imports Main "HOL-Library.AList"
begin

text \<open>
  What every component shares: Python's exceptions as values, the strings of the program and the
  \<^verbatim>\<open>str\<close> methods the code calls on them, JSON-like Python values with
  their truthiness and their \<^verbatim>\<open>str()\<close>, insertion-ordered dicts, and a
  small state-and-exception layer for the effectful code.

  Strings are HOL's \<^typ>\<open>string\<close>: one \<^typ>\<open>char\<close> per Python code point, so lengths and
  slices count what Python counts; code points above 255 are outside the model.
  A dict is an association list in insertion order, read with \<^const>\<open>map_of\<close>, written with
  \<^const>\<open>AList.update\<close> (which replaces in place or appends, as Python does) and with
  \<^const>\<open>AList.delete\<close>.
\<close>

named_theorems py_defs "definitions of string predicates and dict operations, for unfolding"
named_theorems py_eval "equations that evaluate closed terms, for witnesses"
named_theorems act_simps "how the state-and-exception combinators run"

section \<open>Exceptions\<close>

text \<open>
  The exceptions the program raises or catches by name. \<open>HTTPException\<close> carries its status and
  detail; \<open>OtherError\<close> stands for any further subclass of \<^verbatim>\<open>Exception\<close>
  raised below the modelled code. \<open>Unmodelled\<close> is no exception of Python's: it marks a run that
  leaves the model (a code point above 255), and no handler catches it.
\<close>

datatype py_exn =
    ValueError
  | ValidationError
  | JSONDecodeError
  | UnicodeDecodeError
  | TypeError
  | AttributeError
  | KeyError
  | RuntimeError
  | InvalidTokenError
  | ExpiredSignatureError
  | HTTPException int string
  | OtherError
  | Unmodelled

text \<open>\<^verbatim>\<open>except ValueError\<close> also catches its subclasses: pydantic's
  \<^verbatim>\<open>ValidationError\<close>, \<^verbatim>\<open>JSONDecodeError\<close> and
  \<^verbatim>\<open>UnicodeDecodeError\<close>. PyJWT's expiry error is an
  \<^verbatim>\<open>InvalidTokenError\<close>.\<close>

definition is_ValueError :: "py_exn \<Rightarrow> bool" where
  "is_ValueError e \<longleftrightarrow> e \<in> {ValueError, ValidationError, JSONDecodeError, UnicodeDecodeError}"

definition is_InvalidTokenError :: "py_exn \<Rightarrow> bool" where
  "is_InvalidTokenError e \<longleftrightarrow> e \<in> {InvalidTokenError, ExpiredSignatureError}"

section \<open>State and exceptions\<close>

text \<open>
  An action reads and writes a world \<open>'w\<close> and either raises or returns. State changes made before
  an exception stay, as in Python.
\<close>

type_synonym ('w, 'a) act = "'w \<Rightarrow> (py_exn + 'a) \<times> 'w"

definition ret :: "'a \<Rightarrow> ('w, 'a) act" where
  "ret x = (\<lambda>w. (Inr x, w))"

definition raise :: "py_exn \<Rightarrow> ('w, 'a) act" where
  "raise e = (\<lambda>w. (Inl e, w))"

definition seq :: "('w, 'a) act \<Rightarrow> ('a \<Rightarrow> ('w, 'b) act) \<Rightarrow> ('w, 'b) act" where
  "seq m k = (\<lambda>w. case m w of (Inl e, w') \<Rightarrow> (Inl e, w') | (Inr x, w') \<Rightarrow> k x w')"

definition try_except :: "('w, 'a) act \<Rightarrow> (py_exn \<Rightarrow> ('w, 'a) act) \<Rightarrow> ('w, 'a) act" where
  "try_except m h = (\<lambda>w. case m w of (Inl e, w') \<Rightarrow> h e w' | (Inr x, w') \<Rightarrow> (Inr x, w'))"

text \<open>\<^verbatim>\<open>except Exception\<close>: every exception of the program.\<close>

definition except_any :: "('w, 'a) act \<Rightarrow> (py_exn \<Rightarrow> ('w, 'a) act) \<Rightarrow> ('w, 'a) act" where
  "except_any m h = try_except m (\<lambda>e. if e = Unmodelled then raise e else h e)"

definition try_finally :: "('w, 'a) act \<Rightarrow> ('w \<Rightarrow> 'w) \<Rightarrow> ('w, 'a) act" where
  "try_finally m f = (\<lambda>w. case m w of (r, w') \<Rightarrow> (r, f w'))"

definition gets :: "('w \<Rightarrow> 'a) \<Rightarrow> ('w, 'a) act" where
  "gets f = (\<lambda>w. (Inr (f w), w))"

definition modify :: "('w \<Rightarrow> 'w) \<Rightarrow> ('w, unit) act" where
  "modify f = (\<lambda>w. (Inr (), f w))"

definition lift_exn :: "py_exn + 'a \<Rightarrow> ('w, 'a) act" where
  "lift_exn r = (\<lambda>w. (r, w))"

lemma ret_run [act_simps]: "ret x w = (Inr x, w)"
  by (simp add: ret_def)

lemma raise_run [act_simps]: "raise e w = (Inl e, w)"
  by (simp add: raise_def)

lemma gets_run [act_simps]: "gets f w = (Inr (f w), w)"
  by (simp add: gets_def)

lemma modify_run [act_simps]: "modify f w = (Inr (), f w)"
  by (simp add: modify_def)

lemma lift_exn_run [act_simps]: "lift_exn r w = (r, w)"
  by (simp add: lift_exn_def)

lemma seq_run [act_simps]:
  "seq m k w = (case m w of (Inl e, w') \<Rightarrow> (Inl e, w') | (Inr x, w') \<Rightarrow> k x w')"
  by (simp add: seq_def)

lemma try_except_run [act_simps]:
  "try_except m h w = (case m w of (Inl e, w') \<Rightarrow> h e w' | (Inr x, w') \<Rightarrow> (Inr x, w'))"
  by (simp add: try_except_def)

lemma except_any_run [act_simps]:
  "except_any m h w =
     (case m w of (Inl e, w') \<Rightarrow> if e = Unmodelled then (Inl e, w') else h e w' | (Inr x, w') \<Rightarrow> (Inr x, w'))"
  by (auto simp: except_any_def try_except_def raise_def split: prod.split sum.split)

lemma try_finally_run [act_simps]:
  "try_finally m f w = (fst (m w), f (snd (m w)))"
  by (simp add: try_finally_def split: prod.split)

text \<open>Inversion of a successful sequence, of a handler and of each primitive.\<close>

lemma seq_Inr_elim [elim]:
  assumes "seq m k w = (Inr y, w')"
  obtains x w1 where "m w = (Inr x, w1)" and "k x w1 = (Inr y, w')"
  using assms by (auto simp: seq_def split: prod.splits sum.splits)

lemma ret_eq_iff [simp]: "ret x w = (r, w') \<longleftrightarrow> r = Inr x \<and> w' = w"
  by (auto simp: ret_def)

lemma raise_eq_iff [simp]: "raise e w = (r, w') \<longleftrightarrow> r = Inl e \<and> w' = w"
  by (auto simp: raise_def)

lemma gets_eq_iff [simp]: "gets f w = (r, w') \<longleftrightarrow> r = Inr (f w) \<and> w' = w"
  by (auto simp: gets_def)

lemma modify_eq_iff [simp]: "modify f w = (r, w') \<longleftrightarrow> r = Inr () \<and> w' = f w"
  by (auto simp: modify_def)

lemma lift_exn_eq_iff [simp]: "lift_exn x w = (r, w') \<longleftrightarrow> x = r \<and> w' = w"
  by (auto simp: lift_exn_def)

lemma seq_gets [simp]: "seq (gets f) k w = k (f w) w"
  by (simp add: seq_def gets_def)

lemma seq_ret [simp]: "seq (ret x) k = k x"
  by (simp add: seq_def ret_def fun_eq_iff)

lemma seq_raise [simp]: "seq (raise e) k = raise e"
  by (simp add: seq_def raise_def fun_eq_iff)

lemma seq_modify [simp]: "seq (modify f) k w = k () (f w)"
  by (simp add: seq_def modify_def)

section \<open>Searching a list\<close>

text \<open>\<^verbatim>\<open>next((p for p in xs if P(p)), None)\<close> is \<^const>\<open>List.find\<close>; where at most one
  element fits, its position is irrelevant.\<close>

lemma find_eq_the:
  assumes "\<And>p q. p \<in> set xs \<Longrightarrow> q \<in> set xs \<Longrightarrow> P p \<Longrightarrow> P q \<Longrightarrow> p = q"
  shows "List.find P xs =
    (if \<exists>p \<in> set xs. P p then Some (THE p. p \<in> set xs \<and> P p) else None)"
proof (cases "List.find P xs")
  case None
  then show ?thesis by (auto simp: find_None_iff)
next
  case (Some p)
  then have p: "p \<in> set xs" "P p" by (auto simp: find_Some_iff)
  then have "(THE p. p \<in> set xs \<and> P p) = p" using assms by (intro the_equality) auto
  with Some p show ?thesis by auto
qed

end
