(* ===== verification/Py_Strings.thy ===== *)
theory Py_Strings
  imports Py_Prelude
begin

text \<open>
  The \<^verbatim>\<open>str\<close> methods the program calls, on strings of code points below 256:
  \<^verbatim>\<open>lower\<close>, \<^verbatim>\<open>strip\<close>,
  \<^verbatim>\<open>startswith\<close>, \<^verbatim>\<open>in\<close>,
  \<^verbatim>\<open>split\<close>, \<^verbatim>\<open>partition\<close>,
  \<^verbatim>\<open>rpartition\<close>, \<^verbatim>\<open>rstrip\<close> of a character set and
  \<^verbatim>\<open>replace\<close> by the empty string, and decimal and hexadecimal rendering of
  integers, with the lemmas the components use.
\<close>

section \<open>Characters\<close>

abbreviation code :: "char \<Rightarrow> nat" where
  "code c \<equiv> of_char c"

abbreviation chr :: "nat \<Rightarrow> char" where
  "chr n \<equiv> char_of n"

text \<open>\<^verbatim>\<open>str.lower\<close> on one code point below 256.\<close>

definition lower_char :: "char \<Rightarrow> char" where
  "lower_char c = (let n = code c in
     if 65 \<le> n \<and> n \<le> 90 \<or> 192 \<le> n \<and> n \<le> 222 \<and> n \<noteq> 215 then char_of (n + 32) else c)"

text \<open>\<^verbatim>\<open>str.isspace\<close> on one code point: the set
  \<^verbatim>\<open>strip()\<close> removes.\<close>

definition is_space :: "char \<Rightarrow> bool" where
  "is_space c \<longleftrightarrow> (let n = code c in
     9 \<le> n \<and> n \<le> 13 \<or> 28 \<le> n \<and> n \<le> 32 \<or> n = 133 \<or> n = 160)"

definition is_digit :: "char \<Rightarrow> bool" where
  "is_digit c \<longleftrightarrow> (let n = code c in 48 \<le> n \<and> n \<le> 57)"

definition is_ascii_alpha :: "char \<Rightarrow> bool" where
  "is_ascii_alpha c \<longleftrightarrow> (let n = code c in 65 \<le> n \<and> n \<le> 90 \<or> 97 \<le> n \<and> n \<le> 122)"

definition is_hex_digit :: "char \<Rightarrow> bool" where
  "is_hex_digit c \<longleftrightarrow> (let n = code c in
     48 \<le> n \<and> n \<le> 57 \<or> 65 \<le> n \<and> n \<le> 70 \<or> 97 \<le> n \<and> n \<le> 102)"

text \<open>\<^const>\<open>char_of\<close> bit by bit, so that the simplifier evaluates it on a numeral.\<close>

lemma char_of_eval [py_eval]:
  "char_of (n :: nat) =
     Char (odd n) (odd (n div 2)) (odd (n div 4)) (odd (n div 8))
       (odd (n div 16)) (odd (n div 32)) (odd (n div 64)) (odd (n div 128))"
  by (simp add: char_of_def bit_iff_odd)

lemma lower_char_idem [simp]: "lower_char (lower_char c) = lower_char c"
  by (auto simp: lower_char_def Let_def)

section \<open>String methods\<close>

definition py_lower :: "string \<Rightarrow> string" where
  "py_lower s = map lower_char s"

definition py_lstrip :: "string \<Rightarrow> string" where
  "py_lstrip s = dropWhile is_space s"

definition py_rstrip :: "string \<Rightarrow> string" where
  "py_rstrip s = rev (dropWhile is_space (rev s))"

definition py_strip :: "string \<Rightarrow> string" where
  "py_strip s = py_rstrip (py_lstrip s)"

text \<open>\<^verbatim>\<open>s.rstrip(chars)\<close> and \<^verbatim>\<open>s.lstrip(chars)\<close>.\<close>

definition rstrip_chars :: "string \<Rightarrow> string \<Rightarrow> string" where
  "rstrip_chars cs s = rev (dropWhile (\<lambda>c. c \<in> set cs) (rev s))"

text \<open>\<^verbatim>\<open>not s or not s.strip()\<close>: the test for a blank string, written all
  over the program.\<close>

definition blank :: "string \<Rightarrow> bool" where
  "blank s \<longleftrightarrow> s = [] \<or> py_strip s = []"

definition starts_with :: "string \<Rightarrow> string \<Rightarrow> bool" where
  "starts_with p s \<longleftrightarrow> take (length p) s = p"

text \<open>\<^verbatim>\<open>sub in s\<close> for strings.\<close>

fun contains_str :: "string \<Rightarrow> string \<Rightarrow> bool" where
  "contains_str sub [] \<longleftrightarrow> sub = []"
| "contains_str sub (c # s) \<longleftrightarrow> starts_with sub (c # s) \<or> contains_str sub s"

text \<open>\<^verbatim>\<open>s.partition(c)\<close>: before, whether found, after.\<close>

fun partition_at :: "char \<Rightarrow> string \<Rightarrow> string \<times> bool \<times> string" where
  "partition_at c [] = ([], False, [])"
| "partition_at c (x # s) =
     (if x = c then ([], True, s)
      else case partition_at c s of (a, found, b) \<Rightarrow> (x # a, found, b))"

text \<open>The last component of \<^verbatim>\<open>s.rpartition(c)\<close>.\<close>

definition after_last :: "char \<Rightarrow> string \<Rightarrow> string" where
  "after_last c s = rev (takeWhile (\<lambda>x. x \<noteq> c) (rev s))"

text \<open>\<^verbatim>\<open>s.split(c)\<close> for one character: never empty.\<close>

fun split_on :: "char \<Rightarrow> string \<Rightarrow> string list" where
  "split_on c [] = [[]]"
| "split_on c (x # s) =
     (if x = c then [] # split_on c s
      else case split_on c s of [] \<Rightarrow> [[x]] | p # ps \<Rightarrow> (x # p) # ps)"

text \<open>\<^verbatim>\<open>c.join(parts)\<close> for a separator string.\<close>

fun join_with :: "string \<Rightarrow> string list \<Rightarrow> string" where
  "join_with sep [] = []"
| "join_with sep [p] = p"
| "join_with sep (p # q # ps) = p @ sep @ join_with sep (q # ps)"

text \<open>\<^verbatim>\<open>s.replace(sub, "")\<close> for a non-empty \<open>sub\<close>: non-overlapping, left to right.\<close>

function remove_all :: "string \<Rightarrow> string \<Rightarrow> string" where
  "remove_all sub s =
     (case s of [] \<Rightarrow> []
      | c # r \<Rightarrow> if sub \<noteq> [] \<and> starts_with sub s then remove_all sub (drop (length sub) s)
                 else c # remove_all sub r)"
  by pat_completeness auto
termination
  by (relation "measure (\<lambda>(sub, s). length s)") auto

declare remove_all.simps [simp del]

lemma remove_all_Nil [simp]: "remove_all sub [] = []"
  by (simp add: remove_all.simps)

lemma remove_all_Cons:
  "remove_all sub (c # r) =
     (if sub \<noteq> [] \<and> starts_with sub (c # r) then remove_all sub (drop (length sub) (c # r))
      else c # remove_all sub r)"
  by (simp add: remove_all.simps)

section \<open>Numbers as text\<close>

fun show_nat :: "nat \<Rightarrow> string" where
  "show_nat n =
     (if n < 10 then [char_of (48 + n)] else show_nat (n div 10) @ [char_of (48 + n mod 10)])"

declare show_nat.simps [simp del]

definition show_int :: "int \<Rightarrow> string" where
  "show_int i = (if i < 0 then CHR ''-'' # show_nat (nat (- i)) else show_nat (nat i))"

definition hex_char :: "nat \<Rightarrow> char" where
  "hex_char n = (if n < 10 then char_of (48 + n) else char_of (87 + n))"

text \<open>\<^verbatim>\<open>format(n, "0wx")\<close> for a value below \<open>16 ^ w\<close>, and
  \<^verbatim>\<open>bytes.hex()\<close> for bytes given as numbers.\<close>

fun show_hex :: "nat \<Rightarrow> nat \<Rightarrow> string" where
  "show_hex 0 n = []"
| "show_hex (Suc w) n = show_hex w (n div 16) @ [hex_char (n mod 16)]"

definition hex_bytes :: "nat list \<Rightarrow> string" where
  "hex_bytes bs = concat (map (show_hex 2) bs)"

section \<open>Lemmas\<close>

lemmas str_defs = py_lower_def py_lstrip_def py_rstrip_def py_strip_def blank_def
  starts_with_def lower_char_def is_space_def

lemma py_lower_idem [simp]: "py_lower (py_lower s) = py_lower s"
  by (simp add: py_lower_def)

lemma py_lower_Nil [simp]: "py_lower [] = []" "py_lower s = [] \<longleftrightarrow> s = []"
  by (simp_all add: py_lower_def)

lemma length_py_lower [simp]: "length (py_lower s) = length s"
  by (simp add: py_lower_def)

lemma py_strip_Nil [simp]: "py_strip [] = []"
  by (simp add: str_defs)

lemma blank_Nil [simp]: "blank []"
  by (simp add: blank_def)

lemma blank_iff: "blank s \<longleftrightarrow> (\<forall>c \<in> set s. is_space c)"
proof -
  have "py_strip s = [] \<longleftrightarrow> (\<forall>c \<in> set s. is_space c)"
  proof
    assume "py_strip s = []"
    then have all: "\<forall>c \<in> set (dropWhile is_space s). is_space c"
      by (simp add: py_strip_def py_rstrip_def py_lstrip_def dropWhile_eq_Nil_conv)
    show "\<forall>c \<in> set s. is_space c"
    proof (cases "dropWhile is_space s")
      case Nil
      then show ?thesis by (simp add: dropWhile_eq_Nil_conv)
    next
      case (Cons c r)
      then have "\<not> is_space c" by (metis hd_dropWhile list.sel(1) list.distinct(1))
      with Cons all show ?thesis by simp
    qed
  next
    assume "\<forall>c \<in> set s. is_space c"
    then show "py_strip s = []"
      by (simp add: py_strip_def py_rstrip_def py_lstrip_def dropWhile_eq_Nil_conv [THEN iffD2])
  qed
  then show ?thesis by (auto simp: blank_def)
qed

lemma not_blank_nonempty: "\<not> blank s \<Longrightarrow> s \<noteq> []"
  by auto

lemma is_space_lower_char [simp]: "is_space (lower_char c) \<longleftrightarrow> is_space c"
  by (auto simp: is_space_def lower_char_def Let_def)

lemma blank_py_lower [simp]: "blank (py_lower s) \<longleftrightarrow> blank s"
  by (simp add: blank_iff py_lower_def)

lemma is_space_hd_dropWhile: "dropWhile is_space s = c # t \<Longrightarrow> \<not> is_space c"
  by (metis hd_dropWhile list.distinct(1) list.sel(1))

lemma py_strip_ends:
  assumes "py_strip s \<noteq> []"
  shows "\<not> is_space (hd (py_strip s)) \<and> \<not> is_space (last (py_strip s))"
proof -
  let ?l = "dropWhile is_space s"
  have ps: "py_strip s = rev (dropWhile is_space (rev ?l))"
    by (simp add: py_strip_def py_rstrip_def py_lstrip_def)
  with assms obtain c t where c: "dropWhile is_space (rev ?l) = c # t" by (cases "dropWhile is_space (rev ?l)") auto
  then have last: "\<not> is_space (last (py_strip s))"
    using ps is_space_hd_dropWhile by (simp add: last_rev)
  from c have "?l \<noteq> []" by (metis dropWhile.simps(1) list.distinct(1) rev.simps(1))
  then obtain d u where d: "?l = d # u" by (cases ?l) auto
  have nd: "\<not> is_space d" by (rule is_space_hd_dropWhile [OF d])
  have "dropWhile is_space (rev ?l) = dropWhile is_space (rev u) @ [d] \<or>
        dropWhile is_space (rev ?l) = [d]"
    using nd by (simp add: d dropWhile_append)
  then have "hd (py_strip s) = d" by (auto simp: ps)
  with nd last show ?thesis by simp
qed

lemma py_strip_fixpoint:
  "s \<noteq> [] \<Longrightarrow> \<not> is_space (hd s) \<Longrightarrow> \<not> is_space (last s) \<Longrightarrow> py_strip s = s"
proof -
  assume s: "s \<noteq> []" "\<not> is_space (hd s)" "\<not> is_space (last s)"
  then have "dropWhile is_space s = s" by (cases s) auto
  moreover have "dropWhile is_space (rev s) = rev s"
    using s by (cases "rev s") (auto simp: hd_rev [symmetric])
  ultimately show ?thesis by (simp add: py_strip_def py_rstrip_def py_lstrip_def)
qed

lemma py_strip_idem [simp]: "py_strip (py_strip s) = py_strip s"
  using py_strip_ends [of s] py_strip_fixpoint [of "py_strip s"] by (cases "py_strip s = []") auto

lemma starts_with_Nil [simp]: "starts_with [] s"
  by (simp add: starts_with_def)

lemma starts_with_append [simp]: "starts_with p (p @ s)"
  by (simp add: starts_with_def)

lemma starts_with_iff: "starts_with p s \<longleftrightarrow> (\<exists>r. s = p @ r)"
  by (metis append_take_drop_id starts_with_append starts_with_def)

lemma partition_at_notin: "c \<notin> set s \<Longrightarrow> partition_at c s = (s, False, [])"
  by (induction s) auto

lemma partition_at_append:
  "c \<notin> set a \<Longrightarrow> partition_at c (a @ c # b) = (a, True, b)"
  by (induction a) auto

lemma partition_at_notin_fst: "c \<notin> set (fst (partition_at c s))"
  by (induction s) (auto split: prod.splits)

lemma set_partition_at: "set (fst (partition_at c s)) \<subseteq> set s"
  by (induction s) (auto split: prod.splits)

lemma takeWhile_rev_notin: "c \<notin> set b \<Longrightarrow> takeWhile (\<lambda>x. x \<noteq> c) (rev b) = rev b"
  by (subst takeWhile_eq_all_conv) auto

lemma after_last_append: "c \<notin> set b \<Longrightarrow> after_last c (a @ c # b) = b"
  by (simp add: after_last_def takeWhile_tail takeWhile_rev_notin)

lemma after_last_notin: "c \<notin> set s \<Longrightarrow> after_last c s = s"
  by (simp add: after_last_def takeWhile_rev_notin)

lemma split_on_neq_Nil [simp]: "split_on c s \<noteq> []"
  by (induction s) (auto split: list.splits)

lemma split_on_notin: "c \<notin> set s \<Longrightarrow> split_on c s = [s]"
  by (induction s) auto

lemma split_on_append:
  "c \<notin> set a \<Longrightarrow> split_on c (a @ c # b) = a # split_on c b"
  by (induction a) auto

lemma join_split_on: "join_with [c] (split_on c s) = s"
proof (induction s)
  case Nil
  show ?case by simp
next
  case (Cons x s)
  then show ?case
    by (cases "split_on c s" rule: list.exhaust; cases "tl (split_on c s)") auto
qed

lemma show_nat_neq_Nil [simp]: "show_nat n \<noteq> []"
  by (subst show_nat.simps) simp

lemma show_nat_digits: "\<forall>c \<in> set (show_nat n). is_digit c"
proof (induction n rule: show_nat.induct)
  case (1 n)
  have d: "is_digit (char_of (48 + k))" if "k < 10" for k :: nat
    using that by (simp add: is_digit_def)
  show ?case
    using 1 d by (subst show_nat.simps) auto
qed

lemma show_hex_2 [py_eval]: "show_hex 2 n = [hex_char (n div 16 mod 16), hex_char (n mod 16)]"
  by (simp add: numeral_2_eq_2)

lemma show_hex_4 [py_eval]:
  "show_hex 4 n = [hex_char (n div 4096 mod 16), hex_char (n div 256 mod 16),
     hex_char (n div 16 mod 16), hex_char (n mod 16)]"
proof -
  have w: "(4::nat) = Suc (Suc (Suc (Suc 0)))" by simp
  have d: "n div 16 div 16 = n div 256" "n div 256 div 16 = n div 4096"
    by (simp_all add: div_mult2_eq [symmetric])
  show ?thesis by (simp only: w show_hex.simps d) simp
qed

lemmas [py_eval] = hex_char_def show_nat.simps show_int_def

lemma length_show_hex [simp]: "length (show_hex w n) = w"
  by (induction w arbitrary: n) auto

lemma length_hex_bytes [simp]: "length (hex_bytes bs) = 2 * length bs"
  by (induction bs) (auto simp: hex_bytes_def)

lemma strip_visible: "(\<And>c. c \<in> set s \<Longrightarrow> \<not> is_space c) \<Longrightarrow> py_strip s = s"
proof -
  assume v: "\<And>c. c \<in> set s \<Longrightarrow> \<not> is_space c"
  have a: "dropWhile is_space s = s" using v by (cases s) auto
  have "dropWhile is_space (rev s) = rev s" using v by (cases "rev s") (auto simp: dropWhile_eq_self_iff dest: arg_cong [where f = set])
  with a show ?thesis by (simp add: py_strip_def py_lstrip_def py_rstrip_def)
qed

lemma visible_not_space: "32 < code c \<Longrightarrow> code c < 127 \<Longrightarrow> \<not> is_space c"
  by (simp add: is_space_def Let_def)

lemma not_digit [simp]:
  "\<not> is_digit CHR ''@''" "\<not> is_digit CHR ''[''" "\<not> is_digit CHR '']''" "\<not> is_digit CHR '':''"
  by (simp_all add: is_digit_def)

lemma contains_notin: "c \<in> set sub \<Longrightarrow> c \<notin> set s \<Longrightarrow> \<not> contains_str sub s"
proof (induction s)
  case (Cons x s)
  then have "\<not> starts_with sub (x # s)" unfolding starts_with_iff by (metis Un_iff set_append set_ConsD)
  with Cons show ?case by simp
qed auto

lemma contains_prefix: "starts_with sub s \<Longrightarrow> contains_str sub s"
  by (cases s) (auto simp: starts_with_def)

lemma contains_append: "contains_str sub (a @ sub @ b)"
  by (induction a) (simp_all add: contains_prefix)

end
