(* ===== verification/Py_Values.thy ===== *)
theory Py_Values
  imports Py_Strings
begin

text \<open>
  The dynamically typed values the program reads out of tokens, JSON documents and message
  headers: \<^verbatim>\<open>None\<close>, booleans, integers, floats, strings, lists and
  string-keyed dicts, with Python's truthiness, \<^verbatim>\<open>str()\<close> and
  \<^verbatim>\<open>repr()\<close>.
  A float is represented by the text of its \<^verbatim>\<open>repr\<close>, which determines it.
\<close>

datatype pyval =
    PNone
  | PBool bool
  | PInt int
  | PFloat string
  | PStr string
  | PList "pyval list"
  | PDict "(string \<times> pyval) list"

type_synonym pydict = "(string \<times> pyval) list"

section \<open>Truthiness and type tests\<close>

fun truthy :: "pyval \<Rightarrow> bool" where
  "truthy PNone = False"
| "truthy (PBool b) = b"
| "truthy (PInt i) = (i \<noteq> 0)"
| "truthy (PFloat t) = (t \<noteq> ''0.0'' \<and> t \<noteq> ''-0.0'')"
| "truthy (PStr s) = (s \<noteq> [])"
| "truthy (PList xs) = (xs \<noteq> [])"
| "truthy (PDict d) = (d \<noteq> [])"

text \<open>\<^verbatim>\<open>a or b\<close> on values.\<close>

definition py_or :: "pyval \<Rightarrow> pyval \<Rightarrow> pyval" where
  "py_or a b = (if truthy a then a else b)"

fun is_str :: "pyval \<Rightarrow> bool" where
  "is_str (PStr _) = True"
| "is_str _ = False"

fun is_list :: "pyval \<Rightarrow> bool" where
  "is_list (PList _) = True"
| "is_list _ = False"

fun is_dict :: "pyval \<Rightarrow> bool" where
  "is_dict (PDict _) = True"
| "is_dict _ = False"

section \<open>str() and repr()\<close>

definition repr_char :: "char \<Rightarrow> char \<Rightarrow> string" where
  "repr_char q c =
     (let n = code c in
      if c = q \<or> n = 92 then [chr 92, c]
      else if n = 9 then [chr 92, CHR ''t'']
      else if n = 10 then [chr 92, CHR ''n'']
      else if n = 13 then [chr 92, CHR ''r'']
      else if n < 32 \<or> 127 \<le> n \<and> n \<le> 160 \<or> n = 173 then chr 92 # CHR ''x'' # show_hex 2 n
      else [c])"

definition repr_str :: "string \<Rightarrow> string" where
  "repr_str s =
     (let q = (if chr 39 \<in> set s \<and> chr 34 \<notin> set s then chr 34 else chr 39) in
      q # concat (map (repr_char q) s) @ [q])"

fun py_repr :: "pyval \<Rightarrow> string"
  and py_reprs :: "pyval list \<Rightarrow> string list"
  and py_repr_items :: "(string \<times> pyval) list \<Rightarrow> string list" where
  "py_repr PNone = ''None''"
| "py_repr (PBool b) = (if b then ''True'' else ''False'')"
| "py_repr (PInt i) = show_int i"
| "py_repr (PFloat t) = t"
| "py_repr (PStr s) = repr_str s"
| "py_repr (PList xs) = ''['' @ join_with '', '' (py_reprs xs) @ '']''"
| "py_repr (PDict d) = ''{'' @ join_with '', '' (py_repr_items d) @ ''}''"
| "py_reprs [] = []"
| "py_reprs (x # xs) = py_repr x # py_reprs xs"
| "py_repr_items [] = []"
| "py_repr_items ((k, v) # d) = (repr_str k @ '': '' @ py_repr v) # py_repr_items d"

fun py_str :: "pyval \<Rightarrow> string" where
  "py_str (PStr s) = s"
| "py_str v = py_repr v"

section \<open>Dicts\<close>

text \<open>\<^verbatim>\<open>d.get(k, default)\<close>; the default of \<^verbatim>\<open>get\<close> is
  \<^verbatim>\<open>None\<close>.\<close>

definition dget :: "pydict \<Rightarrow> string \<Rightarrow> pyval \<Rightarrow> pyval" where
  "dget d k v = (case map_of d k of None \<Rightarrow> v | Some x \<Rightarrow> x)"

abbreviation dlookup :: "pydict \<Rightarrow> string \<Rightarrow> pyval" where
  "dlookup d k \<equiv> dget d k PNone"

abbreviation has_key :: "(string \<times> 'v) list \<Rightarrow> string \<Rightarrow> bool" where
  "has_key d k \<equiv> k \<in> fst ` set d"

text \<open>A dict holds each key once; writing and deleting keep that.\<close>

definition is_pydict :: "(string \<times> 'v) list \<Rightarrow> bool" where
  "is_pydict d \<longleftrightarrow> distinct (map fst d)"

lemma is_pydict_Nil [simp, intro]: "is_pydict []"
  by (simp add: is_pydict_def)

lemma is_pydict_update [simp, intro]: "is_pydict d \<Longrightarrow> is_pydict (AList.update k v d)"
  by (simp add: is_pydict_def distinct_update)

lemma is_pydict_delete [simp, intro]: "is_pydict d \<Longrightarrow> is_pydict (AList.delete k d)"
  by (simp add: is_pydict_def distinct_delete)

lemma is_pydict_filter [simp, intro]: "is_pydict d \<Longrightarrow> is_pydict (filter P d)"
  by (simp add: is_pydict_def distinct_map_filter)

lemma map_of_update [simp]: "map_of (AList.update k v d) = (map_of d)(k \<mapsto> v)"
  by (rule update_conv')

lemma map_of_delete [simp]: "map_of (AList.delete k d) = (map_of d)(k := None)"
  by (rule delete_conv')

lemma map_of_filter_key:
  "map_of (filter (\<lambda>(k, v). P k) d) k = (if P k then map_of d k else None)"
  by (induction d) auto

lemma dget_update [simp]: "dget (AList.update k v d) k' w = (if k' = k then v else dget d k' w)"
  by (auto simp: dget_def)

lemma dget_filter_key:
  "dget (filter (\<lambda>(k, v). P k) d) k w = (if P k then dget d k w else w)"
  by (auto simp: dget_def map_of_filter_key)

lemma py_or_simps [simp]:
  "truthy a \<Longrightarrow> py_or a b = a" "\<not> truthy a \<Longrightarrow> py_or a b = b"
  by (simp_all add: py_or_def)

lemma py_str_PStr_iff [simp]: "py_str (PStr s) = s"
  by simp

end
