(* ===== verification/Py_Url.thy ===== *)
theory Py_Url
  imports Py_Values
begin

text \<open>
  \<^verbatim>\<open>urllib.parse.urlsplit\<close> as the program uses it: the scheme, the network
  location and the \<^verbatim>\<open>hostname\<close> property, with the
  \<^verbatim>\<open>ValueError\<close> raised for unbalanced brackets and for a bracketed host that is
  not an IPv6 address (Python 3.12). The Unicode normalisation check of the library never fires on
  code points below 256 and has no counterpart here.
\<close>

section \<open>Addresses in brackets\<close>

definition valid_octet :: "string \<Rightarrow> bool" where
  "valid_octet s \<longleftrightarrow> s \<noteq> [] \<and> list_all is_digit s \<and> length s \<le> 3 \<and>
     (s = ''0'' \<or> hd s \<noteq> CHR ''0'') \<and> foldl (\<lambda>a c. 10 * a + (code c - 48)) 0 s \<le> 255"

definition valid_ipv4 :: "string \<Rightarrow> bool" where
  "valid_ipv4 s \<longleftrightarrow> (let ps = split_on CHR ''.'' s in length ps = 4 \<and> list_all valid_octet ps)"

definition valid_hextet :: "string \<Rightarrow> bool" where
  "valid_hextet s \<longleftrightarrow> s \<noteq> [] \<and> list_all is_hex_digit s \<and> length s \<le> 4"

text \<open>Where the library finds an empty part strictly inside the list of parts.\<close>

definition inner_empty :: "string list \<Rightarrow> nat list" where
  "inner_empty ps = filter (\<lambda>i. ps ! i = []) [1 ..< length ps - 1]"

definition valid_hextets :: "string list \<Rightarrow> bool" where
  "valid_hextets ps =
     (case inner_empty ps of
        [] \<Rightarrow> length ps = 8 \<and> list_all valid_hextet ps
      | [i] \<Rightarrow>
          (let hi = (if hd ps = [] then i - 1 else i);
               lo = (if last ps = [] then length ps - i - 1 - 1 else length ps - i - 1) in
           (hd ps = [] \<longrightarrow> hi = 0) \<and> (last ps = [] \<longrightarrow> lo = 0) \<and> hi + lo \<le> 7 \<and>
           list_all valid_hextet (take hi ps) \<and>
           list_all valid_hextet (drop (length ps - lo) ps))
      | _ \<Rightarrow> False)"

definition valid_ipv6 :: "string \<Rightarrow> bool" where
  "valid_ipv6 s =
     (case partition_at CHR ''%'' s of (addr, scoped, scope) \<Rightarrow>
        (scoped \<longrightarrow> scope \<noteq> [] \<and> CHR ''%'' \<notin> set scope) \<and>
        (let ps = split_on CHR '':'' addr in
         3 \<le> length ps \<and>
         (if CHR ''.'' \<in> set (last ps)
          then valid_ipv4 (last ps) \<and> length ps + 1 \<le> 9 \<and>
               valid_hextets (butlast ps @ [''0'', ''0''])
          else length ps \<le> 9 \<and> valid_hextets ps)))"

definition valid_ipvfuture :: "string \<Rightarrow> bool" where
  "valid_ipvfuture s =
     (case s of [] \<Rightarrow> False
      | v # r \<Rightarrow> v = CHR ''v'' \<and> takeWhile is_hex_digit r \<noteq> [] \<and>
          (case dropWhile is_hex_digit r of [] \<Rightarrow> False | d # t \<Rightarrow> d = CHR ''.'' \<and> t \<noteq> []))"

definition valid_bracketed :: "string \<Rightarrow> bool" where
  "valid_bracketed h = (if starts_with ''v'' h then valid_ipvfuture h else valid_ipv6 h)"

section \<open>urlsplit\<close>

definition is_scheme_char :: "char \<Rightarrow> bool" where
  "is_scheme_char c \<longleftrightarrow> is_ascii_alpha c \<or> is_digit c \<or> c = CHR ''+'' \<or> c = CHR ''-'' \<or> c = CHR ''.''"

definition clean_url :: "string \<Rightarrow> string" where
  "clean_url s = filter (\<lambda>c. code c \<noteq> 9 \<and> code c \<noteq> 10 \<and> code c \<noteq> 13) (dropWhile (\<lambda>c. code c \<le> 32) s)"

text \<open>The scheme, lowercased, and what follows it.\<close>

definition split_scheme :: "string \<Rightarrow> string \<times> string" where
  "split_scheme s =
     (case partition_at CHR '':'' s of (pre, found, post) \<Rightarrow>
        if found \<and> pre \<noteq> [] \<and> is_ascii_alpha (hd pre) \<and> list_all is_scheme_char pre
        then (py_lower pre, post) else ([], s))"

definition is_netloc_end :: "char \<Rightarrow> bool" where
  "is_netloc_end c \<longleftrightarrow> c = CHR ''/'' \<or> c = CHR ''?'' \<or> c = CHR ''#''"

definition url_split :: "string \<Rightarrow> py_exn + string \<times> string" where
  "url_split s =
     (case split_scheme (clean_url s) of (scheme, r) \<Rightarrow>
        let netloc = (if starts_with ''//'' r
                      then takeWhile (\<lambda>c. \<not> is_netloc_end c) (drop 2 r) else []);
            op = CHR ''['' \<in> set netloc; cl = CHR '']'' \<in> set netloc in
        if op \<noteq> cl then Inl ValueError
        else if op \<and> cl \<and>
             \<not> valid_bracketed (fst (partition_at CHR '']'' (snd (snd (partition_at CHR ''['' netloc)))))
        then Inl ValueError
        else Inr (scheme, netloc))"

text \<open>The \<^verbatim>\<open>hostname\<close> property: credentials and port removed, lower case up to a
  zone identifier.\<close>

definition netloc_hostname :: "string \<Rightarrow> string option" where
  "netloc_hostname netloc =
     (let hostinfo = after_last CHR ''@'' netloc in
      case partition_at CHR ''['' hostinfo of (_, bracket, inner) \<Rightarrow>
        let h = (if bracket then fst (partition_at CHR '']'' inner)
                 else fst (partition_at CHR '':'' hostinfo)) in
        if h = [] then None
        else case partition_at CHR ''%'' h of (name, pct, zone) \<Rightarrow>
          Some (py_lower name @ (if pct then ''%'' else []) @ zone))"

definition url_hostname :: "string \<Rightarrow> py_exn + string option" where
  "url_hostname s = (case url_split s of Inl e \<Rightarrow> Inl e | Inr (_, netloc) \<Rightarrow> Inr (netloc_hostname netloc))"

section \<open>Lemmas\<close>

lemma url_split_raises: "url_split s = Inl e \<Longrightarrow> e = ValueError"
  by (auto simp: url_split_def Let_def split: prod.splits if_splits)

lemma netloc_hostname_nonempty: "netloc_hostname n = Some h \<Longrightarrow> h \<noteq> []"
  by (auto simp: netloc_hostname_def Let_def split: prod.splits if_splits
      dest: arg_cong [where f = set] elim: partition_at.elims)

section \<open>Host names\<close>

text \<open>A host name: letters, digits, hyphens, dots and underscores.\<close>

definition is_name_char :: "char \<Rightarrow> bool" where
  "is_name_char c \<longleftrightarrow> is_ascii_alpha c \<or> is_digit c \<or> c = CHR ''-'' \<or> c = CHR ''.'' \<or> c = CHR ''_''"

definition is_host_name :: "string \<Rightarrow> bool" where
  "is_host_name h \<longleftrightarrow> h \<noteq> [] \<and> list_all is_name_char h"

text \<open>What may follow the host in an Origin or Referer: nothing, a port, a path.\<close>

definition is_url_tail :: "string \<Rightarrow> bool" where
  "is_url_tail t \<longleftrightarrow> list_all (\<lambda>c. 32 < code c \<and> code c < 127) t \<and>
     (case t of [] \<Rightarrow> True
      | c # r \<Rightarrow> c = CHR ''/'' \<or> c = CHR '':'' \<and> (\<forall>x \<in> set (takeWhile (\<lambda>c. \<not> is_netloc_end c) r). is_digit x))"

lemma is_name_char_code:
  "is_name_char c \<Longrightarrow> 45 \<le> code c \<and> code c \<le> 122 \<and> c \<notin> {CHR ''/'', CHR '':'', CHR ''?'', CHR ''#'', CHR ''@'', CHR ''['', CHR '']'', CHR ''%''}"
  by (auto simp: is_name_char_def is_ascii_alpha_def is_digit_def Let_def)

lemma clean_visible: "(\<And>c. c \<in> set s \<Longrightarrow> 32 < code c) \<Longrightarrow> clean_url s = s"
  by (cases s) (fastforce simp: clean_url_def filter_id_conv)+

lemma host_name_chars:
  assumes "is_host_name h"
  shows "h \<noteq> []" "\<And>c. c \<in> set h \<Longrightarrow> 32 < code c \<and> code c < 127 \<and> \<not> is_netloc_end c"
    "CHR '':'' \<notin> set h" "CHR ''@'' \<notin> set h" "CHR ''['' \<notin> set h" "CHR '']'' \<notin> set h" "CHR ''%'' \<notin> set h" "CHR ''/'' \<notin> set h"
proof -
  have n: "is_name_char c" if "c \<in> set h" for c
    using assms that by (auto simp: is_host_name_def list_all_iff)
  show "h \<noteq> []" using assms by (simp add: is_host_name_def)
  show "32 < code c \<and> code c < 127 \<and> \<not> is_netloc_end c" if "c \<in> set h" for c
    using is_name_char_code [OF n [OF that]] by (simp add: is_netloc_end_def)
  show "CHR '':'' \<notin> set h" "CHR ''@'' \<notin> set h" "CHR ''['' \<notin> set h" "CHR '']'' \<notin> set h"
    "CHR ''%'' \<notin> set h" "CHR ''/'' \<notin> set h"
    using is_name_char_code n by blast+
qed

lemma name_char_lower: "is_name_char c \<Longrightarrow> is_name_char (lower_char c)"
proof (cases "65 \<le> code c \<and> code c \<le> 90")
  case True
  then have "is_ascii_alpha (lower_char c)" by (simp add: lower_char_def is_ascii_alpha_def Let_def)
  then show ?thesis by (simp add: is_name_char_def)
next
  case False
  assume "is_name_char c"
  with False is_name_char_code [of c] have "lower_char c = c" by (auto simp: lower_char_def Let_def)
  with \<open>is_name_char c\<close> show ?thesis by simp
qed

lemma host_name_lower: "is_host_name h \<Longrightarrow> is_host_name (py_lower h)"
  by (simp add: is_host_name_def py_lower_def list_all_iff name_char_lower)

lemma netloc_hostname_name:
  assumes h: "is_host_name h" and p: "p = [] \<or> (\<exists>q. p = CHR '':'' # q \<and> (\<forall>c \<in> set q. is_digit c))"
  shows "netloc_hostname (h @ p) = Some (py_lower h)"
proof -
  note n = host_name_chars [OF h]
  have "CHR ''@'' \<notin> set (h @ p)" "CHR ''['' \<notin> set (h @ p)" using n p by (auto dest: bspec)
  then have "after_last CHR ''@'' (h @ p) = h @ p \<and> partition_at CHR ''['' (h @ p) = (h @ p, False, [])"
    by (metis after_last_notin partition_at_notin)
  moreover have "fst (partition_at CHR '':'' (h @ p)) = h"
    using p n(3) by (auto simp: partition_at_notin partition_at_append)
  ultimately show ?thesis using n by (simp add: netloc_hostname_def partition_at_notin)
qed

lemma url_tail_netloc:
  assumes h: "is_host_name h" and t: "is_url_tail t"
  obtains p where "takeWhile (\<lambda>c. \<not> is_netloc_end c) (h @ t) = h @ p"
    and "p = [] \<or> (\<exists>q. p = CHR '':'' # q \<and> (\<forall>c \<in> set q. is_digit c))"
proof
  show "takeWhile (\<lambda>c. \<not> is_netloc_end c) (h @ t) = h @ takeWhile (\<lambda>c. \<not> is_netloc_end c) t"
    using host_name_chars(2) [OF h] by (simp add: takeWhile_append2)
  show "takeWhile (\<lambda>c. \<not> is_netloc_end c) t = [] \<or> (\<exists>q. takeWhile (\<lambda>c. \<not> is_netloc_end c) t = CHR '':'' # q \<and> (\<forall>c \<in> set q. is_digit c))"
    using t by (cases t) (auto simp: is_url_tail_def is_netloc_end_def)
qed

lemma url_hostname_name:
  assumes h: "is_host_name h" and t: "is_url_tail t" and s: "sch \<in> {''http:'', ''https:'', []}"
    and c: "sch = [] \<longrightarrow> CHR '':'' \<notin> set t"
  shows "url_hostname (sch @ ''//'' @ h @ t) = Inr (Some (py_lower h))"
proof -
  let ?u = "sch @ ''//'' @ h @ t"
  have v: "32 < code c" if "c \<in> set ?u" for c
    using that s host_name_chars(2) [OF h] t by (auto simp: is_url_tail_def list_all_iff)
  have sp: "snd (split_scheme ?u) = ''//'' @ h @ t"
  proof (cases "sch = []")
    case True
    then show ?thesis using c host_name_chars(3) [OF h] by (simp add: split_scheme_def partition_at_notin)
  next
    case False
    with s show ?thesis by (auto simp: split_scheme_def is_ascii_alpha_def is_scheme_char_def)
  qed
  obtain p where p: "takeWhile (\<lambda>c. \<not> is_netloc_end c) (h @ t) = h @ p"
    "p = [] \<or> (\<exists>q. p = CHR '':'' # q \<and> (\<forall>c \<in> set q. is_digit c))" by (rule url_tail_netloc [OF h t])
  have "CHR ''['' \<notin> set (h @ p)" "CHR '']'' \<notin> set (h @ p)"
    using p(2) host_name_chars [OF h] by (auto dest: bspec)
  moreover have "clean_url ?u = ?u" by (rule clean_visible) (rule v)
  moreover obtain sc where "split_scheme ?u = (sc, ''//'' @ h @ t)" using sp by (cases "split_scheme ?u") auto
  ultimately have "url_split ?u = Inr (sc, h @ p)"
    using p(1) unfolding url_split_def by (simp only: prod.case) (simp add: starts_with_def)
  then show ?thesis using netloc_hostname_name [OF h p(2)] by (auto simp: url_hostname_def)
qed

end
