(* ===== verification/Http_Request.thy ===== *)
theory Http_Request
  imports Py_Url
begin

text \<open>
  What the program reads of an HTTP request: headers (stored under lower-case names and looked up
  case-insensitively, first occurrence first), query parameters, cookies, the full URL, its path and
  the host of its base URL.
\<close>

record request =
  req_headers :: "(string \<times> string) list"
  req_query :: "(string \<times> string) list"
  req_cookies :: "(string \<times> string) list"
  req_url :: string
  req_path :: string
  req_base_host :: "string option"

definition header :: "request \<Rightarrow> string \<Rightarrow> string option" where
  "header r name = map_of (req_headers r) (py_lower name)"

definition query_param :: "request \<Rightarrow> string \<Rightarrow> string option" where
  "query_param r name = map_of (req_query r) name"

definition cookie :: "request \<Rightarrow> string \<Rightarrow> string option" where
  "cookie r name = map_of (req_cookies r) name"

text \<open>\<^verbatim>\<open>value or ""\<close> and a truthy optional string.\<close>

definition or_empty :: "string option \<Rightarrow> string" where
  "or_empty s = (case s of None \<Rightarrow> [] | Some t \<Rightarrow> t)"

definition truthy_opt :: "string option \<Rightarrow> bool" where
  "truthy_opt s \<longleftrightarrow> or_empty s \<noteq> []"

text \<open>\<^verbatim>\<open>a or b\<close> for optional strings.\<close>

definition or_else :: "string option \<Rightarrow> string option \<Rightarrow> string option" where
  "or_else a b = (if truthy_opt a then a else b)"

definition empty_request :: request where
  "empty_request = \<lparr>req_headers = [], req_query = [], req_cookies = [], req_url = [], req_path = [],
     req_base_host = None\<rparr>"

lemma or_empty_simps [simp]: "or_empty None = []" "or_empty (Some s) = s"
  by (simp_all add: or_empty_def)

lemma truthy_opt_simps [simp]: "\<not> truthy_opt None" "truthy_opt (Some s) \<longleftrightarrow> s \<noteq> []"
  by (simp_all add: truthy_opt_def)

lemma truthy_optE: "truthy_opt s \<Longrightarrow> (\<And>t. s = Some t \<Longrightarrow> t \<noteq> [] \<Longrightarrow> P) \<Longrightarrow> P"
  by (cases s) auto

lemma or_else_simps [simp]:
  "truthy_opt a \<Longrightarrow> or_else a b = a" "\<not> truthy_opt a \<Longrightarrow> or_else a b = b" "or_else None b = b"
  by (simp_all add: or_else_def)

end
