(* ===== verification/Signing_Algorithm.thy ===== *)
theory Signing_Algorithm
  imports Py_Values
begin

text \<open>
  \<^verbatim>\<open>_auth/jwt_signing_algorithm.py\<close>: the signing algorithms a provider may
  configure, their stored numbers and wire names, and the test that all of a provider's algorithms
  draw their key from one place. The lemmas show that a list which passes that test never mixes
  shared-secret with public-key algorithms, and that the pinned wire names are exactly the
  configured ones.
\<close>

datatype jwt_alg =
    UNSPECIFIED
  | RS256 | RS384 | RS512
  | ES256 | ES384 | ES512
  | PS256 | PS384 | PS512
  | HS256 | HS384 | HS512

text \<open>The persisted number of a member, the lookup \<^verbatim>\<open>JwtSigningAlgorithm(n)\<close> and
  the member's name.\<close>

fun alg_value :: "jwt_alg \<Rightarrow> int" where
  "alg_value UNSPECIFIED = 0"
| "alg_value RS256 = 1" | "alg_value RS384 = 2" | "alg_value RS512 = 3"
| "alg_value ES256 = 4" | "alg_value ES384 = 5" | "alg_value ES512 = 6"
| "alg_value PS256 = 7" | "alg_value PS384 = 8" | "alg_value PS512 = 9"
| "alg_value HS256 = 10" | "alg_value HS384 = 11" | "alg_value HS512 = 12"

definition all_algs :: "jwt_alg list" where
  "all_algs = [UNSPECIFIED, RS256, RS384, RS512, ES256, ES384, ES512,
     PS256, PS384, PS512, HS256, HS384, HS512]"

definition alg_of_int :: "int \<Rightarrow> jwt_alg option" where
  "alg_of_int n = List.find (\<lambda>a. alg_value a = n) all_algs"

fun alg_name :: "jwt_alg \<Rightarrow> string" where
  "alg_name UNSPECIFIED = ''UNSPECIFIED''"
| "alg_name RS256 = ''RS256''" | "alg_name RS384 = ''RS384''" | "alg_name RS512 = ''RS512''"
| "alg_name ES256 = ''ES256''" | "alg_name ES384 = ''ES384''" | "alg_name ES512 = ''ES512''"
| "alg_name PS256 = ''PS256''" | "alg_name PS384 = ''PS384''" | "alg_name PS512 = ''PS512''"
| "alg_name HS256 = ''HS256''" | "alg_name HS384 = ''HS384''" | "alg_name HS512 = ''HS512''"

definition SYMMETRIC :: "jwt_alg set" where
  "SYMMETRIC = {HS256, HS384, HS512}"

definition is_symmetric :: "jwt_alg \<Rightarrow> bool" where
  "is_symmetric a \<longleftrightarrow> a \<in> SYMMETRIC"

definition to_wire_name :: "jwt_alg \<Rightarrow> string" where
  "to_wire_name a = (if a = UNSPECIFIED then [] else alg_name a)"

fun add_wire_names :: "string list \<Rightarrow> jwt_alg list \<Rightarrow> string list" where
  "add_wire_names names [] = names"
| "add_wire_names names (a # as) =
     (let name = to_wire_name a in
      add_wire_names (if name \<noteq> [] \<and> name \<notin> set names then names @ [name] else names) as)"

definition to_wire_names :: "jwt_alg list option \<Rightarrow> string list" where
  "to_wire_names as = (case as of None \<Rightarrow> [] | Some l \<Rightarrow> add_wire_names [] l)"

definition is_single_key_source :: "jwt_alg list option \<Rightarrow> bool" where
  "is_single_key_source as =
     (case as of None \<Rightarrow> False
      | Some l \<Rightarrow>
          if l = [] then False
          else if list_ex (\<lambda>a. a = UNSPECIFIED) l then False
          else list_all is_symmetric l \<or> \<not> list_ex is_symmetric l)"

section \<open>Lemmas\<close>

lemma alg_of_int_value [simp]: "alg_of_int (alg_value a) = Some a"
  by (cases a) (simp_all add: alg_of_int_def all_algs_def)

lemma alg_of_int_SomeD: "alg_of_int n = Some a \<Longrightarrow> alg_value a = n"
  by (auto simp: alg_of_int_def find_Some_iff)

lemma alg_name_inj: "alg_name a = alg_name b \<Longrightarrow> a = b"
  by (cases a; cases b) simp_all

lemma alg_name_neq_Nil [simp]: "alg_name a \<noteq> []"
  by (cases a) simp_all

lemma to_wire_name_Nil [simp]: "to_wire_name a = [] \<longleftrightarrow> a = UNSPECIFIED"
  by (simp add: to_wire_name_def)

lemma set_add_wire_names:
  "set (add_wire_names names l) = set names \<union> {alg_name a | a. a \<in> set l \<and> a \<noteq> UNSPECIFIED}"
  by (induction names l rule: add_wire_names.induct) (auto simp: Let_def to_wire_name_def)

lemma distinct_add_wire_names: "distinct names \<Longrightarrow> distinct (add_wire_names names l)"
  by (induction names l rule: add_wire_names.induct) (auto simp: Let_def)

lemma set_to_wire_names:
  "set (to_wire_names (Some l)) = {alg_name a | a. a \<in> set l \<and> a \<noteq> UNSPECIFIED}"
  by (simp add: to_wire_names_def set_add_wire_names)

lemma single_key_source_iff:
  "is_single_key_source (Some l) \<longleftrightarrow>
     l \<noteq> [] \<and> UNSPECIFIED \<notin> set l \<and> (set l \<subseteq> SYMMETRIC \<or> set l \<inter> SYMMETRIC = {})"
  by (auto simp: is_single_key_source_def list_all_iff list_ex_iff is_symmetric_def)

text \<open>
  No algorithm confusion: when a provider's algorithms pass the single-key-source test, the
  names pinned into validation are all shared-secret algorithms or none is, according to the first
  configured algorithm, the one that selects the key; and at least one name is pinned.
\<close>

lemma pinned_names:
  assumes "is_single_key_source (Some l)"
  shows "to_wire_names (Some l) \<noteq> [] \<and>
    (\<forall>n \<in> set (to_wire_names (Some l)). (n \<in> alg_name ` SYMMETRIC) = is_symmetric (hd l))"
proof -
  from assms have l: "l \<noteq> []" "UNSPECIFIED \<notin> set l"
    and one: "set l \<subseteq> SYMMETRIC \<or> set l \<inter> SYMMETRIC = {}"
    by (auto simp: single_key_source_iff)
  have hd: "hd l \<in> set l" "hd l \<noteq> UNSPECIFIED"
    using l by (auto dest: hd_in_set)
  then have "alg_name (hd l) \<in> set (to_wire_names (Some l))"
    unfolding set_to_wire_names by blast
  moreover have "(n \<in> alg_name ` SYMMETRIC) = is_symmetric (hd l)"
    if "n \<in> set (to_wire_names (Some l))" for n
    using that one hd_in_set [OF l(1)]
    by (auto simp: set_to_wire_names is_symmetric_def dest!: alg_name_inj)
  ultimately show ?thesis by auto
qed

end
