(* ===== verification/Third_Party_Provider.thy ===== *)
theory Third_Party_Provider
  imports Signing_Algorithm
begin

text \<open>
  \<^verbatim>\<open>_auth/third_party_provider.py\<close>: an external identity provider of a tenant,
  its claim mapping, and the two normalising validators that run when a stored row becomes a
  provider. The metadata of \<^verbatim>\<open>BaseEntity\<close> that nothing reads is left out.
\<close>

definition DEFAULT_ORGANIZATION :: string where
  "DEFAULT_ORGANIZATION = ''default''"

record claims_mapping =
  cm_user_id :: string
  cm_email :: string
  cm_user_name :: string
  cm_name :: string
  cm_roles :: string

definition is_configured :: "claims_mapping \<Rightarrow> bool" where
  "is_configured m =
     list_ex (\<lambda>v. py_strip v \<noteq> []) [cm_user_id m, cm_email m, cm_user_name m, cm_name m, cm_roles m]"

record provider =
  p_tenant_id :: string
  p_key :: string
  p_provider_name :: string
  p_is_active :: bool
  p_issuer :: string
  p_audiences :: "string list"
  p_algorithms :: "jwt_alg list"
  p_jwks_url :: string
  p_public_certificate_path :: string
  p_public_certificate_password_cipher :: string
  p_signing_secret_cipher :: string
  p_certificate_subject :: string
  p_certificate_thumbprint :: string
  p_certificate_not_after :: "string option"
  p_cookie_key :: string
  p_default_organization_id :: string
  p_claims_mapping :: "claims_mapping option"

text \<open>The field defaults of the model class.\<close>

definition empty_mapping :: claims_mapping where
  "empty_mapping = \<lparr>cm_user_id = [], cm_email = [], cm_user_name = [], cm_name = [], cm_roles = []\<rparr>"

definition default_provider :: provider where
  "default_provider = \<lparr>p_tenant_id = [], p_key = [], p_provider_name = [], p_is_active = False,
     p_issuer = [], p_audiences = [], p_algorithms = [], p_jwks_url = [],
     p_public_certificate_path = [], p_public_certificate_password_cipher = [],
     p_signing_secret_cipher = [], p_certificate_subject = [], p_certificate_thumbprint = [],
     p_certificate_not_after = None, p_cookie_key = [],
     p_default_organization_id = DEFAULT_ORGANIZATION, p_claims_mapping = Some empty_mapping\<rparr>"

section \<open>Validators\<close>

definition normalise_organization :: "pyval \<Rightarrow> string" where
  "normalise_organization v =
     (if v = PNone \<or> py_strip (py_str v) = [] then DEFAULT_ORGANIZATION else py_strip (py_str v))"

text \<open>
  \<^verbatim>\<open>JwtSigningAlgorithm(item)\<close> for a value of any type: members are looked up by
  equality with their number, so \<^verbatim>\<open>True\<close> and \<^verbatim>\<open>1.0\<close> find the
  same member as \<^verbatim>\<open>1\<close>; anything else raises
  \<^verbatim>\<open>ValueError\<close>, here \<^const>\<open>None\<close>.
\<close>

fun alg_of_value :: "pyval \<Rightarrow> jwt_alg option" where
  "alg_of_value (PInt n) = alg_of_int n"
| "alg_of_value (PBool b) = alg_of_int (if b then 1 else 0)"
| "alg_of_value (PFloat t) =
     (if t = ''-0.0'' then Some UNSPECIFIED
      else List.find (\<lambda>a. t = show_int (alg_value a) @ ''.0'') all_algs)"
| "alg_of_value _ = None"

text \<open>What \<^verbatim>\<open>for item in value\<close> yields, \<^const>\<open>None\<close> for a value that is not iterable.\<close>

fun py_iter :: "pyval \<Rightarrow> pyval list option" where
  "py_iter (PList xs) = Some xs"
| "py_iter (PStr s) = Some (map (\<lambda>c. PStr [c]) s)"
| "py_iter (PDict d) = Some (map (\<lambda>(k, _). PStr k) d)"
| "py_iter _ = None"

definition drop_unknown_algorithms :: "pyval \<Rightarrow> py_exn + jwt_alg list" where
  "drop_unknown_algorithms v =
     (if \<not> truthy v then Inr []
      else case py_iter v of None \<Rightarrow> Inl TypeError
      | Some items \<Rightarrow> Inr (List.map_filter alg_of_value items))"

section \<open>Lemmas\<close>

text \<open>
  A provider's organization scope is never blank and carries no surrounding blanks, whatever the
  stored row held, and normalising it again changes nothing.
\<close>

theorem normalise_organization_never_blank:
  "\<not> blank (normalise_organization v) \<and> py_strip (normalise_organization v) = normalise_organization v \<and>
   normalise_organization (PStr (normalise_organization v)) = normalise_organization v"
proof -
  have d: "py_strip DEFAULT_ORGANIZATION = DEFAULT_ORGANIZATION" "DEFAULT_ORGANIZATION \<noteq> []"
    by (simp_all add: DEFAULT_ORGANIZATION_def str_defs)
  show ?thesis by (auto simp: normalise_organization_def blank_def d)
qed

text \<open>
  Reading a provider's algorithms from a stored list never raises: every stored number that
  names a known algorithm is kept, in order, and every other entry is dropped.
\<close>

theorem drop_unknown_algorithms_list:
  "drop_unknown_algorithms (PList vs) = Inr (List.map_filter alg_of_value vs) \<and>
   drop_unknown_algorithms (PList (map (\<lambda>a. PInt (alg_value a)) as)) = Inr as"
proof -
  have "List.map_filter alg_of_value (map (\<lambda>a. PInt (alg_value a)) as) = as"
    by (induction as) (simp_all add: List.map_filter_simps)
  then show ?thesis by (auto simp: drop_unknown_algorithms_def List.map_filter_simps)
qed

end
