(* ===== verification/Py_Json.thy ===== *)
theory Py_Json
  imports Py_Values
begin

text \<open>
  Python's \<^verbatim>\<open>json.dumps\<close> (default separators, ASCII output) and
  \<^verbatim>\<open>json.loads\<close>, which the program uses for message bodies and headers,
  for delegation grants and for claims that hold JSON text. The parser follows the scanner of the
  standard library: duplicate keys keep the last value, control characters inside a string are
  refused, integers of more than 4300 digits raise \<^verbatim>\<open>ValueError\<close>, and
  \<^verbatim>\<open>NaN\<close> and \<^verbatim>\<open>Infinity\<close> are accepted. The one
  primitive left open is \<open>fl\<close>, the text of \<^verbatim>\<open>repr(float(literal))\<close>, which
  rests on the processor's floating point; an escape above \<^verbatim>\<open>\u00ff\<close> is
  reported as outside the model's alphabet.

  The parser spends one unit of fuel per call; \<open>json_loads_no_fuel\<close> shows that the fuel it starts
  with is never used up, and \<open>json_loads_dumps\<close> that it reads back what \<open>json_dumps\<close> wrote.
\<close>

datatype json_error = JDecode | JIntTooLong | JOutsideModel | JFuel

section \<open>Rendering\<close>

definition escape_char :: "char \<Rightarrow> string" where
  "escape_char c =
     (let n = code c in
      if n = 34 \<or> n = 92 then [chr 92, c]
      else if n = 10 then [chr 92, CHR ''n'']
      else if n = 13 then [chr 92, CHR ''r'']
      else if n = 9 then [chr 92, CHR ''t'']
      else if n = 12 then [chr 92, CHR ''f'']
      else if n = 8 then [chr 92, CHR ''b'']
      else if n < 32 \<or> 126 < n then chr 92 # CHR ''u'' # show_hex 4 n
      else [c])"

definition dump_str :: "string \<Rightarrow> string" where
  "dump_str s = chr 34 # concat (map escape_char s) @ [chr 34]"

definition dump_float :: "string \<Rightarrow> string" where
  "dump_float t = (if t = ''nan'' then ''NaN'' else if t = ''inf'' then ''Infinity''
     else if t = ''-inf'' then ''-Infinity'' else t)"

fun json_dumps :: "pyval \<Rightarrow> string"
  and dump_elems :: "pyval list \<Rightarrow> string list"
  and dump_members :: "(string \<times> pyval) list \<Rightarrow> string list" where
  "json_dumps PNone = ''null''"
| "json_dumps (PBool b) = (if b then ''true'' else ''false'')"
| "json_dumps (PInt i) = show_int i"
| "json_dumps (PFloat t) = dump_float t"
| "json_dumps (PStr s) = dump_str s"
| "json_dumps (PList xs) = ''['' @ join_with '', '' (dump_elems xs) @ '']''"
| "json_dumps (PDict d) = ''{'' @ join_with '', '' (dump_members d) @ ''}''"
| "dump_elems [] = []"
| "dump_elems (x # xs) = json_dumps x # dump_elems xs"
| "dump_members [] = []"
| "dump_members ((k, v) # d) = (dump_str k @ '': '' @ json_dumps v) # dump_members d"

section \<open>Parsing\<close>

definition is_json_ws :: "char \<Rightarrow> bool" where
  "is_json_ws c \<longleftrightarrow> (let n = code c in n = 32 \<or> n = 9 \<or> n = 10 \<or> n = 13)"

definition skip_ws :: "string \<Rightarrow> string" where
  "skip_ws s = dropWhile is_json_ws s"

definition digit_value :: "char \<Rightarrow> nat" where
  "digit_value c = code c - 48"

definition nat_of_digits :: "string \<Rightarrow> nat" where
  "nat_of_digits ds = foldl (\<lambda>a c. 10 * a + digit_value c) 0 ds"

definition hex_value :: "char \<Rightarrow> nat" where
  "hex_value c = (let n = code c in if n \<le> 57 then n - 48 else if n \<le> 70 then n - 55 else n - 87)"

definition hex4 :: "string \<Rightarrow> nat option" where
  "hex4 s = (if 4 \<le> length s \<and> list_all is_hex_digit (take 4 s)
     then Some (foldl (\<lambda>a c. 16 * a + hex_value c) 0 (take 4 s)) else None)"

definition simple_escape :: "char \<Rightarrow> char option" where
  "simple_escape e =
     (let n = code e in
      if n = 34 \<or> n = 92 \<or> n = 47 then Some e
      else if e = CHR ''b'' then Some (chr 8)
      else if e = CHR ''f'' then Some (chr 12)
      else if e = CHR ''n'' then Some (chr 10)
      else if e = CHR ''r'' then Some (chr 13)
      else if e = CHR ''t'' then Some (chr 9)
      else None)"

definition cons_char :: "char \<Rightarrow> json_error + (string \<times> string) \<Rightarrow> json_error + (string \<times> string)" where
  "cons_char c r = (case r of Inl e \<Rightarrow> Inl e | Inr (s, rest) \<Rightarrow> Inr (c # s, rest))"

text \<open>The rest of a string literal, after its opening quote: its value and what follows.\<close>

function scan_string :: "string \<Rightarrow> json_error + (string \<times> string)" where
  "scan_string [] = Inl JDecode"
| "scan_string (c # r) =
     (if c = chr 34 then Inr ([], r)
      else if c = chr 92 then
        (case r of [] \<Rightarrow> Inl JDecode
         | e # r' \<Rightarrow>
             if e = CHR ''u'' then
               (case hex4 r' of None \<Rightarrow> Inl JDecode
                | Some n \<Rightarrow> if n < 256 then cons_char (chr n) (scan_string (drop 4 r'))
                            else Inl JOutsideModel)
             else (case simple_escape e of None \<Rightarrow> Inl JDecode
                   | Some ch \<Rightarrow> cons_char ch (scan_string r')))
      else if code c < 32 then Inl JDecode
      else cons_char c (scan_string r))"
  by pat_completeness auto
termination
  by (relation "measure length") auto

text \<open>A number literal: sign, integer part, optional fraction, optional exponent.\<close>

definition scan_frac :: "string \<Rightarrow> string \<times> string" where
  "scan_frac s = (case s of c # r \<Rightarrow>
       if c = CHR ''.'' \<and> takeWhile is_digit r \<noteq> []
       then (c # takeWhile is_digit r, dropWhile is_digit r) else ([], s)
     | [] \<Rightarrow> ([], s))"

definition scan_exp :: "string \<Rightarrow> string \<times> string" where
  "scan_exp s = (case s of c # r \<Rightarrow>
       if c = CHR ''e'' \<or> c = CHR ''E'' then
         (let sign = (case r of x # _ \<Rightarrow> if x = CHR ''+'' \<or> x = CHR ''-'' then [x] else [] | [] \<Rightarrow> []);
              ds = drop (length sign) r in
          if takeWhile is_digit ds \<noteq> []
          then (c # sign @ takeWhile is_digit ds, dropWhile is_digit ds) else ([], s))
       else ([], s)
     | [] \<Rightarrow> ([], s))"

definition scan_int_part :: "string \<Rightarrow> (string \<times> string) option" where
  "scan_int_part s = (case s of [] \<Rightarrow> None
     | c # r \<Rightarrow> if c = CHR ''0'' then Some ([c], r)
                else if is_digit c then Some (takeWhile is_digit s, dropWhile is_digit s)
                else None)"

definition max_int_digits :: nat where
  "max_int_digits = 4300"

definition scan_number :: "(string \<Rightarrow> string) \<Rightarrow> string \<Rightarrow> json_error + (pyval \<times> string)" where
  "scan_number fl s =
     (let neg = (case s of c # _ \<Rightarrow> c = CHR ''-'' | [] \<Rightarrow> False);
          s1 = (if neg then tl s else s) in
      case scan_int_part s1 of None \<Rightarrow> Inl JDecode
      | Some (ip, s2) \<Rightarrow>
          (case scan_frac s2 of (fp, s3) \<Rightarrow> case scan_exp s3 of (ep, s4) \<Rightarrow>
            if fp \<noteq> [] \<or> ep \<noteq> []
            then Inr (PFloat (fl ((if neg then ''-'' else []) @ ip @ fp @ ep)), s4)
            else if max_int_digits < length ip then Inl JIntTooLong
            else Inr (PInt (if neg then - int (nat_of_digits ip) else int (nat_of_digits ip)), s4)))"

fun json_value :: "(string \<Rightarrow> string) \<Rightarrow> nat \<Rightarrow> string \<Rightarrow> json_error + (pyval \<times> string)"
  and json_elems :: "(string \<Rightarrow> string) \<Rightarrow> nat \<Rightarrow> string \<Rightarrow> json_error + (pyval list \<times> string)"
  and json_members :: "(string \<Rightarrow> string) \<Rightarrow> nat \<Rightarrow> pydict \<Rightarrow> string \<Rightarrow> json_error + (pydict \<times> string)"
where
  "json_value fl 0 s = Inl JFuel"
| "json_value fl (Suc n) s =
     (case s of [] \<Rightarrow> Inl JDecode
      | c # r \<Rightarrow>
          if c = chr 34 then
            (case scan_string r of Inl e \<Rightarrow> Inl e | Inr (t, r') \<Rightarrow> Inr (PStr t, r'))
          else if c = CHR ''{'' then
            (case skip_ws r of [] \<Rightarrow> Inl JDecode
             | d # r' \<Rightarrow> if d = CHR ''}'' then Inr (PDict [], r')
                else (case json_members fl n [] (d # r') of Inl e \<Rightarrow> Inl e
                      | Inr (m, r'') \<Rightarrow> Inr (PDict m, r'')))
          else if c = CHR ''['' then
            (case skip_ws r of [] \<Rightarrow> Inl JDecode
             | d # r' \<Rightarrow> if d = CHR '']'' then Inr (PList [], r')
                else (case json_elems fl n (d # r') of Inl e \<Rightarrow> Inl e
                      | Inr (xs, r'') \<Rightarrow> Inr (PList xs, r'')))
          else if starts_with ''null'' s then Inr (PNone, drop 4 s)
          else if starts_with ''true'' s then Inr (PBool True, drop 4 s)
          else if starts_with ''false'' s then Inr (PBool False, drop 5 s)
          else if starts_with ''NaN'' s then Inr (PFloat ''nan'', drop 3 s)
          else if starts_with ''Infinity'' s then Inr (PFloat ''inf'', drop 8 s)
          else if starts_with ''-Infinity'' s then Inr (PFloat ''-inf'', drop 9 s)
          else scan_number fl s)"
| "json_elems fl 0 s = Inl JFuel"
| "json_elems fl (Suc n) s =
     (case json_value fl n s of Inl e \<Rightarrow> Inl e
      | Inr (v, r) \<Rightarrow>
          (case skip_ws r of [] \<Rightarrow> Inl JDecode
           | d # r' \<Rightarrow>
               if d = CHR '']'' then Inr ([v], r')
               else if d = CHR '','' then
                 (case json_elems fl n (skip_ws r') of Inl e \<Rightarrow> Inl e
                  | Inr (vs, r'') \<Rightarrow> Inr (v # vs, r''))
               else Inl JDecode))"
| "json_members fl 0 acc s = Inl JFuel"
| "json_members fl (Suc n) acc s =
     (case s of [] \<Rightarrow> Inl JDecode
      | q # r \<Rightarrow>
          if q \<noteq> chr 34 then Inl JDecode
          else case scan_string r of Inl e \<Rightarrow> Inl e
          | Inr (k, r1) \<Rightarrow>
              (case skip_ws r1 of [] \<Rightarrow> Inl JDecode
               | co # r2 \<Rightarrow>
                   if co \<noteq> CHR '':'' then Inl JDecode
                   else case json_value fl n (skip_ws r2) of Inl e \<Rightarrow> Inl e
                   | Inr (v, r3) \<Rightarrow>
                       (case skip_ws r3 of [] \<Rightarrow> Inl JDecode
                        | d # r4 \<Rightarrow>
                            if d = CHR ''}'' then Inr (AList.update k v acc, r4)
                            else if d = CHR '','' then
                              json_members fl n (AList.update k v acc) (skip_ws r4)
                            else Inl JDecode)))"

definition json_loads :: "(string \<Rightarrow> string) \<Rightarrow> string \<Rightarrow> json_error + pyval" where
  "json_loads fl s =
     (case json_value fl (2 * length s + 2) (skip_ws s) of Inl e \<Rightarrow> Inl e
      | Inr (v, r) \<Rightarrow> if skip_ws r = [] then Inr v else Inl JDecode)"

declare json_value.simps(2) [simp del] json_elems.simps(2) [simp del] json_members.simps(2) [simp del]

lemmas json_step = json_value.simps(2) json_elems.simps(2) json_members.simps(2)

section \<open>The parser consumes its input and has fuel enough\<close>

lemma length_skip_ws: "length (skip_ws s) \<le> length s"
  by (simp add: skip_ws_def length_dropWhile_le)

lemma scan_string_shorter: "scan_string s = Inr (t, r) \<Longrightarrow> length r < length s"
proof (induction s arbitrary: t r rule: scan_string.induct)
  case 1
  then show ?case by simp
next
  case (2 c s)
  then show ?case
    by (fastforce simp: cons_char_def split: if_splits list.splits option.splits sum.splits)
qed

lemma scan_frac_le: "scan_frac s = (a, r) \<Longrightarrow> length r \<le> length s"
  by (auto simp: scan_frac_def length_dropWhile_le le_SucI split: list.splits if_splits)

lemma scan_exp_le: "scan_exp s = (a, r) \<Longrightarrow> length r \<le> length s"
  using length_dropWhile_le [of is_digit]
  by (fastforce simp: scan_exp_def Let_def intro: order_trans le_SucI split: list.splits if_splits)

lemma scan_int_part_shorter: "scan_int_part s = Some (a, r) \<Longrightarrow> length r < length s"
  by (auto simp: scan_int_part_def length_dropWhile_le less_Suc_eq_le split: list.splits if_splits)

lemma scan_number_shorter: "scan_number fl s = Inr (v, r) \<Longrightarrow> length r < length s"
  by (fastforce simp: scan_number_def Let_def split: option.splits prod.splits if_splits list.splits
        dest!: scan_frac_le scan_exp_le scan_int_part_shorter)

lemma scan_number_no_fuel: "scan_number fl s \<noteq> Inl JFuel"
  by (auto simp: scan_number_def Let_def split: option.splits prod.splits if_splits)

lemma cons_char_eq_Inl [simp]: "cons_char c r = Inl e \<longleftrightarrow> r = Inl e"
  by (auto simp: cons_char_def split: sum.splits)

lemma scan_string_no_fuel: "scan_string s \<noteq> Inl JFuel"
proof (induction s rule: scan_string.induct)
  case 1
  then show ?case by simp
next
  case (2 c s)
  then show ?case
    by (subst scan_string.simps(2)) (auto simp del: scan_string.simps(2) split: list.splits option.splits)
qed

lemma json_members_SucE:
  assumes "json_members fl (Suc n) acc s = Inr (d, r)"
  obtains t k r1 r2 v r3 e r4 where
    "s = chr 34 # t" "scan_string t = Inr (k, r1)" "skip_ws r1 = CHR '':'' # r2"
    "json_value fl n (skip_ws r2) = Inr (v, r3)" "skip_ws r3 = e # r4"
    "e = CHR ''}'' \<and> d = AList.update k v acc \<and> r = r4 \<or>
     e \<noteq> CHR ''}'' \<and> e = CHR '','' \<and> json_members fl n (AList.update k v acc) (skip_ws r4) = Inr (d, r)"
  using assms by (auto simp: json_step split: if_splits list.splits sum.splits)

lemma json_elems_SucE:
  assumes "json_elems fl (Suc n) s = Inr (xs, r)"
  obtains v r1 e r2 where
    "json_value fl n s = Inr (v, r1)" "skip_ws r1 = e # r2"
    "e = CHR '']'' \<and> xs = [v] \<and> r = r2 \<or>
     e \<noteq> CHR '']'' \<and> e = CHR '','' \<and> (\<exists>vs. xs = v # vs \<and> json_elems fl n (skip_ws r2) = Inr (vs, r))"
  using assms by (auto simp: json_step split: if_splits list.splits sum.splits)

lemma skip_ws_ConsD: "skip_ws s = c # r \<Longrightarrow> length r < length s"
  using length_skip_ws [of s] by simp

lemma json_shorter:
  "json_value fl n s = Inr (v, r) \<Longrightarrow> length r < length s"
  "json_elems fl n s = Inr (vs, r) \<Longrightarrow> length r < length s"
  "json_members fl n acc s = Inr (d, r) \<Longrightarrow> length r < length s"
proof (induction fl n s and fl n s and fl n acc s
    arbitrary: v r and vs r and d r rule: json_value_json_elems_json_members.induct)
  case (2 fl n s)
  show ?case
  proof (cases s)
    case Nil
    with 2 show ?thesis by (simp add: json_step)
  next
    case (Cons c t)
    note le = length_skip_ws [of t]
    show ?thesis
      using 2 Cons le
      by (auto simp: json_step starts_with_iff split: if_splits list.splits sum.splits
          dest!: scan_string_shorter scan_number_shorter) fastforce+
  qed
next
  case (4 fl n s)
  from "4.prems" show ?case
  proof (cases rule: json_elems_SucE)
    case (1 v r1 e r2)
    have "length r1 < length s"
      using 1 by (intro "4.IH"(1)) auto
    moreover have "length r \<le> length r2"
    proof (cases "e = CHR '']''")
      case True
      with 1 show ?thesis by simp
    next
      case False
      with 1 obtain us where "json_elems fl n (skip_ws r2) = Inr (us, r)" by auto
      with 1 False have "length r < length (skip_ws r2)"
        by (intro "4.IH"(2)) auto
      with length_skip_ws [of r2] show ?thesis by simp
    qed
    ultimately show ?thesis
      using 1 skip_ws_ConsD [of r1] by simp
  qed
next
  case (6 fl n acc s)
  from "6.prems" show ?case
  proof (cases rule: json_members_SucE)
    case (1 t k r1 r2 v r3 e r4)
    have "length r3 < length (skip_ws r2)"
      using 1 by (intro "6.IH"(1)) auto
    moreover have "length r \<le> length r4"
    proof (cases "e = CHR ''}''")
      case True
      with 1 show ?thesis by simp
    next
      case False
      with 1 have "length r < length (skip_ws r4)"
        by (intro "6.IH"(2)) auto
      with length_skip_ws [of r4] show ?thesis by simp
    qed
    ultimately show ?thesis
      using 1 scan_string_shorter [of t k r1] skip_ws_ConsD [of r1] skip_ws_ConsD [of r3]
        length_skip_ws [of r2] by simp
  qed
qed (auto)

lemma json_no_fuel:
  "2 * length s + 1 \<le> n \<Longrightarrow> json_value fl n s \<noteq> Inl JFuel"
  "2 * length s + 2 \<le> n \<Longrightarrow> json_elems fl n s \<noteq> Inl JFuel"
  "2 * length s + 2 \<le> n \<Longrightarrow> json_members fl n acc s \<noteq> Inl JFuel"
proof (induction fl n s and fl n s and fl n acc s rule: json_value_json_elems_json_members.induct)
  case (2 fl n s)
  then show ?case
    using length_skip_ws [of "tl s"]
    by (auto simp: json_step scan_string_no_fuel scan_number_no_fuel
        split: if_splits list.splits sum.splits)
next
  case (4 fl n s)
  have v: "json_value fl n s \<noteq> Inl JFuel"
    using "4.prems" by (intro "4.IH"(1)) simp
  have "json_elems fl n (skip_ws r2) \<noteq> Inl JFuel"
    if "json_value fl n s = Inr (x, r1)" "skip_ws r1 = CHR '','' # r2" for x r1 r2
    using that "4.prems" json_shorter(1) [OF that(1)] skip_ws_ConsD [of r1] length_skip_ws [of r2]
    by (intro "4.IH"(2)) auto
  with v show ?case
    by (auto simp: json_step split: list.splits sum.splits)
next
  case (6 fl n acc s)
  have v: "json_value fl n (skip_ws r2) \<noteq> Inl JFuel"
    if "s = chr 34 # t" "scan_string t = Inr (k, r1)" "skip_ws r1 = CHR '':'' # r2" for t k r1 r2
    using that "6.prems" scan_string_shorter [of t k r1] skip_ws_ConsD [of r1] length_skip_ws [of r2]
    by (intro "6.IH"(1)) auto
  have m: "json_members fl n (AList.update k x acc) (skip_ws r4) \<noteq> Inl JFuel"
    if "s = chr 34 # t" "scan_string t = Inr (k, r1)" "skip_ws r1 = CHR '':'' # r2"
       "json_value fl n (skip_ws r2) = Inr (x, r3)" "skip_ws r3 = CHR '','' # r4" for t k r1 r2 x r3 r4
    using that "6.prems" scan_string_shorter [of t k r1] skip_ws_ConsD [of r1] length_skip_ws [of r2]
      json_shorter(1) [OF that(4)] skip_ws_ConsD [of r3] length_skip_ws [of r4]
    by (intro "6.IH"(2)) auto
  show ?case
    using v m by (auto simp: json_step scan_string_no_fuel split: list.splits sum.splits if_splits)
qed (auto)

lemma json_loads_no_fuel: "json_loads fl s \<noteq> Inl JFuel"
proof -
  have "json_value fl (2 * length s + 2) (skip_ws s) \<noteq> Inl JFuel"
    using length_skip_ws [of s] by (intro json_no_fuel) simp
  then show ?thesis by (auto simp: json_loads_def split: sum.splits)
qed

section \<open>Reading back what was written\<close>

text \<open>
  The values \<open>json_loads\<close> reads back exactly: no floats (their text is not modelled), dicts with
  distinct keys, and integers short enough for Python's digit limit.
\<close>

fun json_plain :: "pyval \<Rightarrow> bool"
  and plain_elems :: "pyval list \<Rightarrow> bool"
  and plain_members :: "(string \<times> pyval) list \<Rightarrow> bool" where
  "json_plain PNone = True"
| "json_plain (PBool b) = True"
| "json_plain (PInt i) = (length (show_nat (nat \<bar>i\<bar>)) \<le> max_int_digits)"
| "json_plain (PFloat t) = False"
| "json_plain (PStr s) = True"
| "json_plain (PList xs) = plain_elems xs"
| "json_plain (PDict d) = (distinct (map fst d) \<and> plain_members d)"
| "plain_elems [] = True"
| "plain_elems (x # xs) = (json_plain x \<and> plain_elems xs)"
| "plain_members [] = True"
| "plain_members ((k, v) # d) = (json_plain v \<and> plain_members d)"

lemma hex_value_char: "k < 16 \<Longrightarrow> hex_value (hex_char k) = k"
  by (auto simp: hex_value_def hex_char_def Let_def)

lemma is_hex_digit_char: "k < 16 \<Longrightarrow> is_hex_digit (hex_char k)"
  by (auto simp: is_hex_digit_def hex_char_def Let_def)

lemma hex_recombine:
  "(n::nat) < 65536 \<Longrightarrow>
   16 * (16 * (16 * (n div 4096 mod 16) + n div 256 mod 16) + n div 16 mod 16) + n mod 16 = n"
proof -
  assume n: "n < 65536"
  have d: "n div 256 = n div 16 div 16" "n div 4096 = n div 16 div 16 div 16"
    by (simp_all add: div_mult2_eq [symmetric])
  have m: "n div 16 div 16 div 16 mod 16 = n div 16 div 16 div 16"
    using n by (simp add: div_mult2_eq [symmetric])
  show ?thesis unfolding d by (simp only: m mult_div_mod_eq)
qed

lemma hex4_show: "n < 65536 \<Longrightarrow> hex4 (show_hex 4 n @ x) = Some n"
  using hex_recombine [of n]
  by (simp add: hex4_def show_hex_4 is_hex_digit_char hex_value_char)

lemma scan_escape: "scan_string (escape_char c @ x) = cons_char c (scan_string x)"
proof -
  have cc: "c = chr k" if "code c = k" for k
    using that by (metis char_of_char)
  consider "code c \<in> {34, 92, 10, 13, 9, 12, 8}"
    | "code c \<notin> {34, 92, 10, 13, 9, 12, 8}" "code c < 32 \<or> 126 < code c"
    | "code c \<notin> {34, 92, 10, 13, 9, 12, 8}" "\<not> (code c < 32 \<or> 126 < code c)"
    by blast
  then show ?thesis
  proof cases
    case 1
    then have "c \<in> {chr 34, chr 92, chr 10, chr 13, chr 9, chr 12, chr 8}"
      using cc by blast
    moreover have "chr 34 \<noteq> CHR ''u''" "chr 92 \<noteq> CHR ''u''"
      by (simp_all add: char_of_eval)
    ultimately show ?thesis
      by (elim insertE emptyE) (simp_all add: escape_char_def Let_def simple_escape_def)
  next
    case 2
    then have e: "escape_char c = chr 92 # CHR ''u'' # show_hex 4 (code c)"
      by (simp add: escape_char_def Let_def)
    have "code c < 256" by simp
    then have "code c < 65536" by (rule less_trans) simp
    then have "hex4 (show_hex 4 (code c) @ x) = Some (code c)" by (rule hex4_show)
    then show ?thesis
      unfolding e by simp
  next
    case 3
    then have "escape_char c = [c]" "c \<noteq> chr 34" "c \<noteq> chr 92" "\<not> code c < 32"
      by (auto simp: escape_char_def Let_def)
    then show ?thesis by simp
  qed
qed

lemma scan_dump: "scan_string (concat (map escape_char s) @ chr 34 # r) = Inr (s, r)"
  by (induction s) (simp_all add: scan_escape cons_char_def)


definition ends_number :: "string \<Rightarrow> bool" where
  "ends_number s \<longleftrightarrow> (case s of [] \<Rightarrow> True
     | c # _ \<Rightarrow> \<not> is_digit c \<and> c \<noteq> CHR ''.'' \<and> c \<noteq> CHR ''e'' \<and> c \<noteq> CHR ''E'')"

lemma nat_of_digits_snoc: "nat_of_digits (ds @ [c]) = 10 * nat_of_digits ds + digit_value c"
  by (simp add: nat_of_digits_def)

lemma digit_value_chr: "k < 10 \<Longrightarrow> digit_value (chr (48 + k)) = k"
  by (simp add: digit_value_def)

lemma nat_of_show_nat: "nat_of_digits (show_nat n) = n"
proof (induction n rule: show_nat.induct)
  case (1 n)
  show ?case
  proof (cases "n < 10")
    case True
    then show ?thesis
      by (subst show_nat.simps) (simp add: nat_of_digits_def digit_value_chr)
  next
    case False
    with 1 show ?thesis
      by (subst show_nat.simps) (simp add: nat_of_digits_snoc digit_value_chr)
  qed
qed

lemma show_nat_first: "show_nat n = c # s \<Longrightarrow> is_digit c \<and> (c = CHR ''0'' \<longrightarrow> s = [])"
proof (induction n arbitrary: s rule: show_nat.induct)
  case (1 n)
  show ?case
  proof (cases "n < 10")
    case True
    with 1 show ?thesis by (auto simp: show_nat.simps is_digit_def)
  next
    case False
    have nz: "c \<noteq> CHR ''0''" if "show_nat m = [c]" "m \<noteq> 0" for m
    proof
      assume c: "c = CHR ''0''"
      from nat_of_show_nat [of m] that show False
        by (simp add: c nat_of_digits_def digit_value_def)
    qed
    from False "1.prems" have e: "show_nat (n div 10) @ [chr (48 + n mod 10)] = c # s"
      by (subst (asm) show_nat.simps) simp
    then obtain t where t: "show_nat (n div 10) = c # t"
      by (cases "show_nat (n div 10)") auto
    with "1.IH" [OF False] have "is_digit c" "c = CHR ''0'' \<longrightarrow> t = []" by auto
    moreover have "n div 10 \<noteq> 0" using False by simp
    ultimately show ?thesis using nz [of "n div 10"] t by auto
  qed
qed

lemma takeWhile_digits:
  assumes "\<forall>c \<in> set ds. is_digit c" "ends_number r"
  shows "takeWhile is_digit (ds @ r) = ds" "dropWhile is_digit (ds @ r) = r"
  using assms by (auto simp: ends_number_def takeWhile_append dropWhile_append split: list.splits)

lemma scan_int_part_show:
  assumes "ends_number r"
  shows "scan_int_part (show_nat n @ r) = Some (show_nat n, r)"
proof -
  obtain c s where s: "show_nat n = c # s" by (cases "show_nat n") auto
  note tw = takeWhile_digits [OF show_nat_digits assms, of n]
  show ?thesis
    using show_nat_first [OF s] s tw by (auto simp: scan_int_part_def)
qed

lemma scan_number_show:
  assumes "ends_number r" "length (show_nat (nat \<bar>i\<bar>)) \<le> max_int_digits"
  shows "scan_number fl (show_int i @ r) = Inr (PInt i, r)"
proof -
  have fe: "scan_frac r = ([], r)" "scan_exp r = ([], r)"
    using assms(1) by (auto simp: scan_frac_def scan_exp_def ends_number_def split: list.splits)
  obtain c s where s: "show_nat (nat i) = c # s" by (cases "show_nat (nat i)") auto
  have "is_digit c" using show_nat_first [OF s] by simp
  then have m: "c \<noteq> CHR ''-''" by (auto simp: is_digit_def)
  show ?thesis
  proof (cases "i < 0")
    case True
    with assms scan_int_part_show [OF assms(1), of "nat (- i)"] fe show ?thesis
      by (simp add: scan_number_def show_int_def nat_of_show_nat)
  next
    case False
    with assms scan_int_part_show [OF assms(1), of "nat i"] fe m s nat_of_show_nat [of "nat i"]
    show ?thesis by (simp add: scan_number_def show_int_def)
  qed
qed


lemma dump_first:
  assumes "json_plain v"
  shows "\<exists>c t. json_dumps v = c # t \<and> \<not> is_json_ws c \<and> c \<noteq> CHR '']''"
proof (cases v)
  case (PInt i)
  obtain c s where s: "show_nat (nat \<bar>i\<bar>) = c # s" by (cases "show_nat (nat \<bar>i\<bar>)") auto
  then have "is_digit c" using show_nat_first by blast
  then have "\<not> is_json_ws c" "c \<noteq> CHR '']''" by (auto simp: is_digit_def is_json_ws_def Let_def)
  with s PInt show ?thesis
    by (cases "i < 0") (auto simp: show_int_def is_json_ws_def)
qed (use assms in \<open>auto simp: dump_str_def is_json_ws_def Let_def char_of_eval\<close>)

lemma skip_ws_nonws [simp]: "\<not> is_json_ws c \<Longrightarrow> skip_ws (c # s) = c # s"
  by (simp add: skip_ws_def)

lemma skip_ws_space [simp]: "skip_ws (CHR '' '' # s) = skip_ws s"
  by (simp add: skip_ws_def is_json_ws_def)

lemma json_ws_chars [simp]:
  "\<not> is_json_ws CHR '',''" "\<not> is_json_ws CHR '']''" "\<not> is_json_ws CHR ''}''" "\<not> is_json_ws CHR '':''"
  "\<not> is_json_ws (chr 34)" "\<not> is_json_ws (CHR 0x22)"
  by (simp_all add: is_json_ws_def)

lemma ends_number_chars [simp]:
  "ends_number []" "ends_number (CHR '','' # s)" "ends_number (CHR '']'' # s)" "ends_number (CHR ''}'' # s)"
  by (simp_all add: ends_number_def is_digit_def)


lemma update_notin: "k \<notin> fst ` set al \<Longrightarrow> AList.update k v al = al @ [(k, v)]"
  by (induction al) auto

lemma value_dump_str: "json_value fl (Suc n) (dump_str s @ r) = Inr (PStr s, r)"
  by (simp add: json_step dump_str_def scan_dump)

lemma starts_with_simps [simp]:
  "starts_with (a # p) (b # s) \<longleftrightarrow> a = b \<and> starts_with p s"
  "\<not> starts_with (a # p) []"
  by (auto simp: starts_with_def)

lemma value_int:
  assumes "ends_number r" "length (show_nat (nat \<bar>i\<bar>)) \<le> max_int_digits"
  shows "json_value fl (Suc n) (show_int i @ r) = Inr (PInt i, r)"
proof -
  obtain c s where s: "show_nat (nat \<bar>i\<bar>) = c # s" by (cases "show_nat (nat \<bar>i\<bar>)") auto
  then have d: "is_digit c" using show_nat_first by blast
  then have ne: "c \<noteq> chr 34" "c \<noteq> CHR ''{''" "c \<noteq> CHR ''[''" "c \<noteq> CHR ''n''" "c \<noteq> CHR ''t''"
    "c \<noteq> CHR ''f''" "c \<noteq> CHR ''N''" "c \<noteq> CHR ''I''"
    by (auto simp: is_digit_def)
  have m: "CHR ''-'' \<noteq> chr 34" by (simp add: char_of_eval)
  show ?thesis
  proof (cases "i < 0")
    case True
    with s have e: "show_int i @ r = CHR ''-'' # c # s @ r" by (simp add: show_int_def)
    with scan_number_show [OF assms] m ne show ?thesis
      by (simp add: json_step)
  next
    case False
    with s have e: "show_int i @ r = c # s @ r" by (simp add: show_int_def)
    have "c \<noteq> CHR ''-''" using d by (auto simp: is_digit_def)
    with e scan_number_show [OF assms] ne show ?thesis
      by (simp add: json_step)
  qed
qed

lemma loads_dumps_step:
  "json_plain v \<Longrightarrow> ends_number r \<Longrightarrow> 2 * length (json_dumps v) + 1 \<le> n \<Longrightarrow>
     json_value fl n (json_dumps v @ r) = Inr (v, r)"
  "plain_elems xs \<Longrightarrow> xs \<noteq> [] \<Longrightarrow> 2 * length (join_with '', '' (dump_elems xs)) + 2 \<le> n \<Longrightarrow>
     json_elems fl n (join_with '', '' (dump_elems xs) @ CHR '']'' # r) = Inr (xs, r)"
  "plain_members d \<Longrightarrow> d \<noteq> [] \<Longrightarrow> distinct (map fst (acc @ d)) \<Longrightarrow>
     2 * length (join_with '', '' (dump_members d)) + 2 \<le> n \<Longrightarrow>
     json_members fl n acc (join_with '', '' (dump_members d) @ CHR ''}'' # r) = Inr (acc @ d, r)"
proof (induction v and xs and d arbitrary: r n and r n and r n acc
    rule: json_dumps_dump_elems_dump_members.induct)
  case 1
  then obtain m where "n = Suc m" by (cases n) auto
  then show ?case by (simp add: json_step char_of_eval)
next
  case (2 b)
  then obtain m where "n = Suc m" by (cases n) auto
  then show ?case by (auto simp: json_step char_of_eval)
next
  case (3 i)
  then obtain m where "n = Suc m" by (cases n) auto
  with 3 show ?case by (simp add: value_int)
next
  case (5 s)
  then obtain m where "n = Suc m" by (cases n) auto
  then show ?case by (simp add: value_dump_str)
next
  case (6 xs)
  then obtain m where n: "n = Suc m" by (cases n) auto
  show ?case
  proof (cases xs)
    case Nil
    with n show ?thesis by (simp add: json_step char_of_eval)
  next
    case (Cons x ys)
    with "6.prems" obtain c t where c: "json_dumps x = c # t" "\<not> is_json_ws c" "c \<noteq> CHR '']''"
      using dump_first [of x] by auto
    then obtain u where u: "join_with '', '' (dump_elems xs) = c # u"
      using Cons by (cases ys) auto
    have "json_elems fl m (join_with '', '' (dump_elems xs) @ CHR '']'' # r) = Inr (xs, r)"
      using 6 n Cons by (intro "6.IH") auto
    with u c n show ?thesis by (simp add: json_step char_of_eval)
  qed
next
  case (7 d)
  then obtain m where n: "n = Suc m" by (cases n) auto
  show ?case
  proof (cases d)
    case Nil
    with n show ?thesis by (simp add: json_step char_of_eval)
  next
    case (Cons p ys)
    obtain k x where p: "p = (k, x)" by (cases p)
    obtain u where u: "join_with '', '' (dump_members d) = chr 34 # u"
      using Cons p by (cases ys) (auto simp: dump_str_def)
    have "json_members fl m [] (join_with '', '' (dump_members d) @ CHR ''}'' # r) = Inr ([] @ d, r)"
      using 7 n Cons by (intro "7.IH") auto
    with u n show ?thesis by (simp add: json_step char_of_eval)
  qed
next
  case (9 x xs)
  then obtain m where n: "n = Suc m" by (cases n) auto
  show ?case
  proof (cases xs)
    case Nil
    with 9 n have "json_value fl m (json_dumps x @ CHR '']'' # r) = Inr (x, CHR '']'' # r)"
      by (intro "9.IH"(1)) auto
    with Nil n show ?thesis by (simp add: json_step)
  next
    case (Cons y ys)
    then have j: "join_with '', '' (dump_elems (x # xs)) =
        json_dumps x @ '', '' @ join_with '', '' (dump_elems xs)" by simp
    with "9.prems" n
    have "json_value fl m (json_dumps x @ CHR '','' # CHR '' '' # join_with '', '' (dump_elems xs) @ CHR '']'' # r)
       = Inr (x, CHR '','' # CHR '' '' # join_with '', '' (dump_elems xs) @ CHR '']'' # r)"
      by (intro "9.IH"(1)) auto
    moreover have "json_elems fl m (join_with '', '' (dump_elems xs) @ CHR '']'' # r) = Inr (xs, r)"
      using "9.prems" n j Cons by (intro "9.IH"(2)) auto
    moreover obtain c t where "join_with '', '' (dump_elems xs) = c # t" "\<not> is_json_ws c"
      using dump_first [of y] "9.prems" Cons by (cases ys) auto
    ultimately show ?thesis using j n by (simp add: json_step)
  qed
next
  case (11 k x d)
  then obtain m where n: "n = Suc m" by (cases n) auto
  obtain c t where c: "json_dumps x = c # t" "\<not> is_json_ws c"
    using dump_first [of x] "11.prems" by auto
  have up: "AList.update k x acc = acc @ [(k, x)]"
    using "11.prems" by (intro update_notin) auto
  show ?case
  proof (cases d)
    case Nil
    with 11 n have "json_value fl m (json_dumps x @ CHR ''}'' # r) = Inr (x, CHR ''}'' # r)"
      by (intro "11.IH"(1)) auto
    with Nil n c up show ?thesis by (simp add: json_step scan_dump dump_str_def)
  next
    case (Cons y ys)
    then have j: "join_with '', '' (dump_members ((k, x) # d)) =
        dump_str k @ '': '' @ json_dumps x @ '', '' @ join_with '', '' (dump_members d)"
      by (cases y) simp
    with "11.prems" n
    have "json_value fl m (json_dumps x @ CHR '','' # CHR '' '' # join_with '', '' (dump_members d) @ CHR ''}'' # r)
       = Inr (x, CHR '','' # CHR '' '' # join_with '', '' (dump_members d) @ CHR ''}'' # r)"
      by (intro "11.IH"(1)) auto
    moreover have "json_members fl m (acc @ [(k, x)]) (join_with '', '' (dump_members d) @ CHR ''}'' # r)
       = Inr ((acc @ [(k, x)]) @ d, r)"
      using "11.prems" n j Cons by (intro "11.IH"(2)) auto
    moreover obtain t where "join_with '', '' (dump_members d) = chr 34 # t"
      using Cons by (cases y; cases ys) (auto simp: dump_str_def)
    ultimately show ?thesis using j n c up by (simp add: json_step scan_dump dump_str_def)
  qed
qed auto

lemma json_loads_dumps: "json_plain v \<Longrightarrow> json_loads fl (json_dumps v) = Inr v"
proof -
  assume p: "json_plain v"
  obtain c t where c: "json_dumps v = c # t" "\<not> is_json_ws c" using dump_first [OF p] by auto
  have "json_value fl (2 * length (json_dumps v) + 2) (json_dumps v @ []) = Inr (v, [])"
    using p by (intro loads_dumps_step(1)) auto
  with c show ?thesis by (simp add: json_loads_def skip_ws_def)
qed

text \<open>\<^verbatim>\<open>json.loads\<close> as a caller sees it: the exception that each error is.\<close>

definition py_loads :: "(string \<Rightarrow> string) \<Rightarrow> string \<Rightarrow> py_exn + pyval" where
  "py_loads fl s =
     (case json_loads fl s of
        Inr v \<Rightarrow> Inr v
      | Inl JDecode \<Rightarrow> Inl JSONDecodeError
      | Inl JIntTooLong \<Rightarrow> Inl ValueError
      | Inl _ \<Rightarrow> Inl Unmodelled)"

lemma py_loads_dumps [simp]: "json_plain v \<Longrightarrow> py_loads fl (json_dumps v) = Inr v"
  by (simp add: py_loads_def json_loads_dumps)

section \<open>int()\<close>

text \<open>\<^verbatim>\<open>int(s)\<close>: blanks around, a sign, digits with single underscores between them,
  at most 4300 of them.\<close>

fun digits_with_underscores :: "bool \<Rightarrow> string \<Rightarrow> bool" where
  "digits_with_underscores after_digit [] = after_digit"
| "digits_with_underscores after_digit (c # s) =
     (if is_digit c then digits_with_underscores True s
      else c = CHR ''_'' \<and> after_digit \<and> digits_with_underscores False s)"

definition int_of_text :: "string \<Rightarrow> py_exn + int" where
  "int_of_text s =
     (let t = py_strip s;
          sign_char = (t \<noteq> [] \<and> (hd t = CHR ''-'' \<or> hd t = CHR ''+''));
          body = (if sign_char then tl t else t);
          ds = filter is_digit body in
      if \<not> digits_with_underscores False body \<or> length ds > max_int_digits then Inl ValueError
      else Inr ((if sign_char \<and> hd t = CHR ''-'' then -1 else 1) * int (nat_of_digits ds)))"

end
