(* ===== verification/Blocks_Context.thy ===== *)
theory Blocks_Context
  imports Http_Request Third_Party_Provider Py_Json
begin

text \<open>
  \<^verbatim>\<open>_auth/blocks_context.py\<close>: the identity every component reads, and the
  manager that builds it from token claims, from a provider's mapped claims and from a message
  payload, washes claims, masks the context for transport and normalises domains. The ambient
  variable that holds the current context is in \<open>Ambient\<close>.

  A \<^verbatim>\<open>datetime\<close> is represented by its \<^verbatim>\<open>isoformat()\<close> text.
  What the manager takes from elsewhere is a parameter, the record \<open>model_env\<close>: pydantic's
  conversion of a value to a field's type (it raises \<^verbatim>\<open>ValidationError\<close> on a value
  it cannot convert) and the two \<^verbatim>\<open>datetime\<close> constructors, which depend on the
  host's time zone. \<open>model_env_ok\<close> states the documented behaviour the code relies on: a value that
  already has the field's type is kept.
\<close>

type_synonym datetime = string

record model_env =
  coerce_str :: "pyval \<Rightarrow> py_exn + string"
  coerce_str_list :: "pyval \<Rightarrow> py_exn + string list"
  coerce_bool :: "pyval \<Rightarrow> py_exn + bool"
  coerce_datetime :: "pyval \<Rightarrow> py_exn + datetime"
  dt_fromtimestamp :: "pyval \<Rightarrow> py_exn + datetime"
  dt_fromisoformat :: "string \<Rightarrow> py_exn + datetime"

definition model_env_ok :: "model_env \<Rightarrow> bool" where
  "model_env_ok V \<longleftrightarrow>
     (\<forall>s. coerce_str V (PStr s) = Inr s) \<and>
     (\<forall>ss. coerce_str_list V (PList (map PStr ss)) = Inr ss) \<and>
     (\<forall>b. coerce_bool V (PBool b) = Inr b)"

section \<open>The context\<close>

record blocks_context =
  tenant_id :: string
  roles :: "string list"
  user_id :: string
  expire_on :: "datetime option"
  request_uri :: string
  oauth_token :: string
  organization_id :: string
  is_authenticated :: bool
  email :: string
  permissions :: "string list"
  user_name :: string
  phone_number :: string
  display_name :: string
  original_tenant_id :: string
  application_domain :: string
  impersonated :: bool
  impersonation_session_id :: string
  client_id :: string
  session_id :: string

definition default_context :: blocks_context where
  "default_context = \<lparr>tenant_id = [], roles = [], user_id = [], expire_on = None, request_uri = [],
     oauth_token = [], organization_id = [], is_authenticated = False, email = [], permissions = [],
     user_name = [], phone_number = [], display_name = [], original_tenant_id = [],
     application_domain = [], impersonated = False, impersonation_session_id = [], client_id = [],
     session_id = []\<rparr>"

section \<open>Claim names\<close>

definition ISSUER_CLAIM :: string where "ISSUER_CLAIM = ''iss''"
definition AUDIENCES_CLAIM :: string where "AUDIENCES_CLAIM = ''aud''"
definition EXPIRE_ON_CLAIM :: string where "EXPIRE_ON_CLAIM = ''exp''"
definition SUBJECT_CLAIM :: string where "SUBJECT_CLAIM = ''sub''"
definition TENANT_ID_CLAIM :: string where "TENANT_ID_CLAIM = ''tenant_id''"
definition ROLES_CLAIM :: string where "ROLES_CLAIM = ''roles''"
definition USER_ID_CLAIM :: string where "USER_ID_CLAIM = ''user_id''"
definition REQUEST_URI_CLAIM :: string where "REQUEST_URI_CLAIM = ''request_uri''"
definition TOKEN_CLAIM :: string where "TOKEN_CLAIM = ''oauth''"
definition PERMISSION_CLAIM :: string where "PERMISSION_CLAIM = ''permissions''"
definition ORGANIZATION_ID_CLAIM :: string where "ORGANIZATION_ID_CLAIM = ''org_id''"
definition EMAIL_CLAIM :: string where "EMAIL_CLAIM = ''email''"
definition USER_NAME_CLAIM :: string where "USER_NAME_CLAIM = ''user_name''"
definition DISPLAY_NAME_CLAIM :: string where "DISPLAY_NAME_CLAIM = ''name''"
definition PHONE_NUMBER_CLAIM :: string where "PHONE_NUMBER_CLAIM = ''phone''"
definition IMPERSONATED_CLAIM :: string where "IMPERSONATED_CLAIM = ''impersonated''"
definition IMPERSONATION_SESSION_ID_CLAIM :: string where
  "IMPERSONATION_SESSION_ID_CLAIM = ''impersonation_session_id''"
definition ORIGINAL_TENANT_ID_CLAIM :: string where "ORIGINAL_TENANT_ID_CLAIM = ''original_tenant_id''"
definition CLIENT_ID_CLAIM :: string where "CLIENT_ID_CLAIM = ''client_id''"
definition SESSION_ID_CLAIM :: string where "SESSION_ID_CLAIM = ''sid''"

lemmas claim_names = ISSUER_CLAIM_def AUDIENCES_CLAIM_def EXPIRE_ON_CLAIM_def SUBJECT_CLAIM_def
  TENANT_ID_CLAIM_def ROLES_CLAIM_def USER_ID_CLAIM_def REQUEST_URI_CLAIM_def TOKEN_CLAIM_def
  PERMISSION_CLAIM_def ORGANIZATION_ID_CLAIM_def EMAIL_CLAIM_def USER_NAME_CLAIM_def
  DISPLAY_NAME_CLAIM_def PHONE_NUMBER_CLAIM_def IMPERSONATED_CLAIM_def
  IMPERSONATION_SESSION_ID_CLAIM_def ORIGINAL_TENANT_ID_CLAIM_def CLIENT_ID_CLAIM_def
  SESSION_ID_CLAIM_def

definition RESERVED_CLAIMS :: "string list" where
  "RESERVED_CLAIMS = [TENANT_ID_CLAIM, ORIGINAL_TENANT_ID_CLAIM, USER_ID_CLAIM, USER_NAME_CLAIM,
     DISPLAY_NAME_CLAIM, EMAIL_CLAIM, PERMISSION_CLAIM, ORGANIZATION_ID_CLAIM, IMPERSONATED_CLAIM,
     IMPERSONATION_SESSION_ID_CLAIM, CLIENT_ID_CLAIM, ROLES_CLAIM]"

definition strip_reserved_claims :: "pydict \<Rightarrow> pydict" where
  "strip_reserved_claims claims = filter (\<lambda>(k, v). k \<notin> set RESERVED_CLAIMS) claims"

section \<open>Transport\<close>

definition TRANSPORT_FIELDS :: "(string \<times> string) list" where
  "TRANSPORT_FIELDS = [
     (''TenantId'', ''tenant_id''), (''Roles'', ''roles''), (''UserId'', ''user_id''),
     (''IsAuthenticated'', ''is_authenticated''), (''RequestUri'', ''request_uri''),
     (''OrganizationId'', ''organization_id''), (''ExpireOn'', ''expire_on''), (''Email'', ''email''),
     (''Permissions'', ''permissions''), (''UserName'', ''user_name''),
     (''PhoneNumber'', ''phone_number''), (''DisplayName'', ''display_name''),
     (''OauthToken'', ''oauth_token''), (''OriginalTenantId'', ''original_tenant_id''),
     (''ApplicationDomain'', ''application_domain''), (''Impersonated'', ''impersonated''),
     (''ClientId'', ''client_id''), (''SessionId'', ''session_id'')]"

definition mask_email :: "string \<Rightarrow> string" where
  "mask_email e =
     (if CHR ''@'' \<notin> set e then ''***'' else ''***@'' @ split_on CHR ''@'' e ! 1)"

text \<open>\<^verbatim>\<open>phone[-4:]\<close> is the whole string when it is shorter.\<close>

definition mask_phone :: "string \<Rightarrow> string" where
  "mask_phone p = (if p = [] \<or> p = ''***'' then ''***'' else ''***'' @ drop (length p - 4) p)"

definition create_sanitized_for_transport :: "blocks_context option \<Rightarrow> pydict" where
  "create_sanitized_for_transport c =
     (case c of None \<Rightarrow> []
      | Some ctx \<Rightarrow> [
          (''TenantId'', PStr (tenant_id ctx)),
          (''Roles'', PList (map PStr (roles ctx))),
          (''UserId'', PStr (user_id ctx)),
          (''IsAuthenticated'', PBool (is_authenticated ctx)),
          (''RequestUri'', PStr (request_uri ctx)),
          (''OrganizationId'', PStr (organization_id ctx)),
          (''ExpireOn'', case expire_on ctx of None \<Rightarrow> PNone | Some d \<Rightarrow> PStr d),
          (''Email'', PStr (mask_email (email ctx))),
          (''Permissions'', PList (map PStr (permissions ctx))),
          (''UserName'', PStr (user_name ctx)),
          (''PhoneNumber'', PStr (mask_phone (phone_number ctx))),
          (''DisplayName'', PStr (display_name ctx)),
          (''OauthToken'', PStr []),
          (''OriginalTenantId'',
             PStr (if original_tenant_id ctx \<noteq> [] then original_tenant_id ctx else tenant_id ctx)),
          (''ApplicationDomain'', PStr (application_domain ctx)),
          (''Impersonated'', PBool (impersonated ctx)),
          (''ClientId'', PStr (client_id ctx)),
          (''SessionId'', PStr (session_id ctx))])"

text \<open>Building the model from keyword arguments: each present argument is converted to its field's
  type; an argument no field names is ignored; the first failure raises. \<^verbatim>\<open>None\<close>
  is accepted by the one optional field only.\<close>

definition set_field :: "model_env \<Rightarrow> string \<Rightarrow> pyval \<Rightarrow> blocks_context \<Rightarrow> py_exn + blocks_context" where
  "set_field V f v c =
     (let str = (\<lambda>upd. case coerce_str V v of Inl e \<Rightarrow> Inl e | Inr s \<Rightarrow> Inr (upd s));
          strs = (\<lambda>upd. case coerce_str_list V v of Inl e \<Rightarrow> Inl e | Inr s \<Rightarrow> Inr (upd s));
          bool = (\<lambda>upd. case coerce_bool V v of Inl e \<Rightarrow> Inl e | Inr b \<Rightarrow> Inr (upd b)) in
      if f = ''tenant_id'' then str (\<lambda>s. c\<lparr>tenant_id := s\<rparr>)
      else if f = ''roles'' then strs (\<lambda>s. c\<lparr>roles := s\<rparr>)
      else if f = ''user_id'' then str (\<lambda>s. c\<lparr>user_id := s\<rparr>)
      else if f = ''expire_on'' then
        (if v = PNone then Inr (c\<lparr>expire_on := None\<rparr>)
         else case coerce_datetime V v of Inl e \<Rightarrow> Inl e | Inr d \<Rightarrow> Inr (c\<lparr>expire_on := Some d\<rparr>))
      else if f = ''request_uri'' then str (\<lambda>s. c\<lparr>request_uri := s\<rparr>)
      else if f = ''oauth_token'' then str (\<lambda>s. c\<lparr>oauth_token := s\<rparr>)
      else if f = ''organization_id'' then str (\<lambda>s. c\<lparr>organization_id := s\<rparr>)
      else if f = ''is_authenticated'' then bool (\<lambda>b. c\<lparr>is_authenticated := b\<rparr>)
      else if f = ''email'' then str (\<lambda>s. c\<lparr>email := s\<rparr>)
      else if f = ''permissions'' then strs (\<lambda>s. c\<lparr>permissions := s\<rparr>)
      else if f = ''user_name'' then str (\<lambda>s. c\<lparr>user_name := s\<rparr>)
      else if f = ''phone_number'' then str (\<lambda>s. c\<lparr>phone_number := s\<rparr>)
      else if f = ''display_name'' then str (\<lambda>s. c\<lparr>display_name := s\<rparr>)
      else if f = ''original_tenant_id'' then str (\<lambda>s. c\<lparr>original_tenant_id := s\<rparr>)
      else if f = ''application_domain'' then str (\<lambda>s. c\<lparr>application_domain := s\<rparr>)
      else if f = ''impersonated'' then bool (\<lambda>b. c\<lparr>impersonated := b\<rparr>)
      else if f = ''impersonation_session_id'' then str (\<lambda>s. c\<lparr>impersonation_session_id := s\<rparr>)
      else if f = ''client_id'' then str (\<lambda>s. c\<lparr>client_id := s\<rparr>)
      else if f = ''session_id'' then str (\<lambda>s. c\<lparr>session_id := s\<rparr>)
      else Inr c)"

fun set_fields :: "model_env \<Rightarrow> (string \<times> pyval) list \<Rightarrow> blocks_context \<Rightarrow> py_exn + blocks_context" where
  "set_fields V [] c = Inr c"
| "set_fields V ((f, v) # kvs) c =
     (case set_field V f v c of Inl e \<Rightarrow> Inl e | Inr c' \<Rightarrow> set_fields V kvs c')"

definition make_context :: "model_env \<Rightarrow> (string \<times> pyval) list \<Rightarrow> py_exn + blocks_context" where
  "make_context V kvs = set_fields V kvs default_context"

text \<open>\<^verbatim>\<open>from_transport\<close>. The payload is whatever \<^verbatim>\<open>json.loads\<close>
  returned: on a value that is not a dict, \<^verbatim>\<open>in\<close> and indexing behave as Python's.\<close>

definition transport_values :: "pydict \<Rightarrow> (string \<times> pyval) list" where
  "transport_values d =
     List.map_filter (\<lambda>(wire, field).
       case map_of d wire of Some v \<Rightarrow> Some (field, v)
       | None \<Rightarrow> map_option (\<lambda>v. (field, v)) (map_of d field)) TRANSPORT_FIELDS"

definition from_transport :: "model_env \<Rightarrow> pyval option \<Rightarrow> py_exn + blocks_context option" where
  "from_transport V payload =
     (case payload of None \<Rightarrow> Inr None
      | Some p \<Rightarrow>
          if \<not> truthy p then Inr None
          else let names = concat (map (\<lambda>(w, f). [w, f]) TRANSPORT_FIELDS) in
          (case p of
             PDict d \<Rightarrow>
               (case make_context V (filter (\<lambda>(k, v). v \<noteq> PNone) (transport_values d)) of
                  Inl e \<Rightarrow> Inl e | Inr c \<Rightarrow> Inr (Some c))
           | PList xs \<Rightarrow> if list_ex (\<lambda>n. PStr n \<in> set xs) names then Inl TypeError else Inr (Some default_context)
           | PStr s \<Rightarrow> if list_ex (\<lambda>n. contains_str n s) names then Inl TypeError else Inr (Some default_context)
           | _ \<Rightarrow> Inl TypeError))"

section \<open>Setting one field\<close>

lemma set_field_simps [simp]:
  "set_field V ''tenant_id'' v c = map_sum id (\<lambda>x. c\<lparr>tenant_id := x\<rparr>) (coerce_str V v)"
  "set_field V ''user_id'' v c = map_sum id (\<lambda>x. c\<lparr>user_id := x\<rparr>) (coerce_str V v)"
  "set_field V ''request_uri'' v c = map_sum id (\<lambda>x. c\<lparr>request_uri := x\<rparr>) (coerce_str V v)"
  "set_field V ''oauth_token'' v c = map_sum id (\<lambda>x. c\<lparr>oauth_token := x\<rparr>) (coerce_str V v)"
  "set_field V ''organization_id'' v c = map_sum id (\<lambda>x. c\<lparr>organization_id := x\<rparr>) (coerce_str V v)"
  "set_field V ''email'' v c = map_sum id (\<lambda>x. c\<lparr>email := x\<rparr>) (coerce_str V v)"
  "set_field V ''user_name'' v c = map_sum id (\<lambda>x. c\<lparr>user_name := x\<rparr>) (coerce_str V v)"
  "set_field V ''phone_number'' v c = map_sum id (\<lambda>x. c\<lparr>phone_number := x\<rparr>) (coerce_str V v)"
  "set_field V ''display_name'' v c = map_sum id (\<lambda>x. c\<lparr>display_name := x\<rparr>) (coerce_str V v)"
  "set_field V ''original_tenant_id'' v c = map_sum id (\<lambda>x. c\<lparr>original_tenant_id := x\<rparr>) (coerce_str V v)"
  "set_field V ''application_domain'' v c = map_sum id (\<lambda>x. c\<lparr>application_domain := x\<rparr>) (coerce_str V v)"
  "set_field V ''impersonation_session_id'' v c = map_sum id (\<lambda>x. c\<lparr>impersonation_session_id := x\<rparr>) (coerce_str V v)"
  "set_field V ''client_id'' v c = map_sum id (\<lambda>x. c\<lparr>client_id := x\<rparr>) (coerce_str V v)"
  "set_field V ''session_id'' v c = map_sum id (\<lambda>x. c\<lparr>session_id := x\<rparr>) (coerce_str V v)"
  "set_field V ''roles'' v c = map_sum id (\<lambda>x. c\<lparr>roles := x\<rparr>) (coerce_str_list V v)"
  "set_field V ''permissions'' v c = map_sum id (\<lambda>x. c\<lparr>permissions := x\<rparr>) (coerce_str_list V v)"
  "set_field V ''is_authenticated'' v c = map_sum id (\<lambda>x. c\<lparr>is_authenticated := x\<rparr>) (coerce_bool V v)"
  "set_field V ''impersonated'' v c = map_sum id (\<lambda>x. c\<lparr>impersonated := x\<rparr>) (coerce_bool V v)"
  "set_field V ''expire_on'' v c =
     (if v = PNone then Inr (c\<lparr>expire_on := None\<rparr>)
      else map_sum id (\<lambda>x. c\<lparr>expire_on := Some x\<rparr>) (coerce_datetime V v))"
  by (simp_all add: set_field_def split: sum.split)

lemma model_env_okD [simp]:
  assumes "model_env_ok V"
  shows "coerce_str V (PStr s) = Inr s" "coerce_str_list V (PList (map PStr ss)) = Inr ss"
    "coerce_str_list V (PList []) = Inr []" "coerce_bool V (PBool b) = Inr b"
proof -
  have "coerce_str_list V (PList (map PStr [])) = Inr []"
    using assms unfolding model_env_ok_def by blast
  then show "coerce_str_list V (PList []) = Inr []" by simp
qed (use assms in \<open>auto simp: model_env_ok_def\<close>)

lemma set_fields_Inr_elim:
  assumes "set_fields V ((f, v) # kvs) c = Inr c'"
  obtains c1 where "set_field V f v c = Inr c1" and "set_fields V kvs c1 = Inr c'"
  using assms by (auto split: sum.splits)

text \<open>The strict conversion: only a value of the field's own type is accepted. It is one
  instance of the parameter, used by the witnesses.\<close>

definition strict_env :: model_env where
  "strict_env = \<lparr>
     coerce_str = (\<lambda>v. case v of PStr s \<Rightarrow> Inr s | _ \<Rightarrow> Inl ValidationError),
     coerce_str_list = (\<lambda>v. case v of
         PList vs \<Rightarrow> if list_all is_str vs then Inr (map py_str vs) else Inl ValidationError
       | _ \<Rightarrow> Inl ValidationError),
     coerce_bool = (\<lambda>v. case v of PBool b \<Rightarrow> Inr b | _ \<Rightarrow> Inl ValidationError),
     coerce_datetime = (\<lambda>v. case v of PStr s \<Rightarrow> Inr s | _ \<Rightarrow> Inl ValidationError),
     dt_fromtimestamp = (\<lambda>v. Inr (py_str v)),
     dt_fromisoformat = Inr\<rparr>"

lemma strict_env_ok [simp, intro]: "model_env_ok strict_env"
  by (auto simp: model_env_ok_def strict_env_def list_all_iff o_def)

end
