(* ===== verification/Context_Factory.thy ===== *)
theory Context_Factory
  imports Blocks_Context
begin

text \<open>
  The rest of \<^verbatim>\<open>BlocksContextManager\<close>: the context of an external token, the
  context of a Blocks token's claims, the context of explicit values, and the normalisation of
  domains (Origin, Referer, cookie names). The lemmas show what an external token can never set, what
  a hop over a message keeps, and that a domain is compared without scheme, port and case.
\<close>

section \<open>Creating a context\<close>

text \<open>\<^verbatim>\<open>not subject or not subject.strip()\<close> for a claim of any type: a truthy
  value that is not a string has no \<^verbatim>\<open>strip\<close>.\<close>

fun blank_value :: "pyval \<Rightarrow> py_exn + bool" where
  "blank_value (PStr s) = Inr (blank s)"
| "blank_value v = (if truthy v then Inl AttributeError else Inr True)"

definition create_third_party_context ::
  "model_env \<Rightarrow> string \<Rightarrow> pyval \<Rightarrow> string \<Rightarrow> string list \<Rightarrow> pyval \<Rightarrow> pyval \<Rightarrow> string \<Rightarrow> string \<Rightarrow> string
    \<Rightarrow> py_exn + blocks_context" where
  "create_third_party_context V tid subject org rs mail uname dname domain uri =
     (if blank tid then Inl ValueError
      else case blank_value subject of
        Inl e \<Rightarrow> Inl e
      | Inr True \<Rightarrow> Inl ValueError
      | Inr False \<Rightarrow> make_context V [
          (''tenant_id'', PStr tid),
          (''original_tenant_id'', PStr tid),
          (''user_id'', PStr (py_str subject @ ''_external'')),
          (''roles'', PList (map PStr rs)),
          (''permissions'', PList []),
          (''organization_id'', PStr (if org \<noteq> [] then org else DEFAULT_ORGANIZATION)),
          (''is_authenticated'', PBool True),
          (''email'', mail),
          (''user_name'', uname),
          (''display_name'', PStr dname),
          (''phone_number'', PStr []),
          (''oauth_token'', PStr []),
          (''request_uri'', PStr uri),
          (''application_domain'', PStr domain),
          (''expire_on'', PNone)])"

definition get_claim_list :: "pydict \<Rightarrow> string \<Rightarrow> pyval" where
  "get_claim_list claims name =
     (case dget claims name (PList []) of
        PStr s \<Rightarrow> PList [PStr s]
      | PList vs \<Rightarrow> PList vs
      | _ \<Rightarrow> PList [])"

text \<open>\<^verbatim>\<open>exp.replace('Z', '+00:00')\<close>.\<close>

definition zulu_offset :: "string \<Rightarrow> string" where
  "zulu_offset s = concat (map (\<lambda>c. if c = CHR ''Z'' then ''+00:00'' else [c]) s)"

text \<open>The expiry claim: a number is a timestamp, a string is ISO text, a value that the two
  \<^verbatim>\<open>datetime\<close> constructors refuse with \<^verbatim>\<open>ValueError\<close> or
  \<^verbatim>\<open>TypeError\<close> gives no expiry; any other exception escapes.\<close>

definition claim_expiry :: "model_env \<Rightarrow> pydict \<Rightarrow> py_exn + datetime option" where
  "claim_expiry V claims =
     (let v = dlookup claims EXPIRE_ON_CLAIM;
          guard = (\<lambda>r. case r of Inr d \<Rightarrow> Inr (Some d)
                     | Inl e \<Rightarrow> if is_ValueError e \<or> e = TypeError then Inr None else Inl e) in
      if \<not> truthy v then Inr None
      else case v of
          PStr s \<Rightarrow> guard (dt_fromisoformat V (zulu_offset s))
        | PInt _ \<Rightarrow> guard (dt_fromtimestamp V v)
        | PBool _ \<Rightarrow> guard (dt_fromtimestamp V v)
        | PFloat _ \<Rightarrow> guard (dt_fromtimestamp V v)
        | _ \<Rightarrow> Inr None)"

definition create_from_jwt_claims ::
  "model_env \<Rightarrow> pydict \<Rightarrow> string \<Rightarrow> string \<Rightarrow> py_exn + blocks_context" where
  "create_from_jwt_claims V claims origin domain =
     (let value = (\<lambda>name. dget claims name (PStr []));
          origin1 = py_or (PStr origin) (value ORIGINAL_TENANT_ID_CLAIM);
          origin2 = py_or origin1 (value TENANT_ID_CLAIM) in
      case claim_expiry V claims of
        Inl e \<Rightarrow> Inl e
      | Inr expire \<Rightarrow> make_context V [
          (''tenant_id'', value TENANT_ID_CLAIM),
          (''roles'', get_claim_list claims ROLES_CLAIM),
          (''user_id'', value USER_ID_CLAIM),
          (''is_authenticated'', PBool True),
          (''request_uri'', value REQUEST_URI_CLAIM),
          (''organization_id'', value ORGANIZATION_ID_CLAIM),
          (''expire_on'', case expire of None \<Rightarrow> PNone | Some d \<Rightarrow> PStr d),
          (''email'', value EMAIL_CLAIM),
          (''permissions'', get_claim_list claims PERMISSION_CLAIM),
          (''user_name'', value USER_NAME_CLAIM),
          (''phone_number'', value PHONE_NUMBER_CLAIM),
          (''display_name'', value DISPLAY_NAME_CLAIM),
          (''oauth_token'', value TOKEN_CLAIM),
          (''original_tenant_id'', origin2),
          (''application_domain'', PStr domain),
          (''impersonated'', dget claims IMPERSONATED_CLAIM (PBool False)),
          (''impersonation_session_id'', value IMPERSONATION_SESSION_ID_CLAIM),
          (''client_id'', value CLIENT_ID_CLAIM),
          (''session_id'', value SESSION_ID_CLAIM)])"

section \<open>Domains\<close>

definition normalize_domain :: "string \<Rightarrow> string" where
  "normalize_domain url =
     (if blank url then []
      else
        let raw = py_strip url;
            candidate = (if contains_str ''://'' raw then raw else ''//'' @ raw);
            textual = py_lower (py_strip (hd (split_on CHR '':'' (hd (split_on CHR ''/''
                        (remove_all ''http://'' (remove_all ''https://'' raw))))))) in
        case url_hostname candidate of
          Inr (Some h) \<Rightarrow> if h \<noteq> [] then py_lower (py_strip h) else textual
        | _ \<Rightarrow> textual)"

definition is_localhost_host :: "string option \<Rightarrow> bool" where
  "is_localhost_host host =
     (normalize_domain (or_empty host) \<in> {''localhost'', ''127.0.0.1'', ''::1''})"

definition resolve_application_domain :: "request \<Rightarrow> string option" where
  "resolve_application_domain r =
     (let origin = normalize_domain (or_empty (header r ''Origin''));
          referer = normalize_domain (or_empty (header r ''Referer'')) in
      if truthy_opt (header r ''Origin'') \<and> origin \<noteq> [] then Some origin
      else if truthy_opt (header r ''Referer'') \<and> referer \<noteq> [] then Some referer
      else None)"

section \<open>What an external token can set\<close>

lemma strip_reserved_lookup:
  "map_of (strip_reserved_claims claims) k =
     (if k \<in> set RESERVED_CLAIMS then None else map_of claims k)"
  by (simp add: strip_reserved_claims_def map_of_filter_key)

lemma strip_reserved_idem [simp]:
  "strip_reserved_claims (strip_reserved_claims claims) = strip_reserved_claims claims"
  by (simp add: strip_reserved_claims_def)

lemmas third_party_defs = create_third_party_context_def make_context_def default_context_def

text \<open>
  The context of an external token has the tenant of the tenant record in both tenant fields, no
  permission, no Blocks token, session or impersonation; its user is a non-blank subject under the
  suffix \<^verbatim>\<open>_external\<close>, its roles are the mapped ones and its organization is never
  empty. An unresolved subject or tenant raises instead.
\<close>

theorem third_party_context_washed:
  assumes "model_env_ok V"
    and "create_third_party_context V tid subject org rs mail uname dname domain uri = Inr c"
  shows "\<not> blank tid \<and> tenant_id c = tid \<and> original_tenant_id c = tid \<and> roles c = rs \<and>
    permissions c = [] \<and> oauth_token c = [] \<and> \<not> impersonated c \<and> impersonation_session_id c = [] \<and>
    session_id c = [] \<and> client_id c = [] \<and> expire_on c = None \<and> is_authenticated c \<and>
    organization_id c = (if org \<noteq> [] then org else DEFAULT_ORGANIZATION) \<and> organization_id c \<noteq> [] \<and>
    (\<exists>s. subject = PStr s \<and> \<not> blank s \<and> user_id c = s @ ''_external'')"
  using assms
  by (cases subject; auto simp: third_party_defs map_sum_def DEFAULT_ORGANIZATION_def
      split: if_splits bool.splits sum.splits)

theorem third_party_context_washed_witness:
  "\<exists>c. create_third_party_context strict_env ''t1'' (PStr ''auth0|7'') [] [''admin''] (PStr []) (PStr []) [] [] [] = Inr c
     \<and> user_id c = ''auth0|7_external'' \<and> organization_id c = ''default'' \<and> permissions c = []"
proof -
  have "\<exists>c. create_third_party_context strict_env ''t1'' (PStr ''auth0|7'') [] [''admin''] (PStr []) (PStr []) [] [] [] = Inr c"
    by (simp add: third_party_defs str_defs strict_env_def)
  then obtain c where c: "create_third_party_context strict_env ''t1'' (PStr ''auth0|7'') [] [''admin''] (PStr []) (PStr []) [] [] [] = Inr c" ..
  from third_party_context_washed [OF strict_env_ok c] c show ?thesis
    by (auto simp: DEFAULT_ORGANIZATION_def)
qed

section \<open>What a hop keeps\<close>

definition sanitized :: "blocks_context \<Rightarrow> blocks_context" where
  "sanitized c = c\<lparr>email := mask_email (email c), phone_number := mask_phone (phone_number c),
     oauth_token := [], impersonation_session_id := [],
     original_tenant_id := (if original_tenant_id c \<noteq> [] then original_tenant_id c else tenant_id c)\<rparr>"

lemma plain_elems_strs [simp]: "plain_elems (map PStr ss)"
  by (induction ss) auto

lemma json_plain_transport: "json_plain (PDict (create_sanitized_for_transport (Some c)))"
  by (auto simp: create_sanitized_for_transport_def split: option.split)

lemma from_transport_sanitized:
  assumes "model_env_ok V" and "\<And>d. expire_on c = Some d \<Longrightarrow> coerce_datetime V (PStr d) = Inr d"
  shows "from_transport V (Some (PDict (create_sanitized_for_transport (Some c)))) = Inr (Some (sanitized c))"
  using assms
  by (cases "expire_on c") (simp_all add: from_transport_def transport_values_def TRANSPORT_FIELDS_def
      List.map_filter_simps create_sanitized_for_transport_def make_context_def default_context_def sanitized_def)

text \<open>
  A context sent in a message header as JSON and rebuilt by the worker is the sanitized context:
  every identity field (tenant, user, roles, permissions, organization, expiry, session, client) is
  kept, email and phone arrive masked, the token never arrives.
\<close>

theorem transport_round_trip:
  assumes "model_env_ok V" and "\<And>d. expire_on c = Some d \<Longrightarrow> coerce_datetime V (PStr d) = Inr d"
  shows "(case json_loads fl (json_dumps (PDict (create_sanitized_for_transport (Some c)))) of
            Inl e \<Rightarrow> None | Inr p \<Rightarrow> Some (from_transport V (Some p))) = Some (Inr (Some (sanitized c)))"
  unfolding json_loads_dumps [OF json_plain_transport] by (simp add: from_transport_sanitized assms)

theorem transport_round_trip_witness:
  "(case json_loads id (json_dumps (PDict (create_sanitized_for_transport
        (Some (default_context\<lparr>tenant_id := ''t1'', expire_on := Some ''2030-01-01T00:00:00''\<rparr>))))) of
      Inl e \<Rightarrow> None | Inr p \<Rightarrow> Some (from_transport strict_env (Some p)))
   = Some (Inr (Some (sanitized (default_context\<lparr>tenant_id := ''t1'', expire_on := Some ''2030-01-01T00:00:00''\<rparr>))))"
  by (rule transport_round_trip [OF strict_env_ok]) (simp add: strict_env_def)

lemma mask_email_at:
  "CHR ''@'' \<notin> set l \<Longrightarrow> mask_email (l @ CHR ''@'' # d) = ''***@'' @ hd (split_on CHR ''@'' d)"
  by (cases "split_on CHR ''@'' d") (auto simp: mask_email_def split_on_append)

lemma mask_phone_suffix:
  "length s = 4 \<Longrightarrow> mask_phone (p @ s) = ''***'' @ s"
  by (auto simp: mask_phone_def append_eq_conv_conj dest: arg_cong [where f = length])

text \<open>
  C17. What leaves the process does not depend on what is masked: two contexts that differ only in the
  token, the impersonation session, the local part of the email and the phone number before its last
  four characters give the same payload.
\<close>

theorem transport_hides_secrets:
  assumes "CHR ''@'' \<notin> set l1" and "CHR ''@'' \<notin> set l2" and "length s = 4"
  shows "create_sanitized_for_transport (Some (c\<lparr>email := l1 @ ''@'' @ d, phone_number := p1 @ s,
            oauth_token := t1, impersonation_session_id := i1\<rparr>)) =
         create_sanitized_for_transport (Some (c\<lparr>email := l2 @ ''@'' @ d, phone_number := p2 @ s,
            oauth_token := t2, impersonation_session_id := i2\<rparr>))"
  using assms by (simp add: create_sanitized_for_transport_def mask_email_at mask_phone_suffix)

theorem transport_hides_secrets_witness:
  "create_sanitized_for_transport (Some (default_context\<lparr>email := ''alice'' @ ''@'' @ ''x.org'', phone_number := ''+4912'' @ ''3456'',
            oauth_token := ''secret'', impersonation_session_id := ''i''\<rparr>)) =
   create_sanitized_for_transport (Some (default_context\<lparr>email := ''bob'' @ ''@'' @ ''x.org'', phone_number := [] @ ''3456'',
            oauth_token := [], impersonation_session_id := []\<rparr>))"
  by (rule transport_hides_secrets) simp_all

section \<open>A Blocks token\<close>

text \<open>
  The context of a Blocks token scopes the request to the tenant, user, roles and permissions its
  claims name; the tenant the request came in for is kept as the original tenant, whatever the
  claims say.
\<close>

theorem jwt_context_scope:
  assumes "create_from_jwt_claims V claims origin domain = Inr c" and "model_env_ok V"
  shows "coerce_str V (dget claims TENANT_ID_CLAIM (PStr [])) = Inr (tenant_id c) \<and>
    coerce_str V (dget claims USER_ID_CLAIM (PStr [])) = Inr (user_id c) \<and>
    coerce_str_list V (get_claim_list claims ROLES_CLAIM) = Inr (roles c) \<and>
    coerce_str_list V (get_claim_list claims PERMISSION_CLAIM) = Inr (permissions c) \<and>
    coerce_bool V (dget claims IMPERSONATED_CLAIM (PBool False)) = Inr (impersonated c) \<and>
    (origin \<noteq> [] \<longrightarrow> original_tenant_id c = origin) \<and>
    is_authenticated c \<and> application_domain c = domain"
  using assms
  by (auto simp: create_from_jwt_claims_def make_context_def Let_def map_sum_def default_context_def
      split: sum.splits if_splits option.splits)

theorem jwt_context_scope_witness:
  "\<exists>c. create_from_jwt_claims strict_env
          [(''tenant_id'', PStr ''t2''), (''roles'', PStr ''admin''), (''original_tenant_id'', PStr ''t9'')] ''t1'' ''x.org'' = Inr c
     \<and> original_tenant_id c = ''t1'' \<and> tenant_id c = ''t2'' \<and> roles c = [''admin'']"
proof -
  let ?m = "create_from_jwt_claims strict_env
          [(''tenant_id'', PStr ''t2''), (''roles'', PStr ''admin''), (''original_tenant_id'', PStr ''t9'')] ''t1'' ''x.org''"
  have "\<exists>c. ?m = Inr c"
    by (simp add: create_from_jwt_claims_def make_context_def claim_expiry_def get_claim_list_def
        claim_names dget_def strict_env_def)
  then obtain c where c: "?m = Inr c" ..
  from jwt_context_scope [OF c strict_env_ok] c show ?thesis
    by (simp add: claim_names dget_def get_claim_list_def strict_env_def)
qed

section \<open>Domains as names\<close>

text \<open>
  A domain is compared by host name alone: the scheme, the port, the path and the letter case of
  an Origin or Referer are dropped, and normalising a host name again changes nothing.
\<close>

theorem normalize_domain_name:
  assumes h: "is_host_name h" and t: "is_url_tail t" and s: "scheme \<in> {''http'', ''https''}"
  shows "normalize_domain (scheme @ ''://'' @ h @ t) = py_lower h \<and> normalize_domain h = py_lower h"
proof -
  have v: "\<not> is_space c" if "c \<in> set (scheme @ ''://'' @ h @ t)" for c
    using that s host_name_chars(2) [OF h] t
    by (intro visible_not_space) (auto simp: is_url_tail_def list_all_iff)
  note vl = host_name_chars(2) [OF host_name_lower [OF h]]
  have vh: "\<not> is_space c" if "c \<in> set h" for c using v that by auto
  have low: "py_strip (py_lower h) = py_lower h"
    using vl by (intro strip_visible) (auto simp: visible_not_space)
  have nb: "\<not> blank s" if "\<And>c. c \<in> set s \<Longrightarrow> \<not> is_space c" "s \<noteq> []" for s
    using that by (cases s) (auto simp: blank_iff)
  have "url_hostname ((scheme @ '':'') @ ''//'' @ h @ t) = Inr (Some (py_lower h))"
    using s by (intro url_hostname_name [OF h t]) auto
  moreover have "\<not> blank (scheme @ ''://'' @ h @ t)" by (rule nb) (use v in auto)
  moreover have "py_strip (scheme @ ''://'' @ h @ t) = scheme @ ''://'' @ h @ t"
    by (rule strip_visible) (use v in auto)
  ultimately have 1: "normalize_domain (scheme @ ''://'' @ h @ t) = py_lower h"
    using contains_append [of "''://''" scheme "h @ t"] low host_name_chars(1) [OF h]
    by (simp add: normalize_domain_def)
  have "url_hostname ([] @ ''//'' @ h @ []) = Inr (Some (py_lower h))"
    by (rule url_hostname_name [OF h]) (auto simp: is_url_tail_def)
  then have 2: "normalize_domain h = py_lower h"
    using nb [OF vh] contains_notin [of "CHR '':''" "''://''" h] host_name_chars [OF h] low
    by (simp add: normalize_domain_def strip_visible [OF vh])
  from 1 2 show ?thesis ..
qed

theorem normalize_domain_name_witness:
  "normalize_domain (''https'' @ ''://'' @ ''App.Example.com'' @ '':8443/a?b'') = ''app.example.com'' \<and>
   normalize_domain ''App.Example.com'' = ''app.example.com''"
  using normalize_domain_name [of "''App.Example.com''" "'':8443/a?b''" "''https''"]
  by (simp add: is_host_name_def is_name_char_def is_url_tail_def is_ascii_alpha_def is_digit_def
      is_netloc_end_def py_lower_def lower_char_def py_eval)

text \<open>
  An IPv6 loopback origin is normalised to \<^verbatim>\<open>::1\<close>, which the localhost
  test, normalising it a second time, does not recognise.
\<close>

theorem ipv6_loopback_lost:
  "normalize_domain ''http://[::1]:3000'' = ''::1'' \<and> \<not> is_localhost_host (Some ''::1'')"
  by code_simp
end
