(* ===== verification/Delegation_Signature.thy ===== *)
theory Delegation_Signature
  imports Py_Json
begin

text \<open>
  \<^verbatim>\<open>_delegation/constants.py\<close> and \<^verbatim>\<open>_delegation/signature.py\<close>: the wire
  contract of a delegation grant, that is its id, its cache key and the string that a token exchange
  signs. The random bytes and HMAC-SHA256 are parameters. The lemmas show that a fresh id is
  well formed and that the signed string determines the fields it was built from.
\<close>

section \<open>Constants\<close>

definition DELEGATION_GRANT_HEADER :: string where "DELEGATION_GRANT_HEADER = ''DelegationGrant''"
definition GRANT_KEY_PREFIX :: string where "GRANT_KEY_PREFIX = ''delegation:''"
definition GRANT_ID_PREFIX :: string where "GRANT_ID_PREFIX = ''dg_''"
definition GRANT_ID_RANDOM_BYTES :: nat where "GRANT_ID_RANDOM_BYTES = 32"
definition NONCE_RANDOM_BYTES :: nat where "NONCE_RANDOM_BYTES = 16"
definition TOKEN_EXCHANGE_GRANT_TYPE :: string where
  "TOKEN_EXCHANGE_GRANT_TYPE = ''urn:ietf:params:oauth:grant-type:token-exchange''"
definition DELEGATION_GRANT_TOKEN_TYPE :: string where
  "DELEGATION_GRANT_TOKEN_TYPE = ''urn:blocks:params:oauth:token-type:delegation-grant''"
definition DEFAULT_GRANT_TTL_SECONDS :: int where "DEFAULT_GRANT_TTL_SECONDS = 2 * 24 * 60 * 60"
definition TOKEN_RENEWAL_MARGIN_SECONDS :: int where "TOKEN_RENEWAL_MARGIN_SECONDS = 60"
definition BLOCKS_KEY_HEADER :: string where "BLOCKS_KEY_HEADER = ''x-blocks-key''"
definition TOKEN_VERSION_CLAIM :: string where "TOKEN_VERSION_CLAIM = ''token_version''"
definition SECURITY_STAMP_CLAIM :: string where "SECURITY_STAMP_CLAIM = ''security_stamp''"
definition IAM_BASE_URL_KEY :: string where "IAM_BASE_URL_KEY = ''BLOCKS_IAM_BASE_URL''"
definition IAM_TOKEN_ENDPOINT_KEY :: string where "IAM_TOKEN_ENDPOINT_KEY = ''BLOCKS_IAM_TOKEN_ENDPOINT''"
definition FRONTEND_RUNTIME_SECTION :: string where "FRONTEND_RUNTIME_SECTION = ''FrontendRuntime''"

definition grant_key :: "string \<Rightarrow> string" where
  "grant_key delegation_id = GRANT_KEY_PREFIX @ delegation_id"

definition build_signature_input :: "string \<Rightarrow> string \<Rightarrow> string \<Rightarrow> int \<Rightarrow> string" where
  "build_signature_input tid delegation_id nonce ts =
     tid @ ''|'' @ delegation_id @ ''|'' @ nonce @ ''|'' @ show_int ts"

section \<open>Ids, nonces, signatures\<close>

text \<open>\<^verbatim>\<open>secrets.token_hex(n)\<close> on the random bytes drawn.\<close>

definition new_grant_id :: "nat list \<Rightarrow> string" where
  "new_grant_id bs = GRANT_ID_PREFIX @ hex_bytes bs"

definition new_nonce :: "nat list \<Rightarrow> string" where
  "new_nonce bs = hex_bytes bs"

definition LOWER_HEX :: "char set" where
  "LOWER_HEX = set ''0123456789abcdef''"

definition is_well_formed :: "string option \<Rightarrow> bool" where
  "is_well_formed delegation_id =
     (case delegation_id of None \<Rightarrow> False
      | Some d \<Rightarrow>
          if d = [] \<or> \<not> starts_with GRANT_ID_PREFIX d then False
          else let body = drop (length GRANT_ID_PREFIX) d in
            if length body \<noteq> GRANT_ID_RANDOM_BYTES * 2 then False
            else list_all (\<lambda>c. c \<in> LOWER_HEX) body)"

definition sign ::
  "(string \<Rightarrow> string \<Rightarrow> string) \<Rightarrow> string \<Rightarrow> string \<Rightarrow> string \<Rightarrow> int \<Rightarrow> string \<Rightarrow> string" where
  "sign hmac tid delegation_id nonce ts salt =
     hmac salt (build_signature_input tid delegation_id nonce ts)"

text \<open>\<^verbatim>\<open>hmac.compare_digest\<close> accepts ASCII strings only.\<close>

definition verify :: "string \<Rightarrow> string option \<Rightarrow> py_exn + bool" where
  "verify expected presented =
     (case presented of None \<Rightarrow> Inr False
      | Some p \<Rightarrow>
          if p = [] then Inr False
          else if list_all (\<lambda>c. code c < 128) (expected @ p) then Inr (expected = p)
          else Inl TypeError)"

section \<open>Lemmas\<close>

lemma hex_char_LOWER_HEX: "n < 16 \<Longrightarrow> hex_char n \<in> LOWER_HEX"
proof -
  have "\<forall>n \<in> set [0..<16]. hex_char n \<in> LOWER_HEX" by code_simp
  then show "n < 16 \<Longrightarrow> hex_char n \<in> LOWER_HEX" by simp
qed

lemma hex_bytes_LOWER_HEX: "c \<in> set (hex_bytes bs) \<Longrightarrow> c \<in> LOWER_HEX"
  by (auto simp: hex_bytes_def show_hex_2 hex_char_LOWER_HEX)

lemma LOWER_HEX_no_bar: "CHR ''|'' \<notin> LOWER_HEX"
  by (simp add: LOWER_HEX_def)

lemma well_formed_iff:
  "is_well_formed (Some d) \<longleftrightarrow>
     (\<exists>body. d = GRANT_ID_PREFIX @ body \<and> length body = 64 \<and> set body \<subseteq> LOWER_HEX)"
  by (auto simp: is_well_formed_def Let_def starts_with_iff GRANT_ID_PREFIX_def
      GRANT_ID_RANDOM_BYTES_def list_all_iff)

lemma well_formed_no_bar: "is_well_formed (Some d) \<Longrightarrow> CHR ''|'' \<notin> set d"
  using LOWER_HEX_no_bar by (auto simp: well_formed_iff GRANT_ID_PREFIX_def)

lemma well_formed_nonempty: "is_well_formed (Some d) \<Longrightarrow> d \<noteq> []"
  by (auto simp: is_well_formed_def)

lemma hex_char_inj: "a < 16 \<Longrightarrow> b < 16 \<Longrightarrow> hex_char a = hex_char b \<Longrightarrow> a = b"
proof -
  assume "a < 16" "b < 16" "hex_char a = hex_char b"
  then have "hex_value (hex_char a) = hex_value (hex_char b)" by simp
  then show ?thesis using \<open>a < 16\<close> \<open>b < 16\<close> by (simp add: hex_value_char)
qed

lemma hex_byte_inj: "a < 256 \<Longrightarrow> b < 256 \<Longrightarrow> show_hex 2 a = show_hex 2 b \<Longrightarrow> a = (b::nat)"
proof -
  assume "a < 256" "b < 256" "show_hex 2 a = show_hex 2 b"
  then have "a div 16 mod 16 = b div 16 mod 16" "a mod 16 = b mod 16"
    by (auto simp: show_hex_2 intro: hex_char_inj)
  moreover have "a div 16 mod 16 = a div 16" "b div 16 mod 16 = b div 16"
    using \<open>a < 256\<close> \<open>b < 256\<close> by simp_all
  ultimately have "a div 16 * 16 + a mod 16 = b div 16 * 16 + b mod 16" by simp
  then show ?thesis by simp
qed

lemma hex_bytes_Cons: "hex_bytes (b # bs) = show_hex 2 b @ hex_bytes bs"
  by (simp add: hex_bytes_def)

lemma hex_bytes_inj: "\<forall>x \<in> set as. x < 256 \<Longrightarrow> \<forall>x \<in> set bs. x < 256 \<Longrightarrow> hex_bytes as = hex_bytes bs \<Longrightarrow> as = bs"
proof (induction as arbitrary: bs)
  case Nil
  then have "length (hex_bytes bs) = 0" by (simp add: hex_bytes_def)
  then show ?case by simp
next
  case (Cons a as)
  then obtain b bs' where b: "bs = b # bs'"
    using length_hex_bytes [of "a # as"] length_hex_bytes [of bs] by (cases bs) auto
  with Cons.prems(3) have "show_hex 2 a = show_hex 2 b" "hex_bytes as = hex_bytes bs'"
    by (simp_all add: hex_bytes_Cons)
  moreover have "a < 256" "b < 256" using Cons.prems b by auto
  moreover have "\<forall>x \<in> set as. x < 256" "\<forall>x \<in> set bs'. x < 256" using Cons.prems b by auto
  ultimately show ?case using hex_byte_inj Cons.IH unfolding b by blast
qed

lemma show_int_inj: "show_int a = show_int b \<Longrightarrow> a = b"
proof -
  assume e: "show_int a = show_int b"
  have f: "hd (show_nat n) \<noteq> CHR ''-''" for n
    using show_nat_digits [of n] by (cases "show_nat n") (auto simp: is_digit_def)
  have g: "show_nat n \<noteq> CHR ''-'' # x" for n x using f [of n] by auto
  have h: "show_nat m = show_nat n \<Longrightarrow> m = n" for m n using nat_of_show_nat by metis
  from e show ?thesis using g h g [symmetric] by (auto simp: show_int_def split: if_splits dest!: h)
qed

lemma show_int_no_bar: "CHR ''|'' \<notin> set (show_int i)"
proof -
  have "CHR ''|'' \<notin> set (show_nat n)" for n
    using show_nat_digits [of n] by (auto simp: is_digit_def dest: bspec)
  then show ?thesis by (simp add: show_int_def)
qed

lemma last_field:
  assumes "a @ c # b = a' @ (c :: char) # b'" and "c \<notin> set b" and "c \<notin> set b'"
  shows "a = a' \<and> b = b'"
proof -
  have "after_last c (a @ c # b) = after_last c (a' @ c # b')" using assms(1) by simp
  then have "b = b'" using assms(2,3) by (simp add: after_last_append)
  with assms(1) show ?thesis by simp
qed

text \<open>
  A grant id made from 32 random bytes is well formed, two ids are equal only when their bytes
  are, and the same holds of the cache keys, so no grant can take the place of another.
\<close>

theorem new_grant_id_well_formed:
  assumes "length bs = GRANT_ID_RANDOM_BYTES" and "length bs' = GRANT_ID_RANDOM_BYTES"
    and "\<forall>b \<in> set bs. b < 256" and "\<forall>b \<in> set bs'. b < 256"
  shows "is_well_formed (Some (new_grant_id bs)) \<and>
    (grant_key (new_grant_id bs) = grant_key (new_grant_id bs') \<longleftrightarrow> bs = bs')"
  using assms hex_bytes_LOWER_HEX hex_bytes_inj [of bs bs']
  by (auto simp: well_formed_iff new_grant_id_def grant_key_def GRANT_ID_RANDOM_BYTES_def)

theorem new_grant_id_well_formed_witness:
  "is_well_formed (Some (new_grant_id (replicate 32 7))) \<and>
    (grant_key (new_grant_id (replicate 32 7)) = grant_key (new_grant_id (replicate 32 8))
      \<longleftrightarrow> replicate 32 (7 :: nat) = replicate 32 8)"
  by (rule new_grant_id_well_formed) (simp_all add: GRANT_ID_RANDOM_BYTES_def)

text \<open>
  The string a token exchange signs determines the tenant, the grant, the nonce and the time it
  was built from: no two different exchanges sign the same bytes.
\<close>

lemma signature_input_unambiguous:
  assumes "is_well_formed (Some d1)" and "is_well_formed (Some d2)"
    and "n1 = new_nonce r1" and "n2 = new_nonce r2"
    and "build_signature_input t1 d1 n1 ts1 = build_signature_input t2 d2 n2 ts2"
  shows "t1 = t2 \<and> d1 = d2 \<and> n1 = n2 \<and> ts1 = ts2"
proof -
  have nb: "CHR ''|'' \<notin> set n1" "CHR ''|'' \<notin> set n2"
    using assms(3,4) hex_bytes_LOWER_HEX LOWER_HEX_no_bar by (auto simp: new_nonce_def)
  have "(t1 @ ''|'' @ d1 @ ''|'' @ n1) @ CHR ''|'' # show_int ts1 =
      (t2 @ ''|'' @ d2 @ ''|'' @ n2) @ CHR ''|'' # show_int ts2"
    using assms(5) by (simp add: build_signature_input_def)
  from last_field [OF this show_int_no_bar show_int_no_bar]
  have "(t1 @ ''|'' @ d1) @ CHR ''|'' # n1 = (t2 @ ''|'' @ d2) @ CHR ''|'' # n2" and ts: "ts1 = ts2"
    by (auto intro: show_int_inj)
  from last_field [OF this(1) nb] have "t1 @ CHR ''|'' # d1 = t2 @ CHR ''|'' # d2" and n: "n1 = n2" by auto
  from last_field [OF this(1) well_formed_no_bar [OF assms(1)] well_formed_no_bar [OF assms(2)]] n ts
  show ?thesis by simp
qed

end
