(* ===== verification/Ambient.thy ===== *)
theory Ambient
  imports Context_Factory Delegation_Signature
begin

text \<open>
  The ambient holders of one logical flow: the context of \<^verbatim>\<open>BlocksContextManager\<close>
  with its test mode, the delegation grant and the validated claims of
  \<^verbatim>\<open>_delegation/context.py\<close>, the usage snapshot of
  \<^verbatim>\<open>_subscription/context.py\<close>. A \<^verbatim>\<open>ContextVar\<close> is a field of
  the record \<open>ambient\<close>; reading the context variable never raises, so
  \<^verbatim>\<open>get_context\<close> is total. The locale \<open>ambient_var\<close> states what a holder promises to the
  code around it, and each of the four holders is an instance.
\<close>

section \<open>The state\<close>

text \<open>A row of the usage snapshot; a float is the text of its \<^verbatim>\<open>repr\<close>.\<close>

record usage_result =
  u_allowed :: bool
  u_meter_key :: string
  u_used :: string
  u_remaining :: string
  u_overage :: string
  u_replayed :: bool
  u_quantity_scale :: int
  u_is_fraction_allowed :: bool

record ambient =
  context_var :: "blocks_context option"
  test_mode :: bool
  delegation_grant_var :: "string option"
  auth_claims_var :: "pydict option"
  usage_snapshot_var :: "usage_result list option"

definition empty_ambient :: ambient where
  "empty_ambient = \<lparr>context_var = None, test_mode = False, delegation_grant_var = None,
     auth_claims_var = None, usage_snapshot_var = None\<rparr>"

section \<open>The context\<close>

definition get_test_mode :: "ambient \<Rightarrow> bool" where
  "get_test_mode a = test_mode a"

definition set_test_mode :: "bool \<Rightarrow> ambient \<Rightarrow> ambient" where
  "set_test_mode b a = a\<lparr>test_mode := b\<rparr>"

definition get_context :: "blocks_context option \<Rightarrow> ambient \<Rightarrow> blocks_context option" where
  "get_context test_value a =
     (if get_test_mode a then (case test_value of None \<Rightarrow> context_var a | Some c \<Rightarrow> Some c)
      else context_var a)"

definition set_context :: "blocks_context option \<Rightarrow> ambient \<Rightarrow> ambient" where
  "set_context c a = a\<lparr>context_var := c\<rparr>"

definition clear_context :: "ambient \<Rightarrow> ambient" where
  "clear_context a = a\<lparr>context_var := None\<rparr>"

section \<open>The delegation grant\<close>

definition set_grant :: "string option \<Rightarrow> ambient \<Rightarrow> ambient" where
  "set_grant g a = a\<lparr>delegation_grant_var := (if is_well_formed g then g else None)\<rparr>"

definition current_grant :: "ambient \<Rightarrow> string option" where
  "current_grant a = delegation_grant_var a"

definition has_grant :: "ambient \<Rightarrow> bool" where
  "has_grant a = truthy_opt (delegation_grant_var a)"

definition clear_grant :: "ambient \<Rightarrow> ambient" where
  "clear_grant a = a\<lparr>delegation_grant_var := None\<rparr>"

section \<open>The validated claims\<close>

definition set_claims :: "pydict option \<Rightarrow> ambient \<Rightarrow> ambient" where
  "set_claims c a = a\<lparr>auth_claims_var := c\<rparr>"

definition current_claims :: "ambient \<Rightarrow> pydict option" where
  "current_claims a = auth_claims_var a"

definition clear_claims :: "ambient \<Rightarrow> ambient" where
  "clear_claims a = a\<lparr>auth_claims_var := None\<rparr>"

definition version_material :: "ambient \<Rightarrow> string option \<times> string option" where
  "version_material a =
     (case auth_claims_var a of None \<Rightarrow> (None, None)
      | Some claims \<Rightarrow>
          if claims = [] then (None, None)
          else let text = (\<lambda>v. if v = PNone then None else Some (py_str v)) in
            (text (dlookup claims TOKEN_VERSION_CLAIM), text (dlookup claims SECURITY_STAMP_CLAIM)))"

section \<open>The usage snapshot\<close>

definition set_usage :: "usage_result list option \<Rightarrow> ambient \<Rightarrow> ambient" where
  "set_usage u a = a\<lparr>usage_snapshot_var := u\<rparr>"

definition current_usage :: "ambient \<Rightarrow> usage_result list option" where
  "current_usage a = usage_snapshot_var a"

definition has_snapshot :: "ambient \<Rightarrow> bool" where
  "has_snapshot a \<longleftrightarrow> usage_snapshot_var a \<noteq> None"

definition clear_usage :: "ambient \<Rightarrow> ambient" where
  "clear_usage a = a\<lparr>usage_snapshot_var := None\<rparr>"

definition for_meter :: "string \<Rightarrow> ambient \<Rightarrow> usage_result option" where
  "for_meter meter_key a =
     (case usage_snapshot_var a of None \<Rightarrow> None
      | Some us \<Rightarrow> if us = [] then None else List.find (\<lambda>u. u_meter_key u = meter_key) us)"

section \<open>The contract of a holder\<close>

text \<open>
  \<open>put\<close> stores an admitted value and treats any other as absent, \<open>current\<close> reads it back, \<open>clear\<close>
  leaves what storing nothing leaves, and a later write hides an earlier one.
\<close>

locale ambient_var =
  fixes put :: "'v option \<Rightarrow> 's \<Rightarrow> 's"
    and current :: "'s \<Rightarrow> 'v option"
    and clear :: "'s \<Rightarrow> 's"
    and admits :: "'v \<Rightarrow> bool"
  assumes current_put: "current (put v s) = (case v of None \<Rightarrow> None | Some x \<Rightarrow> if admits x then Some x else None)"
    and put_put: "put v (put w s) = put v s"
    and clear_put: "clear s = put None s"
begin

lemma current_clear [simp]: "current (clear s) = None"
  by (simp add: clear_put current_put)

lemma clear_forgets: "clear (put v s) = clear s"
  by (simp add: clear_put put_put)

lemma current_put_Some: "current (put v s) = Some x \<longleftrightarrow> v = Some x \<and> admits x"
  by (auto simp: current_put split: option.splits)

lemma current_admits: "current (put v s) = Some x \<Longrightarrow> admits x"
  by (simp add: current_put_Some)

end

interpretation ctx_var: ambient_var set_context "get_context None" clear_context "\<lambda>_. True"
  by unfold_locales (auto simp: set_context_def get_context_def clear_context_def get_test_mode_def
      split: option.split)

interpretation grant_var: ambient_var set_grant current_grant clear_grant "\<lambda>g. is_well_formed (Some g)"
  by unfold_locales (auto simp: set_grant_def current_grant_def clear_grant_def is_well_formed_def
      split: option.split)

interpretation claims_var: ambient_var set_claims current_claims clear_claims "\<lambda>_. True"
  by unfold_locales (auto simp: set_claims_def current_claims_def clear_claims_def split: option.split)

interpretation usage_var: ambient_var set_usage current_usage clear_usage "\<lambda>_. True"
  by unfold_locales (auto simp: set_usage_def current_usage_def clear_usage_def split: option.split)

section \<open>Frame\<close>

lemmas ambient_defs = set_context_def get_context_def clear_context_def set_grant_def current_grant_def
  clear_grant_def set_claims_def current_claims_def clear_claims_def set_usage_def current_usage_def
  clear_usage_def get_test_mode_def set_test_mode_def has_grant_def has_snapshot_def

lemma ambient_frame [simp]:
  "current_grant (set_context c a) = current_grant a"
  "current_claims (set_context c a) = current_claims a"
  "current_usage (set_context c a) = current_usage a"
  "get_context t (set_grant g a) = get_context t a"
  "get_context t (set_claims d a) = get_context t a"
  "get_context t (set_usage u a) = get_context t a"
  "current_grant (set_claims d a) = current_grant a"
  "current_claims (set_grant g a) = current_claims a"
  by (simp_all add: ambient_defs split: option.split)

text \<open>
  Setting the delegation grant fails closed: afterwards the flow holds a grant exactly when the
  value offered is a well-formed id, and then that id; clearing leaves none, whatever was set.
\<close>

theorem grant_fails_closed:
  "(has_grant (set_grant g a) \<longleftrightarrow> is_well_formed g) \<and>
   current_grant (set_grant g a) = (if is_well_formed g then g else None) \<and>
   \<not> has_grant (clear_grant (set_grant g a))"
proof -
  have "current_grant (clear_grant (set_grant g a)) = None" by (rule grant_var.current_clear)
  moreover have "is_well_formed g \<Longrightarrow> truthy_opt g"
    by (cases g) (auto simp: is_well_formed_def)
  ultimately show ?thesis
    by (auto simp: has_grant_def current_grant_def set_grant_def)
qed

end
