(* ===== verification/Tenant.thy ===== *)
theory Tenant
  imports Py_Values
begin

text \<open>
  \<^verbatim>\<open>_tenant/tenant.py\<close>: a tenant, its applications, its token parameters and the
  parameters of its legacy external provider. The metadata of \<^verbatim>\<open>BaseEntity\<close> that
  nothing reads is left out, and a stored \<^verbatim>\<open>null\<close> in a text field is read as empty.
\<close>

datatype certificate_storage_type = AZURE | FILESYSTEM | MONGODB

record jwt_token_parameters =
  j_issuer :: string
  j_subject :: string
  j_audiences :: "string list"
  j_public_certificate_path :: string
  j_public_certificate_password :: string
  j_private_certificate_password :: string
  j_certificate_storage_type :: certificate_storage_type
  j_certificate_valid_for_number_of_days :: int
  j_issue_date :: "string option"

record third_party_jwt_token_parameters =
  tp_provider_name :: string
  tp_issuer :: string
  tp_subject :: string
  tp_audiences :: "string list"
  tp_public_certificate_path :: string
  tp_jwks_url :: string
  tp_public_certificate_password :: string
  tp_cookie_key :: string

record application =
  app_domain :: string
  app_cookie_domain :: string
  app_is_domain_verified :: bool

record tenant =
  t_tenant_id :: string
  t_is_accept_blocks_terms :: bool
  t_is_use_blocks_exclusively :: bool
  t_name :: string
  t_db_name :: string
  t_applications :: "application list"
  t_is_disabled :: bool
  t_db_connection_string :: string
  t_tenant_salt :: string
  t_jwt_token_parameters :: "jwt_token_parameters option"
  t_third_party_jwt_token_parameters :: "third_party_jwt_token_parameters option"
  t_is_third_party_jwt_enabled :: bool
  t_is_root_tenant :: bool
  t_environment :: string
  t_tenant_group_id :: string

text \<open>The field defaults of the model class.\<close>

definition default_jwt_token_parameters :: jwt_token_parameters where
  "default_jwt_token_parameters = \<lparr>j_issuer = [], j_subject = [], j_audiences = [],
     j_public_certificate_path = [], j_public_certificate_password = [],
     j_private_certificate_password = [], j_certificate_storage_type = AZURE,
     j_certificate_valid_for_number_of_days = 365, j_issue_date = None\<rparr>"

definition default_tenant :: tenant where
  "default_tenant = \<lparr>t_tenant_id = [], t_is_accept_blocks_terms = False,
     t_is_use_blocks_exclusively = False, t_name = [], t_db_name = [], t_applications = [],
     t_is_disabled = False, t_db_connection_string = [], t_tenant_salt = [],
     t_jwt_token_parameters = None, t_third_party_jwt_token_parameters = None,
     t_is_third_party_jwt_enabled = False, t_is_root_tenant = False, t_environment = [],
     t_tenant_group_id = []\<rparr>"

end
