(* ===== verification/Read_Through.thy ===== *)
theory Read_Through
  imports Py_Prelude
begin

text \<open>
  The interface shared by the components that keep in memory what they load from elsewhere (tenants,
  providers, token endpoints, delegated tokens): an entry is looked up, stored and dropped, a miss
  loads and stores. The contract is what the callers rely on: a stored entry is found, dropping an
  entry makes the next read load, and neither touches another key.
\<close>

locale read_through =
  fixes lookup :: "'k \<Rightarrow> 's \<Rightarrow> 'v option"
    and store :: "'k \<Rightarrow> 'v \<Rightarrow> 's \<Rightarrow> 's"
    and drop_entry :: "'k \<Rightarrow> 's \<Rightarrow> 's"
  assumes lookup_store: "lookup k (store k' v s) = (if k = k' then Some v else lookup k s)"
    and lookup_drop: "lookup k (drop_entry k' s) = (if k = k' then None else lookup k s)"
begin

definition fetch :: "('k \<Rightarrow> 'v option) \<Rightarrow> 'k \<Rightarrow> 's \<Rightarrow> 'v option \<times> 's" where
  "fetch load k s =
     (case lookup k s of
        Some v \<Rightarrow> (Some v, s)
      | None \<Rightarrow> (case load k of None \<Rightarrow> (None, s) | Some v \<Rightarrow> (Some v, store k v s)))"

lemma fetch_hit: "lookup k s = Some v \<Longrightarrow> fetch load k s = (Some v, s)"
  by (simp add: fetch_def)

text \<open>A successful read is remembered: the next one needs no source and changes nothing.\<close>

lemma fetch_again:
  assumes "fetch load k s = (Some v, s')"
  shows "fetch load' k s' = (Some v, s')"
  using assms by (auto simp: fetch_def lookup_store split: option.splits)

lemma fetch_frame:
  assumes "fetch load k s = (r, s')" and "j \<noteq> k"
  shows "lookup j s' = lookup j s"
  using assms by (auto simp: fetch_def lookup_store split: option.splits)

lemma fetch_after_drop: "fst (fetch load k (drop_entry k s)) = load k"
  by (auto simp: fetch_def lookup_drop split: option.split)

lemma fetch_after_store: "fst (fetch load k (store k v s)) = Some v"
  by (simp add: fetch_def lookup_store)

lemma fetch_None_iff: "fst (fetch load k s) = None \<longleftrightarrow> lookup k s = None \<and> load k = None"
  by (auto simp: fetch_def split: option.splits)

end

end
