(* ===== verification/Tenant_Service.thy ===== *)
theory Tenant_Service
  imports Tenant Read_Through
begin

text \<open>
  \<^verbatim>\<open>_tenant/tenant_service.py\<close>: the tenant cache with its two lookups, the update
  messages that keep it in step with the database, and the life cycle of the subscription. The
  database is a parameter: a lookup finds a row, finds none or fails. One call of
  \<^verbatim>\<open>get_tenant\<close> is a function here; several calls in flight are in
  \<open>Single_Flight\<close>.
\<close>

section \<open>The cache\<close>

record tenant_service =
  tenant_cache :: "(string \<times> tenant) list"
  ts_initialized :: bool
  ts_is_subscribed :: bool
  ts_disposed :: bool

definition new_tenant_service :: tenant_service where
  "new_tenant_service = \<lparr>tenant_cache = [], ts_initialized = False, ts_is_subscribed = False, ts_disposed = False\<rparr>"

definition cache_tenant :: "string \<Rightarrow> tenant \<Rightarrow> tenant_service \<Rightarrow> tenant_service" where
  "cache_tenant k t s = s\<lparr>tenant_cache := AList.update k t (tenant_cache s)\<rparr>"

definition uncache_tenant :: "string \<Rightarrow> tenant_service \<Rightarrow> tenant_service" where
  "uncache_tenant k s = s\<lparr>tenant_cache := AList.delete k (tenant_cache s)\<rparr>"

definition cached_tenant :: "string \<Rightarrow> tenant_service \<Rightarrow> tenant option" where
  "cached_tenant k s = map_of (tenant_cache s) k"

section \<open>Lookups\<close>

definition load_tenant_from_db :: "(string \<Rightarrow> py_exn + tenant option) \<Rightarrow> string \<Rightarrow> tenant option" where
  "load_tenant_from_db db tid = (case db tid of Inl _ \<Rightarrow> None | Inr r \<Rightarrow> r)"

definition get_tenant ::
  "(string \<Rightarrow> py_exn + tenant option) \<Rightarrow> string \<Rightarrow> tenant_service \<Rightarrow> tenant option \<times> tenant_service" where
  "get_tenant db tid s =
     (if tid = [] then (None, s)
      else case cached_tenant tid s of
        Some t \<Rightarrow> (Some t, s)
      | None \<Rightarrow> (case load_tenant_from_db db tid of
          None \<Rightarrow> (None, s)
        | Some t \<Rightarrow> (Some t, cache_tenant (t_tenant_id t) t s)))"

definition strip_scheme :: "string \<Rightarrow> string" where
  "strip_scheme d =
     (let e = py_lower (py_strip d) in
      if starts_with ''http://'' e then drop 7 e
      else if starts_with ''https://'' e then drop 8 e
      else e)"

definition serves_domain :: "string \<Rightarrow> tenant \<Rightarrow> bool" where
  "serves_domain normalized t =
     (t_applications t \<noteq> [] \<and>
      list_ex (\<lambda>a. app_domain a \<noteq> [] \<and> strip_scheme (app_domain a) = normalized) (t_applications t))"

text \<open>The database is asked for a row with an application whose domain is one of the two texts.\<close>

definition get_tenant_by_domain ::
  "(string list \<Rightarrow> py_exn + tenant option) \<Rightarrow> string \<Rightarrow> tenant_service \<Rightarrow> tenant option \<times> tenant_service" where
  "get_tenant_by_domain db domain s =
     (if blank domain then (None, s)
      else let normalized = strip_scheme domain in
        case List.find (serves_domain normalized) (map snd (tenant_cache s)) of
          Some t \<Rightarrow> (Some t, s)
        | None \<Rightarrow> (case db [''http://'' @ normalized, ''https://'' @ normalized] of
            Inl _ \<Rightarrow> (None, s)
          | Inr None \<Rightarrow> (None, s)
          | Inr (Some t) \<Rightarrow> (Some t, cache_tenant (t_tenant_id t) t s)))"

definition get_db_connection ::
  "(string \<Rightarrow> py_exn + tenant option) \<Rightarrow> string \<Rightarrow> tenant_service
    \<Rightarrow> (string \<times> string) option \<times> tenant_service" where
  "get_db_connection db tid s =
     (case get_tenant db tid s of (r, s') \<Rightarrow>
        (map_option (\<lambda>t. (t_db_name t, t_db_connection_string t)) r, s'))"

definition get_root_tenant_id :: "tenant_service \<Rightarrow> string option" where
  "get_root_tenant_id s =
     map_option t_tenant_id (List.find t_is_root_tenant (map snd (tenant_cache s)))"

definition get_tenant_database_connection_strings :: "tenant_service \<Rightarrow> (string \<times> string \<times> string) list" where
  "get_tenant_database_connection_strings s =
     map (\<lambda>(k, t). (k, t_db_name t, t_db_connection_string t)) (tenant_cache s)"

section \<open>Update messages\<close>

record tenant_update =
  um_tenant :: "tenant option"
  um_tenant_id :: "string option"
  um_action :: string

definition ACTION_UPSERT :: string where "ACTION_UPSERT = ''upsert''"
definition ACTION_REMOVE :: string where "ACTION_REMOVE = ''remove''"

definition resolve_tenant_id :: "tenant_update \<Rightarrow> string option" where
  "resolve_tenant_id u =
     (case um_tenant_id u of
        Some k \<Rightarrow> if \<not> blank k then Some k
                  else (case um_tenant u of
                          Some t \<Rightarrow> if \<not> blank (t_tenant_id t) then Some (t_tenant_id t) else None
                        | None \<Rightarrow> None)
      | None \<Rightarrow> (case um_tenant u of
                   Some t \<Rightarrow> if \<not> blank (t_tenant_id t) then Some (t_tenant_id t) else None
                 | None \<Rightarrow> None))"

definition normalize_cache_update :: "tenant_update \<Rightarrow> tenant_update option" where
  "normalize_cache_update u =
     (let action = py_lower (py_strip (um_action u)) in
      if action \<noteq> ACTION_REMOVE \<and> action \<noteq> ACTION_UPSERT then None
      else if action = ACTION_REMOVE then
        (case resolve_tenant_id u of
           None \<Rightarrow> None
         | Some k \<Rightarrow> Some (u\<lparr>um_action := ACTION_REMOVE, um_tenant_id := Some k\<rparr>))
      else (case um_tenant u of
          None \<Rightarrow> None
        | Some t \<Rightarrow> if t_tenant_id t = [] then None
                    else Some (u\<lparr>um_action := ACTION_UPSERT, um_tenant_id := Some (t_tenant_id t)\<rparr>)))"

definition apply_update_message :: "tenant_update \<Rightarrow> tenant_service \<Rightarrow> tenant_service" where
  "apply_update_message u s =
     (let action = py_lower (py_strip (um_action u)) in
      if action = ACTION_REMOVE then
        (case um_tenant_id u of
           None \<Rightarrow> s
         | Some k \<Rightarrow> if k \<noteq> [] then uncache_tenant k s else s)
      else case um_tenant u of
          None \<Rightarrow> s
        | Some t \<Rightarrow>
            if t_tenant_id t = [] then s
            else if t_is_disabled t then uncache_tenant (t_tenant_id t) s
            else cache_tenant (t_tenant_id t) t s)"

text \<open>A received message: \<open>parse\<close> is the model's JSON validation, \<^const>\<open>None\<close> where it refuses.\<close>

definition handle_update :: "(string \<Rightarrow> tenant_update option) \<Rightarrow> string \<Rightarrow> tenant_service \<Rightarrow> tenant_service" where
  "handle_update parse message s =
     (case parse message of
        None \<Rightarrow> s
      | Some u \<Rightarrow> (case normalize_cache_update u of None \<Rightarrow> s | Some n \<Rightarrow> apply_update_message n s))"

text \<open>What a call publishes on the update channel: a failure to publish is logged, not raised.\<close>

definition update_tenant_version :: "tenant_update option \<Rightarrow> py_exn + tenant_update option" where
  "update_tenant_version u =
     (case u of None \<Rightarrow> Inl ValueError | Some v \<Rightarrow> Inr (normalize_cache_update v))"

section \<open>Life cycle\<close>

text \<open>
  \<open>ts_initialize\<close> schedules the subscription task at its first call only (the second component says
  whether it did); \<open>ts_subscribe\<close> is that task, its argument whether the cache client accepted the
  subscription; \<open>ts_dispose\<close> also says whether it unsubscribed.
\<close>

definition ts_initialize :: "tenant_service \<Rightarrow> tenant_service \<times> bool" where
  "ts_initialize s = (if ts_initialized s then (s, False) else (s\<lparr>ts_initialized := True\<rparr>, True))"

definition ts_subscribe :: "bool \<Rightarrow> tenant_service \<Rightarrow> tenant_service" where
  "ts_subscribe ok s =
     (if ts_is_subscribed s then s else if ok then s\<lparr>ts_is_subscribed := True\<rparr> else s)"

definition ts_dispose :: "tenant_service \<Rightarrow> tenant_service \<times> bool" where
  "ts_dispose s = (if ts_disposed s then (s, False) else (s\<lparr>ts_disposed := True\<rparr>, ts_is_subscribed s))"

section \<open>The cache as a read-through cache\<close>

interpretation tenants: read_through cached_tenant cache_tenant uncache_tenant
  by unfold_locales (simp_all add: cached_tenant_def cache_tenant_def uncache_tenant_def)

lemma get_tenant_fetch:
  assumes "tid \<noteq> []" and "\<And>t. load_tenant_from_db db tid = Some t \<Longrightarrow> t_tenant_id t = tid"
  shows "get_tenant db tid s = tenants.fetch (load_tenant_from_db db) tid s"
  using assms by (auto simp: get_tenant_def tenants.fetch_def split: option.split)

lemma get_tenant_Nil [simp]: "get_tenant db [] s = (None, s)"
  by (simp add: get_tenant_def)

lemma get_tenant_result:
  "fst (get_tenant db tid s) =
     (if tid = [] then None
      else case cached_tenant tid s of Some t \<Rightarrow> Some t | None \<Rightarrow> load_tenant_from_db db tid)"
  by (auto simp: get_tenant_def split: option.split)

text \<open>Every entry is filed under its own tenant's id, once.\<close>

definition tenant_cache_ok :: "tenant_service \<Rightarrow> bool" where
  "tenant_cache_ok s \<longleftrightarrow>
     is_pydict (tenant_cache s) \<and> list_all (\<lambda>(k, t). t_tenant_id t = k) (tenant_cache s)"

lemma set_update_subset: "set (AList.update k v al) \<subseteq> insert (k, v) (set al)"
  by (induction al) auto

lemma tenant_cache_ok_cache [simp, intro]:
  "tenant_cache_ok s \<Longrightarrow> tenant_cache_ok (cache_tenant (t_tenant_id t) t s)"
  using set_update_subset [of "t_tenant_id t" t "tenant_cache s"]
  by (fastforce simp: tenant_cache_ok_def cache_tenant_def list_all_iff)

lemma set_delete_subset: "x \<in> set (AList.delete k al) \<Longrightarrow> x \<in> set al"
  by (induction al) (auto split: if_splits)

lemma tenant_cache_ok_uncache [simp, intro]: "tenant_cache_ok s \<Longrightarrow> tenant_cache_ok (uncache_tenant k s)"
  by (auto simp: tenant_cache_ok_def uncache_tenant_def list_all_iff dest: set_delete_subset)

text \<open>
  C29. Every operation of the tenant service (both lookups and any update message) keeps the cache
  well formed: each tenant is filed under its own id, at most once.
\<close>

theorem tenant_cache_invariant:
  assumes "tenant_cache_ok s"
  shows "tenant_cache_ok (snd (get_tenant db tid s)) \<and>
    tenant_cache_ok (snd (get_tenant_by_domain dbd domain s)) \<and>
    tenant_cache_ok (snd (get_db_connection db tid s)) \<and>
    tenant_cache_ok (handle_update parse m s)"
proof -
  have g: "tenant_cache_ok (snd (get_tenant db tid s))"
    using assms by (auto simp: get_tenant_def split: option.split)
  moreover have "tenant_cache_ok (snd (get_tenant_by_domain dbd domain s))"
    using assms by (auto simp: get_tenant_by_domain_def Let_def split: option.split sum.split)
  moreover have "tenant_cache_ok (handle_update parse m s)"
    using assms by (auto simp: handle_update_def apply_update_message_def Let_def split: option.split)
  moreover have "snd (get_db_connection db tid s) = snd (get_tenant db tid s)"
    by (simp add: get_db_connection_def split: prod.split)
  ultimately show ?thesis by simp
qed

theorem tenant_cache_invariant_witness:
  "tenant_cache_ok (snd (get_tenant (\<lambda>_. Inr (Some default_tenant)) ''t1'' new_tenant_service)) \<and>
   tenant_cache_ok (snd (get_tenant_by_domain (\<lambda>_. Inl OtherError) ''x.org'' new_tenant_service)) \<and>
   tenant_cache_ok (snd (get_db_connection (\<lambda>_. Inr None) ''t1'' new_tenant_service)) \<and>
   tenant_cache_ok (handle_update (\<lambda>_. None) [] new_tenant_service)"
  using tenant_cache_invariant [of new_tenant_service]
  by (simp add: tenant_cache_ok_def new_tenant_service_def)

text \<open>
  The root tenant that consumers read from the cache is a cached tenant marked root, under its
  own id, and none is reported only when no cached tenant is marked root.
\<close>

theorem root_tenant_is_cached:
  assumes "tenant_cache_ok s"
  shows "case get_root_tenant_id s of
      None \<Rightarrow> \<forall>k t. cached_tenant k s = Some t \<longrightarrow> \<not> t_is_root_tenant t
    | Some k \<Rightarrow> \<exists>t. cached_tenant k s = Some t \<and> t_is_root_tenant t"
proof -
  have e: "cached_tenant k s = Some t \<longleftrightarrow> (k, t) \<in> set (tenant_cache s)" for k t
    using assms by (simp add: cached_tenant_def tenant_cache_ok_def is_pydict_def map_of_eq_Some_iff)
  have i: "(k, t) \<in> set (tenant_cache s) \<Longrightarrow> t_tenant_id t = k" for k t
    using assms by (auto simp: tenant_cache_ok_def list_all_iff)
  show ?thesis
  proof (cases "List.find t_is_root_tenant (map snd (tenant_cache s))")
    case None
    then have "\<forall>x \<in> set (tenant_cache s). \<not> t_is_root_tenant (snd x)" by (auto simp: find_None_iff)
    then show ?thesis unfolding get_root_tenant_id_def None by (auto simp: e)
  next
    case (Some t)
    then obtain k where "(k, t) \<in> set (tenant_cache s)" "t_is_root_tenant t"
      by (auto simp: find_Some_iff in_set_conv_nth) (metis nth_mem prod.collapse)
    with Some show ?thesis using i [of k t] by (auto simp: get_root_tenant_id_def e)
  qed
qed

theorem root_tenant_is_cached_witness:
  "case get_root_tenant_id (cache_tenant ''r'' (default_tenant\<lparr>t_tenant_id := ''r'', t_is_root_tenant := True\<rparr>) new_tenant_service) of
      None \<Rightarrow> False
    | Some k \<Rightarrow> k = ''r''"
  using root_tenant_is_cached [of "cache_tenant ''r'' (default_tenant\<lparr>t_tenant_id := ''r'', t_is_root_tenant := True\<rparr>) new_tenant_service"]
  by (simp add: tenant_cache_ok_def cache_tenant_def new_tenant_service_def get_root_tenant_id_def)

section \<open>Updates take effect\<close>

lemma action_normal [simp]:
  "py_lower (py_strip ACTION_REMOVE) = ACTION_REMOVE" "py_lower (py_strip ACTION_UPSERT) = ACTION_UPSERT"
  "ACTION_UPSERT \<noteq> ACTION_REMOVE" "ACTION_REMOVE \<noteq> ACTION_UPSERT"
  by (simp_all add: ACTION_REMOVE_def ACTION_UPSERT_def str_defs)

lemma normalize_cache_update_SomeD:
  assumes "normalize_cache_update u = Some n"
  obtains k where "um_tenant_id n = Some k" and "\<not> blank k" and "um_action n = ACTION_REMOVE"
  | t where "um_action n = ACTION_UPSERT" and "um_tenant n = Some t" and "t_tenant_id t \<noteq> []"
      and "um_tenant_id n = Some (t_tenant_id t)"
  using assms
  by (auto simp: normalize_cache_update_def resolve_tenant_id_def Let_def split: if_splits option.splits)

text \<open>What a service applies is what another normalises again: publishing loses nothing.\<close>

lemma normalize_cache_update_idem:
  "normalize_cache_update u = Some n \<Longrightarrow> normalize_cache_update n = Some n"
  by (erule normalize_cache_update_SomeD)
    (auto simp: normalize_cache_update_def resolve_tenant_id_def Let_def)

text \<open>
  A valid update message takes effect at once and only on its tenant: after an upsert of an enabled
  tenant every read returns that tenant whatever the database holds; after a removal, or an upsert
  that disables the tenant, the next read comes from the database; no other entry changes.
\<close>

theorem tenant_update_takes_effect:
  assumes "parse m = Some u" and "normalize_cache_update u = Some n" and "um_tenant_id n = Some k"
  shows "fst (get_tenant db k (handle_update parse m s)) =
      (case um_tenant n of
         Some t \<Rightarrow> if um_action n = ACTION_UPSERT \<and> \<not> t_is_disabled t then Some t
                   else load_tenant_from_db db k
       | None \<Rightarrow> load_tenant_from_db db k) \<and>
    (\<forall>j. j \<noteq> k \<longrightarrow> cached_tenant j (handle_update parse m s) = cached_tenant j s)"
  using assms(2)
proof (cases rule: normalize_cache_update_SomeD)
  case (1 k')
  then have k: "k' = k" "k \<noteq> []" using assms(3) by (auto simp: blank_def)
  have "handle_update parse m s = uncache_tenant k s"
    using assms 1 k by (simp add: handle_update_def apply_update_message_def)
  then show ?thesis using 1 k by (simp add: get_tenant_result tenants.lookup_drop split: option.split)
next
  case (2 t)
  then have k: "t_tenant_id t = k" "k \<noteq> []" using assms(3) by auto
  have "handle_update parse m s = (if t_is_disabled t then uncache_tenant k s else cache_tenant k t s)"
    using assms 2 k by (simp add: handle_update_def apply_update_message_def)
  then show ?thesis using 2 k by (simp add: get_tenant_result tenants.lookup_drop tenants.lookup_store)
qed

theorem tenant_update_takes_effect_witness:
  "fst (get_tenant (\<lambda>_. Inr (Some default_tenant)) ''t1''
      (handle_update (\<lambda>_. Some \<lparr>um_tenant = Some (default_tenant\<lparr>t_tenant_id := ''t1'', t_db_name := ''d''\<rparr>), um_tenant_id = None,
          um_action = '' Upsert''\<rparr>) [] new_tenant_service)) =
    Some (default_tenant\<lparr>t_tenant_id := ''t1'', t_db_name := ''d''\<rparr>)"
proof -
  let ?t = "default_tenant\<lparr>t_tenant_id := ''t1'', t_db_name := ''d''\<rparr>"
  let ?u = "\<lparr>um_tenant = Some ?t, um_tenant_id = None, um_action = '' Upsert''\<rparr>"
  have "normalize_cache_update ?u = Some (?u\<lparr>um_action := ACTION_UPSERT, um_tenant_id := Some ''t1''\<rparr>)"
    by (simp add: normalize_cache_update_def ACTION_UPSERT_def ACTION_REMOVE_def str_defs Let_def py_eval)
  from tenant_update_takes_effect [of "\<lambda>_. Some ?u" "[]" ?u, OF _ this, of "''t1''"] show ?thesis
    by (simp add: default_tenant_def)
qed

end
