(* ===== verification/Provider_Selector.thy ===== *)
theory Provider_Selector
  imports Third_Party_Provider "HOL-Library.Multiset"
begin

text \<open>
  \<^verbatim>\<open>_auth/third_party_selector.py\<close>: which configured provider a token belongs to.
  The operations \<open>select\<close> and \<open>narrow\<close> follow the code branch by branch; \<open>eligible\<close> is the
  abstract rule behind them (the issuer lane, then the audience), and \<open>select_outcome\<close> the contract
  they refine. The lemmas show that the two issuer lanes never mix, that the
  \<^verbatim>\<open>x-blocks-idp\<close> header is consulted only between indistinguishable providers,
  and that the order of the stored rows is irrelevant.
\<close>

datatype selection_outcome =
    SELECTED
  | NO_PROVIDERS
  | ISSUER_UNMATCHED
  | AUDIENCE_UNMATCHED
  | AMBIGUOUS_NO_HEADER
  | AMBIGUOUS_HEADER_UNMATCHED
  | ISSUER_ABSENT_UNMATCHED

record selection =
  s_provider :: "provider option"
  s_outcome :: selection_outcome
  s_candidate_count :: nat

definition is_selected :: "selection \<Rightarrow> bool" where
  "is_selected r \<longleftrightarrow> s_provider r \<noteq> None"

definition audience_matches :: "provider \<Rightarrow> string list option \<Rightarrow> bool" where
  "audience_matches p audiences =
     (if p_audiences p = [] then True
      else case audiences of None \<Rightarrow> False
      | Some as \<Rightarrow> as \<noteq> [] \<and> list_ex (\<lambda>a. a \<in> set (p_audiences p)) as)"

definition narrow :: "provider list \<Rightarrow> string list option \<Rightarrow> string option \<Rightarrow> selection" where
  "narrow matched audiences header_key =
     (let candidates = filter (\<lambda>p. audience_matches p audiences) matched in
      if candidates = [] then \<lparr>s_provider = None, s_outcome = AUDIENCE_UNMATCHED, s_candidate_count = length matched\<rparr>
      else if length candidates = 1 then
        \<lparr>s_provider = Some (hd candidates), s_outcome = SELECTED, s_candidate_count = 1\<rparr>
      else case header_key of
        None \<Rightarrow> \<lparr>s_provider = None, s_outcome = AMBIGUOUS_NO_HEADER, s_candidate_count = length candidates\<rparr>
      | Some key \<Rightarrow>
          if blank key then
            \<lparr>s_provider = None, s_outcome = AMBIGUOUS_NO_HEADER, s_candidate_count = length candidates\<rparr>
          else case List.find (\<lambda>p. p_key p = key) candidates of
            None \<Rightarrow> \<lparr>s_provider = None, s_outcome = AMBIGUOUS_HEADER_UNMATCHED, s_candidate_count = length candidates\<rparr>
          | Some p \<Rightarrow> \<lparr>s_provider = Some p, s_outcome = SELECTED, s_candidate_count = length candidates\<rparr>)"

definition absent_or_blank :: "string option \<Rightarrow> bool" where
  "absent_or_blank s = (case s of None \<Rightarrow> True | Some t \<Rightarrow> blank t)"

definition select ::
  "provider list option \<Rightarrow> string option \<Rightarrow> string list option \<Rightarrow> string option \<Rightarrow> selection" where
  "select providers issuer audiences header_key =
     (case providers of
        None \<Rightarrow> \<lparr>s_provider = None, s_outcome = NO_PROVIDERS, s_candidate_count = 0\<rparr>
      | Some ps \<Rightarrow>
          if ps = [] then \<lparr>s_provider = None, s_outcome = NO_PROVIDERS, s_candidate_count = 0\<rparr>
          else if absent_or_blank issuer then
            (let issuerless = filter (\<lambda>p. blank (p_issuer p)) ps in
             if issuerless = [] then
               \<lparr>s_provider = None, s_outcome = ISSUER_ABSENT_UNMATCHED, s_candidate_count = 0\<rparr>
             else narrow issuerless audiences header_key)
          else
            (let by_issuer = filter (\<lambda>p. Some (p_issuer p) = issuer) ps in
             if by_issuer = [] then
               \<lparr>s_provider = None, s_outcome = ISSUER_UNMATCHED, s_candidate_count = 0\<rparr>
             else narrow by_issuer audiences header_key))"

section \<open>The rule behind it\<close>

text \<open>A provider may receive a token when both name the same issuer, or neither names one, and the
  audience is accepted.\<close>

definition issuer_lane :: "string option \<Rightarrow> provider \<Rightarrow> bool" where
  "issuer_lane issuer p \<longleftrightarrow>
     (if absent_or_blank issuer then blank (p_issuer p) else Some (p_issuer p) = issuer)"

definition eligible :: "provider list \<Rightarrow> string option \<Rightarrow> string list option \<Rightarrow> provider list" where
  "eligible ps issuer audiences =
     filter (\<lambda>p. issuer_lane issuer p \<and> audience_matches p audiences) ps"

text \<open>Among the eligible providers: one is chosen as it is, several are told apart by the key the
  header names, none is refused.\<close>

definition pick :: "provider list \<Rightarrow> string option \<Rightarrow> provider option" where
  "pick cs header_key =
     (case cs of [] \<Rightarrow> None
      | [p] \<Rightarrow> Some p
      | _ \<Rightarrow> if absent_or_blank header_key then None
             else List.find (\<lambda>p. Some (p_key p) = header_key) cs)"

lemma narrow_provider:
  "s_provider (narrow ms audiences header) = pick (filter (\<lambda>p. audience_matches p audiences) ms) header"
  by (auto simp: narrow_def pick_def Let_def absent_or_blank_def length_Suc_conv
      split: list.splits option.splits)

lemma narrow_selected_iff: "is_selected (narrow ms audiences header) \<longleftrightarrow> s_outcome (narrow ms audiences header) = SELECTED"
  by (auto simp: narrow_def is_selected_def Let_def split: option.splits)

lemma select_by_lane:
  "select (Some ps) issuer audiences header =
     (if ps = [] then \<lparr>s_provider = None, s_outcome = NO_PROVIDERS, s_candidate_count = 0\<rparr>
      else if filter (issuer_lane issuer) ps = [] then
        \<lparr>s_provider = None,
         s_outcome = (if absent_or_blank issuer then ISSUER_ABSENT_UNMATCHED else ISSUER_UNMATCHED),
         s_candidate_count = 0\<rparr>
      else narrow (filter (issuer_lane issuer) ps) audiences header)"
  by (auto simp: select_def issuer_lane_def [abs_def] Let_def)

lemma select_provider_eq:
  "s_provider (select (Some ps) issuer audiences header) = pick (eligible ps issuer audiences) header"
proof (cases "filter (issuer_lane issuer) ps = []")
  case True
  then have "eligible ps issuer audiences = []" by (auto simp: filter_empty_conv eligible_def)
  with True show ?thesis by (auto simp: select_by_lane pick_def)
next
  case False
  then show ?thesis by (auto simp: select_by_lane narrow_provider eligible_def)
qed

lemma select_selected_iff:
  "s_outcome (select (Some ps) issuer audiences header) = SELECTED \<longleftrightarrow>
   is_selected (select (Some ps) issuer audiences header)"
proof (cases "ps = [] \<or> filter (issuer_lane issuer) ps = []")
  case True
  then show ?thesis by (auto simp: select_by_lane is_selected_def)
next
  case False
  then show ?thesis by (simp add: select_by_lane narrow_selected_iff)
qed

lemma pick_alt:
  "pick cs h = (if length cs = 1 then Some (hd cs)
     else if absent_or_blank h then None else List.find (\<lambda>p. Some (p_key p) = h) cs)"
  by (auto simp: pick_def split: list.splits)

lemma pick_Nil [simp]: "pick [] h = None"
  by (simp add: pick_def)

lemma pick_SomeD: "pick cs h = Some p \<Longrightarrow> p \<in> set cs \<and> (cs = [p] \<or> h = Some (p_key p) \<and> \<not> blank (p_key p))"
  by (auto simp: pick_def absent_or_blank_def find_Some_iff split: list.splits if_splits option.splits)


text \<open>
  The issuer lanes never mix: a provider picked for a token that names an issuer declares exactly
  that issuer, and one picked for a token without an issuer declares none; in both cases it is one of
  the tenant's rows and accepts the token's audience.
\<close>

theorem select_respects_issuer_lane:
  assumes "s_provider (select (Some ps) issuer audiences header) = Some p"
  shows "p \<in> set ps \<and> audience_matches p audiences \<and>
    (if absent_or_blank issuer then blank (p_issuer p) else issuer = Some (p_issuer p))"
  using pick_SomeD [OF assms [unfolded select_provider_eq]]
  by (auto simp: eligible_def issuer_lane_def split: if_splits)

definition auth0_provider :: "string \<Rightarrow> provider" where
  "auth0_provider key = default_provider\<lparr>p_key := key, p_is_active := True,
     p_issuer := ''https://abc.auth0.com/'', p_audiences := [''api'']\<rparr>"

lemmas selector_eval = select_def narrow_def audience_matches_def absent_or_blank_def blank_def
  py_strip_def py_rstrip_def py_lstrip_def is_space_def auth0_provider_def default_provider_def

theorem select_respects_issuer_lane_witness:
  "s_provider (select (Some [auth0_provider ''a'']) (Some ''https://abc.auth0.com/'') (Some [''api'']) None)
     = Some (auth0_provider ''a'') \<and> Some ''https://abc.auth0.com/'' = Some (p_issuer (auth0_provider ''a''))"
proof -
  have "s_provider (select (Some [auth0_provider ''a'']) (Some ''https://abc.auth0.com/'') (Some [''api'']) None)
     = Some (auth0_provider ''a'')"
    by (simp add: selector_eval)
  from this select_respects_issuer_lane [OF this] show ?thesis
    by (simp add: selector_eval)
qed

text \<open>
  The client's header decides only between indistinguishable providers: when a single provider is
  eligible it is selected whatever the header says, and a header never makes a provider eligible that
  issuer and audience exclude.
\<close>

theorem header_only_breaks_ties:
  assumes "eligible ps issuer audiences = [p]"
  shows "s_provider (select (Some ps) issuer audiences header) = Some p"
  by (simp add: select_provider_eq assms pick_def)

theorem header_only_breaks_ties_witness:
  "s_provider (select (Some [auth0_provider ''a'', default_provider]) (Some ''https://abc.auth0.com/'')
      (Some [''api'']) (Some ''someone-else'')) = Some (auth0_provider ''a'')"
  by (rule header_only_breaks_ties)
     (simp add: eligible_def issuer_lane_def selector_eval)

lemma find_unique_key:
  assumes "mset cs = mset cs'" and "distinct (map p_key cs)"
  shows "List.find (\<lambda>p. Some (p_key p) = h) cs = List.find (\<lambda>p. Some (p_key p) = h) cs'"
proof -
  have uniq: "p = q" if "p \<in> set ds" "q \<in> set ds" "p_key p = p_key q" "set ds = set cs" for p q ds
    using assms(2) that by (auto simp: distinct_map dest: inj_onD)
  have set_eq: "set cs = set cs'" using assms(1) by (rule mset_eq_setD)
  have "List.find (\<lambda>p. Some (p_key p) = h) ds =
      (if \<exists>p \<in> set ds. Some (p_key p) = h then Some (THE p. p \<in> set ds \<and> Some (p_key p) = h) else None)"
    if "set ds = set cs" for ds
    by (rule find_eq_the) (metis option.inject uniq that)
  from this [of cs] this [of cs'] set_eq show ?thesis by simp
qed

lemma pick_permutation:
  assumes "mset cs = mset cs'" and "distinct (map p_key cs)"
  shows "pick cs h = pick cs' h"
proof -
  have len: "length cs = length cs'" using assms(1) by (rule mset_eq_length)
  have "hd cs = hd cs'" if "length cs = 1"
    using that len assms(1) by (auto simp: length_Suc_conv)
  then show ?thesis
    using len find_unique_key [OF assms, of h] by (simp add: pick_alt)
qed

text \<open>
  The order in which the tenant's rows come back from the database does not matter: with unique
  keys, any permutation of the rows selects the same provider.
\<close>

theorem select_order_irrelevant:
  assumes "mset ps = mset ps'" and "distinct (map p_key ps)"
  shows "s_provider (select (Some ps) issuer audiences header) =
         s_provider (select (Some ps') issuer audiences header)"
proof -
  have "mset (eligible ps issuer audiences) = mset (eligible ps' issuer audiences)"
    using assms(1) by (simp add: eligible_def)
  moreover have "distinct (map p_key (eligible ps issuer audiences))"
    using assms(2) by (simp add: eligible_def distinct_map_filter)
  ultimately show ?thesis unfolding select_provider_eq by (rule pick_permutation)
qed

theorem select_order_irrelevant_witness:
  "s_provider (select (Some [auth0_provider ''a'', auth0_provider ''b'']) (Some ''https://abc.auth0.com/'')
      (Some [''api'']) (Some ''b'')) =
   s_provider (select (Some [auth0_provider ''b'', auth0_provider ''a'']) (Some ''https://abc.auth0.com/'')
      (Some [''api'']) (Some ''b''))"
  by (rule select_order_irrelevant) (simp_all add: auth0_provider_def default_provider_def)

end
