(* ===== verification/Provider_Store.thy ===== *)
theory Provider_Store
  imports Complex_Main Provider_Selector Read_Through
begin

text \<open>
  \<^verbatim>\<open>_auth/third_party_provider_store.py\<close>: a tenant's active providers, kept for
  sixty seconds. Times are readings of the monotonic clock in seconds; the database is a parameter
  that returns the rows of the query, already built into providers, or fails. The table of loads in
  progress is the one of \<open>Single_Flight\<close>; here one call runs at a time.
\<close>

record provider_store =
  ps_cache :: "(string \<times> provider list \<times> real) list"

definition CACHE_LIFETIME_SECONDS :: real where
  "CACHE_LIFETIME_SECONDS = 60"

definition new_provider_store :: provider_store where
  "new_provider_store = \<lparr>ps_cache = []\<rparr>"

definition fresh_providers :: "real \<Rightarrow> string \<Rightarrow> provider_store \<Rightarrow> provider list option" where
  "fresh_providers now tid s =
     (case map_of (ps_cache s) tid of
        None \<Rightarrow> None
      | Some (ps, read_at) \<Rightarrow> if now - read_at \<le> CACHE_LIFETIME_SECONDS then Some ps else None)"

definition keep_providers :: "real \<Rightarrow> string \<Rightarrow> provider list \<Rightarrow> provider_store \<Rightarrow> provider_store" where
  "keep_providers now tid ps s = s\<lparr>ps_cache := AList.update tid (ps, now) (ps_cache s)\<rparr>"

definition drop_providers :: "string \<Rightarrow> provider_store \<Rightarrow> provider_store" where
  "drop_providers tid s = s\<lparr>ps_cache := AList.delete tid (ps_cache s)\<rparr>"

definition load_providers :: "(string \<Rightarrow> py_exn + provider list) \<Rightarrow> string \<Rightarrow> provider list" where
  "load_providers db tid = (case db tid of Inl _ \<Rightarrow> [] | Inr ps \<Rightarrow> ps)"

text \<open>\<open>now\<close> is the clock when the cache is read, \<open>later\<close> when the loaded list is filed.\<close>

definition get_active ::
  "(string \<Rightarrow> py_exn + provider list) \<Rightarrow> real \<Rightarrow> real \<Rightarrow> string \<Rightarrow> provider_store
    \<Rightarrow> provider list \<times> provider_store" where
  "get_active db now later tid s =
     (if blank tid then ([], s)
      else case fresh_providers now tid s of
        Some ps \<Rightarrow> (ps, s)
      | None \<Rightarrow> let ps = load_providers db tid in (ps, keep_providers later tid ps s))"

definition invalidate_providers :: "string \<Rightarrow> provider_store \<Rightarrow> provider_store" where
  "invalidate_providers tid s = (if \<not> blank tid then drop_providers tid s else s)"

interpretation providers: read_through "fresh_providers now" "keep_providers now" drop_providers
  for now :: real
  by unfold_locales
    (simp_all add: fresh_providers_def keep_providers_def drop_providers_def CACHE_LIFETIME_SECONDS_def)

lemma get_active_fetch:
  "\<not> blank tid \<Longrightarrow>
   (Some (fst (get_active db now now tid s)), snd (get_active db now now tid s)) =
     providers.fetch now (\<lambda>k. Some (load_providers db k)) tid s"
  by (auto simp: get_active_def providers.fetch_def Let_def split: option.split)

text \<open>
  C28. A tenant's providers are at most sixty seconds old: a read within that time of the last load
  repeats its result, a later read, or the first after an invalidation, is what the database holds
  then, and no other tenant's providers are touched.
\<close>

theorem providers_bounded_staleness:
  assumes "\<not> blank tid" and "get_active db now later tid s = (ps, s')" and "fresh_providers now tid s = None"
  shows "ps = load_providers db tid \<and>
    fst (get_active db2 t later2 tid s') =
      (if t - later \<le> 60 then ps else load_providers db2 tid) \<and>
    fst (get_active db2 t later2 tid (invalidate_providers tid s')) = load_providers db2 tid \<and>
    (k \<noteq> tid \<longrightarrow> fresh_providers t k s' = fresh_providers t k s)"
proof -
  have s': "ps = load_providers db tid" "s' = keep_providers later tid ps s"
    using assms by (auto simp: get_active_def Let_def)
  have "fresh_providers t tid s' = (if t - later \<le> 60 then Some ps else None)"
    by (simp add: s'(2) fresh_providers_def keep_providers_def CACHE_LIFETIME_SECONDS_def)
  moreover have "fresh_providers t tid (invalidate_providers tid s') = None"
    using assms(1) by (simp add: invalidate_providers_def providers.lookup_drop)
  moreover have "k \<noteq> tid \<Longrightarrow> fresh_providers t k s' = fresh_providers t k s"
    by (simp add: s'(2) fresh_providers_def keep_providers_def)
  ultimately show ?thesis using assms(1) s'(1) by (simp add: get_active_def Let_def)
qed

theorem providers_bounded_staleness_witness:
  "fst (get_active (\<lambda>_. Inr [auth0_provider ''b'']) 50 50 ''t1''
      (snd (get_active (\<lambda>_. Inr [auth0_provider ''a'']) 1 2 ''t1'' new_provider_store))) = [auth0_provider ''a''] \<and>
   fst (get_active (\<lambda>_. Inr [auth0_provider ''b'']) 63 64 ''t1''
      (snd (get_active (\<lambda>_. Inr [auth0_provider ''a'']) 1 2 ''t1'' new_provider_store))) = [auth0_provider ''b'']"
proof -
  let ?db = "\<lambda>_. Inr [auth0_provider ''a'']"
  have b: "\<not> blank ''t1''" and n: "fresh_providers 1 ''t1'' new_provider_store = None"
    by (simp_all add: blank_iff is_space_def Let_def fresh_providers_def new_provider_store_def)
  note th = providers_bounded_staleness [OF b prod.collapse [symmetric] n, of ?db 2 "\<lambda>_. Inr [auth0_provider ''b'']"]
  show ?thesis using th [of 50 50] th [of 63 64] by (simp add: load_providers_def)
qed

text \<open>
  An outage of the store fails closed: the read does not raise, it yields no provider, so no token
  is matched to any, whatever its issuer, audience and header say.
\<close>

theorem unreachable_store_selects_nothing:
  assumes "db tid = Inl e" and "fresh_providers now tid s = None"
  shows "fst (get_active db now later tid s) = [] \<and>
    \<not> is_selected (select (Some (fst (get_active db now later tid s))) issuer audiences header_key)"
  using assms by (simp add: get_active_def load_providers_def Let_def select_def is_selected_def)

theorem unreachable_store_selects_nothing_witness:
  "\<not> is_selected (select (Some (fst (get_active (\<lambda>_. Inl OtherError) 1 2 ''t1'' new_provider_store)))
      (Some ''https://auth0'') None (Some ''a''))"
  by (rule conjunct2 [OF unreachable_store_selects_nothing])
    (simp_all add: fresh_providers_def new_provider_store_def)

end
