(* ===== verification/Crypto_Service.thy ===== *)
theory Crypto_Service
  imports Py_Values "HOL-Library.Word"
begin

text \<open>
  \<^verbatim>\<open>_utilities/crypto_service.py\<close>: hashes, the constant-time comparison and the
  versioned AES-GCM envelope that holds a provider's secrets, with the UTF-8 and Base64 codecs it
  uses. SHA-256, HMAC and AES-GCM are parameters; \<open>aead_ok\<close> states what the code relies on, that
  opening what was sealed under the same key and nonce returns it, and that a sealed box carries its
  tag. Strict Base64 decoding follows \<^verbatim>\<open>binascii.a2b_base64\<close> in strict mode,
  which accepts padding characters after a complete group.
\<close>

type_synonym bytes = "8 word list"

section \<open>UTF-8\<close>

definition utf8_char :: "char \<Rightarrow> bytes" where
  "utf8_char c = (let n = code c in
     if n < 128 then [of_nat n] else [of_nat (192 + n div 64), of_nat (128 + n mod 64)])"

definition utf8_encode :: "string \<Rightarrow> bytes" where
  "utf8_encode s = concat (map utf8_char s)"

definition is_cont :: "8 word \<Rightarrow> bool" where
  "is_cont b \<longleftrightarrow> 128 \<le> unat b \<and> unat b < 192"

text \<open>Prepend a decoded code point; one above 255 takes the text out of the model, unless what
  follows is not UTF-8, which raises.\<close>

definition utf8_put :: "char option \<Rightarrow> py_exn + string \<Rightarrow> py_exn + string" where
  "utf8_put c r = (case r of Inl e \<Rightarrow> Inl e
     | Inr s \<Rightarrow> (case c of None \<Rightarrow> Inl Unmodelled | Some x \<Rightarrow> Inr (x # s)))"

definition utf8_put_wide :: "py_exn + string \<Rightarrow> py_exn + string" where
  "utf8_put_wide r = (if r = Inl UnicodeDecodeError then r else Inl Unmodelled)"

fun utf8_decode :: "bytes \<Rightarrow> py_exn + string" where
  "utf8_decode [] = Inr []"
| "utf8_decode (a # r) =
     (let n = unat a in
      if n < 128 then utf8_put (Some (char_of n)) (utf8_decode r)
      else if n < 194 then Inl UnicodeDecodeError
      else if n < 224 then
        (case r of
           b # r' \<Rightarrow> if is_cont b
                     then (if n < 196 then utf8_put (Some (char_of (64 * (n - 192) + (unat b - 128)))) (utf8_decode r')
                           else utf8_put_wide (utf8_decode r'))
                     else Inl UnicodeDecodeError
         | _ \<Rightarrow> Inl UnicodeDecodeError)
      else if n < 240 then
        (case r of
           b # c # r' \<Rightarrow> if is_cont b \<and> is_cont c \<and> (n = 224 \<longrightarrow> 160 \<le> unat b) \<and> (n = 237 \<longrightarrow> unat b < 160)
                         then utf8_put_wide (utf8_decode r') else Inl UnicodeDecodeError
         | _ \<Rightarrow> Inl UnicodeDecodeError)
      else if n < 245 then
        (case r of
           b # c # d # r' \<Rightarrow> if is_cont b \<and> is_cont c \<and> is_cont d \<and> (n = 240 \<longrightarrow> 144 \<le> unat b) \<and> (n = 244 \<longrightarrow> unat b < 144)
                             then utf8_put_wide (utf8_decode r') else Inl UnicodeDecodeError
         | _ \<Rightarrow> Inl UnicodeDecodeError)
      else Inl UnicodeDecodeError)"

section \<open>Base64\<close>

definition b64_char :: "nat \<Rightarrow> char" where
  "b64_char n =
     (if n < 26 then chr (65 + n) else if n < 52 then chr (71 + n)
      else if n < 62 then chr (n - 4) else if n = 62 then CHR ''+'' else CHR ''/'')"

definition b64_value :: "char \<Rightarrow> nat option" where
  "b64_value c = (let n = code c in
     if 65 \<le> n \<and> n \<le> 90 then Some (n - 65)
     else if 97 \<le> n \<and> n \<le> 122 then Some (n - 71)
     else if 48 \<le> n \<and> n \<le> 57 then Some (n + 4)
     else if n = 43 then Some 62 else if n = 47 then Some 63 else None)"

fun b64_encode :: "bytes \<Rightarrow> string" where
  "b64_encode [] = []"
| "b64_encode [a] = (let n = unat a in
     [b64_char (n div 4), b64_char (n mod 4 * 16), CHR ''='', CHR ''=''])"
| "b64_encode [a, b] = (let n = unat a * 256 + unat b in
     [b64_char (n div 1024), b64_char (n div 16 mod 64), b64_char (n mod 16 * 4), CHR ''=''])"
| "b64_encode (a # b # c # r) = (let n = (unat a * 256 + unat b) * 256 + unat c in
     b64_char (n div 262144) # b64_char (n div 4096 mod 64) # b64_char (n div 64 mod 64) #
     b64_char (n mod 64) # b64_encode r)"

fun b64_groups :: "string \<Rightarrow> bytes option" where
  "b64_groups s =
     (if list_all (\<lambda>c. c = CHR ''='') s then Some []
      else case s of
        a # b # c # d # r \<Rightarrow>
          (case (b64_value a, b64_value b, b64_value c, b64_value d) of
             (Some i, Some j, Some k, Some l) \<Rightarrow>
               (let n = ((i * 64 + j) * 64 + k) * 64 + l in
                map_option (\<lambda>bs. of_nat (n div 65536) # of_nat (n div 256 mod 256) # of_nat (n mod 256) # bs)
                  (b64_groups r))
           | (Some i, Some j, Some k, None) \<Rightarrow>
               (if d = CHR ''='' \<and> r = [] then
                  let n = ((i * 64 + j) * 64 + k) div 4 in Some [of_nat (n div 256), of_nat (n mod 256)]
                else None)
           | (Some i, Some j, None, None) \<Rightarrow>
               (if c = CHR ''='' \<and> d = CHR ''='' \<and> r = [] then Some [of_nat ((i * 64 + j) div 16)] else None)
           | _ \<Rightarrow> None)
      | _ \<Rightarrow> None)"

declare b64_groups.simps [simp del]

definition b64_decode :: "string \<Rightarrow> bytes option" where
  "b64_decode s = (case s of [] \<Rightarrow> Some [] | c # r \<Rightarrow> if c = CHR ''='' then None else b64_groups s)"

section \<open>Hashes\<close>

definition hex_of :: "bytes \<Rightarrow> string" where
  "hex_of bs = hex_bytes (map unat bs)"

definition hash_bytes :: "(bytes \<Rightarrow> bytes) \<Rightarrow> bytes \<Rightarrow> bool \<Rightarrow> string" where
  "hash_bytes sha256 value make_base64 =
     (if make_base64 then b64_encode (sha256 value) else py_lower (hex_of (sha256 value)))"

definition or_blank :: "string option \<Rightarrow> string" where
  "or_blank s = (case s of None \<Rightarrow> [] | Some t \<Rightarrow> t)"

definition hash_string :: "(bytes \<Rightarrow> bytes) \<Rightarrow> string \<Rightarrow> string option \<Rightarrow> string" where
  "hash_string sha256 value salt = hash_bytes sha256 (utf8_encode value @ utf8_encode (or_blank salt)) False"

definition compute_hmac_sha256 ::
  "(bytes \<Rightarrow> bytes \<Rightarrow> bytes) \<Rightarrow> string option \<Rightarrow> string option \<Rightarrow> bool \<Rightarrow> string" where
  "compute_hmac_sha256 hmac message key make_base64 =
     (let h = hmac (utf8_encode (or_blank key)) (utf8_encode (or_blank message)) in
      if make_base64 then b64_encode h else py_lower (hex_of h))"

definition constant_time_equals :: "string option \<Rightarrow> string option \<Rightarrow> bool" where
  "constant_time_equals l r \<longleftrightarrow> utf8_encode (or_blank l) = utf8_encode (or_blank r)"

section \<open>The envelope\<close>

definition ENVELOPE_V1 :: "8 word" where "ENVELOPE_V1 = 1"
definition NONCE_BYTES :: nat where "NONCE_BYTES = 12"
definition TAG_BYTES :: nat where "TAG_BYTES = 16"

record crypto =
  sha256 :: "bytes \<Rightarrow> bytes"
  aes_seal :: "bytes \<Rightarrow> bytes \<Rightarrow> bytes \<Rightarrow> bytes"
  aes_open :: "bytes \<Rightarrow> bytes \<Rightarrow> bytes \<Rightarrow> bytes option"

definition derive_key :: "crypto \<Rightarrow> string \<Rightarrow> bytes" where
  "derive_key C key_material = sha256 C (utf8_encode key_material)"

text \<open>\<open>nonce\<close> is what \<^verbatim>\<open>os.urandom\<close> drew.\<close>

definition encrypt :: "crypto \<Rightarrow> bytes \<Rightarrow> string option \<Rightarrow> string \<Rightarrow> py_exn + string" where
  "encrypt C nonce plain_text key_material =
     (case plain_text of
        None \<Rightarrow> Inl ValueError
      | Some p \<Rightarrow>
          if blank key_material then Inl ValueError
          else Inr (b64_encode ([ENVELOPE_V1] @ nonce @
                 aes_seal C (derive_key C key_material) nonce (utf8_encode p))))"

definition decrypt :: "crypto \<Rightarrow> string \<Rightarrow> string \<Rightarrow> py_exn + string option" where
  "decrypt C envelope key_material =
     (if blank envelope then Inr None
      else if blank key_material then Inr None
      else case b64_decode envelope of
        None \<Rightarrow> Inr None
      | Some raw \<Rightarrow>
          if length raw < 1 + NONCE_BYTES + TAG_BYTES \<or> hd raw \<noteq> ENVELOPE_V1 then Inr None
          else let nonce = take NONCE_BYTES (drop 1 raw); sealed = drop (1 + NONCE_BYTES) raw in
            (case aes_open C (derive_key C key_material) nonce sealed of
               None \<Rightarrow> Inr None
             | Some plain \<Rightarrow> map_sum id Some (utf8_decode plain)))"

definition aead_ok :: "crypto \<Rightarrow> bool" where
  "aead_ok C \<longleftrightarrow>
     (\<forall>k n p. aes_open C k n (aes_seal C k n p) = Some p) \<and>
     (\<forall>k n p. length (aes_seal C k n p) = length p + 16)"

section \<open>Round trips\<close>

lemma unat_of_nat_byte [simp]: "n < 256 \<Longrightarrow> unat (of_nat n :: 8 word) = n"
  by (simp add: unsigned_of_nat take_bit_nat_eq_self)

lemma byte_bound [simp]: "unat (b :: 8 word) < 256"
  using unsigned_less [of b] by simp

lemma utf8_decode_char: "utf8_decode (utf8_char c @ r) = utf8_put (Some c) (utf8_decode r)"
proof (cases "code c < 128")
  case True
  then show ?thesis by (simp add: utf8_char_def)
next
  case False
  let ?n = "code c"
  have n: "?n div 64 < 4" "2 \<le> ?n div 64" "?n mod 64 < 64"
    using False nat_of_char_less_256 [of c] by (simp_all add: less_mult_imp_div_less div_le_dividend Suc_le_eq div_greater_zero_iff)
  have "utf8_char c = [of_nat (192 + ?n div 64), of_nat (128 + ?n mod 64)]"
    using False by (simp add: utf8_char_def Let_def)
  moreover have "unat (of_nat (192 + ?n div 64) :: 8 word) = 192 + ?n div 64"
    "unat (of_nat (128 + ?n mod 64) :: 8 word) = 128 + ?n mod 64"
    by (rule unat_of_nat_byte; use n in simp)+
  moreover have "char_of (64 * (192 + ?n div 64 - 192) + (128 + ?n mod 64 - 128)) = c" by simp
  ultimately show ?thesis using n by (simp add: is_cont_def Let_def del: of_nat_add)
qed

lemma utf8_round_trip: "utf8_decode (utf8_encode s) = Inr s"
  by (induction s) (simp_all add: utf8_encode_def utf8_decode_char utf8_put_def)

lemma utf8_encode_inj: "utf8_encode s = utf8_encode t \<longleftrightarrow> s = t"
  by (metis utf8_round_trip sum.inject(2))

lemma b64_value_char: "n < 64 \<Longrightarrow> b64_value (b64_char n) = Some n"
  by (auto simp: b64_char_def b64_value_def Let_def)

lemma b64_char_not_pad: "n < 64 \<Longrightarrow> b64_char n \<noteq> CHR ''=''"
  using b64_value_char [of n] by (auto simp: b64_value_def)

lemma b64_value_pad [simp]: "b64_value CHR ''='' = None"
  by (simp add: b64_value_def)

lemma sextets:
  fixes n :: nat
  shows "(n div 64 * 64 + n mod 64) = n" "n div 4096 = n div 64 div 64" "n div 262144 = n div 64 div 64 div 64"
  by (simp_all add: div_mult2_eq [symmetric])

lemma bytes_lt:
  fixes a b c :: nat
  assumes "a < 256" and "b < 256" and "c < 256"
  shows "a * 256 + b < 65536" and "(a * 256 + b) * 256 + c < 16777216"
proof -
  show s: "a * 256 + b < 65536" using assms by linarith
  have "x * 256 + c < 16777216" if "x < 65536" for x :: nat using that assms(3) by linarith
  from this [OF s] show "(a * 256 + b) * 256 + c < 16777216" .
qed

lemma bytes_of:
  fixes b c x :: nat
  assumes "b < 256" and "c < 256"
  shows "(x * 256 + c) div 256 = x" and "(x * 256 + c) mod 256 = c"
    and "((x * 256 + b) * 256 + c) div 65536 = x"
proof -
  show d: "(x * 256 + c) div 256 = x" "(x * 256 + c) mod 256 = c" for x using assms by simp_all
  have "((x * 256 + b) * 256 + c) div 65536 = ((x * 256 + b) * 256 + c) div 256 div 256"
    by (simp only: div_mult2_eq [symmetric]) simp
  also have "\<dots> = x" unfolding d(1) using assms(1) by simp
  finally show "((x * 256 + b) * 256 + c) div 65536 = x" .
qed

lemma quad_sum: "(x :: nat) * 16 + y = n \<Longrightarrow> x * 64 + y * 4 = n * 4"
  by simp

lemma b64_groups_encode: "b64_groups (b64_encode bs) = Some bs"
proof (induction bs rule: b64_encode.induct)
  case 1
  then show ?case by (simp add: b64_groups.simps)
next
  case (2 a)
  let ?n = "unat a"
  have "?n div 4 < 64" "?n mod 4 * 16 < 64" by (simp_all add: less_mult_imp_div_less)
  moreover have "(?n div 4 * 64 + ?n mod 4 * 16) = ?n * 16" using div_mult_mod_eq [of ?n 4] by linarith
  ultimately show ?case by (simp add: b64_groups.simps b64_value_char b64_char_not_pad Let_def)
next
  case (3 a b)
  let ?n = "unat a * 256 + unat b"
  have n: "?n < 65536" using byte_bound [of a] byte_bound [of b] by linarith
  have "?n div 1024 < 64" "?n div 16 mod 64 < 64" "?n mod 16 * 4 < 64" using n by (simp_all add: less_mult_imp_div_less)
  moreover have "?n div 1024 = ?n div 16 div 64" by (simp add: div_mult2_eq [symmetric])
  moreover have "(?n div 16 div 64 * 64 + ?n div 16 mod 64) * 64 + ?n mod 16 * 4 = ?n * 4"
  proof -
    have "?n div 16 * 16 + ?n mod 16 = ?n" by (rule div_mult_mod_eq)
    then show ?thesis unfolding div_mult_mod_eq [of "?n div 16" 64] by (rule quad_sum)
  qed
  moreover have "?n div 256 = unat a" "?n mod 256 = unat b" by simp_all
  ultimately show ?case
    by (simp add: b64_groups.simps b64_value_char b64_char_not_pad Let_def)
next
  case (4 a b c r)
  let ?n = "(unat a * 256 + unat b) * 256 + unat c"
  have n: "?n < 16777216" by (rule bytes_lt) simp_all
  have "?n div 262144 < 64" "?n div 4096 mod 64 < 64" "?n div 64 mod 64 < 64" "?n mod 64 < 64"
    using n by (simp_all add: less_mult_imp_div_less)
  moreover have "((?n div 262144 * 64 + ?n div 4096 mod 64) * 64 + ?n div 64 mod 64) * 64 + ?n mod 64 = ?n"
    using sextets by (simp only: sextets)
  moreover have "?n div 65536 = unat a" "?n div 256 mod 256 = unat b" "?n mod 256 = unat c"
    by (simp_all only: bytes_of [OF byte_bound [of b] byte_bound [of c]]
        bytes_of(2) [OF byte_bound [of b] byte_bound [of b]])
  ultimately show ?case using 4
    by (simp add: b64_groups.simps [of "_ # _"] b64_value_char b64_char_not_pad Let_def)
qed

lemma b64_groups_pad: "b64_groups (CHR ''='' # x) = Some bs \<Longrightarrow> bs = []"
  by (simp add: b64_groups.simps [of "_ # _"] split: if_splits list.splits)

lemma b64_round_trip: "b64_decode (b64_encode bs) = Some bs"
  using b64_groups_encode [of bs] b64_groups_pad
  by (cases "b64_encode bs") (fastforce simp: b64_decode_def b64_groups.simps [of "[]"])+

text \<open>
  C18. What the service encrypts it decrypts: under the same key material, for any nonce of the right
  length, the envelope opens to the text that was sealed.
\<close>

theorem decrypt_encrypt:
  assumes "aead_ok C" and "length nonce = NONCE_BYTES" and "encrypt C nonce (Some p) key = Inr envelope"
  shows "decrypt C envelope key = Inr (Some p)"
proof -
  let ?raw = "[ENVELOPE_V1] @ nonce @ aes_seal C (derive_key C key) nonce (utf8_encode p)"
  have k: "\<not> blank key" and e: "envelope = b64_encode ?raw"
    using assms(3) by (auto simp: encrypt_def split: if_splits)
  have len: "1 + NONCE_BYTES + TAG_BYTES \<le> length ?raw"
    using assms(1,2) by (simp add: aead_ok_def NONCE_BYTES_def TAG_BYTES_def)
  have "\<not> blank envelope"
  proof -
    have b: "\<not> is_space c" if "b64_value c \<noteq> None" for c
      using that by (auto simp: b64_value_def is_space_def Let_def split: if_splits)
    have "b64_decode envelope = Some ?raw" unfolding e by (rule b64_round_trip)
    moreover have "b64_decode s \<noteq> Some ?raw" if "blank s" for s
      using that b len by (cases s) (auto simp: b64_decode_def blank_iff b64_groups.simps [of "_ # _"] is_space_def
        split: if_splits list.splits option.splits)
    ultimately show ?thesis by blast
  qed
  moreover have "aes_open C (derive_key C key) nonce (aes_seal C (derive_key C key) nonce (utf8_encode p)) = Some (utf8_encode p)"
    using assms(1) by (simp add: aead_ok_def)
  ultimately show ?thesis
    using k len assms(2) by (simp add: decrypt_def e b64_round_trip utf8_round_trip)
qed

definition decode_error :: "py_exn + string \<Rightarrow> bool" where
  "decode_error r \<longleftrightarrow> (\<forall>e. r = Inl e \<longrightarrow> e = UnicodeDecodeError \<or> e = Unmodelled)"

lemma decode_error_simps [simp]:
  "decode_error (Inr s)" "decode_error (Inl UnicodeDecodeError)" "decode_error (utf8_put_wide r)"
  "decode_error r \<Longrightarrow> decode_error (utf8_put c r)"
  by (auto simp: decode_error_def utf8_put_wide_def utf8_put_def split: sum.splits option.splits)

lemma utf8_errors: "decode_error (utf8_decode bs)"
  by (induction bs rule: utf8_decode.induct) (simp_all add: Let_def split: list.split)

text \<open>
  A box that is blank, not strict Base64, too short, of another version or not sealed under this
  key opens to nothing without raising; only a box that does open can raise, when its content is not
  UTF-8, and in the model when it has a code point above 255.
\<close>

theorem decrypt_refuses:
  "(decrypt C envelope key = Inr None \<longleftrightarrow>
     blank envelope \<or> blank key \<or>
     (case b64_decode envelope of None \<Rightarrow> True
      | Some raw \<Rightarrow> length raw < 29 \<or> hd raw \<noteq> 1 \<or>
          aes_open C (derive_key C key) (take 12 (drop 1 raw)) (drop 13 raw) = None)) \<and>
   (\<forall>e. decrypt C envelope key = Inl e \<longrightarrow> e = UnicodeDecodeError \<or> e = Unmodelled)"
proof -
  show ?thesis
  proof (cases "blank envelope \<or> blank key \<or> b64_decode envelope = None")
    case True
    then show ?thesis by (auto simp: decrypt_def)
  next
    case False
    then obtain raw where raw: "b64_decode envelope = Some raw" by auto
    let ?open = "aes_open C (derive_key C key) (take 12 (drop 1 raw)) (drop 13 raw)"
    have "decrypt C envelope key =
        (if length raw < 29 \<or> hd raw \<noteq> 1 then Inr None
         else case ?open of None \<Rightarrow> Inr None | Some plain \<Rightarrow> map_sum id Some (utf8_decode plain))"
      using False raw by (simp add: decrypt_def Let_def ENVELOPE_V1_def NONCE_BYTES_def TAG_BYTES_def)
    moreover have "map_sum id Some (utf8_decode bs) \<noteq> Inr None" for bs by (cases "utf8_decode bs") auto
    moreover have "map_sum id Some (utf8_decode bs) = Inl e \<Longrightarrow> e = UnicodeDecodeError \<or> e = Unmodelled" for bs e
      using utf8_errors [of bs] by (cases "utf8_decode bs") (auto simp: decode_error_def)
    ultimately show ?thesis using False raw by (auto split: option.split)
  qed
qed

text \<open>The parameter instantiated: no confidentiality, but the equations hold.\<close>

definition toy_crypto :: crypto where
  "toy_crypto = \<lparr>sha256 = id, aes_seal = (\<lambda>k n p. p @ replicate 16 7),
     aes_open = (\<lambda>k n s. if drop (length s - 16) s = replicate 16 7 then Some (take (length s - 16) s) else None)\<rparr>"

lemma toy_crypto_ok [simp, intro]: "aead_ok toy_crypto"
  by (simp add: aead_ok_def toy_crypto_def)

theorem decrypt_encrypt_witness:
  "\<exists>e. encrypt toy_crypto (replicate 12 3) (Some ''s3cret'') ''salt'' = Inr e \<and>
    decrypt toy_crypto e ''salt'' = Inr (Some ''s3cret'')"
proof -
  have "\<exists>e. encrypt toy_crypto (replicate 12 3) (Some ''s3cret'') ''salt'' = Inr e"
    by (simp add: encrypt_def str_defs)
  then obtain e where e: "encrypt toy_crypto (replicate 12 3) (Some ''s3cret'') ''salt'' = Inr e" ..
  from decrypt_encrypt [OF toy_crypto_ok _ e] e show ?thesis by (simp add: NONCE_BYTES_def)
qed

theorem decrypt_refuses_witness: "decrypt toy_crypto ''A==='' ''salt'' = Inr None"
proof -
  have "b64_decode ''A==='' = None" by (simp add: b64_decode_def b64_groups.simps b64_value_def)
  then have "\<exists>r. b64_decode ''A==='' = r \<and> r = None" by simp
  then show ?thesis using decrypt_refuses [of toy_crypto "''A===''" "''salt''"] by simp
qed

text \<open>
  Decrypting can raise: an envelope that opens under the key to bytes that are not UTF-8 gives a
  \<^verbatim>\<open>UnicodeDecodeError\<close> instead of nothing.
\<close>

theorem decrypt_can_raise:
  "decrypt toy_crypto (b64_encode ([1] @ replicate 12 3 @ [255] @ replicate 16 7)) ''salt'' = Inl UnicodeDecodeError"
proof -
  let ?raw = "[1] @ replicate 12 3 @ [255] @ replicate 16 7"
  have r: "b64_decode (b64_encode ?raw) = Some ?raw" by (rule b64_round_trip)
  have raw: "?raw = 1 # 3 # 3 # (replicate 10 3 @ [255] @ replicate 16 7)" by (simp add: numeral_eq_Suc)
  have "\<not> blank (b64_encode ?raw)"
    unfolding raw by (simp add: blank_iff b64_char_def is_space_def Let_def)
  with r show ?thesis
    by (simp add: decrypt_def toy_crypto_def blank_iff is_space_def NONCE_BYTES_def TAG_BYTES_def ENVELOPE_V1_def)
qed

end
