(* ===== verification/Auth_World.thy ===== *)
theory Auth_World
  imports Ambient Tenant_Service Provider_Store Crypto_Service
begin

text \<open>
  The world the authentication code of \<^verbatim>\<open>_auth/auth.py\<close> runs in: the ambient
  holders, the tenant cache, the provider store, the tenant left on the request's state, and a trace
  of what the code sends out (lines of the security channel without their prose, fetched
  certificates, cache writes, trace properties). Everything outside the program is a field of
  \<open>auth_env\<close>: token decoding and verification (PyJWT), key sets, certificates, the database, the cache
  client, the clock. Also here: the request-scoped wrappers of the tenant service and of the store.
\<close>

section \<open>Effects\<close>

datatype auth_event =
    SecurityLog string bool pydict
  | Fetched string
  | CachePut string bytes int
  | SetProperty string string
  | SetStatus string
  | LogLine string

record auth_world =
  aw_ambient :: ambient
  aw_tenants :: tenant_service
  aw_store :: "provider_store option"
  aw_request_tenant :: "tenant option"
  aw_trace :: "auth_event list"

definition emit :: "auth_event \<Rightarrow> (auth_world, unit) act" where
  "emit e = modify (\<lambda>w. w\<lparr>aw_trace := aw_trace w @ [e]\<rparr>)"

text \<open>\<^verbatim>\<open>security_log(event_name, message, exc, detail, is_warning)\<close>.\<close>

definition security_log :: "string \<Rightarrow> bool \<Rightarrow> pydict \<Rightarrow> (auth_world, unit) act" where
  "security_log event_name is_warning detail = emit (SecurityLog event_name is_warning detail)"

section \<open>The outside\<close>

text \<open>What a verified signature is checked with, and the options given to
  \<^verbatim>\<open>jwt.decode\<close>; \<open>jo_verify_iat\<close> is true unless an option says otherwise.\<close>

datatype verify_key = PublicPem string | SharedSecret string | JwkKey string

record jwt_options =
  jo_algorithms :: "string list"
  jo_issuer :: "string option"
  jo_audience :: "string list option"
  jo_verify_signature :: bool
  jo_verify_exp :: bool
  jo_verify_nbf :: bool
  jo_verify_iat :: bool
  jo_verify_iss :: bool
  jo_verify_aud :: bool
  jo_require :: "string list"
  jo_leeway :: int

type_synonym certificate = string

record cache_client =
  cc_get_bytes :: "string \<Rightarrow> py_exn + bytes option"
  cc_put_bytes :: "string \<Rightarrow> bytes \<Rightarrow> int \<Rightarrow> py_exn + bool"

record auth_env =
  ae_model :: model_env
  ae_float :: "string \<Rightarrow> string"
  ae_crypto :: crypto
  ae_peek :: "string \<Rightarrow> py_exn + pydict"
  ae_verify :: "verify_key \<Rightarrow> jwt_options \<Rightarrow> string \<Rightarrow> py_exn + pydict"
  ae_jwks :: "string \<Rightarrow> string \<Rightarrow> py_exn + string"
  ae_tenant_db :: "string \<Rightarrow> py_exn + tenant option"
  ae_provider_db :: "string \<Rightarrow> py_exn + provider list"
  ae_cache :: "cache_client option"
  ae_http_get :: "string \<Rightarrow> py_exn + bytes"
  ae_read_file :: "string \<Rightarrow> py_exn + bytes"
  ae_pkcs12 :: "bytes \<Rightarrow> bytes option \<Rightarrow> py_exn + certificate option \<times> certificate list"
  ae_x509_pem :: "bytes \<Rightarrow> py_exn + certificate"
  ae_x509_der :: "bytes \<Rightarrow> py_exn + certificate"
  ae_public_pem :: "certificate \<Rightarrow> py_exn + string"
  ae_days_since :: "string \<Rightarrow> py_exn + int"
  ae_now :: real
  ae_later :: real

section \<open>Reading the world\<close>

definition current_context :: "(auth_world, blocks_context option) act" where
  "current_context = gets (\<lambda>w. get_context None (aw_ambient w))"

definition update_ambient :: "(ambient \<Rightarrow> ambient) \<Rightarrow> (auth_world, unit) act" where
  "update_ambient f = modify (\<lambda>w. w\<lparr>aw_ambient := f (aw_ambient w)\<rparr>)"

definition lookup_tenant :: "auth_env \<Rightarrow> string \<Rightarrow> (auth_world, tenant option) act" where
  "lookup_tenant E tid =
     (\<lambda>w. case get_tenant (ae_tenant_db E) tid (aw_tenants w) of (r, s) \<Rightarrow> (Inr r, w\<lparr>aw_tenants := s\<rparr>))"

definition active_providers :: "auth_env \<Rightarrow> string \<Rightarrow> provider_store \<Rightarrow> (auth_world, provider list) act" where
  "active_providers E tid st =
     (\<lambda>w. case get_active (ae_provider_db E) (ae_now E) (ae_later E) tid st of
            (ps, st') \<Rightarrow> (Inr ps, w\<lparr>aw_store := Some st'\<rparr>))"

section \<open>What an action leaves alone\<close>

text \<open>An action that never touches the ambient holders, and one that never raises (in the model: that
  only leaves it).\<close>

definition keeps_ambient :: "(auth_world, 'a) act \<Rightarrow> bool" where
  "keeps_ambient m \<longleftrightarrow> (\<forall>w r w'. m w = (r, w') \<longrightarrow> aw_ambient w' = aw_ambient w)"

lemma keeps_ambientI: "(\<And>w r w'. m w = (r, w') \<Longrightarrow> aw_ambient w' = aw_ambient w) \<Longrightarrow> keeps_ambient m"
  by (simp add: keeps_ambient_def)

lemma keeps_ambientD: "keeps_ambient m \<Longrightarrow> m w = (r, w') \<Longrightarrow> aw_ambient w' = aw_ambient w"
  by (simp add: keeps_ambient_def)

lemma keeps_ambient_ret [simp, intro]: "keeps_ambient (ret x)"
  by (auto simp: keeps_ambient_def)

lemma keeps_ambient_raise [simp, intro]: "keeps_ambient (raise e)"
  by (auto simp: keeps_ambient_def)

lemma keeps_ambient_lift [simp, intro]: "keeps_ambient (lift_exn r)"
  by (auto simp: keeps_ambient_def)

lemma keeps_ambient_gets [simp, intro]: "keeps_ambient (gets f)"
  by (auto simp: keeps_ambient_def)

lemma keeps_ambient_seq [simp, intro]:
  assumes "keeps_ambient m" and "\<And>x. keeps_ambient (k x)"
  shows "keeps_ambient (seq m k)"
  using assms unfolding keeps_ambient_def seq_def
  by (fastforce split: prod.splits sum.splits)

lemma keeps_ambient_try [simp, intro]:
  assumes "keeps_ambient m" and "\<And>e. keeps_ambient (h e)"
  shows "keeps_ambient (try_except m h)"
  using assms unfolding keeps_ambient_def try_except_def
  by (fastforce split: prod.splits sum.splits)

lemma keeps_ambient_any [simp, intro]:
  assumes "keeps_ambient m" and "\<And>e. keeps_ambient (h e)"
  shows "keeps_ambient (except_any m h)"
  unfolding except_any_def using assms by (intro keeps_ambient_try) (auto split: if_split)

lemma keeps_ambient_emit [simp, intro]: "keeps_ambient (emit e)"
  by (auto simp: keeps_ambient_def emit_def)

lemma keeps_ambient_log [simp, intro]: "keeps_ambient (security_log n b d)"
  by (simp add: security_log_def)

lemma keeps_ambient_context [simp, intro]: "keeps_ambient current_context"
  by (simp add: current_context_def)

lemma keeps_ambient_tenant [simp, intro]: "keeps_ambient (lookup_tenant E tid)"
  by (auto simp: keeps_ambient_def lookup_tenant_def split: prod.splits)

lemma keeps_ambient_providers [simp, intro]: "keeps_ambient (active_providers E tid st)"
  by (auto simp: keeps_ambient_def active_providers_def split: prod.splits)

lemma keeps_ambient_if [simp, intro]:
  "(b \<Longrightarrow> keeps_ambient m) \<Longrightarrow> (\<not> b \<Longrightarrow> keeps_ambient n) \<Longrightarrow> keeps_ambient (if b then m else n)"
  by simp

lemma keeps_ambient_prod [simp, intro]:
  "(\<And>a b. keeps_ambient (f a b)) \<Longrightarrow> keeps_ambient (case x of (a, b) \<Rightarrow> f a b)"
  by (cases x) simp

lemma keeps_ambient_option [simp, intro]:
  "keeps_ambient m \<Longrightarrow> (\<And>y. keeps_ambient (f y)) \<Longrightarrow> keeps_ambient (case x of None \<Rightarrow> m | Some y \<Rightarrow> f y)"
  by (cases x) simp_all

lemma keeps_ambient_modify: "(\<And>w. aw_ambient (f w) = aw_ambient w) \<Longrightarrow> keeps_ambient (modify f)"
  by (auto simp: keeps_ambient_def)

lemmas keeps_ambient_rules = keeps_ambient_seq keeps_ambient_try keeps_ambient_any keeps_ambient_if
  keeps_ambient_prod keeps_ambient_option

section \<open>One environment\<close>

text \<open>A concrete outside for the witnesses: one tenant per id, opted in to external providers, with
  a certificate and the legacy cookie key \<^verbatim>\<open>tp\<close>; one provider with a published key
  set; a token decodes to the same claims whatever its text.\<close>

definition sample_claims :: pydict where
  "sample_claims = [(''iss'', PStr ''https://abc.auth0.com/''), (''aud'', PStr ''api''),
     (''sub'', PStr ''u7''), (''tenant_id'', PStr ''evil''), (''https://x/roles'', PList [PStr ''reader''])]"

definition sample_provider :: provider where
  "sample_provider = auth0_provider ''main''\<lparr>p_tenant_id := ''t1'', p_algorithms := [RS256],
     p_jwks_url := ''https://abc/jwks'',
     p_claims_mapping := Some (empty_mapping\<lparr>cm_user_id := ''sub'', cm_roles := ''https://x/roles''\<rparr>)\<rparr>"

definition sample_tenant :: "string \<Rightarrow> tenant" where
  "sample_tenant tid = default_tenant\<lparr>t_tenant_id := tid, t_is_third_party_jwt_enabled := True,
     t_tenant_salt := ''salt'',
     t_jwt_token_parameters := Some (default_jwt_token_parameters\<lparr>j_issuer := ''blocks'', j_audiences := [''api''],
       j_public_certificate_path := ''http://c''\<rparr>),
     t_third_party_jwt_token_parameters := Some \<lparr>tp_provider_name = [], tp_issuer = [], tp_subject = [],
       tp_audiences = [], tp_public_certificate_path = [], tp_jwks_url = [],
       tp_public_certificate_password = [], tp_cookie_key = ''tp''\<rparr>\<rparr>"

definition sample_env :: auth_env where
  "sample_env = \<lparr>ae_model = strict_env, ae_float = id, ae_crypto = toy_crypto,
     ae_peek = (\<lambda>_. Inr sample_claims), ae_verify = (\<lambda>_ _ _. Inr sample_claims),
     ae_jwks = (\<lambda>_ _. Inr ''jwk''), ae_tenant_db = (\<lambda>tid. Inr (Some (sample_tenant tid))),
     ae_provider_db = (\<lambda>_. Inr [sample_provider]),
     ae_cache = Some \<lparr>cc_get_bytes = (\<lambda>_. Inr None), cc_put_bytes = (\<lambda>_ _ _. Inr True)\<rparr>, ae_http_get = (\<lambda>_. Inr [1]),
     ae_read_file = (\<lambda>_. Inl OtherError), ae_pkcs12 = (\<lambda>_ _. Inl OtherError),
     ae_x509_pem = (\<lambda>_. Inr ''cert''), ae_x509_der = (\<lambda>_. Inl ValueError),
     ae_public_pem = (\<lambda>c. Inr c), ae_days_since = (\<lambda>_. Inr 1), ae_now = 0, ae_later = 0\<rparr>"

text \<open>The world after the tenant middleware resolved tenant \<^verbatim>\<open>t1\<close>.\<close>

definition sample_world :: auth_world where
  "sample_world = \<lparr>aw_ambient = empty_ambient\<lparr>context_var := Some (default_context\<lparr>tenant_id := ''t1''\<rparr>)\<rparr>,
     aw_tenants = new_tenant_service, aw_store = Some new_provider_store, aw_request_tenant = None,
     aw_trace = []\<rparr>"

lemma sample_world_simps [simp]:
  "get_context None (aw_ambient sample_world) = Some (default_context\<lparr>tenant_id := ''t1''\<rparr>)"
  "aw_tenants sample_world = new_tenant_service" "aw_store sample_world = Some new_provider_store"
  "aw_request_tenant sample_world = None" "aw_trace sample_world = []"
  by (simp_all add: sample_world_def get_context_def get_test_mode_def empty_ambient_def)

lemma sample_tenant_lookup [simp]:
  "get_tenant (ae_tenant_db sample_env) ''t1'' new_tenant_service =
     (Some (sample_tenant ''t1''), cache_tenant ''t1'' (sample_tenant ''t1'') new_tenant_service)"
  by (simp add: get_tenant_def load_tenant_from_db_def sample_env_def sample_tenant_def
      cached_tenant_def new_tenant_service_def)

end
