(* ===== verification/Claim_Mapping.thy ===== *)
theory Claim_Mapping
  imports Auth_World "HOL-Library.Char_ord" "HOL-Library.List_Lexorder"
begin

text \<open>
  The claim mapping of \<^verbatim>\<open>_auth/auth.py\<close>: a configured mapping is a claim's name first
  and a path into a JSON object second. A nested claim given as text is decoded with
  \<^const>\<open>json_loads\<close>; of its failures only the decode error is caught by the code. Recursion limits of
  the JSON library are not modelled.
\<close>

section \<open>One value\<close>

abbreviation loads_json :: "auth_env \<Rightarrow> string \<Rightarrow> py_exn + pyval" where
  "loads_json E \<equiv> py_loads (ae_float E)"

definition text_or_empty :: "pyval \<Rightarrow> string" where
  "text_or_empty v = (if v = PNone then [] else py_str v)"

fun member_text :: "pyval \<Rightarrow> string \<Rightarrow> string" where
  "member_text (PDict d) name =
     (case map_of d name of None \<Rightarrow> [] | Some v \<Rightarrow> text_or_empty v)"
| "member_text _ name = []"

definition extract_claim_value :: "auth_env \<Rightarrow> pydict \<Rightarrow> string \<Rightarrow> (auth_world, string) act" where
  "extract_claim_value E claims mapping =
     (if claims = [] \<or> mapping = [] then ret []
      else case map_of claims mapping of
        Some v \<Rightarrow> ret (text_or_empty v)
      | None \<Rightarrow>
          let parts = split_on CHR ''.'' mapping in
          if length parts < 2 then ret []
          else case dlookup claims (hd parts) of
            PNone \<Rightarrow> ret []
          | PStr s \<Rightarrow>
              (case loads_json E s of
                 Inr v \<Rightarrow> ret (member_text v (parts ! 1))
               | Inl e \<Rightarrow>
                   if e = JSONDecodeError then
                     seq (security_log ''third_party_claim_invalid_json'' True
                            [(''mapping'', PStr mapping), (''claim'', PStr (hd parts))])
                       (\<lambda>_. ret [])
                   else raise e)
          | v \<Rightarrow> ret (member_text v (parts ! 1)))"

definition resolve_mapped_claim :: "auth_env \<Rightarrow> pydict \<Rightarrow> string \<Rightarrow> string \<Rightarrow> (auth_world, string) act" where
  "resolve_mapped_claim E claims field mapping =
     (if blank mapping then
        seq (security_log ''third_party_claim_unmapped'' False [(''field'', PStr field)]) (\<lambda>_. ret [])
      else seq (extract_claim_value E claims mapping) (\<lambda>value.
        if value = [] then
          seq (security_log ''third_party_claim_unresolved'' True
                 [(''field'', PStr field), (''mapping'', PStr mapping)]) (\<lambda>_. ret value)
        else ret value))"

section \<open>Roles\<close>

definition extract_roles_from_claim :: "auth_env \<Rightarrow> pydict \<Rightarrow> string \<Rightarrow> py_exn + string list" where
  "extract_roles_from_claim E claims roles_mapping =
     (if claims = [] \<or> roles_mapping = [] then Inr []
      else let nested =
        (let parts = split_on CHR ''.'' roles_mapping;
             pick = (\<lambda>v. case v of
               PDict d \<Rightarrow> (case dlookup d (last parts) of
                   PList vs \<Rightarrow> List.map_filter (\<lambda>v. case v of PStr s \<Rightarrow> Some s | _ \<Rightarrow> None) vs
                 | _ \<Rightarrow> [])
             | _ \<Rightarrow> []) in
         if length parts < 2 then Inr []
         else case dlookup claims (hd parts) of
           PStr s \<Rightarrow> (case loads_json E s of
               Inr v \<Rightarrow> Inr (pick v)
             | Inl e \<Rightarrow> if e = JSONDecodeError then Inr [] else Inl e)
         | v \<Rightarrow> Inr (pick v)) in
      case dlookup claims roles_mapping of
        PStr s \<Rightarrow> if s \<noteq> [] then Inr [s] else nested
      | PList vs \<Rightarrow> (let found = map py_str (filter truthy vs) in if found \<noteq> [] then Inr found else nested)
      | _ \<Rightarrow> nested)"

section \<open>The whole mapping\<close>

record mapped_claims =
  mc_subject :: pyval
  mc_email :: pyval
  mc_user_name :: pyval
  mc_display_name :: string
  mc_roles :: "string list"

definition mapping_detail :: "string \<Rightarrow> claims_mapping \<Rightarrow> pydict \<Rightarrow> pydict" where
  "mapping_detail key m claims =
     [(''key'', PStr key),
      (''mapping'', PDict [(''UserId'', PStr (cm_user_id m)), (''Email'', PStr (cm_email m)),
         (''UserName'', PStr (cm_user_name m)), (''Name'', PStr (cm_name m)), (''Roles'', PStr (cm_roles m))]),
      (''tokenClaims'', PList (map PStr (sort (map fst claims))))]"

definition map_third_party_claims ::
  "auth_env \<Rightarrow> pydict \<Rightarrow> provider \<Rightarrow> (auth_world, mapped_claims option) act" where
  "map_third_party_claims E claims p =
     (case p_claims_mapping p of
        None \<Rightarrow> seq (security_log ''third_party_claims_mapper_missing'' True [(''key'', PStr (p_key p))])
                  (\<lambda>_. ret None)
      | Some m \<Rightarrow>
          if \<not> is_configured m then
            seq (security_log ''third_party_claims_mapper_missing'' True [(''key'', PStr (p_key p))])
              (\<lambda>_. ret None)
          else
            seq (security_log ''third_party_claim_mapping'' False (mapping_detail (p_key p) m claims)) (\<lambda>_.
            let standard_email = py_or (dlookup claims EMAIL_CLAIM) (PStr []) in
            seq (if cm_user_id m = ''sub'' then ret (py_or (dlookup claims SUBJECT_CLAIM) (PStr []))
                 else seq (resolve_mapped_claim E claims ''UserId'' (cm_user_id m)) (\<lambda>s. ret (PStr s)))
              (\<lambda>subject.
            seq (if truthy standard_email then ret standard_email
                 else seq (resolve_mapped_claim E claims ''Email'' (cm_email m)) (\<lambda>s. ret (PStr s)))
              (\<lambda>email.
            seq (if py_lower (cm_user_name m) = ''email'' then ret standard_email
                 else seq (resolve_mapped_claim E claims ''UserName'' (cm_user_name m)) (\<lambda>s. ret (PStr s)))
              (\<lambda>user_name.
            seq (resolve_mapped_claim E claims ''Name'' (cm_name m)) (\<lambda>display_name.
            seq (lift_exn (extract_roles_from_claim E claims (cm_roles m))) (\<lambda>roles.
            ret (Some \<lparr>mc_subject = subject, mc_email = email, mc_user_name = user_name,
                       mc_display_name = display_name, mc_roles = roles\<rparr>))))))))"

section \<open>Literal name first, path second\<close>

lemma loads_json_dumps: "json_plain v \<Longrightarrow> loads_json E (json_dumps v) = Inr v"
  by (simp add: py_loads_def json_loads_dumps)

lemma dget_notin: "map_of d k = None \<Longrightarrow> dget d k v = v"
  by (simp add: dget_def)

lemma dget_in: "map_of d k = Some x \<Longrightarrow> dget d k v = x"
  by (simp add: dget_def)

text \<open>
  A mapping addresses a claim by its whole name first, so a namespaced claim with dots is found;
  otherwise the part before the first dot names a claim and the next part a member of its object,
  and it makes no difference whether that object arrives decoded or as JSON text.
\<close>

theorem claim_mapping_literal_then_path:
  assumes "CHR ''.'' \<notin> set c" and "CHR ''.'' \<notin> set m" and "json_plain (PDict d)"
  shows "(map_of claims name = Some v \<and> name \<noteq> [] \<longrightarrow>
      extract_claim_value E claims name w = (Inr (text_or_empty v), w)) \<and>
    (map_of claims (c @ ''.'' @ m) = None \<longrightarrow>
      extract_claim_value E (AList.update c (PDict d) claims) (c @ ''.'' @ m) w = (Inr (member_text (PDict d) m), w) \<and>
      extract_claim_value E (AList.update c (PStr (json_dumps (PDict d))) claims) (c @ ''.'' @ m) w =
        (Inr (member_text (PDict d) m), w))"
proof -
  have u: "AList.update c x claims \<noteq> []" for x :: pyval
    by (cases claims) (auto split: if_splits)
  have s: "split_on CHR ''.'' (c @ CHR ''.'' # m) = [c, m]"
    using assms(1,2) by (simp add: split_on_append split_on_notin)
  have "map_of claims name = Some v \<Longrightarrow> claims \<noteq> []" by auto
  then show ?thesis using u s loads_json_dumps [OF assms(3), of E]
    by (auto simp: extract_claim_value_def dget_in Let_def act_simps)
qed

theorem claim_mapping_literal_then_path_witness:
  "extract_claim_value sample_env [(''https://x.y'', PStr ''a'')] ''https://x.y'' sample_world = (Inr ''a'', sample_world) \<and>
   extract_claim_value sample_env (AList.update ''realm'' (PStr (json_dumps (PDict [(''user'', PStr ''u'')]))) []) ''realm.user''
     sample_world = (Inr ''u'', sample_world)"
  using claim_mapping_literal_then_path [of "''realm''" "''user''" "[(''user'', PStr ''u'')]" "[(''https://x.y'', PStr ''a'')]"
      "''https://x.y''" "PStr ''a''" sample_env sample_world]
    claim_mapping_literal_then_path [of "''realm''" "''user''" "[(''user'', PStr ''u'')]" "[]"
      "''https://x.y''" "PStr ''a''" sample_env sample_world]
  by (simp add: text_or_empty_def del: json_dumps.simps update.simps)

text \<open>
  A provider cannot reach a reserved claim through the mapping: once the reserved claims are washed,
  a mapping that names one resolves to nothing, for a single value and for the roles alike.
\<close>

theorem reserved_claims_unmappable:
  assumes "name \<in> set RESERVED_CLAIMS"
  shows "extract_claim_value E (strip_reserved_claims claims) name w = (Inr [], w) \<and>
    extract_roles_from_claim E (strip_reserved_claims claims) name = Inr []"
proof -
  have "map_of (strip_reserved_claims claims) name = None"
    using assms by (simp add: strip_reserved_lookup)
  moreover have "length (split_on CHR ''.'' name) < 2"
    using assms by (auto simp: RESERVED_CLAIMS_def claim_names)
  ultimately show ?thesis
    by (simp add: extract_claim_value_def extract_roles_from_claim_def dget_notin Let_def act_simps)
qed

theorem reserved_claims_unmappable_witness:
  "extract_claim_value sample_env (strip_reserved_claims sample_claims) ''tenant_id'' sample_world = (Inr [], sample_world)"
  by (rule conjunct1 [OF reserved_claims_unmappable]) (simp add: RESERVED_CLAIMS_def claim_names)

section \<open>The mapping as a whole\<close>

lemma keeps_ambient_extract_claim [simp, intro]: "keeps_ambient (extract_claim_value E claims mapping)"
  by (auto simp: extract_claim_value_def Let_def split: option.split pyval.split sum.split)

lemma keeps_ambient_resolve [simp, intro]: "keeps_ambient (resolve_mapped_claim E claims field mapping)"
  by (auto simp: resolve_mapped_claim_def)

lemma keeps_ambient_mapping [simp, intro]: "keeps_ambient (map_third_party_claims E claims p)"
  by (auto simp: map_third_party_claims_def Let_def split: option.split)

lemma loads_json_error: "loads_json E s = Inl e \<Longrightarrow> e \<in> {JSONDecodeError, ValueError, Unmodelled}"
  by (auto simp: py_loads_def split: sum.splits json_error.splits)

lemma extract_claim_value_error:
  "extract_claim_value E claims mapping w = (Inl e, w') \<Longrightarrow> e \<in> {ValueError, Unmodelled}"
  using loads_json_error [of E]
  by (auto simp: extract_claim_value_def Let_def act_simps security_log_def emit_def
      split: option.splits if_splits pyval.splits sum.splits)

lemma resolve_mapped_claim_error:
  "resolve_mapped_claim E claims field mapping w = (Inl e, w') \<Longrightarrow> e \<in> {ValueError, Unmodelled}"
  by (auto simp: resolve_mapped_claim_def act_simps security_log_def emit_def
      split: if_splits prod.splits sum.splits dest: extract_claim_value_error)

lemma extract_roles_error:
  "extract_roles_from_claim E claims mapping = Inl e \<Longrightarrow> e \<in> {ValueError, Unmodelled}"
  using loads_json_error [of E]
  by (auto simp: extract_roles_from_claim_def Let_def split: if_splits pyval.splits sum.splits)

lemma resolve_reserved:
  assumes "name \<in> set RESERVED_CLAIMS" and "resolve_mapped_claim E (strip_reserved_claims claims) field name w = (Inr s, w')"
  shows "s = []"
proof -
  have "map_of (strip_reserved_claims claims) name = None" "length (split_on CHR ''.'' name) < 2"
    using assms(1) by (auto simp: strip_reserved_lookup RESERVED_CLAIMS_def claim_names)
  then have "extract_claim_value E (strip_reserved_claims claims) name v = (Inr [], v)" for v
    by (simp add: extract_claim_value_def act_simps)
  with assms(2) show ?thesis
    by (auto simp: resolve_mapped_claim_def act_simps security_log_def emit_def split: if_splits)
qed

lemma roles_reserved:
  assumes "name \<in> set RESERVED_CLAIMS"
  shows "extract_roles_from_claim E (strip_reserved_claims claims) name = Inr []"
proof -
  have "map_of (strip_reserved_claims claims) name = None" "length (split_on CHR ''.'' name) < 2"
    using assms by (auto simp: strip_reserved_lookup RESERVED_CLAIMS_def claim_names)
  then show ?thesis by (simp add: extract_roles_from_claim_def dget_notin)
qed

text \<open>
  In the order the handler works (wash, then map) the standard email claim is always gone when the
  mapping runs: a provider mapped with the names \<^verbatim>\<open>email\<close>,
  \<^verbatim>\<open>roles\<close> and \<^verbatim>\<open>name\<close> yields no email, no user name, no
  roles and no display name, whatever its token carries.
\<close>

theorem standard_claims_washed_before_mapping:
  assumes "map_third_party_claims E (strip_reserved_claims claims) p w = (Inr (Some m), w')"
    and "p_claims_mapping p = Some \<lparr>cm_user_id = uid, cm_email = ''email'', cm_user_name = ''email'',
        cm_name = ''name'', cm_roles = ''roles''\<rparr>"
  shows "mc_email m = PStr [] \<and> mc_user_name m = PStr [] \<and> mc_display_name m = [] \<and> mc_roles m = []"
proof -
  let ?d = "strip_reserved_claims claims"
  have r: "''email'' \<in> set RESERVED_CLAIMS" "''name'' \<in> set RESERVED_CLAIMS" "''roles'' \<in> set RESERVED_CLAIMS"
    by (simp_all add: RESERVED_CLAIMS_def claim_names)
  have e: "dlookup ?d EMAIL_CLAIM = PNone"
    using r(1) by (simp add: dget_def strip_reserved_lookup claim_names)
  from assms show ?thesis
    by (auto simp: map_third_party_claims_def e Let_def roles_reserved [OF r(3)] py_lower_def lower_char_def py_eval
        dest!: resolve_reserved [OF r(1)] resolve_reserved [OF r(2)]
        split: if_splits elim!: seq_Inr_elim)
qed

theorem standard_claims_washed_before_mapping_witness:
  "\<exists>m w'. map_third_party_claims sample_env (strip_reserved_claims [(''sub'', PStr ''u''), (''email'', PStr ''a@b'')])
      (sample_provider\<lparr>p_claims_mapping := Some \<lparr>cm_user_id = ''sub'', cm_email = ''email'', cm_user_name = ''email'',
        cm_name = ''name'', cm_roles = ''roles''\<rparr>\<rparr>) sample_world = (Inr (Some m), w') \<and> mc_email m = PStr []"
proof -
  let ?p = "sample_provider\<lparr>p_claims_mapping := Some \<lparr>cm_user_id = ''sub'', cm_email = ''email'', cm_user_name = ''email'',
        cm_name = ''name'', cm_roles = ''roles''\<rparr>\<rparr>"
  let ?c = "[(''sub'', PStr ''u''), (''email'', PStr ''a@b'')]"
  have "\<exists>m w'. map_third_party_claims sample_env (strip_reserved_claims ?c) ?p sample_world = (Inr (Some m), w')"
    by (simp add: map_third_party_claims_def strip_reserved_claims_def RESERVED_CLAIMS_def claim_names act_simps
        is_configured_def str_defs security_log_def emit_def resolve_mapped_claim_def extract_claim_value_def
        extract_roles_from_claim_def dget_def Let_def py_eval)
  then obtain m w' where m: "map_third_party_claims sample_env (strip_reserved_claims ?c) ?p sample_world = (Inr (Some m), w')"
    by blast
  from standard_claims_washed_before_mapping [OF m] m show ?thesis by auto
qed

lemma map_third_party_claims_error:
  "map_third_party_claims E claims p w = (Inl e, w') \<Longrightarrow> e \<in> {ValueError, Unmodelled}"
  by (auto simp: map_third_party_claims_def Let_def act_simps security_log_def emit_def
      split: option.splits if_splits prod.splits sum.splits
      dest: resolve_mapped_claim_error extract_roles_error)

end
