(* ===== verification/Token_Extraction.thy ===== *)
theory Token_Extraction
  imports Auth_World
begin

text \<open>
  The first part of \<^verbatim>\<open>_auth/auth.py\<close>: where the token of a request comes from. The
  Authorization header wins, then a cookie named after a loopback alias or the application domain,
  then the cookie of the tenant's legacy external provider, which alone marks the token as external.
\<close>

definition try_localhost_alias_cookie :: "request \<Rightarrow> string option \<Rightarrow> string option" where
  "try_localhost_alias_cookie r domain =
     (if \<not> (truthy_opt domain \<and> is_localhost_host domain) then None
      else case List.find (\<lambda>h. Some h \<noteq> domain \<and> truthy_opt (cookie r h))
             [''localhost'', ''127.0.0.1'', ''::1''] of
        None \<Rightarrow> None
      | Some h \<Rightarrow> cookie r h)"

definition extract_token_from_cookie ::
  "auth_env \<Rightarrow> request \<Rightarrow> (auth_world, string option \<times> bool \<times> string option) act" where
  "extract_token_from_cookie E r =
     seq current_context (\<lambda>context.
       case context of
         None \<Rightarrow> ret (None, False, None)
       | Some c \<Rightarrow>
           if tenant_id c = [] then ret (None, False, None)
           else let domain = resolve_application_domain r;
                    local_token = try_localhost_alias_cookie r domain;
                    domain_token = (if truthy_opt domain then cookie r (or_empty domain) else None) in
             if truthy_opt local_token then ret (local_token, False, domain)
             else if truthy_opt domain_token then ret (domain_token, False, domain)
             else seq (lookup_tenant E (tenant_id c)) (\<lambda>tenant.
               case tenant of
                 None \<Rightarrow> ret (None, False, None)
               | Some t \<Rightarrow> (case t_third_party_jwt_token_parameters t of
                     None \<Rightarrow> ret (None, False, None)
                   | Some tp \<Rightarrow>
                       if tp_cookie_key tp = [] then ret (None, False, None)
                       else if truthy_opt (cookie r (tp_cookie_key tp))
                       then ret (cookie r (tp_cookie_key tp), True, domain)
                       else ret (None, False, None))))"

definition extract_token_from_request ::
  "auth_env \<Rightarrow> request \<Rightarrow> (auth_world, string option \<times> bool \<times> string option) act" where
  "extract_token_from_request E r =
     (let auth_header = or_empty (header r ''Authorization'');
          token = py_strip (drop 7 auth_header) in
      if starts_with ''bearer '' (py_lower auth_header) \<and> token \<noteq> []
      then ret (Some token, False, resolve_application_domain r)
      else extract_token_from_cookie E r)"

section \<open>Provenance\<close>

text \<open>The bearer token of a request, when it has one.\<close>

definition bearer_token :: "request \<Rightarrow> string option" where
  "bearer_token r =
     (let h = or_empty (header r ''Authorization'') in
      if starts_with ''bearer '' (py_lower h) \<and> py_strip (drop 7 h) \<noteq> []
      then Some (py_strip (drop 7 h)) else None)"

lemma extract_by_bearer:
  "extract_token_from_request E r =
     (case bearer_token r of
        Some t \<Rightarrow> ret (Some t, False, resolve_application_domain r)
      | None \<Rightarrow> extract_token_from_cookie E r)"
  by (simp add: extract_token_from_request_def bearer_token_def Let_def)

lemma keeps_ambient_extract [simp, intro]: "keeps_ambient (extract_token_from_request E r)"
  by (auto simp: extract_token_from_request_def extract_token_from_cookie_def Let_def split: option.split)

lemma alias_cookie_SomeD:
  "try_localhost_alias_cookie r domain = Some t \<Longrightarrow>
   t \<noteq> [] \<and> (\<exists>h \<in> {''localhost'', ''127.0.0.1'', ''::1''}. Some h \<noteq> domain \<and> cookie r h = Some t) \<and> is_localhost_host domain"
  by (auto simp: try_localhost_alias_cookie_def find_Some_iff split: if_splits option.splits)

text \<open>
  A token is marked external only when it is the cookie under the tenant's configured provider
  key, of the tenant the context names, and the request carries no bearer token; every other token is
  the bearer token, the cookie of the application domain or of a loopback alias.
\<close>

theorem extraction_provenance:
  assumes "extract_token_from_request E r w = (Inr (Some t, external, domain), w')"
  shows "t \<noteq> [] \<and>
    (if external then
       bearer_token r = None \<and>
       (\<exists>c tn tp. get_context None (aw_ambient w) = Some c \<and>
          fst (get_tenant (ae_tenant_db E) (tenant_id c) (aw_tenants w)) = Some tn \<and>
          t_third_party_jwt_token_parameters tn = Some tp \<and> cookie r (tp_cookie_key tp) = Some t)
     else
       bearer_token r = Some t \<or>
       bearer_token r = None \<and>
         (\<exists>name. cookie r name = Some t \<and>
            (resolve_application_domain r = Some name \<or>
             name \<in> {''localhost'', ''127.0.0.1'', ''::1''} \<and>
             is_localhost_host (resolve_application_domain r))))"
proof (cases "bearer_token r")
  case (Some b)
  then show ?thesis using assms
    by (auto simp: extract_by_bearer bearer_token_def Let_def split: if_splits)
next
  case None
  then have "extract_token_from_cookie E r w = (Inr (Some t, external, domain), w')"
    using assms by (simp add: extract_by_bearer)
  then obtain c where c: "get_context None (aw_ambient w) = Some c" and tid: "tenant_id c \<noteq> []"
    by (auto simp: extract_token_from_cookie_def current_context_def split: option.splits if_splits)
  let ?domain = "resolve_application_domain r"
  let ?tenant = "fst (get_tenant (ae_tenant_db E) (tenant_id c) (aw_tenants w))"
  consider (loopback) "try_localhost_alias_cookie r ?domain = Some t" "\<not> external"
    | (app) name where "?domain = Some name" "cookie r name = Some t" "t \<noteq> []" "\<not> external"
    | (ext) tn tp where "?tenant = Some tn" "t_third_party_jwt_token_parameters tn = Some tp"
        "cookie r (tp_cookie_key tp) = Some t" "t \<noteq> []" external
    using \<open>extract_token_from_cookie E r w = _\<close> c tid
    by (auto simp: extract_token_from_cookie_def current_context_def lookup_tenant_def Let_def act_simps
        elim!: truthy_optE split: option.splits if_splits prod.splits)
  then show ?thesis
  proof cases
    case loopback
    from alias_cookie_SomeD [OF loopback(1)] obtain h where "t \<noteq> []"
      "h \<in> {''localhost'', ''127.0.0.1'', ''::1''}" "cookie r h = Some t" "is_localhost_host ?domain" by blast
    then show ?thesis unfolding if_not_P [OF loopback(2)] using None by blast
  next
    case app
    then show ?thesis using None by auto
  next
    case ext
    then show ?thesis using None c by auto
  qed
qed

theorem extraction_provenance_witness:
  "\<exists>w'. extract_token_from_request sample_env (empty_request\<lparr>req_cookies := [(''tp'', ''abc'')]\<rparr>) sample_world =
      (Inr (Some ''abc'', True, None), w') \<and>
    bearer_token (empty_request\<lparr>req_cookies := [(''tp'', ''abc'')]\<rparr>) = None"
proof -
  let ?r = "empty_request\<lparr>req_cookies := [(''tp'', ''abc'')]\<rparr>"
  have "\<exists>w'. extract_token_from_request sample_env ?r sample_world = (Inr (Some ''abc'', True, None), w')"
    by (simp add: extract_token_from_request_def extract_token_from_cookie_def current_context_def
        lookup_tenant_def act_simps resolve_application_domain_def header_def empty_request_def starts_with_def
        try_localhost_alias_cookie_def sample_tenant_def default_tenant_def cookie_def)
  then obtain w' where e: "extract_token_from_request sample_env ?r sample_world = (Inr (Some ''abc'', True, None), w')" ..
  from extraction_provenance [OF e] e show ?thesis by simp
qed

end
