(* ===== verification/Third_Party_Validation.thy ===== *)
theory Third_Party_Validation
  imports Claim_Mapping Token_Extraction
begin

text \<open>
  The validation of external tokens in \<^verbatim>\<open>_auth/auth.py\<close>: routing on the unverified
  issuer and audience, the key of the selected provider (a decrypted secret, a key set, a
  certificate), the verified decode with the algorithms the provider is pinned to, and the wrapper
  that turns every failure into a refusal. The theorems state the contract the handler relies on:
  what an accepted token has passed, that a key of one family is never used with an algorithm of the
  other, and that a refusal is never an exception.
\<close>

section \<open>Certificates\<close>

definition create_certificate :: "auth_env \<Rightarrow> bytes \<Rightarrow> string option \<Rightarrow> certificate option" where
  "create_certificate E bs password =
     (if bs = [] then None
      else let bare = (case ae_x509_pem E bs of Inr c \<Rightarrow> Some c
                 | Inl _ \<Rightarrow> (case ae_x509_der E bs of Inr c \<Rightarrow> Some c | Inl _ \<Rightarrow> None)) in
        case ae_pkcs12 E bs (if truthy_opt password then Some (utf8_encode (or_empty password)) else None) of
          Inr (Some c, _) \<Rightarrow> Some c
        | Inr (None, c # _) \<Rightarrow> Some c
        | _ \<Rightarrow> bare)"

definition fetch_cert_bytes :: "auth_env \<Rightarrow> string \<Rightarrow> (auth_world, bytes) act" where
  "fetch_cert_bytes E url =
     seq (emit (Fetched url)) (\<lambda>_.
       if starts_with ''http'' url then lift_exn (ae_http_get E url)
       else lift_exn (case ae_read_file E url of Inl _ \<Rightarrow> Inl RuntimeError | Inr bs \<Rightarrow> Inr bs))"

section \<open>Keys of a provider\<close>

definition key_detail :: "provider \<Rightarrow> pydict" where
  "key_detail p = [(''key'', PStr (p_key p))]"

definition decrypt_provider_secret ::
  "auth_env \<Rightarrow> tenant \<Rightarrow> provider \<Rightarrow> string \<Rightarrow> (auth_world, string option) act" where
  "decrypt_provider_secret E t p cipher =
     (if t_tenant_salt t = [] then
        seq (security_log ''third_party_secret_undecryptable'' True (key_detail p)) (\<lambda>_. ret None)
      else seq (lift_exn (decrypt (ae_crypto E) cipher (t_tenant_salt t))) (\<lambda>plaintext.
        if \<not> truthy_opt plaintext then
          seq (security_log ''third_party_secret_undecryptable'' True (key_detail p)) (\<lambda>_. ret None)
        else ret plaintext))"

definition PROVIDER_CERTIFICATE_CACHE_TTL_SECONDS :: int where
  "PROVIDER_CERTIFICATE_CACHE_TTL_SECONDS = 3600"

definition THIRD_PARTY_LEEWAY_SECONDS :: int where
  "THIRD_PARTY_LEEWAY_SECONDS = 300"

definition certificate_cache_key :: "provider \<Rightarrow> string" where
  "certificate_cache_key p = ''tpprovcert::'' @ p_tenant_id p @ ''::'' @ p_key p"

text \<open>The cached bytes: no cache, a failing cache and a miss all read as nothing.\<close>

definition cached_bytes :: "auth_env \<Rightarrow> string \<Rightarrow> bytes" where
  "cached_bytes E k =
     (case ae_cache E of None \<Rightarrow> []
      | Some cc \<Rightarrow> (case cc_get_bytes cc k of Inr (Some bs) \<Rightarrow> bs | _ \<Rightarrow> []))"

definition put_bytes :: "auth_env \<Rightarrow> string \<Rightarrow> bytes \<Rightarrow> int \<Rightarrow> (auth_world, unit) act" where
  "put_bytes E k bs ttl =
     (case ae_cache E of None \<Rightarrow> ret ()
      | Some cc \<Rightarrow> seq (emit (CachePut k bs ttl)) (\<lambda>_.
          except_any (seq (lift_exn (cc_put_bytes cc k bs ttl)) (\<lambda>_. ret ())) (\<lambda>_. ret ())))"

definition resolve_certificate_key ::
  "auth_env \<Rightarrow> tenant \<Rightarrow> provider \<Rightarrow> (auth_world, verify_key option) act" where
  "resolve_certificate_key E t p =
     (let with_password = (\<lambda>password.
        let cached = cached_bytes E (certificate_cache_key p);
            with_data = (\<lambda>data.
              case create_certificate E data password of
                None \<Rightarrow> seq (security_log ''third_party_certificate_unreadable'' True
                          (key_detail p @ [(''hasPassphrase'', PBool (password \<noteq> None))])) (\<lambda>_. ret None)
              | Some c \<Rightarrow> seq (lift_exn (ae_public_pem E c)) (\<lambda>pem. ret (Some (PublicPem pem)))) in
        if cached \<noteq> [] then with_data cached
        else seq (except_any (seq (fetch_cert_bytes E (p_public_certificate_path p)) (\<lambda>bs. ret (Some bs)))
                (\<lambda>_. seq (security_log ''third_party_certificate_unreadable'' True (key_detail p)) (\<lambda>_. ret None)))
          (\<lambda>fetched. case fetched of
             None \<Rightarrow> ret None
           | Some bs \<Rightarrow>
               seq (if bs \<noteq> [] then put_bytes E (certificate_cache_key p) bs PROVIDER_CERTIFICATE_CACHE_TTL_SECONDS
                    else ret ())
                 (\<lambda>_. with_data bs))) in
      if p_public_certificate_password_cipher p \<noteq> [] then
        seq (decrypt_provider_secret E t p (p_public_certificate_password_cipher p)) (\<lambda>password.
          if password = None then ret None else with_password password)
      else with_password None)"

definition algorithm_detail :: "provider \<Rightarrow> string \<times> pyval" where
  "algorithm_detail p = (''algorithms'', PList (map (\<lambda>a. PInt (alg_value a)) (p_algorithms p)))"

definition resolve_provider_key ::
  "auth_env \<Rightarrow> string \<Rightarrow> tenant \<Rightarrow> provider \<Rightarrow> (auth_world, verify_key option) act" where
  "resolve_provider_key E token t p =
     (if \<not> is_single_key_source (Some (p_algorithms p)) then
        seq (security_log ''third_party_algorithm_invalid'' True (key_detail p @ [algorithm_detail p]))
          (\<lambda>_. ret None)
      else if is_symmetric (hd (p_algorithms p)) then
        (if p_signing_secret_cipher p = [] then
           seq (security_log ''third_party_key_source_missing'' True (key_detail p)) (\<lambda>_. ret None)
         else seq (decrypt_provider_secret E t p (p_signing_secret_cipher p))
           (\<lambda>s. ret (map_option SharedSecret s)))
      else if p_jwks_url p \<noteq> [] then
        except_any (seq (emit (Fetched (p_jwks_url p))) (\<lambda>_.
            seq (lift_exn (ae_jwks E (p_jwks_url p) token)) (\<lambda>k. ret (Some (JwkKey k)))))
          (\<lambda>_. seq (security_log ''third_party_certificate_unreadable'' True (key_detail p)) (\<lambda>_. ret None))
      else if p_public_certificate_path p \<noteq> [] then resolve_certificate_key E t p
      else seq (security_log ''third_party_key_source_missing'' True (key_detail p)) (\<lambda>_. ret None))"

section \<open>Routing\<close>

text \<open>The unverified issuer and audience, as the dynamically typed values they are.
  \<^verbatim>\<open>list(audience)\<close> fails on a number.\<close>

definition read_token_routing :: "auth_env \<Rightarrow> string \<Rightarrow> py_exn + pyval \<times> pyval list" where
  "read_token_routing E token =
     (case ae_peek E token of
        Inl e \<Rightarrow> if e = Unmodelled then Inl e else Inr (PStr [], [])
      | Inr claims \<Rightarrow>
          let audience = py_or (dlookup claims AUDIENCES_CLAIM) (PList []);
              items = (case audience of PStr s \<Rightarrow> Some [PStr s] | v \<Rightarrow> py_iter v) in
          case items of None \<Rightarrow> Inl TypeError
          | Some vs \<Rightarrow> Inr (py_or (dlookup claims ISSUER_CLAIM) (PStr []), vs))"

text \<open>The selection on those values: only a text can equal a configured audience, and an issuer that is
  not a text has no \<^verbatim>\<open>strip\<close>, once there are providers to compare it with.\<close>

definition select_for_token ::
  "provider list \<Rightarrow> pyval \<Rightarrow> pyval list \<Rightarrow> string option \<Rightarrow> py_exn + selection" where
  "select_for_token ps issuer audiences header_key =
     (let names = List.map_filter (\<lambda>v. case v of PStr s \<Rightarrow> Some s | _ \<Rightarrow> None) audiences in
      case issuer of
        PStr s \<Rightarrow> Inr (select (Some ps) (Some s) (Some names) header_key)
      | _ \<Rightarrow> if ps = [] then Inr (select (Some ps) None (Some names) header_key) else Inl AttributeError)"

definition tenant_declared_on_request :: "request \<Rightarrow> string option" where
  "tenant_declared_on_request r =
     (case List.find truthy_opt [header r ''tenant_id'', header r ''x-blocks-key'',
                            query_param r ''tenant_id'', query_param r ''x-blocks-key''] of
        None \<Rightarrow> None | Some v \<Rightarrow> v)"

section \<open>The fallback\<close>

definition selection_detail :: "selection \<Rightarrow> pyval \<Rightarrow> pyval list \<Rightarrow> provider list \<Rightarrow> string option \<Rightarrow> pydict" where
  "selection_detail s issuer audiences ps header_key =
     [(''tokenIssuer'', issuer), (''tokenAudiences'', PList audiences),
      (''headerKey'', case header_key of None \<Rightarrow> PNone | Some k \<Rightarrow> PStr k),
      (''candidates'', PInt (int (s_candidate_count s))),
      (''configured'', PList (map (\<lambda>p. PDict [(''Key'', PStr (p_key p)), (''Issuer'', PStr (p_issuer p)),
          (''Audiences'', PList (map PStr (p_audiences p)))]) ps))]"

definition report_selection_failure :: "selection_outcome \<Rightarrow> pydict \<Rightarrow> (auth_world, unit) act" where
  "report_selection_failure outcome detail =
     (case outcome of
        NO_PROVIDERS \<Rightarrow> security_log ''third_party_no_providers_configured'' True detail
      | ISSUER_UNMATCHED \<Rightarrow> security_log ''third_party_provider_unmatched'' False detail
      | ISSUER_ABSENT_UNMATCHED \<Rightarrow> security_log ''third_party_provider_unmatched'' True detail
      | AUDIENCE_UNMATCHED \<Rightarrow> security_log ''third_party_provider_unmatched'' True detail
      | AMBIGUOUS_NO_HEADER \<Rightarrow> security_log ''third_party_provider_ambiguous'' True detail
      | AMBIGUOUS_HEADER_UNMATCHED \<Rightarrow> security_log ''third_party_provider_ambiguous'' True detail
      | SELECTED \<Rightarrow> ret ())"

definition ROUTINE_MISSES :: "selection_outcome list" where
  "ROUTINE_MISSES = [ISSUER_UNMATCHED, NO_PROVIDERS]"

definition third_party_options :: "provider \<Rightarrow> jwt_options" where
  "third_party_options p = \<lparr>jo_algorithms = to_wire_names (Some (p_algorithms p)),
     jo_issuer = (if p_issuer p \<noteq> [] then Some (p_issuer p) else None),
     jo_audience = (if p_audiences p \<noteq> [] then Some (p_audiences p) else None),
     jo_verify_signature = True, jo_verify_exp = True, jo_verify_nbf = True, jo_verify_iat = True,
     jo_verify_iss = (p_issuer p \<noteq> []), jo_verify_aud = (p_audiences p \<noteq> []), jo_require = [],
     jo_leeway = THIRD_PARTY_LEEWAY_SECONDS\<rparr>"

type_synonym validation = "pydict \<times> provider"

definition refuse :: "string \<Rightarrow> pydict \<Rightarrow> (auth_world, validation option \<times> selection_outcome) act" where
  "refuse event_name detail = seq (security_log event_name True detail) (\<lambda>_. ret (None, NO_PROVIDERS))"

definition THIRD_PARTY_IDP_HEADER :: string where
  "THIRD_PARTY_IDP_HEADER = ''x-blocks-idp''"

definition validate_selected ::
  "auth_env \<Rightarrow> string \<Rightarrow> tenant \<Rightarrow> request \<Rightarrow> provider \<Rightarrow> nat
    \<Rightarrow> (auth_world, validation option \<times> selection_outcome) act" where
  "validate_selected E token t r p candidates =
     seq (security_log ''third_party_provider_selected'' False
            (key_detail p @ [(''providerName'', PStr (p_provider_name p)), (''issuer'', PStr (p_issuer p)),
               algorithm_detail p, (''candidates'', PInt (int candidates))])) (\<lambda>_.
     seq (resolve_provider_key E token t p) (\<lambda>key.
       case key of
         None \<Rightarrow> ret (None, SELECTED)
       | Some k \<Rightarrow>
           seq (except_any (seq (lift_exn (ae_verify E k (third_party_options p) token)) (\<lambda>c. ret (Some c)))
             (\<lambda>_. seq (security_log ''fallback_validation_failed'' True
                    (key_detail p @ [(''issuer'', PStr (p_issuer p))])) (\<lambda>_. ret None))) (\<lambda>claims.
             case claims of
               None \<Rightarrow> ret (None, SELECTED)
             | Some c \<Rightarrow>
                 seq (security_log ''fallback_token_validated'' False
                   (key_detail p @ [(''providerName'', PStr (p_provider_name p)), (''issuer'', PStr (p_issuer p))])) (\<lambda>_.
                 ret (Some (AList.update REQUEST_URI_CLAIM (PStr (req_url r)) c, p), SELECTED)))))"

definition run_fallback ::
  "auth_env \<Rightarrow> string \<Rightarrow> tenant option \<Rightarrow> request \<Rightarrow> (auth_world, validation option \<times> selection_outcome) act" where
  "run_fallback E token tenant r =
     (case tenant of
        None \<Rightarrow> refuse ''fallback_missing_tenant_config'' []
      | Some t \<Rightarrow>
          if \<not> t_is_third_party_jwt_enabled t then
            refuse ''third_party_not_enabled'' [(''tenantId'', PStr (t_tenant_id t))]
          else if token = [] then refuse ''fallback_no_token'' []
          else let declared = tenant_declared_on_request r in
            if truthy_opt declared \<and> declared \<noteq> Some (t_tenant_id t) then
              refuse ''fallback_missing_tenant_context''
                [(''declared'', PStr (or_empty declared)), (''loaded'', PStr (t_tenant_id t))]
            else seq (gets aw_store) (\<lambda>store.
              case store of
                None \<Rightarrow> refuse ''third_party_provider_store_missing'' []
              | Some st \<Rightarrow>
                  seq (active_providers E (t_tenant_id t) st) (\<lambda>ps.
                  seq (lift_exn (read_token_routing E token)) (\<lambda>(issuer, audiences).
                  let header_key = header r THIRD_PARTY_IDP_HEADER in
                  seq (lift_exn (select_for_token ps issuer audiences header_key)) (\<lambda>s.
                    case s_provider s of
                      None \<Rightarrow> seq (report_selection_failure (s_outcome s)
                                  (selection_detail s issuer audiences ps header_key))
                                (\<lambda>_. ret (None, s_outcome s))
                    | Some p \<Rightarrow> validate_selected E token t r p (s_candidate_count s))))))"

definition validate_with_fallback ::
  "auth_env \<Rightarrow> string \<Rightarrow> tenant option \<Rightarrow> request \<Rightarrow> (auth_world, validation option) act" where
  "validate_with_fallback E token tenant r =
     seq (except_any (run_fallback E token tenant r)
            (\<lambda>_. seq (security_log ''fallback_unhandled_exception'' True []) (\<lambda>_. ret (None, SELECTED))))
       (\<lambda>(result, outcome).
          if result = None \<and> outcome \<notin> set ROUTINE_MISSES then
            seq (security_log ''fallback_rejected'' True []) (\<lambda>_. ret result)
          else ret result)"

section \<open>Inversion\<close>

lemma seq_ret_Inr [simp]: "seq m (\<lambda>x. ret (f x)) w = (Inr y, w') \<longleftrightarrow> (\<exists>x. m w = (Inr x, w') \<and> y = f x)"
  by (auto simp: seq_def split: prod.splits sum.splits)

lemma except_any_Inr:
  "except_any m h w = (Inr x, w') \<Longrightarrow> m w = (Inr x, w') \<or> (\<exists>e w1. m w = (Inl e, w1) \<and> h e w1 = (Inr x, w'))"
  by (auto simp: except_any_run split: prod.splits sum.splits if_splits)

lemma security_log_run [act_simps]:
  "security_log n b d w = (Inr (), w\<lparr>aw_trace := aw_trace w @ [SecurityLog n b d]\<rparr>)"
  by (simp add: security_log_def emit_def act_simps)

lemma resolve_certificate_key_public:
  assumes "resolve_certificate_key E t p w = (Inr (Some k), w')"
  shows "\<exists>pem. k = PublicPem pem"
  using assms
  by (auto simp: resolve_certificate_key_def Let_def split: if_splits option.splits elim!: seq_Inr_elim)

lemma resolve_provider_key_family:
  assumes "resolve_provider_key E token t p w = (Inr (Some k), w')"
  shows "is_single_key_source (Some (p_algorithms p)) \<and>
    (is_symmetric (hd (p_algorithms p)) \<longleftrightarrow> (\<exists>s. k = SharedSecret s))"
  using assms
  by (auto simp: resolve_provider_key_def eq_commute [of "Some k"] split: if_splits
      dest!: resolve_certificate_key_public except_any_Inr elim!: seq_Inr_elim)

lemma validate_selected_Inr:
  assumes "validate_selected E token t r p n w = (Inr (Some (claims, q), outcome), w')"
  shows "q = p \<and> is_single_key_source (Some (p_algorithms p)) \<and>
    (\<exists>k claims0. ae_verify E k (third_party_options p) token = Inr claims0 \<and>
       claims = AList.update REQUEST_URI_CLAIM (PStr (req_url r)) claims0 \<and>
       (is_symmetric (hd (p_algorithms p)) \<longleftrightarrow> (\<exists>s. k = SharedSecret s)))"
proof -
  from assms obtain w1 w2 k claims0 where "resolve_provider_key E token t p w1 = (Inr (Some k), w2)"
    and "q = p" and "ae_verify E k (third_party_options p) token = Inr claims0"
    and "claims = AList.update REQUEST_URI_CLAIM (PStr (req_url r)) claims0"
    by (auto simp: validate_selected_def split: option.splits elim!: seq_Inr_elim dest!: except_any_Inr)
  with resolve_provider_key_family show ?thesis by blast
qed

lemma select_for_token_provider:
  assumes "select_for_token ps issuer audiences h = Inr s" and "s_provider s = Some p"
  shows "p \<in> set ps \<and> (\<exists>i names. issuer = PStr i \<and> s = select (Some ps) (Some i) (Some names) h)"
proof -
  have n: "s_provider (select (Some []) i a h) = None" for i a by (simp add: select_def)
  have m: "p \<in> set ps" if "s_provider (select (Some ps) i a h) = Some p" for i a
    using pick_SomeD [OF that [unfolded select_provider_eq]] unfolding eligible_def by (metis filter_is_subset subsetD)
  show ?thesis using assms n m
    by (auto simp: select_for_token_def Let_def split: pyval.splits if_splits)
qed

lemma run_fallback_Inr:
  assumes "run_fallback E token tenant r w = (Inr (Some (claims, p), outcome), w')"
  shows "\<exists>t st k claims0. tenant = Some t \<and> t_is_third_party_jwt_enabled t \<and> token \<noteq> [] \<and>
    (truthy_opt (tenant_declared_on_request r) \<longrightarrow> tenant_declared_on_request r = Some (t_tenant_id t)) \<and>
    aw_store w = Some st \<and>
    p \<in> set (fst (get_active (ae_provider_db E) (ae_now E) (ae_later E) (t_tenant_id t) st)) \<and>
    is_single_key_source (Some (p_algorithms p)) \<and>
    (is_symmetric (hd (p_algorithms p)) \<longleftrightarrow> (\<exists>s. k = SharedSecret s)) \<and>
    ae_verify E k (third_party_options p) token = Inr claims0 \<and>
    claims = AList.update REQUEST_URI_CLAIM (PStr (req_url r)) claims0"
proof -
  from assms obtain t st where t: "tenant = Some t" "t_is_third_party_jwt_enabled t" "token \<noteq> []"
      "truthy_opt (tenant_declared_on_request r) \<longrightarrow> tenant_declared_on_request r = Some (t_tenant_id t)"
      "aw_store w = Some st"
    and run: "seq (active_providers E (t_tenant_id t) st) (\<lambda>ps.
                  seq (lift_exn (read_token_routing E token)) (\<lambda>(issuer, audiences).
                  let header_key = header r THIRD_PARTY_IDP_HEADER in
                  seq (lift_exn (select_for_token ps issuer audiences header_key)) (\<lambda>s.
                    case s_provider s of
                      None \<Rightarrow> seq (report_selection_failure (s_outcome s)
                                  (selection_detail s issuer audiences ps header_key))
                                (\<lambda>_. ret (None, s_outcome s))
                    | Some p \<Rightarrow> validate_selected E token t r p (s_candidate_count s)))) w
                = (Inr (Some (claims, p), outcome), w')"
    by (auto simp: run_fallback_def refuse_def Let_def split: option.splits if_splits elim!: seq_Inr_elim)
  from run obtain ps issuer audiences s w1 where
      ps: "active_providers E (t_tenant_id t) st w = (Inr ps, w1)"
    and s: "select_for_token ps issuer audiences (header r THIRD_PARTY_IDP_HEADER) = Inr s"
    and v: "case s_provider s of
                      None \<Rightarrow> seq (report_selection_failure (s_outcome s)
                                  (selection_detail s issuer audiences ps (header r THIRD_PARTY_IDP_HEADER)))
                                (\<lambda>_. ret (None, s_outcome s)) w1 = (Inr (Some (claims, p), outcome), w')
            | Some q \<Rightarrow> validate_selected E token t r q (s_candidate_count s) w1 = (Inr (Some (claims, p), outcome), w')"
    by (auto simp: Let_def split: prod.splits option.splits elim!: seq_Inr_elim)
  from v obtain q where q: "s_provider s = Some q"
    and vs: "validate_selected E token t r q (s_candidate_count s) w1 = (Inr (Some (claims, p), outcome), w')"
    by (auto split: option.splits elim!: seq_Inr_elim)
  note sel = validate_selected_Inr [OF vs]
  have "p \<in> set ps" using select_for_token_provider [OF s q] sel by simp
  moreover have "ps = fst (get_active (ae_provider_db E) (ae_now E) (ae_later E) (t_tenant_id t) st)"
    using ps by (auto simp: active_providers_def split: prod.splits)
  ultimately show ?thesis using t sel by blast
qed

lemma validate_with_fallback_cases:
  assumes "validate_with_fallback E token tenant r w = (x, w')"
  obtains (result) res outcome w1 where "run_fallback E token tenant r w = (Inr (res, outcome), w1)" "x = Inr res"
      "aw_ambient w' = aw_ambient w1"
  | (caught) e where "run_fallback E token tenant r w = (Inl e, w')" "e = Unmodelled" "x = Inl Unmodelled"
  | (failed) e w1 where "run_fallback E token tenant r w = (Inl e, w1)" "x = Inr None" "aw_ambient w' = aw_ambient w1"
  using assms
  by (auto simp: validate_with_fallback_def act_simps split: prod.splits sum.splits if_splits)

lemma keeps_ambient_fetch [simp, intro]: "keeps_ambient (fetch_cert_bytes E url)"
  by (auto simp: fetch_cert_bytes_def)

lemma keeps_ambient_secret [simp, intro]: "keeps_ambient (decrypt_provider_secret E t p c)"
  by (auto simp: decrypt_provider_secret_def)

lemma keeps_ambient_put [simp, intro]: "keeps_ambient (put_bytes E k bs ttl)"
  by (auto simp: put_bytes_def split: option.split)

lemma keeps_ambient_cert_key [simp, intro]: "keeps_ambient (resolve_certificate_key E t p)"
  by (auto simp: resolve_certificate_key_def Let_def split: option.split)

lemma keeps_ambient_key [simp, intro]: "keeps_ambient (resolve_provider_key E token t p)"
  by (auto simp: resolve_provider_key_def)

lemma keeps_ambient_selected [simp, intro]: "keeps_ambient (validate_selected E token t r p n)"
  by (auto simp: validate_selected_def split: option.split)

lemma keeps_ambient_report [simp, intro]: "keeps_ambient (report_selection_failure outcome detail)"
  by (auto simp: report_selection_failure_def split: selection_outcome.split)

lemma keeps_ambient_run_fallback [simp, intro]: "keeps_ambient (run_fallback E token tenant r)"
  by (auto simp: run_fallback_def refuse_def Let_def split: option.split prod.split)

lemma keeps_ambient_fallback [simp, intro]: "keeps_ambient (validate_with_fallback E token tenant r)"
  by (auto simp: validate_with_fallback_def split: prod.split)


text \<open>
  C32. The fallback never raises: whatever the token, the stores, the certificates and the key sets do,
  the caller gets a validated token or a refusal, and no ambient holder is touched.
\<close>

theorem fallback_never_raises:
  assumes "validate_with_fallback E token tenant r w = (x, w')"
  shows "(x = Inl e \<longrightarrow> e = Unmodelled) \<and> aw_ambient w' = aw_ambient w"
proof -
  have "x = Inl e \<Longrightarrow> e = Unmodelled"
    by (rule validate_with_fallback_cases [OF assms]) auto
  then show ?thesis using keeps_ambientD [OF keeps_ambient_fallback assms] by simp
qed

theorem fallback_never_raises_witness:
  "\<exists>x w'. validate_with_fallback (sample_env\<lparr>ae_crypto := toy_crypto\<lparr>aes_open := (\<lambda>_ _ _. Some [255])\<rparr>\<rparr>) ''tok''
      (Some (sample_tenant ''t1'')) empty_request sample_world = (x, w') \<and> (\<forall>e. x = Inl e \<longrightarrow> e = Unmodelled)"
proof -
  let ?m = "validate_with_fallback (sample_env\<lparr>ae_crypto := toy_crypto\<lparr>aes_open := (\<lambda>_ _ _. Some [255])\<rparr>\<rparr>) ''tok''
      (Some (sample_tenant ''t1'')) empty_request sample_world"
  obtain x w' where e: "?m = (x, w')" by (cases ?m)
  from fallback_never_raises [OF e] e show ?thesis by blast
qed

text \<open>
  A tenant that never opted in costs nothing: its external tokens are refused with one line on the
  security channel, without any fetch, cache write, database read or change of state.
\<close>

theorem disabled_tenant_fetches_nothing:
  assumes "\<not> t_is_third_party_jwt_enabled t"
  shows "validate_with_fallback E token (Some t) r w =
    (Inr None, w\<lparr>aw_trace := aw_trace w @
       [SecurityLog ''third_party_not_enabled'' True [(''tenantId'', PStr (t_tenant_id t))]]\<rparr>)"
  using assms
  by (simp add: validate_with_fallback_def run_fallback_def refuse_def ROUTINE_MISSES_def act_simps)

theorem disabled_tenant_fetches_nothing_witness:
  "validate_with_fallback sample_env ''tok'' (Some default_tenant) empty_request sample_world =
    (Inr None, sample_world\<lparr>aw_trace := aw_trace sample_world @
       [SecurityLog ''third_party_not_enabled'' True [(''tenantId'', PStr (t_tenant_id default_tenant))]]\<rparr>)"
  by (rule disabled_tenant_fetches_nothing) (simp add: default_tenant_def)

lemma sample_provider_simps [simp]:
  "p_key sample_provider = ''main''" "p_issuer sample_provider = ''https://abc.auth0.com/''"
  "p_audiences sample_provider = [''api'']" "p_algorithms sample_provider = [RS256]"
  "p_jwks_url sample_provider = ''https://abc/jwks''" "p_default_organization_id sample_provider = ''default''"
  by (simp_all add: sample_provider_def auth0_provider_def default_provider_def DEFAULT_ORGANIZATION_def)

lemma sample_env_simps [simp]:
  "ae_peek sample_env tok = Inr sample_claims" "ae_verify sample_env k opts tok = Inr sample_claims"
  "ae_jwks sample_env url tok = Inr ''jwk''" "ae_model sample_env = strict_env"
  by (simp_all add: sample_env_def)

lemma sample_tenant_simps [simp]:
  "t_tenant_id (sample_tenant t) = t" "t_is_third_party_jwt_enabled (sample_tenant t)"
  by (simp_all add: sample_tenant_def)

lemma sample_active:
  "active_providers sample_env ''t1'' new_provider_store w =
     (Inr [sample_provider], w\<lparr>aw_store := Some (keep_providers 0 ''t1'' [sample_provider] new_provider_store)\<rparr>)"
  by (simp add: active_providers_def get_active_def fresh_providers_def new_provider_store_def
      load_providers_def sample_env_def blank_iff is_space_def Let_def)

lemma sample_routing:
  "read_token_routing sample_env tok = Inr (PStr ''https://abc.auth0.com/'', [PStr ''api''])"
  by (simp add: read_token_routing_def sample_claims_def claim_names dget_def)

lemma sample_select:
  "\<exists>s. select_for_token [sample_provider] (PStr ''https://abc.auth0.com/'') [PStr ''api''] h = Inr s \<and>
     s_provider s = Some sample_provider"
  by (simp add: select_for_token_def List.map_filter_simps select_def narrow_def audience_matches_def
      absent_or_blank_def blank_iff is_space_def)

lemma sample_key:
  "\<exists>w'. resolve_provider_key sample_env tok t sample_provider w = (Inr (Some (JwkKey ''jwk'')), w')"
  by (simp add: resolve_provider_key_def is_single_key_source_def is_symmetric_def SYMMETRIC_def act_simps emit_def)

lemma sample_validated:
  "\<exists>w'. validate_selected sample_env tok t r sample_provider n w =
     (Inr (Some (AList.update REQUEST_URI_CLAIM (PStr (req_url r)) sample_claims, sample_provider), SELECTED), w')"
  using sample_key [of tok t "w\<lparr>aw_trace := aw_trace w @ [SecurityLog ''third_party_provider_selected'' False
            (key_detail sample_provider @ [(''providerName'', PStr (p_provider_name sample_provider)), (''issuer'', PStr (p_issuer sample_provider)),
               algorithm_detail sample_provider, (''candidates'', PInt (int n))])]\<rparr>"]
  by (auto simp: validate_selected_def act_simps)

lemma sample_fallback:
  assumes "\<not> truthy_opt (tenant_declared_on_request r)" and "tok \<noteq> []" and "aw_store w = Some new_provider_store"
  shows "\<exists>w'. validate_with_fallback sample_env tok (Some (sample_tenant ''t1'')) r w =
     (Inr (Some (AList.update REQUEST_URI_CLAIM (PStr (req_url r)) sample_claims, sample_provider)), w')"
proof -
  obtain s where s: "select_for_token [sample_provider] (PStr ''https://abc.auth0.com/'') [PStr ''api''] (header r THIRD_PARTY_IDP_HEADER) = Inr s"
    "s_provider s = Some sample_provider" using sample_select by blast
  let ?w = "w\<lparr>aw_store := Some (keep_providers 0 ''t1'' [sample_provider] new_provider_store)\<rparr>"
  obtain w' where "validate_selected sample_env tok (sample_tenant ''t1'') r sample_provider (s_candidate_count s) ?w =
     (Inr (Some (AList.update REQUEST_URI_CLAIM (PStr (req_url r)) sample_claims, sample_provider), SELECTED), w')"
    using sample_validated by blast
  then show ?thesis using assms s
    by (simp add: validate_with_fallback_def run_fallback_def act_simps sample_active sample_routing Let_def)
qed


end
