(* ===== verification/Authenticate.thy ===== *)
theory Authenticate
  imports Third_Party_Validation
begin

text \<open>
  The main handler of \<^verbatim>\<open>_auth/auth.py\<close>: the tenant's certificate, the primary
  validation of a Blocks token, the signer of an impersonation token, the routing between primary and
  external validation, and \<open>authenticate\<close>, which builds the context. The theorems say which of the
  two ways a request was authenticated, what the context then is, and that a refused request leaves no
  identity behind.
\<close>

definition unauthorized :: "string \<Rightarrow> py_exn" where
  "unauthorized detail = HTTPException 401 detail"

section \<open>Primary validation\<close>

text \<open>The lifetime of the cached certificate; \<^const>\<open>None\<close> where none is written (no issue date, or the
  date arithmetic failed).\<close>

definition certificate_ttl :: "auth_env \<Rightarrow> jwt_token_parameters \<Rightarrow> int option" where
  "certificate_ttl E j =
     (case j_issue_date j of None \<Rightarrow> None
      | Some d \<Rightarrow> (case ae_days_since E d of
            Inl _ \<Rightarrow> None
          | Inr n \<Rightarrow> Some (max 60 ((j_certificate_valid_for_number_of_days j - n - 1) * 86400))))"

definition get_tenant_cert :: "auth_env \<Rightarrow> tenant \<Rightarrow> string \<Rightarrow> (auth_world, bytes option) act" where
  "get_tenant_cert E t tid =
     (case t_jwt_token_parameters t of
        None \<Rightarrow> ret None
      | Some j \<Rightarrow>
          let k = ''tetocertpublic::'' @ tid; cached = cached_bytes E k in
          if cached \<noteq> [] then ret (Some cached)
          else seq (fetch_cert_bytes E (j_public_certificate_path j)) (\<lambda>bs.
            if bs = [] then ret None
            else seq (case certificate_ttl E j of
                        None \<Rightarrow> ret ()
                      | Some ttl \<Rightarrow> if ttl > 0 then put_bytes E k bs ttl else ret ())
                   (\<lambda>_. ret (Some bs))))"

definition primary_options :: "jwt_token_parameters \<Rightarrow> jwt_options" where
  "primary_options j = \<lparr>jo_algorithms = [''RS256''], jo_issuer = Some (j_issuer j),
     jo_audience = Some (j_audiences j), jo_verify_signature = True, jo_verify_exp = True,
     jo_verify_nbf = True, jo_verify_iat = True, jo_verify_iss = True, jo_verify_aud = True,
     jo_require = [''exp'', ''iat'', ''iss'', ''aud'', ''nbf''], jo_leeway = 0\<rparr>"

definition validate_jwt_token :: "auth_env \<Rightarrow> string \<Rightarrow> tenant \<Rightarrow> request \<Rightarrow> (auth_world, pydict) act" where
  "validate_jwt_token E token t r =
     (case t_jwt_token_parameters t of
        None \<Rightarrow> raise (HTTPException 401 ''Invalid tenant configuration'')
      | Some j \<Rightarrow>
          seq (get_tenant_cert E t (t_tenant_id t)) (\<lambda>bs.
            case bs of
              None \<Rightarrow> raise (HTTPException 500 ''Failed to load certificate'')
            | Some data \<Rightarrow> (case create_certificate E data (Some (j_public_certificate_password j)) of
                None \<Rightarrow> raise (HTTPException 500 ''Failed to load certificate'')
              | Some c \<Rightarrow>
                  seq (lift_exn (ae_public_pem E c)) (\<lambda>pem.
                  try_except
                    (seq (lift_exn (ae_verify E (PublicPem pem) (primary_options j) token)) (\<lambda>payload.
                       ret (AList.update TOKEN_CLAIM (PStr token)
                              (AList.update REQUEST_URI_CLAIM (PStr (req_url r)) payload))))
                    (\<lambda>e. if e = ExpiredSignatureError
                         then seq (security_log ''token_expired'' False []) (\<lambda>_. raise (unauthorized ''Token expired''))
                         else raise e)))))"

section \<open>Routing\<close>

definition resolve_signing_tenant ::
  "auth_env \<Rightarrow> string \<Rightarrow> tenant \<Rightarrow> string \<Rightarrow> (auth_world, tenant) act" where
  "resolve_signing_tenant E token t tid =
     (case ae_peek E token of
        Inl e \<Rightarrow> if e = Unmodelled then raise e else ret t
      | Inr claims \<Rightarrow>
          let signer = dlookup claims ORIGINAL_TENANT_ID_CLAIM in
          if truthy (dlookup claims IMPERSONATED_CLAIM) \<and> truthy signer \<and> signer \<noteq> PStr tid then
            (case signer of
               PStr s \<Rightarrow> seq (lookup_tenant E s) (\<lambda>st. case st of None \<Rightarrow> ret t | Some u \<Rightarrow> ret u)
             | PList _ \<Rightarrow> raise TypeError
             | PDict _ \<Rightarrow> raise TypeError
             | _ \<Rightarrow> ret t)
          else ret t)"

definition validate_authenticated_token ::
  "auth_env \<Rightarrow> string \<Rightarrow> bool \<Rightarrow> tenant \<Rightarrow> string \<Rightarrow> request \<Rightarrow> (auth_world, pydict \<times> provider option) act" where
  "validate_authenticated_token E token is_third_party t tid r =
     (let primary =
        seq (resolve_signing_tenant E token t tid) (\<lambda>signer.
          try_except (seq (validate_jwt_token E token signer r) (\<lambda>payload. ret (payload, None)))
            (\<lambda>e. if is_InvalidTokenError e
                 then seq (security_log ''authentication_failed'' True [])
                        (\<lambda>_. raise (unauthorized ''Token validation failed''))
                 else raise e)) in
      if is_third_party then
        seq (validate_with_fallback E token (Some t) r) (\<lambda>result.
          case result of
            None \<Rightarrow> raise (unauthorized ''Token validation failed'')
          | Some (claims, p) \<Rightarrow> ret (claims, Some p))
      else if t_is_third_party_jwt_enabled t then
        seq (validate_with_fallback E token (Some t) r) (\<lambda>result.
          case result of
            None \<Rightarrow> primary
          | Some (claims, p) \<Rightarrow> ret (claims, Some p))
      else primary)"

section \<open>The handler\<close>

definition requested_tenant_id :: "blocks_context option \<Rightarrow> request \<Rightarrow> string" where
  "requested_tenant_id context r =
     (let tid = (case context of None \<Rightarrow> [] | Some c \<Rightarrow> tenant_id c) in
      if tid \<noteq> [] then tid
      else or_empty (or_else (header r ''x-blocks-key'')
             (or_else (query_param r ''x-blocks-key'') (query_param r ''tenant_id''))))"

definition context_detail :: "blocks_context \<Rightarrow> provider \<Rightarrow> mapped_claims \<Rightarrow> pydict" where
  "context_detail c p m =
     [(''tenantId'', PStr (tenant_id c)), (''key'', PStr (p_key p)), (''userId'', PStr (user_id c)),
      (''organizationId'', PStr (organization_id c)), (''roles'', PList (map PStr (roles c))),
      (''emailResolved'', PBool (truthy (mc_email m))),
      (''userNameResolved'', PBool (truthy (mc_user_name m))),
      (''displayNameResolved'', PBool (mc_display_name m \<noteq> []))]"

text \<open>The context of an external token: the washed claims, mapped, on the tenant of the record.\<close>

definition external_context ::
  "auth_env \<Rightarrow> pydict \<Rightarrow> provider \<Rightarrow> tenant \<Rightarrow> request \<Rightarrow> string \<Rightarrow> (auth_world, blocks_context) act" where
  "external_context E washed p t r domain =
     seq (map_third_party_claims E washed p) (\<lambda>mapped.
       case mapped of
         None \<Rightarrow> raise (unauthorized ''Token validation failed'')
       | Some m \<Rightarrow>
           seq (try_except
                  (lift_exn (create_third_party_context (ae_model E) (t_tenant_id t) (mc_subject m)
                     (p_default_organization_id p) (mc_roles m) (mc_email m) (mc_user_name m)
                     (mc_display_name m) domain (req_url r)))
                  (\<lambda>e. if is_ValueError e
                       then seq (security_log ''third_party_subject_missing'' True
                              [(''key'', PStr (p_key p)),
                               (''mapping'', PStr (case p_claims_mapping p of None \<Rightarrow> [] | Some cm \<Rightarrow> cm_user_id cm))])
                              (\<lambda>_. raise (unauthorized ''Token validation failed''))
                       else raise e))
             (\<lambda>c. seq (security_log ''third_party_context_created'' False (context_detail c p m)) (\<lambda>_. ret c)))"

definition authenticate :: "auth_env \<Rightarrow> request \<Rightarrow> (auth_world, pydict) act" where
  "authenticate E r =
     seq (if ae_cache E = None then raise RuntimeError else ret ()) (\<lambda>_.
     seq (extract_token_from_request E r) (\<lambda>(token, is_third_party, domain).
     if \<not> truthy_opt token then raise (unauthorized ''Token missing'')
     else
     seq current_context (\<lambda>context.
     let tid = requested_tenant_id context r in
     seq (if tid \<noteq> [] then lookup_tenant E tid else ret None) (\<lambda>tenant.
     case tenant of
       None \<Rightarrow> raise (unauthorized ''Tenant not found'')
     | Some t \<Rightarrow>
         seq (modify (\<lambda>w. w\<lparr>aw_request_tenant := Some t\<rparr>)) (\<lambda>_.
         seq (validate_authenticated_token E (or_empty token) is_third_party t tid r) (\<lambda>(claims, provider).
         let payload = (case provider of None \<Rightarrow> claims | Some _ \<Rightarrow> strip_reserved_claims claims) in
         seq (case provider of
                Some p \<Rightarrow> external_context E payload p t r (or_empty domain)
              | None \<Rightarrow> lift_exn (create_from_jwt_claims (ae_model E) payload tid (or_empty domain))) (\<lambda>c.
         seq (update_ambient (set_context (Some c))) (\<lambda>_.
         seq (update_ambient (set_claims (Some payload))) (\<lambda>_.
         seq (emit (SetProperty ''baggage.UserId'' (user_id c))) (\<lambda>_.
         seq (emit (SetProperty ''baggage.IsAuthenticated'' ''true'')) (\<lambda>_.
         seq (emit (SetProperty ''baggage.IsThirdPartyToken'' (if provider \<noteq> None then ''True'' else ''False''))) (\<lambda>_.
         ret payload))))))))))))"

section \<open>Inversion\<close>

lemma sample_cache [simp]: "ae_cache sample_env \<noteq> None"
  by (simp add: sample_env_def)

lemma validate_jwt_token_Inr:
  assumes "validate_jwt_token E token t r w = (Inr payload, w')"
  shows "\<exists>j pem claims0. t_jwt_token_parameters t = Some j \<and>
    ae_verify E (PublicPem pem) (primary_options j) token = Inr claims0 \<and>
    payload = AList.update TOKEN_CLAIM (PStr token) (AList.update REQUEST_URI_CLAIM (PStr (req_url r)) claims0)"
  using assms
  by (auto simp: validate_jwt_token_def act_simps split: option.splits if_splits prod.splits sum.splits elim!: seq_Inr_elim)

lemma resolve_signing_tenant_Inr:
  assumes "resolve_signing_tenant E token t tid w = (Inr s, w')"
  shows "s = t \<or> (\<exists>claims sid. ae_peek E token = Inr claims \<and> truthy (dlookup claims IMPERSONATED_CLAIM) \<and>
      dlookup claims ORIGINAL_TENANT_ID_CLAIM = PStr sid \<and>
      fst (get_tenant (ae_tenant_db E) sid (aw_tenants w)) = Some s)"
  using assms
  by (auto simp: resolve_signing_tenant_def Let_def lookup_tenant_def split: sum.splits if_splits pyval.splits option.splits prod.splits
      elim!: seq_Inr_elim)

lemma validate_authenticated_token_Inr:
  assumes "validate_authenticated_token E token ext t tid r w = (Inr (claims, q), w')"
  shows "(\<exists>p w1. q = Some p \<and> validate_with_fallback E token (Some t) r w = (Inr (Some (claims, p)), w1)) \<or>
    q = None \<and> \<not> ext \<and> (\<exists>signer w1 w2. resolve_signing_tenant E token t tid w1 = (Inr signer, w2) \<and>
       validate_jwt_token E token signer r w2 = (Inr claims, w'))"
proof -
  have primary: "q = None \<and> (\<exists>signer w1 w2. resolve_signing_tenant E token t tid w1 = (Inr signer, w2) \<and>
       validate_jwt_token E token signer r w2 = (Inr claims, w'))"
    if "seq (resolve_signing_tenant E token t tid) (\<lambda>signer.
          try_except (seq (validate_jwt_token E token signer r) (\<lambda>payload. ret (payload, None)))
            (\<lambda>e. if is_InvalidTokenError e
                 then seq (security_log ''authentication_failed'' True [])
                        (\<lambda>_. raise (unauthorized ''Token validation failed''))
                 else raise e)) v = (Inr (claims, q), w')" for v
    using that
    by (auto simp: try_except_run act_simps split: prod.splits sum.splits if_splits elim!: seq_Inr_elim)
  show ?thesis using assms primary
    by (auto simp: validate_authenticated_token_def Let_def split: if_splits option.splits elim!: seq_Inr_elim)
qed

lemma external_context_Inr:
  assumes "external_context E washed p t r domain w = (Inr c, w')"
  shows "\<exists>m w1. map_third_party_claims E washed p w = (Inr (Some m), w1) \<and>
    create_third_party_context (ae_model E) (t_tenant_id t) (mc_subject m) (p_default_organization_id p)
      (mc_roles m) (mc_email m) (mc_user_name m) (mc_display_name m) domain (req_url r) = Inr c"
  using assms
  by (auto simp: external_context_def act_simps split: option.splits if_splits prod.splits sum.splits
      elim!: seq_Inr_elim)

lemma keeps_ambient_jwt [simp, intro]: "keeps_ambient (validate_jwt_token E token t r)"
  by (auto simp: validate_jwt_token_def get_tenant_cert_def Let_def split: option.split)

lemma keeps_ambient_signer [simp, intro]: "keeps_ambient (resolve_signing_tenant E token t tid)"
  by (auto simp: resolve_signing_tenant_def Let_def split: sum.split option.split pyval.split)

lemma keeps_ambient_validate [simp, intro]: "keeps_ambient (validate_authenticated_token E token ext t tid r)"
  by (auto simp: validate_authenticated_token_def Let_def split: option.split prod.split)

lemma keeps_ambient_external [simp, intro]: "keeps_ambient (external_context E washed p t r domain)"
  by (auto simp: external_context_def split: option.split)

text \<open>The steps before the identity is published, and the publication.\<close>

definition identify :: "auth_env \<Rightarrow> request \<Rightarrow> (auth_world, pydict \<times> provider option \<times> blocks_context) act" where
  "identify E r =
     seq (if ae_cache E = None then raise RuntimeError else ret ()) (\<lambda>_.
     seq (extract_token_from_request E r) (\<lambda>(token, is_third_party, domain).
     if \<not> truthy_opt token then raise (unauthorized ''Token missing'')
     else
     seq current_context (\<lambda>context.
     let tid = requested_tenant_id context r in
     seq (if tid \<noteq> [] then lookup_tenant E tid else ret None) (\<lambda>tenant.
     case tenant of
       None \<Rightarrow> raise (unauthorized ''Tenant not found'')
     | Some t \<Rightarrow>
         seq (modify (\<lambda>w. w\<lparr>aw_request_tenant := Some t\<rparr>)) (\<lambda>_.
         seq (validate_authenticated_token E (or_empty token) is_third_party t tid r) (\<lambda>(claims, provider).
         let payload = (case provider of None \<Rightarrow> claims | Some _ \<Rightarrow> strip_reserved_claims claims) in
         seq (case provider of
                Some p \<Rightarrow> external_context E payload p t r (or_empty domain)
              | None \<Rightarrow> lift_exn (create_from_jwt_claims (ae_model E) payload tid (or_empty domain))) (\<lambda>c.
         ret (payload, provider, c))))))))"

definition publish_identity :: "pydict \<times> provider option \<times> blocks_context \<Rightarrow> (auth_world, pydict) act" where
  "publish_identity i = (case i of (payload, provider, c) \<Rightarrow>
     seq (update_ambient (set_context (Some c))) (\<lambda>_.
     seq (update_ambient (set_claims (Some payload))) (\<lambda>_.
     seq (emit (SetProperty ''baggage.UserId'' (user_id c))) (\<lambda>_.
     seq (emit (SetProperty ''baggage.IsAuthenticated'' ''true'')) (\<lambda>_.
     seq (emit (SetProperty ''baggage.IsThirdPartyToken'' (if provider \<noteq> None then ''True'' else ''False''))) (\<lambda>_.
     ret payload))))))"

lemma seq_assoc: "seq (seq m k) h = seq m (\<lambda>x. seq (k x) h)"
  by (auto simp: seq_def fun_eq_iff split: prod.split sum.split)

lemma seq_cong_fun: "(\<And>x. k x = h x) \<Longrightarrow> seq m k = seq m h"
proof -
  assume "\<And>x. k x = h x"
  then have "k = h" by (rule ext)
  then show ?thesis by simp
qed

lemma authenticate_split: "authenticate E r = seq (identify E r) publish_identity"
  unfolding authenticate_def identify_def seq_assoc publish_identity_def
  by (intro seq_cong_fun) (auto simp: seq_assoc Let_def split: prod.split option.split intro!: seq_cong_fun)

lemma keeps_ambient_identify: "keeps_ambient (identify E r)"
  unfolding identify_def Let_def by (intro keeps_ambient_rules keeps_ambient_modify) simp_all

lemma publish_identity_run:
  "publish_identity (payload, q, c) w = (Inr payload, snd (publish_identity (payload, q, c) w)) \<and>
   aw_ambient (snd (publish_identity (payload, q, c) w)) = set_claims (Some payload) (set_context (Some c) (aw_ambient w)) \<and>
   aw_request_tenant (snd (publish_identity (payload, q, c) w)) = aw_request_tenant w"
  by (simp add: publish_identity_def act_simps update_ambient_def emit_def)

lemma identify_Inr:
  assumes "identify E r w = (Inr (payload, q, c), w')"
  shows "\<exists>token ext domain s t claims v v'.
    token \<noteq> [] \<and> fst (get_tenant (ae_tenant_db E) (requested_tenant_id (get_context None (aw_ambient w)) r) s) = Some t \<and>
    validate_authenticated_token E token ext t (requested_tenant_id (get_context None (aw_ambient w)) r) r v = (Inr (claims, q), v') \<and>
    (case q of
       None \<Rightarrow> payload = claims \<and>
         create_from_jwt_claims (ae_model E) payload (requested_tenant_id (get_context None (aw_ambient w)) r) domain = Inr c
     | Some p \<Rightarrow> payload = strip_reserved_claims claims \<and> external_context E payload p t r domain v' = (Inr c, w'))"
proof -
  from assms obtain token ext domain w1 where
      x: "extract_token_from_request E r w = (Inr (token, ext, domain), w1)" and tok: "truthy_opt token"
    and rest: "(let tid = requested_tenant_id (get_context None (aw_ambient w1)) r in
       seq (if tid \<noteq> [] then lookup_tenant E tid else ret None) (\<lambda>tenant.
         case tenant of
           None \<Rightarrow> raise (unauthorized ''Tenant not found'')
         | Some t \<Rightarrow>
             seq (modify (\<lambda>w. w\<lparr>aw_request_tenant := Some t\<rparr>)) (\<lambda>_.
             seq (validate_authenticated_token E (or_empty token) ext t tid r) (\<lambda>(claims, provider).
             let payload = (case provider of None \<Rightarrow> claims | Some _ \<Rightarrow> strip_reserved_claims claims) in
             seq (case provider of
                    Some p \<Rightarrow> external_context E payload p t r (or_empty domain)
                  | None \<Rightarrow> lift_exn (create_from_jwt_claims (ae_model E) payload tid (or_empty domain))) (\<lambda>c.
             ret (payload, provider, c)))))) w1 = (Inr (payload, q, c), w')"
    unfolding identify_def
    by (auto simp: current_context_def split: if_splits elim!: seq_Inr_elim)
  have amb: "aw_ambient w1 = aw_ambient w" by (rule keeps_ambientD [OF keeps_ambient_extract x])
  let ?tid = "requested_tenant_id (get_context None (aw_ambient w)) r"
  from rest [unfolded Let_def amb] obtain t w2 where
      t: "(if ?tid \<noteq> [] then lookup_tenant E ?tid else ret None) w1 = (Inr (Some t), w2)"
    and rest2: "seq (modify (\<lambda>w. w\<lparr>aw_request_tenant := Some t\<rparr>)) (\<lambda>_.
             seq (validate_authenticated_token E (or_empty token) ext t ?tid r) (\<lambda>(claims, provider).
             seq (case provider of
                    Some p \<Rightarrow> external_context E (case provider of None \<Rightarrow> claims | Some _ \<Rightarrow> strip_reserved_claims claims) p t r (or_empty domain)
                  | None \<Rightarrow> lift_exn (create_from_jwt_claims (ae_model E) (case provider of None \<Rightarrow> claims | Some _ \<Rightarrow> strip_reserved_claims claims) ?tid (or_empty domain))) (\<lambda>c.
             ret (case provider of None \<Rightarrow> claims | Some _ \<Rightarrow> strip_reserved_claims claims, provider, c)))) w2
          = (Inr (payload, q, c), w')"
    by (auto split: option.splits elim!: seq_Inr_elim)
  have "fst (get_tenant (ae_tenant_db E) ?tid (aw_tenants w1)) = Some t"
    using t by (auto simp: lookup_tenant_def split: if_splits prod.splits)
  moreover obtain claims v' where
      "validate_authenticated_token E (or_empty token) ext t ?tid r (w2\<lparr>aw_request_tenant := Some t\<rparr>) = (Inr (claims, q), v')"
    and "case q of
       None \<Rightarrow> payload = claims \<and> create_from_jwt_claims (ae_model E) payload ?tid (or_empty domain) = Inr c
     | Some p \<Rightarrow> payload = strip_reserved_claims claims \<and> external_context E payload p t r (or_empty domain) v' = (Inr c, w')"
    using rest2 by (auto split: option.splits elim!: seq_Inr_elim)
  moreover have "or_empty token \<noteq> []" using tok by (cases token) auto
  ultimately show ?thesis by blast
qed

section \<open>What authentication establishes\<close>

text \<open>The context an external token may give on a tenant: nothing but a suffixed user, the mapped
  roles and display data.\<close>

definition external_identity :: "tenant \<Rightarrow> blocks_context \<Rightarrow> bool" where
  "external_identity t c \<longleftrightarrow>
     tenant_id c = t_tenant_id t \<and> original_tenant_id c = t_tenant_id t \<and> permissions c = [] \<and>
     oauth_token c = [] \<and> \<not> impersonated c \<and> impersonation_session_id c = [] \<and> session_id c = [] \<and>
     client_id c = [] \<and> organization_id c \<noteq> [] \<and> (\<exists>s. \<not> blank s \<and> user_id c = s @ ''_external'')"

text \<open>The two ways to an identity: the branch an external provider accepted, and a Blocks token.\<close>

lemma identity_external:
  assumes "validate_authenticated_token E token ext t tid r v = (Inr (claims, Some p), v')"
    and "external_context E (strip_reserved_claims claims) p t r domain v' = (Inr c, w1)" and "model_env_ok (ae_model E)"
  shows "external_identity t c \<and> is_authenticated c \<and>
    (\<exists>v1. validate_with_fallback E token (Some t) r v = (Inr (Some (claims, p)), v1))"
proof -
  from external_context_Inr [OF assms(2)] obtain m :: mapped_claims where
    "create_third_party_context (ae_model E) (t_tenant_id t) (mc_subject m) (p_default_organization_id p)
      (mc_roles m) (mc_email m) (mc_user_name m) (mc_display_name m) domain (req_url r) = Inr c"
    by blast
  from third_party_context_washed [OF assms(3) this] have "external_identity t c" "is_authenticated c"
    by (auto simp: external_identity_def)
  moreover obtain v1 where "validate_with_fallback E token (Some t) r v = (Inr (Some (claims, p)), v1)"
    using validate_authenticated_token_Inr [OF assms(1)] by auto
  ultimately show ?thesis by blast
qed

lemma identity_blocks:
  assumes "validate_authenticated_token E token ext t tid r v = (Inr (payload, None), v')"
    and "create_from_jwt_claims (ae_model E) payload tid domain = Inr c" and "model_env_ok (ae_model E)" and "tid \<noteq> []"
  shows "is_authenticated c \<and> original_tenant_id c = tid \<and>
    (\<exists>(signer :: tenant) j pem claims. t_jwt_token_parameters signer = Some j \<and>
      ae_verify E (PublicPem pem) (primary_options j) token = Inr claims \<and>
      payload = AList.update TOKEN_CLAIM (PStr token) (AList.update REQUEST_URI_CLAIM (PStr (req_url r)) claims))"
proof -
  obtain signer v1 v2 where "validate_jwt_token E token signer r v1 = (Inr payload, v2)"
    using validate_authenticated_token_Inr [OF assms(1)] by auto
  from validate_jwt_token_Inr [OF this] have "\<exists>(signer :: tenant) j pem claims. t_jwt_token_parameters signer = Some j \<and>
      ae_verify E (PublicPem pem) (primary_options j) token = Inr claims \<and>
      payload = AList.update TOKEN_CLAIM (PStr token) (AList.update REQUEST_URI_CLAIM (PStr (req_url r)) claims)"
    by blast
  moreover have "original_tenant_id c = tid" "is_authenticated c" using jwt_context_scope [OF assms(2,3)] assms(4) by auto
  ultimately show ?thesis by blast
qed

lemma authenticate_identity:
  assumes "authenticate E r w = (Inr payload, w')" and "model_env_ok (ae_model E)"
  shows "\<exists>token t s c. token \<noteq> [] \<and>
    fst (get_tenant (ae_tenant_db E) (requested_tenant_id (get_context None (aw_ambient w)) r) s) = Some t \<and>
    get_context None (aw_ambient w') = Some c \<and> current_claims (aw_ambient w') = Some payload \<and>
    is_authenticated c \<and>
    ((\<exists>p claims v v'. validate_with_fallback E token (Some t) r v = (Inr (Some (claims, p)), v') \<and>
        payload = strip_reserved_claims claims \<and> external_identity t c) \<or>
     (\<exists>(signer :: tenant) j pem claims domain. t_jwt_token_parameters signer = Some j \<and>
        ae_verify E (PublicPem pem) (primary_options j) token = Inr claims \<and>
        payload = AList.update TOKEN_CLAIM (PStr token) (AList.update REQUEST_URI_CLAIM (PStr (req_url r)) claims) \<and>
        create_from_jwt_claims (ae_model E) payload (requested_tenant_id (get_context None (aw_ambient w)) r) domain = Inr c \<and>
        original_tenant_id c = requested_tenant_id (get_context None (aw_ambient w)) r))"
proof -
  let ?tid = "requested_tenant_id (get_context None (aw_ambient w)) r"
  obtain q c w1 where i: "identify E r w = (Inr (payload, q, c), w1)"
    and p: "publish_identity (payload, q, c) w1 = (Inr payload, w')"
  proof -
    obtain i w1 where "identify E r w = (Inr i, w1)" "publish_identity i w1 = (Inr payload, w')"
      using assms(1) unfolding authenticate_split by (rule seq_Inr_elim)
    then show ?thesis using that publish_identity_run [of "fst i" "fst (snd i)" "snd (snd i)" w1] by (cases i) simp
  qed
  have "aw_ambient w' = set_claims (Some payload) (set_context (Some c) (aw_ambient w1))"
    using publish_identity_run [of payload q c w1] p by simp
  then have ctx: "get_context None (aw_ambient w') = Some c" "current_claims (aw_ambient w') = Some payload"
    by (simp_all add: ctx_var.current_put claims_var.current_put)
  obtain token ext domain s t claims v v' where f: "token \<noteq> []" "fst (get_tenant (ae_tenant_db E) ?tid s) = Some t"
    and va: "validate_authenticated_token E token ext t ?tid r v = (Inr (claims, q), v')"
    and b: "case q of
       None \<Rightarrow> payload = claims \<and> create_from_jwt_claims (ae_model E) payload ?tid domain = Inr c
     | Some p \<Rightarrow> payload = strip_reserved_claims claims \<and> external_context E payload p t r domain v' = (Inr c, w1)"
    using identify_Inr [OF i] by blast
  have tid: "?tid \<noteq> []" using f(2) by (auto simp: get_tenant_result split: if_splits)
  show ?thesis
  proof (cases q)
    case (Some p)
    with b have "payload = strip_reserved_claims claims" "external_context E (strip_reserved_claims claims) p t r domain v' = (Inr c, w1)"
      by auto
    with identity_external [OF va [unfolded Some] _ assms(2)] obtain v1 where
      "external_identity t c" "is_authenticated c" "validate_with_fallback E token (Some t) r v = (Inr (Some (claims, p)), v1)"
      "payload = strip_reserved_claims claims" by blast
    with f ctx show ?thesis by blast
  next
    case None
    with b have "payload = claims" and cc: "create_from_jwt_claims (ae_model E) payload ?tid domain = Inr c" by auto
    then obtain signer :: tenant and j pem claims0 where id: "is_authenticated c" "original_tenant_id c = ?tid"
      "t_jwt_token_parameters signer = Some j" "ae_verify E (PublicPem pem) (primary_options j) token = Inr claims0"
      "payload = AList.update TOKEN_CLAIM (PStr token) (AList.update REQUEST_URI_CLAIM (PStr (req_url r)) claims0)"
      using identity_blocks [OF va [unfolded None], of domain c] assms(2) tid by auto
    have "\<exists>(signer :: tenant) j pem claims domain. t_jwt_token_parameters signer = Some j \<and>
        ae_verify E (PublicPem pem) (primary_options j) token = Inr claims \<and>
        payload = AList.update TOKEN_CLAIM (PStr token) (AList.update REQUEST_URI_CLAIM (PStr (req_url r)) claims) \<and>
        create_from_jwt_claims (ae_model E) payload ?tid domain = Inr c \<and> original_tenant_id c = ?tid"
      by (intro exI conjI) (rule id(3), rule id(4), rule id(5), rule cc, rule id(2))
    with f ctx id(1) show ?thesis
      by - (rule exI [of _ token], rule exI [of _ t], rule exI [of _ s], rule exI [of _ c],
        intro conjI, (assumption | rule disjI2)+)
  qed
qed


text \<open>
  A request that fails to authenticate, for whatever reason, leaves every ambient holder as it was:
  no context, no claims and no grant of the rejected token stay behind.
\<close>

theorem failed_authentication_leaves_no_identity:
  assumes "authenticate E r w = (Inl e, w')"
  shows "aw_ambient w' = aw_ambient w"
proof -
  have "publish_identity i v \<noteq> (Inl e, w')" for i v
    using publish_identity_run by (cases i) (metis Inl_Inr_False fst_conv)
  then have "identify E r w = (Inl e, w')"
    using assms by (auto simp: authenticate_split seq_run split: prod.splits sum.splits)
  then show ?thesis by (rule keeps_ambientD [OF keeps_ambient_identify])
qed

text \<open>
  A rejected signature, an expired or malformed token is answered and never escapes as PyJWT's own
  exception: validation ends in claims, in an HTTP error or in an error that is not about the token.
\<close>

theorem invalid_token_never_escapes:
  assumes "validate_authenticated_token E token ext t tid r w = (Inl e, w')"
  shows "\<not> is_InvalidTokenError e"
proof -
  have h: "\<not> is_InvalidTokenError (unauthorized d)" "\<not> is_InvalidTokenError Unmodelled" "\<not> is_InvalidTokenError TypeError" for d
    by (simp_all add: is_InvalidTokenError_def unauthorized_def)
  have signer: "resolve_signing_tenant E token t tid v = (Inl x, v') \<Longrightarrow> \<not> is_InvalidTokenError x" for v v' x
    using h by (auto simp: resolve_signing_tenant_def Let_def lookup_tenant_def act_simps
        split: sum.splits if_splits pyval.splits option.splits prod.splits)
  have fallback: "validate_with_fallback E token (Some t) r v = (Inl x, v') \<Longrightarrow> \<not> is_InvalidTokenError x" for v v' x
    using h by (auto elim: validate_with_fallback_cases)
  show ?thesis using assms h
    by (auto simp: validate_authenticated_token_def Let_def act_simps
        split: if_splits prod.splits sum.splits option.splits dest: signer fallback)
qed

theorem failed_authentication_leaves_no_identity_witness:
  "\<exists>w'. authenticate sample_env empty_request sample_world = (Inl (unauthorized ''Token missing''), w') \<and>
    aw_ambient w' = aw_ambient sample_world"
proof -
  have "\<exists>w'. authenticate sample_env empty_request sample_world = (Inl (unauthorized ''Token missing''), w')"
    by (simp add: authenticate_def extract_token_from_request_def extract_token_from_cookie_def current_context_def
        lookup_tenant_def act_simps resolve_application_domain_def header_def empty_request_def starts_with_def
        try_localhost_alias_cookie_def sample_tenant_def default_tenant_def cookie_def)
  then obtain w' where e: "authenticate sample_env empty_request sample_world = (Inl (unauthorized ''Token missing''), w')" ..
  from failed_authentication_leaves_no_identity [OF e] e show ?thesis by blast
qed

text \<open>The sample outside accepts the sample provider's token.\<close>

lemma sample_external:
  "\<exists>c w'. external_context sample_env (strip_reserved_claims (AList.update REQUEST_URI_CLAIM u sample_claims))
      sample_provider (sample_tenant ''t1'') r domain w = (Inr c, w')"
proof -
  let ?d = "strip_reserved_claims (AList.update REQUEST_URI_CLAIM u sample_claims)"
  have d: "?d \<noteq> []" "dlookup ?d SUBJECT_CLAIM = PStr ''u7''" "dlookup ?d EMAIL_CLAIM = PNone"
    "map_of ?d ''https://x/roles'' = Some (PList [PStr ''reader''])"
    by (simp_all add: strip_reserved_claims_def RESERVED_CLAIMS_def sample_claims_def claim_names dget_def)
  have roles: "extract_roles_from_claim sample_env ?d ''https://x/roles'' = Inr [''reader'']"
    using d by (simp add: extract_roles_from_claim_def dget_def)
  have m: "p_claims_mapping sample_provider = Some \<lparr>cm_user_id = ''sub'', cm_email = [], cm_user_name = [],
      cm_name = [], cm_roles = ''https://x/roles''\<rparr>"
    by (simp add: sample_provider_def empty_mapping_def)
  have c: "is_configured \<lparr>cm_user_id = ''sub'', cm_email = [], cm_user_name = [],
      cm_name = [], cm_roles = ''https://x/roles''\<rparr>"
    unfolding is_configured_def empty_mapping_def by (simp add: str_defs)
  have "\<exists>w1. map_third_party_claims sample_env ?d sample_provider w =
     (Inr (Some \<lparr>mc_subject = PStr ''u7'', mc_email = PStr [], mc_user_name = PStr [], mc_display_name = [],
        mc_roles = [''reader'']\<rparr>), w1)"
    by (simp add: map_third_party_claims_def m c d roles act_simps Let_def resolve_mapped_claim_def)
  then show ?thesis
    by (auto simp: external_context_def act_simps third_party_defs blank_iff is_space_def strict_env_def)
qed

lemma sample_authenticate:
  "\<exists>payload w'. authenticate sample_env (empty_request\<lparr>req_headers := [(''authorization'', ''Bearer tok'')]\<rparr>) sample_world
     = (Inr payload, w')"
proof -
  let ?r = "empty_request\<lparr>req_headers := [(''authorization'', ''Bearer tok'')]\<rparr>"
  have x: "extract_token_from_request sample_env ?r w = (Inr (Some ''tok'', False, None), w)" for w
    by (simp add: extract_by_bearer bearer_token_def header_def empty_request_def str_defs
        resolve_application_domain_def act_simps py_eval)
  let ?w = "sample_world\<lparr>aw_tenants := cache_tenant ''t1'' (sample_tenant ''t1'') new_tenant_service,
     aw_request_tenant := Some (sample_tenant ''t1'')\<rparr>"
  obtain w1 where f: "validate_with_fallback sample_env ''tok'' (Some (sample_tenant ''t1'')) ?r ?w =
     (Inr (Some (AList.update REQUEST_URI_CLAIM (PStr (req_url ?r)) sample_claims, sample_provider)), w1)"
    using sample_fallback [of ?r "''tok''" ?w]
    by (auto simp: tenant_declared_on_request_def header_def query_param_def empty_request_def py_eval py_lower_def lower_char_def)
  obtain c w2 where e: "external_context sample_env (strip_reserved_claims (AList.update REQUEST_URI_CLAIM (PStr (req_url ?r)) sample_claims))
      sample_provider (sample_tenant ''t1'') ?r [] w1 = (Inr c, w2)"
    using sample_external by blast
  show ?thesis using f e
    by (simp add: authenticate_def x current_context_def requested_tenant_id_def lookup_tenant_def
        validate_authenticated_token_def act_simps Let_def update_ambient_def emit_def)
qed


theorem invalid_token_never_escapes_witness:
  "\<exists>x w'. validate_authenticated_token (sample_env\<lparr>ae_verify := (\<lambda>_ _ _. Inl InvalidTokenError)\<rparr>) ''tok'' False
      ((sample_tenant ''t1'')\<lparr>t_is_third_party_jwt_enabled := False\<rparr>) ''t1'' empty_request sample_world = (x, w') \<and>
    x = Inl (unauthorized ''Token validation failed'') \<and> (\<forall>e. x = Inl e \<longrightarrow> \<not> is_InvalidTokenError e)"
proof -
  let ?m = "validate_authenticated_token (sample_env\<lparr>ae_verify := (\<lambda>_ _ _. Inl InvalidTokenError)\<rparr>) ''tok'' False
      ((sample_tenant ''t1'')\<lparr>t_is_third_party_jwt_enabled := False\<rparr>) ''t1'' empty_request sample_world"
  have "\<exists>w'. ?m = (Inl (unauthorized ''Token validation failed''), w')"
    by (simp add: validate_authenticated_token_def resolve_signing_tenant_def act_simps validate_jwt_token_def
        get_tenant_cert_def cached_bytes_def fetch_cert_bytes_def emit_def sample_tenant_def default_tenant_def
        default_jwt_token_parameters_def certificate_ttl_def create_certificate_def starts_with_def
        sample_env_def sample_claims_def claim_names dget_def is_InvalidTokenError_def Let_def)
  then obtain w' where e: "?m = (Inl (unauthorized ''Token validation failed''), w')" ..
  from invalid_token_never_escapes [OF e] e show ?thesis by blast
qed

end
