(* ===== verification/Access_Control.thy ===== *)
theory Access_Control
  imports Authenticate
begin

text \<open>
  The last part of \<^verbatim>\<open>_auth/auth.py\<close>: the permission query, the access check and the
  \<^verbatim>\<open>authorize\<close> dependency. The query sent to the Permissions collection is data
  (\<open>permission_query\<close>); \<open>query_matches\<close> is the documented meaning of its operators
  (\<^verbatim>\<open>$in\<close> on a text field and on an array field, \<^verbatim>\<open>$and\<close>,
  \<^verbatim>\<open>$or\<close>), over the documents that the database, a parameter, returns.
\<close>

section \<open>The query\<close>

record permission_document =
  pd_organization_id :: string
  pd_resource :: string
  pd_roles :: "string list"

datatype condition =
    ResourceIn "string list"
  | ResourceAndRolesIn string "string list"

record permission_query =
  pq_organization_id :: string
  pq_or :: "condition list"

fun condition_matches :: "condition \<Rightarrow> permission_document \<Rightarrow> bool" where
  "condition_matches (ResourceIn rs) d = (pd_resource d \<in> set rs)"
| "condition_matches (ResourceAndRolesIn name rs) d =
     (pd_resource d = name \<and> list_ex (\<lambda>x. x \<in> set rs) (pd_roles d))"

definition query_matches :: "permission_query \<Rightarrow> permission_document \<Rightarrow> bool" where
  "query_matches q d \<longleftrightarrow>
     pd_organization_id d = pq_organization_id q \<and> list_ex (\<lambda>c. condition_matches c d) (pq_or q)"

definition build_query :: "string \<Rightarrow> string \<Rightarrow> string list \<Rightarrow> string list \<Rightarrow> permission_query" where
  "build_query org resource_name rs ps =
     \<lparr>pq_organization_id = org,
      pq_or = (if ps \<noteq> [] then [ResourceIn ps] else []) @
              (if rs \<noteq> [] then [ResourceAndRolesIn resource_name rs] else [])\<rparr>"

section \<open>The check\<close>

text \<open>
  What \<^verbatim>\<open>db_context.get_collection("Permissions", tenant_id)\<close> gives: an exception,
  or a collection. The code awaits \<^verbatim>\<open>count_documents\<close>. A collection of pymongo's
  asynchronous driver returns a coroutine there; one of its synchronous driver returns a plain number,
  and awaiting a number is a \<^verbatim>\<open>TypeError\<close>. \<open>pc_awaitable\<close> says which driver it is.
\<close>

record permission_collection =
  pc_awaitable :: bool
  pc_documents :: "permission_document list"

type_synonym permission_db = "string \<Rightarrow> py_exn + permission_collection"

definition awaited_count :: "permission_collection \<Rightarrow> permission_query \<Rightarrow> py_exn + nat" where
  "awaited_count col q =
     (if pc_awaitable col then Inr (length (filter (query_matches q) (pc_documents col))) else Inl TypeError)"

definition effective_tenant_id :: "blocks_context option \<Rightarrow> string \<Rightarrow> string" where
  "effective_tenant_id bc tid =
     (let own = (case bc of None \<Rightarrow> []
                 | Some c \<Rightarrow> if impersonated c \<and> original_tenant_id c \<noteq> [] then original_tenant_id c else tenant_id c) in
      if own \<noteq> [] then own else tid)"

definition effective_organization :: "blocks_context option \<Rightarrow> string" where
  "effective_organization bc =
     (case bc of None \<Rightarrow> ''default''
      | Some c \<Rightarrow> if blank (organization_id c) then ''default'' else organization_id c)"

definition check_permission ::
  "permission_db \<Rightarrow> blocks_context option \<Rightarrow> string \<Rightarrow> string list \<Rightarrow> string list \<Rightarrow> string \<Rightarrow> bool" where
  "check_permission db bc resource_name rs ps tid =
     (let etid = effective_tenant_id bc tid in
      if etid = [] then False
      else case db etid of
        Inl _ \<Rightarrow> False
      | Inr col \<Rightarrow>
          if rs = [] \<and> ps = [] then False
          else case awaited_count col (build_query (effective_organization bc) resource_name rs ps) of
            Inl _ \<Rightarrow> False
          | Inr n \<Rightarrow> n > 0)"

definition check_quota :: "blocks_context \<Rightarrow> string \<Rightarrow> bool" where
  "check_quota c resource_name = True"

definition check_standard_access ::
  "permission_db \<Rightarrow> blocks_context option \<Rightarrow> blocks_context option \<Rightarrow> string \<Rightarrow> bool" where
  "check_standard_access db bc context resource_name =
     (if resource_name = [] then False
      else case context of
        None \<Rightarrow> False
      | Some c \<Rightarrow>
          if tenant_id c = [] then False
          else if \<not> check_quota c resource_name then False
          else check_permission db bc resource_name (roles c) (permissions c)
                 (if impersonated c then original_tenant_id c else tenant_id c))"

section \<open>authorize\<close>

text \<open>\<open>authorize_check\<close> runs when the dependency is declared, \<open>authorize\<close> on each request; \<open>startup\<close>
  says whether the cache client and the database provider are there, without which building the
  tenant service or reading the provider raises. A new tenant service is built for each request.\<close>

definition authorize_check :: "string option \<Rightarrow> bool \<Rightarrow> py_exn + unit" where
  "authorize_check resource_name bypass =
     (if \<not> bypass \<and> blank (or_empty resource_name) then Inl ValueError else Inr ())"

definition authorize ::
  "auth_env \<Rightarrow> permission_db \<Rightarrow> bool \<Rightarrow> string option \<Rightarrow> bool \<Rightarrow> request \<Rightarrow> (auth_world, blocks_context) act" where
  "authorize E db db_ready resource_name bypass r =
     seq (if ae_cache E = None \<or> \<not> db_ready then raise RuntimeError else ret ()) (\<lambda>_.
     seq (modify (\<lambda>w. w\<lparr>aw_tenants := new_tenant_service\<rparr>)) (\<lambda>_.
     seq (authenticate E r) (\<lambda>_.
     seq current_context (\<lambda>context.
     case context of
       None \<Rightarrow> raise (unauthorized ''Missing context'')
     | Some c \<Rightarrow>
         if bypass then ret c
         else if check_standard_access db context context (or_empty resource_name) then ret c
         else seq (security_log ''forbidden'' False
                [(''resource'', case resource_name of None \<Rightarrow> PNone | Some s \<Rightarrow> PStr s)])
                (\<lambda>_. raise (HTTPException 403 ''Insufficient permissions''))))))"

section \<open>What the check decides\<close>

lemma query_matches_build [simp]:
  "query_matches (build_query org name rs ps) d \<longleftrightarrow>
     pd_organization_id d = org \<and>
     (pd_resource d \<in> set ps \<or> pd_resource d = name \<and> (\<exists>x \<in> set rs. x \<in> set (pd_roles d)))"
  by (cases "rs = []"; cases "ps = []") (auto simp: query_matches_def build_query_def list_ex_iff)

lemma awaited_count_positive:
  "(case awaited_count col q of Inl _ \<Rightarrow> False | Inr n \<Rightarrow> n > 0) \<longleftrightarrow>
     pc_awaitable col \<and> (\<exists>d \<in> set (pc_documents col). query_matches q d)"
  by (auto simp: awaited_count_def filter_empty_conv)

lemma check_permission_iff:
  "check_permission db bc name rs ps tid \<longleftrightarrow>
     effective_tenant_id bc tid \<noteq> [] \<and>
     (\<exists>col d. db (effective_tenant_id bc tid) = Inr col \<and> pc_awaitable col \<and> d \<in> set (pc_documents col) \<and>
        pd_organization_id d = effective_organization bc \<and>
        (pd_resource d \<in> set ps \<or> pd_resource d = name \<and> (\<exists>x \<in> set rs. x \<in> set (pd_roles d))))"
  unfolding check_permission_def Let_def awaited_count_positive
  by (auto split: sum.splits)

text \<open>
  C4. Access is decided by one document. The check succeeds exactly when a resource was named, the
  request has a tenant, and the Permissions collection of the caller's own tenant (the original one
  when impersonating) can be read and holds a document of the caller's organization whose resource is
  among the caller's permissions, or is the named resource and shares a role with the caller.
\<close>

theorem access_granted_by_one_document:
  "check_standard_access db (Some c) (Some c) name \<longleftrightarrow>
     name \<noteq> [] \<and> tenant_id c \<noteq> [] \<and>
     (\<exists>col d. db (if impersonated c \<and> original_tenant_id c \<noteq> [] then original_tenant_id c else tenant_id c) = Inr col \<and>
        pc_awaitable col \<and> d \<in> set (pc_documents col) \<and>
        pd_organization_id d = (if blank (organization_id c) then ''default'' else organization_id c) \<and>
        (pd_resource d \<in> set (permissions c) \<or>
         pd_resource d = name \<and> (\<exists>x \<in> set (roles c). x \<in> set (pd_roles d))))"
  by (auto simp: check_standard_access_def check_permission_iff check_quota_def effective_tenant_id_def
      effective_organization_def)

text \<open>
  The permission half of the check does not look at the resource that was asked for: for a caller
  without roles the answer is the same for every resource name.
\<close>

theorem permission_ignores_resource:
  "check_permission db bc name1 [] ps tid = check_permission db bc name2 [] ps tid"
  by (simp add: check_permission_iff)

text \<open>
  Over a synchronous driver, which is what the database provider hands out, the check refuses
  every caller: whatever the documents, the roles and the permissions.
\<close>

theorem synchronous_driver_refuses_all:
  "\<not> check_standard_access (\<lambda>t. map_sum id (\<lambda>docs. \<lparr>pc_awaitable = False, pc_documents = docs\<rparr>) (docs t)) bc ctx name"
  by (auto simp: check_standard_access_def check_permission_iff Let_def split: option.split sum.splits)
     (auto simp: map_sum_def split: sum.splits)

section \<open>What the dependency lets through\<close>

lemma authenticate_publishes:
  assumes "authenticate E r w = (Inr payload, w')"
  shows "\<exists>c. get_context None (aw_ambient w') = Some c"
proof -
  obtain i w1 where p: "publish_identity i w1 = (Inr payload, w')"
    using assms unfolding authenticate_split by (rule seq_Inr_elim)
  then have "aw_ambient w' = set_claims (Some (fst i)) (set_context (Some (snd (snd i))) (aw_ambient w1))"
    using publish_identity_run [of "fst i" "fst (snd i)" "snd (snd i)" w1] by simp
  then show ?thesis by (simp add: ctx_var.current_put)
qed

lemma authorize_Inr:
  assumes "authorize E db db_ready name bypass r w = (Inr c, w')"
  shows "(\<exists>payload. authenticate E r (w\<lparr>aw_tenants := new_tenant_service\<rparr>) = (Inr payload, w')) \<and>
    get_context None (aw_ambient w') = Some c \<and>
    (bypass \<or> check_standard_access db (Some c) (Some c) (or_empty name))"
proof -
  from assms obtain payload w1 where a: "authenticate E r (w\<lparr>aw_tenants := new_tenant_service\<rparr>) = (Inr payload, w1)"
    and k: "(case get_context None (aw_ambient w1) of
       None \<Rightarrow> raise (unauthorized ''Missing context'')
     | Some c \<Rightarrow>
         if bypass then ret c
         else if check_standard_access db (Some c) (Some c) (or_empty name) then ret c
         else seq (security_log ''forbidden'' False [(''resource'', case name of None \<Rightarrow> PNone | Some s \<Rightarrow> PStr s)])
                (\<lambda>_. raise (HTTPException 403 ''Insufficient permissions''))) w1 = (Inr c, w')"
    unfolding authorize_def current_context_def
    by (auto simp: option.case_eq_if split: if_splits elim!: seq_Inr_elim)
  from authenticate_publishes [OF a] obtain c1 where c1: "get_context None (aw_ambient w1) = Some c1" by blast
  with k have "c = c1" "w' = w1" "bypass \<or> check_standard_access db (Some c1) (Some c1) (or_empty name)"
    by (auto simp: security_log_def emit_def split: if_splits)
  with a c1 show ?thesis by blast
qed

text \<open>
  A request the dependency refuses was refused for a reason the caller can be told: the service is
  not started, authentication failed with that very error, or the caller is authenticated and answered
  403 because the access check failed. The 401 for a missing context is never reached.
\<close>

theorem authorize_refusals:
  assumes "authorize E db db_ready name bypass r w = (Inl e, w')"
  shows "e = RuntimeError \<and> (ae_cache E = None \<or> \<not> db_ready) \<and> w' = w \<or>
    authenticate E r (w\<lparr>aw_tenants := new_tenant_service\<rparr>) = (Inl e, w') \<or>
    (\<exists>payload w1 c. authenticate E r (w\<lparr>aw_tenants := new_tenant_service\<rparr>) = (Inr payload, w1) \<and>
       get_context None (aw_ambient w1) = Some c \<and> \<not> bypass \<and>
       \<not> check_standard_access db (Some c) (Some c) (or_empty name) \<and>
       e = HTTPException 403 ''Insufficient permissions'')"
proof (cases "ae_cache E = None \<or> \<not> db_ready")
  case True
  with assms show ?thesis by (simp add: authorize_def seq_run raise_run)
next
  case False
  obtain x w1 where a: "authenticate E r (w\<lparr>aw_tenants := new_tenant_service\<rparr>) = (x, w1)" by (rule prod.exhaust)
  show ?thesis
  proof (cases x)
    case (Inl e1)
    with a False assms show ?thesis by (auto simp: authorize_def seq_run modify_run ret_run)
  next
    case (Inr payload)
    with a have a: "authenticate E r (w\<lparr>aw_tenants := new_tenant_service\<rparr>) = (Inr payload, w1)" by simp
    from authenticate_publishes [OF a] obtain c where c: "get_context None (aw_ambient w1) = Some c" by blast
    from assms False a c have "\<not> bypass" "\<not> check_standard_access db (Some c) (Some c) (or_empty name)"
      "e = HTTPException 403 ''Insufficient permissions''"
      by (auto simp: authorize_def seq_run modify_run ret_run current_context_def gets_run raise_run
          security_log_def emit_def split: if_splits)
    with a c show ?thesis by blast
  qed
qed

theorem authorize_refusals_witness:
  "\<exists>w'. authorize sample_env (\<lambda>_. Inr \<lparr>pc_awaitable = True, pc_documents = []\<rparr>) True (Some ''orders'') False
      (empty_request\<lparr>req_headers := [(''authorization'', ''Bearer tok'')]\<rparr>) sample_world
     = (Inl (HTTPException 403 ''Insufficient permissions''), w') \<and>
    (\<exists>payload w1. authenticate sample_env (empty_request\<lparr>req_headers := [(''authorization'', ''Bearer tok'')]\<rparr>)
       (sample_world\<lparr>aw_tenants := new_tenant_service\<rparr>) = (Inr payload, w1))"
proof -
  let ?r = "empty_request\<lparr>req_headers := [(''authorization'', ''Bearer tok'')]\<rparr>"
  let ?db = "\<lambda>_ :: string. Inr \<lparr>pc_awaitable = True, pc_documents = []\<rparr> :: py_exn + permission_collection"
  have w: "sample_world\<lparr>aw_tenants := new_tenant_service\<rparr> = sample_world" by (simp add: sample_world_def)
  obtain payload w1 where a: "authenticate sample_env ?r sample_world = (Inr payload, w1)"
    using sample_authenticate by blast
  from authenticate_publishes [OF a] obtain c where c: "get_context None (aw_ambient w1) = Some c" by blast
  have "\<not> check_standard_access ?db (Some c) (Some c) ''orders''"
    by (simp add: check_standard_access_def check_permission_iff)
  then have "\<exists>w'. authorize sample_env ?db True (Some ''orders'') False ?r sample_world
     = (Inl (HTTPException 403 ''Insufficient permissions''), w')"
    using a c by (simp add: w authorize_def seq_run modify_run ret_run current_context_def gets_run raise_run
        security_log_def emit_def)
  then obtain w' where e: "authorize sample_env ?db True (Some ''orders'') False ?r sample_world
     = (Inl (HTTPException 403 ''Insufficient permissions''), w')" ..
  have "authenticate sample_env ?r (sample_world\<lparr>aw_tenants := new_tenant_service\<rparr>) = (Inr payload, w1)"
    using a by (simp only: w)
  with authorize_refusals [OF e] e show ?thesis by blast
qed

end
