(* ===== verification/Tenant_Middleware.thy ===== *)
theory Tenant_Middleware
  imports Access_Control
begin

text \<open>
  \<^verbatim>\<open>_middlewares/tenant_middleware.py\<close>: the tenant of a request, its rejection, the
  context the rest of the request starts from and the redaction of what is traced, with
  \<^verbatim>\<open>BlocksContextManager.create\<close>. The inner application is the action \<open>call_next\<close>, run in
  the world of \<open>Auth_World\<close>; the database query by domain, the clock and the text of a context's
  \<^verbatim>\<open>__dict__\<close> are parameters. A header dict has a first value per name; a response body is
  the list of its chunk sizes.
\<close>

section \<open>Redaction\<close>

definition SENSITIVE_KEYS :: "string list" where
  "SENSITIVE_KEYS = [''authorization'', ''cookie'', ''set-cookie'', ''secret'', ''x-blocks-service-key'',
     ''x-api-key'', ''token'', ''access_token'', ''refresh_token'', ''password'']"

definition is_sensitive_key :: "string \<Rightarrow> bool" where
  "is_sensitive_key key =
     (if key = [] then False
      else let k = py_lower key in
        k \<in> set SENSITIVE_KEYS \<or> contains_str ''token'' k \<or> contains_str ''secret'' k \<or> contains_str ''password'' k)"

definition sanitize_dict :: "(string \<times> string) list \<Rightarrow> (string \<times> string) list" where
  "sanitize_dict d = map (\<lambda>(k, v). (k, if is_sensitive_key k then ''[REDACTED]'' else v)) d"

fun first_entries :: "(string \<times> 'a) list \<Rightarrow> (string \<times> 'a) list" where
  "first_entries [] = []"
| "first_entries ((k, v) # xs) = (k, v) # filter (\<lambda>(j, _). j \<noteq> k) (first_entries xs)"

definition dump_strings :: "(string \<times> string) list \<Rightarrow> string" where
  "dump_strings d = json_dumps (PDict (map (\<lambda>(k, v). (k, PStr v)) d))"

section \<open>Origin and referer\<close>

definition extract_domain :: "string \<Rightarrow> string" where
  "extract_domain url =
     (if url = [] then []
      else case url_hostname (if contains_str ''://'' url then url else ''//'' @ url) of
        Inr (Some h) \<Rightarrow> py_lower h
      | _ \<Rightarrow> normalize_domain url)"

definition is_valid_origin_or_referer :: "request \<Rightarrow> tenant \<Rightarrow> bool" where
  "is_valid_origin_or_referer r t =
     (let allowed = map (\<lambda>a. extract_domain (app_domain a)) (filter (\<lambda>a. app_domain a \<noteq> []) (t_applications t));
          origin = extract_domain (or_empty (header r ''origin''));
          current = (if origin \<noteq> [] then origin else extract_domain (or_empty (header r ''referer''))) in
      current = [] \<or> is_localhost_host (Some current) \<or> current \<in> set allowed)"

section \<open>The tenant of the request\<close>

record response =
  rs_status :: int
  rs_headers :: "(string \<times> string) list"
  rs_content :: pyval
  rs_body :: "nat list option"

definition reject_content :: "string \<Rightarrow> pyval" where
  "reject_content message = PDict [(''is_success'', PBool False), (''errors'', PDict [(''message'', PStr message)])]"

text \<open>A rejection; the headers that \<^verbatim>\<open>JSONResponse\<close> adds by itself are left out.\<close>

definition reject :: "int \<Rightarrow> string \<Rightarrow> response" where
  "reject status message =
     \<lparr>rs_status = status, rs_headers = [], rs_content = reject_content message, rs_body = None\<rparr>"

definition lookup_tenant_by_domain ::
  "(string list \<Rightarrow> py_exn + tenant option) \<Rightarrow> string \<Rightarrow> (auth_world, tenant option) act" where
  "lookup_tenant_by_domain dbd host =
     (\<lambda>w. case get_tenant_by_domain dbd host (aw_tenants w) of (t, s) \<Rightarrow> (Inr t, w\<lparr>aw_tenants := s\<rparr>))"

definition request_api_key :: "request \<Rightarrow> string" where
  "request_api_key r = or_empty (or_else (header r ''x-blocks-key'')
     (or_else (query_param r ''x-blocks-key'') (query_param r ''tenant_id'')))"

definition admit_tenant :: "request \<Rightarrow> tenant option \<Rightarrow> response + tenant" where
  "admit_tenant r tenant =
     (case tenant of
        None \<Rightarrow> Inl (reject 404 ''Not_Found: Application_Not_Found'')
      | Some t \<Rightarrow>
          if t_is_disabled t then Inl (reject 404 ''Not_Found: Application_Not_Found'')
          else if \<not> is_valid_origin_or_referer r t then Inl (reject 406 ''NotAcceptable: Invalid_Origin_Or_Referer'')
          else Inr t)"

definition resolve_tenant_or_reject ::
  "auth_env \<Rightarrow> (string list \<Rightarrow> py_exn + tenant option) \<Rightarrow> request \<Rightarrow> (auth_world, response + tenant) act" where
  "resolve_tenant_or_reject E dbd r =
     (if request_api_key r = [] then
        (let host = or_empty (req_base_host r) in
         if is_localhost_host (Some host) then ret (Inl (reject 400 ''BadRequest: Missing_Tenant_Key_Or_Id''))
         else seq (lookup_tenant_by_domain dbd host) (\<lambda>t. ret (admit_tenant r t)))
      else seq (lookup_tenant E (request_api_key r)) (\<lambda>t. ret (admit_tenant r t)))"

section \<open>The context of an anonymous request\<close>

text \<open>\<^verbatim>\<open>BlocksContextManager.create\<close>: the keyword arguments as a dict; an absent or falsy one
  becomes the empty value of its field.\<close>

definition create_context :: "model_env \<Rightarrow> pydict \<Rightarrow> py_exn + blocks_context" where
  "create_context V args =
     (let str = (\<lambda>f. (f, py_or (dlookup args f) (PStr [])));
          lst = (\<lambda>f. (f, py_or (dlookup args f) (PList []))) in
      make_context V
        [str ''tenant_id'', lst ''roles'', str ''user_id'',
         (''is_authenticated'', dget args ''is_authenticated'' (PBool False)),
         str ''request_uri'', str ''organization_id'', (''expire_on'', dlookup args ''expire_on''),
         str ''email'', lst ''permissions'', str ''user_name'', str ''phone_number'', str ''display_name'',
         str ''oauth_token'', str ''original_tenant_id'',
         (''application_domain'', dget args ''application_domain'' (PStr [])),
         (''impersonated'', dget args ''impersonated'' (PBool False)),
         str ''impersonation_session_id'', str ''client_id'', str ''session_id''])"

definition anonymous_args :: "tenant \<Rightarrow> request \<Rightarrow> datetime \<Rightarrow> pydict" where
  "anonymous_args t r now =
     [(''tenant_id'', PStr (t_tenant_id t)), (''roles'', PList []), (''user_id'', PStr []),
      (''is_authenticated'', PBool False), (''request_uri'', PStr (req_path r)), (''organization_id'', PStr []),
      (''expire_on'', PStr now), (''email'', PStr []), (''permissions'', PList []), (''user_name'', PStr []),
      (''phone_number'', PStr []), (''display_name'', PStr []), (''oauth_token'', PStr []),
      (''original_tenant_id'', PStr (t_tenant_id t)),
      (''application_domain'', PStr (or_empty (resolve_application_domain r))),
      (''impersonated'', PBool False)]"

section \<open>Metrics of the response\<close>

text \<open>The body iterator is wrapped so that reading it counts its bytes; the sizes are recorded when the
  wrapper is made, before anything has been read.\<close>

definition tee_body :: "nat list \<Rightarrow> nat \<Rightarrow> nat list \<times> nat" where
  "tee_body chunks counted = (chunks, counted + sum_list chunks)"

definition set_property :: "string \<Rightarrow> string \<Rightarrow> (auth_world, unit) act" where
  "set_property k v = emit (SetProperty k v)"

definition instrument_response :: "response \<Rightarrow> int \<Rightarrow> (auth_world, response) act" where
  "instrument_response resp request_size =
     (let response_size = (0 :: int) in
      seq (set_property ''request.size.bytes'' (show_int request_size)) (\<lambda>_.
      seq (set_property ''response.size.bytes'' (show_int response_size)) (\<lambda>_.
      seq (set_property ''throughput.total.bytes'' (show_int (request_size + response_size))) (\<lambda>_.
      seq (set_property ''usage'' ''True'') (\<lambda>_.
      seq (if \<not> (200 \<le> rs_status resp \<and> rs_status resp < 300)
           then set_property ''StatusCode.ERROR'' (''HTTP '' @ show_int (rs_status resp)) else ret ()) (\<lambda>_.
      seq (set_property ''response.status.code'' (show_int (rs_status resp))) (\<lambda>_.
      seq (set_property ''response.headers'' (dump_strings (sanitize_dict (first_entries (rs_headers resp))))) (\<lambda>_.
      ret (resp\<lparr>rs_body := map_option (\<lambda>chunks. fst (tee_body chunks 0)) (rs_body resp)\<rparr>)))))))))"

section \<open>dispatch\<close>

definition is_included :: "string list \<Rightarrow> string \<Rightarrow> bool" where
  "is_included included_paths path =
     list_ex (\<lambda>p. path = p \<or> starts_with (rstrip_chars ''/ '' p @ ''/'') path)
       (if included_paths \<noteq> [] then included_paths else [''/api''])"

definition request_size_of :: "request \<Rightarrow> py_exn + int" where
  "request_size_of r = (case header r ''content-length'' of None \<Rightarrow> Inr 0 | Some s \<Rightarrow> int_of_text s)"

definition serve_request ::
  "auth_env \<Rightarrow> (string list \<Rightarrow> py_exn + tenant option) \<Rightarrow> (blocks_context \<Rightarrow> string) \<Rightarrow> datetime
    \<Rightarrow> (auth_world, response) act \<Rightarrow> request \<Rightarrow> (auth_world, response) act" where
  "serve_request E dbd dict_text now call_next r =
     seq (set_property ''http.query'' (dump_strings (sanitize_dict (req_query r)))) (\<lambda>_.
     seq (set_property ''http.headers'' (dump_strings (sanitize_dict (first_entries (req_headers r))))) (\<lambda>_.
     seq (resolve_tenant_or_reject E dbd r) (\<lambda>resolved.
     case resolved of
       Inl rejection \<Rightarrow> ret rejection
     | Inr t \<Rightarrow>
         seq (set_property ''baggage.TenantId'' (t_tenant_id t)) (\<lambda>_.
         seq (set_property ''baggage.IsFromCloud'' (if t_is_root_tenant t then ''true'' else ''false'')) (\<lambda>_.
         seq (lift_exn (create_context (ae_model E) (anonymous_args t r now))) (\<lambda>c.
         seq (update_ambient (set_context (Some c))) (\<lambda>_.
         seq (set_property ''SecurityContext'' (dict_text c)) (\<lambda>_.
         seq (lift_exn (request_size_of r)) (\<lambda>request_size.
         seq call_next (\<lambda>resp.
         instrument_response resp request_size))))))))))"

definition dispatch ::
  "auth_env \<Rightarrow> (string list \<Rightarrow> py_exn + tenant option) \<Rightarrow> (blocks_context \<Rightarrow> string) \<Rightarrow> datetime \<Rightarrow> string list
    \<Rightarrow> (auth_world, response) act \<Rightarrow> request \<Rightarrow> (auth_world, response) act" where
  "dispatch E dbd dict_text now included_paths call_next r =
     (if \<not> is_included included_paths (req_path r) then call_next
      else try_finally
        (except_any (serve_request E dbd dict_text now call_next r)
           (\<lambda>e. seq (emit (SetStatus ''ERROR'')) (\<lambda>_. raise e)))
        (\<lambda>w. w\<lparr>aw_ambient := clear_context (aw_ambient w)\<rparr>))"

section \<open>Lemmas\<close>

lemma keeps_ambient_property [simp, intro]: "keeps_ambient (set_property k v)"
  by (simp add: set_property_def)

lemma keeps_ambient_resolve_tenant [simp, intro]: "keeps_ambient (resolve_tenant_or_reject E dbd r)"
  by (auto simp: resolve_tenant_or_reject_def lookup_tenant_by_domain_def keeps_ambient_def lookup_tenant_def
      seq_run ret_run Let_def split: prod.splits if_splits)

lemma keeps_ambient_instrument [simp, intro]: "keeps_ambient (instrument_response resp n)"
  unfolding instrument_response_def Let_def by (intro keeps_ambient_rules) simp_all

lemma create_anonymous:
  assumes "model_env_ok V" and "coerce_datetime V (PStr now) = Inr now"
  shows "create_context V (anonymous_args t r now) = Inr (default_context
    \<lparr>tenant_id := t_tenant_id t, request_uri := req_path r, expire_on := Some now,
     original_tenant_id := t_tenant_id t, application_domain := or_empty (resolve_application_domain r)\<rparr>)"
  using assms
  by (simp add: create_context_def anonymous_args_def make_context_def default_context_def dget_def py_or_def Let_def)

lemma admit_tenant_Inr:
  "admit_tenant r tenant = Inr t \<longleftrightarrow> tenant = Some t \<and> \<not> t_is_disabled t \<and> is_valid_origin_or_referer r t"
  by (auto simp: admit_tenant_def split: option.splits if_splits)

text \<open>The tenant a request names, by key or by the host it came to.\<close>

definition named_tenant ::
  "auth_env \<Rightarrow> (string list \<Rightarrow> py_exn + tenant option) \<Rightarrow> request \<Rightarrow> tenant_service \<Rightarrow> tenant option" where
  "named_tenant E dbd r s =
     (if request_api_key r = [] then fst (get_tenant_by_domain dbd (or_empty (req_base_host r)) s)
      else fst (get_tenant (ae_tenant_db E) (request_api_key r) s))"

lemma resolve_tenant_run:
  "\<exists>w'. resolve_tenant_or_reject E dbd r w = (Inr (
      if request_api_key r = [] \<and> is_localhost_host (Some (or_empty (req_base_host r)))
      then Inl (reject 400 ''BadRequest: Missing_Tenant_Key_Or_Id'')
      else admit_tenant r (named_tenant E dbd r (aw_tenants w))), w')"
  by (auto simp: resolve_tenant_or_reject_def named_tenant_def Let_def lookup_tenant_def lookup_tenant_by_domain_def
      seq_run ret_run split: prod.split)

lemma instrument_response_result: "fst (instrument_response resp n w) = Inr resp"
  by (cases "rs_body resp")
    (auto simp: instrument_response_def Let_def set_property_def emit_def seq_run modify_run ret_run tee_body_def)

section \<open>Properties\<close>

text \<open>
  C16. No identity outlives its request: when a request under the validated paths is over, answered,
  rejected or failed, the ambient context is empty, and a failure of the inner application comes out
  as the same exception.
\<close>

theorem request_context_cleared:
  assumes "is_included paths (req_path r)"
  shows "get_context None (aw_ambient (snd (dispatch E dbd dict_text now paths call_next r w))) = None \<and>
    fst (dispatch E dbd dict_text now paths call_next r w) = fst (serve_request E dbd dict_text now call_next r w)"
  using assms
  by (auto simp: dispatch_def try_finally_run except_any_run get_context_def clear_context_def seq_run emit_def
      modify_run raise_run split: prod.split sum.split)

lemma serve_request_Inr:
  assumes "serve_request E dbd dict_text now call_next r w = (Inr resp, w')"
    and "model_env_ok (ae_model E)" and "coerce_datetime (ae_model E) (PStr now) = Inr now"
  shows "resp \<in> {reject 400 ''BadRequest: Missing_Tenant_Key_Or_Id'', reject 404 ''Not_Found: Application_Not_Found'',
      reject 406 ''NotAcceptable: Invalid_Origin_Or_Referer''} \<or>
    (\<exists>t c w1 w2. named_tenant E dbd r (aw_tenants w) = Some t \<and> \<not> t_is_disabled t \<and> is_valid_origin_or_referer r t \<and>
      get_context None (aw_ambient w1) = Some c \<and> tenant_id c = t_tenant_id t \<and> original_tenant_id c = t_tenant_id t \<and>
      \<not> is_authenticated c \<and> user_id c = [] \<and> roles c = [] \<and> permissions c = [] \<and>
      call_next w1 = (Inr resp, w2))"
proof -
  let ?w0 = "w\<lparr>aw_trace := aw_trace w @ [SetProperty ''http.query'' (dump_strings (sanitize_dict (req_query r)))] @
    [SetProperty ''http.headers'' (dump_strings (sanitize_dict (first_entries (req_headers r))))]\<rparr>"
  obtain w1 where res: "resolve_tenant_or_reject E dbd r ?w0 = (Inr (
      if request_api_key r = [] \<and> is_localhost_host (Some (or_empty (req_base_host r)))
      then Inl (reject 400 ''BadRequest: Missing_Tenant_Key_Or_Id'')
      else admit_tenant r (named_tenant E dbd r (aw_tenants w))), w1)"
    using resolve_tenant_run [of E dbd r ?w0] by auto
  show ?thesis
  proof (cases "request_api_key r = [] \<and> is_localhost_host (Some (or_empty (req_base_host r)))")
    case True
    with assms(1) res show ?thesis
      by (simp add: serve_request_def set_property_def emit_def seq_run modify_run ret_run)
  next
    case False
    show ?thesis
    proof (cases "admit_tenant r (named_tenant E dbd r (aw_tenants w))")
      case (Inl rejection)
      have "resp = rejection" using assms(1) res
        unfolding if_not_P [OF False] Inl
        by (simp add: serve_request_def set_property_def emit_def seq_run modify_run ret_run)
      with Inl show ?thesis by (auto simp: admit_tenant_def split: option.splits if_splits)
    next
      case (Inr t)
      let ?v = "\<lambda>c. w1\<lparr>aw_ambient := set_context (Some c) (aw_ambient w1),
          aw_trace := aw_trace w1 @ [SetProperty ''baggage.TenantId'' (t_tenant_id t),
            SetProperty ''baggage.IsFromCloud'' (if t_is_root_tenant t then ''true'' else ''false''),
            SetProperty ''SecurityContext'' (dict_text c)]\<rparr>"
      from assms(1) res obtain c n r0 v2 where c: "create_context (ae_model E) (anonymous_args t r now) = Inr c"
        and n: "call_next (?v c) = (Inr r0, v2)" "instrument_response r0 n v2 = (Inr resp, w')"
        unfolding if_not_P [OF False] Inr
        by (auto simp: serve_request_def set_property_def emit_def seq_run modify_run ret_run lift_exn_run
            update_ambient_def split: sum.splits prod.splits)
      have "call_next (?v c) = (Inr resp, v2)" using n instrument_response_result [of r0 n v2] by simp
      moreover have "get_context None (aw_ambient (?v c)) = Some c" by (simp add: ctx_var.current_put)
      ultimately show ?thesis using c create_anonymous [OF assms(2,3), of t r] Inr
        unfolding admit_tenant_Inr
        by (intro disjI2 exI [of _ t] exI [of _ c] exI [of _ "?v c"] exI [of _ v2]) (auto simp: default_context_def)
    qed
  qed
qed

text \<open>
  The inner application runs only for an admitted tenant: a response is one of the three rejections,
  or comes from the application run for the tenant the request names, enabled and with an admitted
  origin, in the anonymous context of that tenant: not authenticated, no user, no role, no permission.
\<close>

theorem middleware_admits_only_valid:
  assumes "dispatch E dbd dict_text now paths call_next r w = (Inr resp, w')" and "is_included paths (req_path r)"
    and "model_env_ok (ae_model E)" and "coerce_datetime (ae_model E) (PStr now) = Inr now"
  shows "resp \<in> {reject 400 ''BadRequest: Missing_Tenant_Key_Or_Id'', reject 404 ''Not_Found: Application_Not_Found'',
      reject 406 ''NotAcceptable: Invalid_Origin_Or_Referer''} \<or>
    (\<exists>t c w1 w2. named_tenant E dbd r (aw_tenants w) = Some t \<and> \<not> t_is_disabled t \<and> is_valid_origin_or_referer r t \<and>
      get_context None (aw_ambient w1) = Some c \<and> tenant_id c = t_tenant_id t \<and> original_tenant_id c = t_tenant_id t \<and>
      \<not> is_authenticated c \<and> user_id c = [] \<and> roles c = [] \<and> permissions c = [] \<and>
      call_next w1 = (Inr resp, w2))"
proof -
  have "fst (serve_request E dbd dict_text now call_next r w) = Inr resp"
    using assms(1,2)
    by (auto simp: dispatch_def try_finally_run except_any_run seq_run emit_def modify_run raise_run
        split: prod.splits sum.splits if_splits)
  then obtain v where "serve_request E dbd dict_text now call_next r w = (Inr resp, v)"
    by (cases "serve_request E dbd dict_text now call_next r w") auto
  from serve_request_Inr [OF this assms(3,4)] show ?thesis .
qed

text \<open>
  What the middleware traces does not depend on secrets: two header or query dicts that differ only
  in the values under sensitive names are traced as the same text, and every other entry is traced as
  it is.
\<close>

theorem sensitive_values_not_traced:
  "dump_strings (sanitize_dict (map (\<lambda>(k, v). (k, if is_sensitive_key k then f k v else v)) d)) = dump_strings (sanitize_dict d) \<and>
   filter (\<lambda>(k, _). \<not> is_sensitive_key k) (sanitize_dict d) = filter (\<lambda>(k, _). \<not> is_sensitive_key k) d \<and>
   list_all is_sensitive_key [''Authorization'', ''Cookie'', ''X-Refresh-Token'', ''client_secret'', ''Password'']"
proof (intro conjI)
  have "sanitize_dict (map (\<lambda>(k, v). (k, if is_sensitive_key k then f k v else v)) d) = sanitize_dict d"
    by (auto simp: sanitize_dict_def)
  then show "dump_strings (sanitize_dict (map (\<lambda>(k, v). (k, if is_sensitive_key k then f k v else v)) d)) =
      dump_strings (sanitize_dict d)" by simp
  show "filter (\<lambda>(k, _). \<not> is_sensitive_key k) (sanitize_dict d) = filter (\<lambda>(k, _). \<not> is_sensitive_key k) d"
    by (induction d) (auto simp: sanitize_dict_def)
  show "list_all is_sensitive_key [''Authorization'', ''Cookie'', ''X-Refresh-Token'', ''client_secret'', ''Password'']"
    by code_simp
qed

lemma extract_domain_name:
  assumes "is_host_name h" and "is_url_tail t" and "scheme \<in> {''http'', ''https''}"
  shows "extract_domain (scheme @ ''://'' @ h @ t) = py_lower h"
proof -
  have "url_hostname ((scheme @ '':'') @ ''//'' @ h @ t) = Inr (Some (py_lower h))"
    using assms(3) by (intro url_hostname_name [OF assms(1,2)]) auto
  moreover have "py_lower (py_lower h) = py_lower h" by (simp add: py_lower_def)
  ultimately show ?thesis
    using assms(3) contains_append [of "''://''" scheme "h @ t"] by (auto simp: extract_domain_def)
qed


text \<open>
  The size recorded for a response is always zero and the throughput is the request's size alone,
  whatever the body: the sizes are recorded before the wrapped body is read. The response itself passes
  unchanged.
\<close>

theorem response_size_never_counted:
  "fst (instrument_response resp n w) = Inr resp \<and>
   SetProperty ''response.size.bytes'' ''0'' \<in> set (aw_trace (snd (instrument_response resp n w))) \<and>
   SetProperty ''throughput.total.bytes'' (show_int n) \<in> set (aw_trace (snd (instrument_response resp n w)))"
proof -
  have "show_int 0 = ''0''" by code_simp
  then show ?thesis unfolding instrument_response_result
    by (simp add: instrument_response_def Let_def set_property_def emit_def seq_run modify_run ret_run)
qed

section \<open>One request\<close>

definition api_request :: request where
  "api_request = empty_request\<lparr>req_path := ''/api/orders'', req_headers := [(''x-blocks-key'', ''t1'')]\<rparr>"

definition ok_response :: response where
  "ok_response = \<lparr>rs_status = 200, rs_headers = [], rs_content = PNone, rs_body = Some [3, 4]\<rparr>"

lemma sample_model: "model_env_ok (ae_model sample_env)" "coerce_datetime (ae_model sample_env) (PStr d) = Inr d"
proof -
  have m: "ae_model sample_env = strict_env" by (simp add: sample_env_def)
  show "model_env_ok (ae_model sample_env)" unfolding m by (rule strict_env_ok)
  show "coerce_datetime (ae_model sample_env) (PStr d) = Inr d" unfolding m by (simp add: strict_env_def)
qed

lemma api_request_simps:
  "is_included [''/api''] (req_path api_request)" "request_api_key api_request = ''t1''"
  "header api_request ''origin'' = None" "header api_request ''referer'' = None" "header api_request ''content-length'' = None"
  by code_simp+

lemma api_request_admitted:
  "resolve_tenant_or_reject sample_env dbd api_request sample_world =
     (Inr (Inr (sample_tenant ''t1'')), sample_world\<lparr>aw_tenants := cache_tenant ''t1'' (sample_tenant ''t1'') new_tenant_service\<rparr>)"
proof -
  have "extract_domain [] = []" by (simp add: extract_domain_def)
  then have "is_valid_origin_or_referer api_request (sample_tenant ''t1'')"
    by (simp add: is_valid_origin_or_referer_def api_request_simps)
  moreover have "\<not> t_is_disabled (sample_tenant ''t1'')" by (simp add: sample_tenant_def default_tenant_def)
  ultimately show ?thesis
    by (simp add: resolve_tenant_or_reject_def api_request_simps lookup_tenant_def seq_run ret_run admit_tenant_def)
qed

lemma api_request_served:
  "\<exists>w'. serve_request sample_env dbd dict_text ''now'' (ret ok_response) api_request sample_world = (Inr ok_response, w')"
proof -
  have r: "resolve_tenant_or_reject sample_env dbd api_request (sample_world\<lparr>aw_trace := tr\<rparr>) =
      (Inr (Inr (sample_tenant ''t1'')), sample_world\<lparr>aw_tenants := cache_tenant ''t1'' (sample_tenant ''t1'') new_tenant_service, aw_trace := tr\<rparr>)" for tr
    using api_request_admitted [of dbd]
    by (simp add: resolve_tenant_or_reject_def api_request_simps lookup_tenant_def seq_run ret_run)
  have "\<exists>c. create_context strict_env (anonymous_args t r ''now'') = Inr c" for t r
    using create_anonymous [OF sample_model, of t r "''now''"] by (auto simp: sample_env_def)
  then obtain c where c: "create_context strict_env (anonymous_args (sample_tenant ''t1'') api_request ''now'') = Inr c" by blast
  have i: "\<exists>v'. instrument_response ok_response n v = (Inr ok_response, v')" for n v
    using instrument_response_result [of ok_response n v] by (cases "instrument_response ok_response n v") auto
  show ?thesis using i
    by (simp add: serve_request_def set_property_def emit_def seq_run modify_run ret_run lift_exn_run r c
        update_ambient_def request_size_of_def api_request_simps)
qed

theorem request_context_cleared_witness:
  "\<exists>w'. dispatch sample_env (\<lambda>_. Inr None) (\<lambda>_. []) ''now'' [''/api''] (ret ok_response) api_request sample_world = (Inr ok_response, w') \<and>
    get_context None (aw_ambient w') = None \<and> get_context None (aw_ambient sample_world) \<noteq> None"
proof -
  obtain v where "serve_request sample_env (\<lambda>_. Inr None) (\<lambda>_. []) ''now'' (ret ok_response) api_request sample_world = (Inr ok_response, v)"
    using api_request_served by blast
  with request_context_cleared [OF api_request_simps(1), of sample_env "\<lambda>_. Inr None" "\<lambda>_. []" "''now''" "ret ok_response" sample_world]
  show ?thesis
    by (cases "dispatch sample_env (\<lambda>_. Inr None) (\<lambda>_. []) ''now'' [''/api''] (ret ok_response) api_request sample_world") auto
qed

theorem middleware_admits_only_valid_witness:
  "\<exists>w' t. dispatch sample_env (\<lambda>_. Inr None) (\<lambda>_. []) ''now'' [''/api''] (ret ok_response) api_request sample_world = (Inr ok_response, w') \<and>
    named_tenant sample_env (\<lambda>_. Inr None) api_request new_tenant_service = Some t \<and> t_tenant_id t = ''t1'' \<and>
    is_valid_origin_or_referer api_request t"
proof -
  obtain v where s: "serve_request sample_env (\<lambda>_. Inr None) (\<lambda>_. []) ''now'' (ret ok_response) api_request sample_world = (Inr ok_response, v)"
    using api_request_served by blast
  then obtain w' where d: "dispatch sample_env (\<lambda>_. Inr None) (\<lambda>_. []) ''now'' [''/api''] (ret ok_response) api_request sample_world = (Inr ok_response, w')"
    using api_request_simps(1) by (simp add: dispatch_def try_finally_run except_any_run)
  have n: "named_tenant sample_env (\<lambda>_. Inr None) api_request new_tenant_service = Some (sample_tenant ''t1'')"
    by (simp add: named_tenant_def api_request_simps)
  have "ok_response \<notin> {reject 400 m1, reject 404 m2, reject 406 m3}" for m1 m2 m3
    by (simp add: ok_response_def reject_def)
  with middleware_admits_only_valid [OF d api_request_simps(1) sample_model] n have "is_valid_origin_or_referer api_request (sample_tenant ''t1'')"
    by auto
  with d n show ?thesis by (auto simp: sample_tenant_def)
qed

definition sample_app :: "string \<Rightarrow> application" where
  "sample_app d = \<lparr>app_domain = d, app_cookie_domain = [], app_is_domain_verified = True\<rparr>"


end
