(* ===== verification/Request_Pipeline.thy ===== *)
theory Request_Pipeline
  imports Access_Control Tenant_Middleware
begin

text \<open>
  \<^verbatim>\<open>_middlewares/global_exception_middleware.py\<close>, the outer of the two middlewares
  \<^verbatim>\<open>configure_genesis\<close> adds, and the composition of a request's way: it, the tenant
  middleware, the \<^verbatim>\<open>authorize\<close> dependency and the endpoint.
\<close>

section \<open>Unhandled exceptions\<close>

definition MAX_PAYLOAD_LENGTH :: nat where
  "MAX_PAYLOAD_LENGTH = 1000"

definition TRUNCATED :: string where
  "TRUNCATED = ''... [truncated]''"

text \<open>What of the body goes into the log; reading and decoding it can fail.\<close>

definition logged_payload :: "py_exn + bytes \<Rightarrow> request \<Rightarrow> py_exn + string" where
  "logged_payload body r =
     (if starts_with ''application/json'' (case header r ''content-type'' of None \<Rightarrow> [] | Some s \<Rightarrow> s) then
        (case (case body of Inl e \<Rightarrow> Inl e | Inr b \<Rightarrow> utf8_decode b) of
           Inl e \<Rightarrow> if e = Unmodelled then Inl e else Inr ''[Unable to read request body]''
         | Inr text \<Rightarrow>
             let payload = py_strip text in
             if payload = [] then Inr ''Empty''
             else if MAX_PAYLOAD_LENGTH < length payload then Inr (take MAX_PAYLOAD_LENGTH payload @ TRUNCATED)
             else Inr payload)
      else Inr ''Empty'')"

definition error_message :: "string \<Rightarrow> string \<Rightarrow> request \<Rightarrow> string \<Rightarrow> string \<Rightarrow> string" where
  "error_message trace_id http_method r exception_text payload =
     ''Unhandled exception thrown on request Trace: ['' @ trace_id @ ''] Method: ['' @ http_method @ ''] '' @
     req_url r @ '' : '' @ exception_text @ ''.'' @ [chr 10] @ ''Payload: '' @ payload"

definition error_response :: "string \<Rightarrow> response" where
  "error_response trace_id =
     \<lparr>rs_status = 500, rs_headers = [],
      rs_content = PDict [(''Message'', PStr ''An error occurred while processing your request.''), (''TraceId'', PStr trace_id)],
      rs_body = None\<rparr>"

text \<open>The body as the handler can still read it, the method, the trace id of the current span and the text of
  an exception are parameters.\<close>

record request_view =
  rq_body :: "py_exn + bytes"
  rq_method :: string
  rq_trace_id :: string
  rq_text_of :: "py_exn \<Rightarrow> string"

definition handle_exception :: "request_view \<Rightarrow> request \<Rightarrow> py_exn \<Rightarrow> (auth_world, response) act" where
  "handle_exception q r e =
     seq (lift_exn (logged_payload (rq_body q) r)) (\<lambda>payload.
     seq (emit (LogLine (error_message (rq_trace_id q) (rq_method q) r (rq_text_of q e) payload))) (\<lambda>_.
     ret (error_response (rq_trace_id q))))"

definition global_dispatch :: "request_view \<Rightarrow> (auth_world, response) act \<Rightarrow> request \<Rightarrow> (auth_world, response) act" where
  "global_dispatch q call_next r =
     except_any call_next (\<lambda>e. case e of HTTPException _ _ \<Rightarrow> raise e | _ \<Rightarrow> handle_exception q r e)"

section \<open>The composition\<close>

text \<open>An endpoint behind \<^verbatim>\<open>authorize\<close>, and the application in front of it.\<close>

definition protected :: "auth_env \<Rightarrow> permission_db \<Rightarrow> bool \<Rightarrow> string option \<Rightarrow> bool
    \<Rightarrow> (blocks_context \<Rightarrow> (auth_world, response) act) \<Rightarrow> request \<Rightarrow> (auth_world, response) act" where
  "protected E db db_ready name bypass handler r = seq (authorize E db db_ready name bypass r) handler"

definition application_of :: "auth_env \<Rightarrow> (string list \<Rightarrow> py_exn + tenant option) \<Rightarrow> (blocks_context \<Rightarrow> string) \<Rightarrow> datetime
    \<Rightarrow> request_view \<Rightarrow> (auth_world, response) act \<Rightarrow> request \<Rightarrow> (auth_world, response) act" where
  "application_of E dbd dict_text now q endpoint r =
     global_dispatch q (dispatch E dbd dict_text now [''/api''] endpoint r) r"

section \<open>Lemmas\<close>

lemma logged_payload_bound:
  "logged_payload body r = Inr p \<Longrightarrow> length p \<le> MAX_PAYLOAD_LENGTH + length TRUNCATED"
  by (auto simp: logged_payload_def MAX_PAYLOAD_LENGTH_def TRUNCATED_def Let_def split: if_splits sum.splits)

lemma logged_payload_raises: "logged_payload body r = Inl e \<Longrightarrow> e = Unmodelled"
  by (auto simp: logged_payload_def Let_def split: if_splits sum.splits)


lemma application_response:
  assumes "application_of E dbd dict_text now q endpoint r w = (Inr resp, w')"
  shows "resp = error_response (rq_trace_id q) \<or> (\<exists>v. dispatch E dbd dict_text now [''/api''] endpoint r w = (Inr resp, v))"
  using assms
  by (auto simp: application_of_def global_dispatch_def act_simps handle_exception_def emit_def
      split: prod.splits sum.splits if_splits py_exn.splits)

lemma dispatch_serves:
  assumes "dispatch E dbd dict_text now paths call_next r w = (Inr resp, w')" and "is_included paths (req_path r)"
  obtains v where "serve_request E dbd dict_text now call_next r w = (Inr resp, v)"
proof -
  have "fst (serve_request E dbd dict_text now call_next r w) = Inr resp"
    using assms
    by (auto simp: dispatch_def try_finally_run except_any_run seq_run emit_def modify_run raise_run
        split: prod.splits sum.splits if_splits)
  then show ?thesis using that by (cases "serve_request E dbd dict_text now call_next r w") auto
qed


section \<open>One request\<close>

text \<open>A caller of the sample tenant's domain with a token of its provider.\<close>

definition shop_request :: request where
  "shop_request = empty_request\<lparr>req_path := ''/api/orders'', req_base_host := Some ''shop.x.org'',
     req_headers := [(''authorization'', ''Bearer tok'')]\<rparr>"

lemma shop_request_simps:
  "is_included [''/api''] (req_path shop_request)" "request_api_key shop_request = []"
  "header shop_request ''origin'' = None" "header shop_request ''referer'' = None" "header shop_request ''content-length'' = None"
  "tenant_declared_on_request shop_request = None" "req_base_host shop_request = Some ''shop.x.org''"
  "\<not> is_localhost_host (Some ''shop.x.org'')"
  by code_simp+

lemma shop_token: "extract_token_from_request sample_env shop_request w = (Inr (Some ''tok'', False, None), w)"
  by (simp add: extract_by_bearer bearer_token_def header_def shop_request_def empty_request_def str_defs
      resolve_application_domain_def act_simps py_eval)

lemma shop_authenticated:
  assumes "aw_store w = Some new_provider_store" and "get_context None (aw_ambient w) = Some a" and "tenant_id a = ''t1''"
    and "aw_tenants w = new_tenant_service"
  shows "\<exists>payload w'. authenticate sample_env shop_request w = (Inr payload, w')"
proof -
  let ?w = "w\<lparr>aw_tenants := cache_tenant ''t1'' (sample_tenant ''t1'') new_tenant_service,
     aw_request_tenant := Some (sample_tenant ''t1'')\<rparr>"
  obtain w1 where f: "validate_with_fallback sample_env ''tok'' (Some (sample_tenant ''t1'')) shop_request ?w =
     (Inr (Some (AList.update REQUEST_URI_CLAIM (PStr (req_url shop_request)) sample_claims, sample_provider)), w1)"
    using sample_fallback [of shop_request "''tok''" ?w] assms(1) by (auto simp: shop_request_simps)
  obtain c w2 where e: "external_context sample_env (strip_reserved_claims (AList.update REQUEST_URI_CLAIM (PStr (req_url shop_request)) sample_claims))
      sample_provider (sample_tenant ''t1'') shop_request [] w1 = (Inr c, w2)"
    using sample_external by blast
  show ?thesis using f e assms
    by (simp add: authenticate_def shop_token current_context_def requested_tenant_id_def lookup_tenant_def
        validate_authenticated_token_def act_simps Let_def update_ambient_def emit_def)
qed

lemma shop_authorized:
  assumes "aw_store w = Some new_provider_store" and "get_context None (aw_ambient w) = Some a" and "tenant_id a = ''t1''"
  shows "\<exists>c w'. authorize sample_env db True None True shop_request w = (Inr c, w')"
proof -
  obtain payload w' where p: "authenticate sample_env shop_request (w\<lparr>aw_tenants := new_tenant_service\<rparr>) = (Inr payload, w')"
    using shop_authenticated [of "w\<lparr>aw_tenants := new_tenant_service\<rparr>" a] assms by auto
  from authenticate_publishes [OF this] obtain c where "get_context None (aw_ambient w') = Some c" by blast
  with p show ?thesis by (simp add: authorize_def act_simps current_context_def)
qed

lemma shop_application:
  "\<exists>w'. application_of sample_env (\<lambda>_. Inr (Some (sample_tenant ''t1''))) (\<lambda>_. []) ''now'' q
     (protected sample_env db True None True (\<lambda>_. ret ok_response) shop_request) shop_request sample_world = (Inr ok_response, w')"
proof -
  let ?dbd = "\<lambda>_. Inr (Some (sample_tenant ''t1''))"
  let ?n = "protected sample_env db True None True (\<lambda>_. ret ok_response) shop_request"
  have "extract_domain [] = []" by (simp add: extract_domain_def)
  then have ok: "is_valid_origin_or_referer shop_request (sample_tenant ''t1'')"
    by (simp add: is_valid_origin_or_referer_def shop_request_simps)
  have d: "\<not> t_is_disabled (sample_tenant ''t1'')" by (simp add: sample_tenant_def default_tenant_def)
  obtain t s where g: "get_tenant_by_domain ?dbd ''shop.x.org'' new_tenant_service = (Some (sample_tenant ''t1''), s)"
    by (simp add: get_tenant_by_domain_def new_tenant_service_def blank_iff is_space_def Let_def)
  have res: "resolve_tenant_or_reject sample_env ?dbd shop_request (sample_world\<lparr>aw_trace := tr\<rparr>) =
      (Inr (Inr (sample_tenant ''t1'')), sample_world\<lparr>aw_tenants := s, aw_trace := tr\<rparr>)" for tr
    using g ok d
    by (simp add: resolve_tenant_or_reject_def shop_request_simps lookup_tenant_by_domain_def act_simps admit_tenant_def sample_world_def)
  obtain c where c: "create_context strict_env (anonymous_args (sample_tenant ''t1'') shop_request ''now'') = Inr c" "tenant_id c = ''t1''"
    using create_anonymous [OF sample_model, of "sample_tenant ''t1''" shop_request "''now''"] by (auto simp: sample_env_def)
  have i: "\<exists>v'. instrument_response ok_response n v = (Inr ok_response, v')" for n v
    using instrument_response_result [of ok_response n v] by (cases "instrument_response ok_response n v") auto
  have au: "\<exists>v'. ?n v = (Inr ok_response, v')"
    if "aw_store v = Some new_provider_store" "get_context None (aw_ambient v) = Some c" for v
    using shop_authorized [OF that c(2), of db] by (auto simp: protected_def act_simps)
  have "\<exists>w'. serve_request sample_env ?dbd (\<lambda>_. []) ''now'' ?n shop_request sample_world = (Inr ok_response, w')"
  proof -
    let ?v = "\<lambda>tr. sample_world\<lparr>aw_tenants := s, aw_ambient := set_context (Some c) (aw_ambient sample_world), aw_trace := tr\<rparr>"
    have "aw_store (?v tr) = Some new_provider_store" "get_context None (aw_ambient (?v tr)) = Some c" for tr
      by (simp_all add: sample_world_def ctx_var.current_put)
    then have "\<exists>v'. ?n (?v tr) = (Inr ok_response, v')" for tr using au by blast
    then have "\<exists>w'. seq ?n (\<lambda>x. instrument_response x 0) (?v tr) = (Inr ok_response, w')" for tr
      using i by (metis (no_types, lifting) seq_run case_prod_conv old.sum.simps(6))
    then show ?thesis
      by (simp add: serve_request_def set_property_def emit_def act_simps res c update_ambient_def request_size_of_def
          shop_request_simps)
  qed
  then show ?thesis
    by (auto simp: application_of_def global_dispatch_def dispatch_def act_simps shop_request_simps)
qed



end
