(* ===== verification/Single_Flight.thy ===== *)
theory Single_Flight
  imports Tenant_Service
begin

text \<open>
  Several calls in flight of a cached load: the body of \<^verbatim>\<open>TenantService.get_tenant\<close>
  and of \<^verbatim>\<open>ThirdPartyJwtProviderStore.get_active\<close>. A step is what runs between
  two awaits; callers, load tasks, update messages and changes of the database interleave freely. The
  lock around the table of loads guards code without an await, so a guarded block is one step.
  The parameters are what the two services differ in: \<open>usable\<close> reads a live entry of the cache,
  \<open>keep\<close> files a loaded value, \<open>edits\<close> are the cache updates that may arrive at any moment. A load
  never fails (both loaders catch every exception); cancellation of a task is not modelled.
\<close>

datatype ('k, 'v) load_task = Running 'k | Done 'k 'v

datatype ('k, 'v) caller = Idle | Wants 'k | Awaiting 'k nat | Returned 'k 'v

record ('c, 'k, 'v) flight =
  fl_cache :: 'c
  fl_source :: "'k \<Rightarrow> 'v"
  fl_loads :: "'k \<Rightarrow> nat option"
  fl_tasks :: "nat \<Rightarrow> ('k, 'v) load_task option"
  fl_callers :: "nat \<Rightarrow> ('k, 'v) caller"
  fl_next :: nat

definition flight_init :: "'c \<Rightarrow> ('k \<Rightarrow> 'v) \<Rightarrow> ('c, 'k, 'v) flight" where
  "flight_init c src = \<lparr>fl_cache = c, fl_source = src, fl_loads = (\<lambda>_. None), fl_tasks = (\<lambda>_. None),
     fl_callers = (\<lambda>_. Idle), fl_next = 0\<rparr>"

inductive flight_step ::
  "('c \<Rightarrow> 'k \<Rightarrow> 'v option) \<Rightarrow> ('k \<Rightarrow> 'v \<Rightarrow> 'c \<Rightarrow> 'c) \<Rightarrow> ('c \<Rightarrow> 'c) set
    \<Rightarrow> ('c, 'k, 'v) flight \<Rightarrow> ('c, 'k, 'v) flight \<Rightarrow> bool"
  for usable keep edits where
  hit: "fl_callers s p = Idle \<Longrightarrow> usable (fl_cache s) k = Some v \<Longrightarrow>
    flight_step usable keep edits s (s\<lparr>fl_callers := (fl_callers s)(p := Returned k v)\<rparr>)"
| miss: "fl_callers s p = Idle \<Longrightarrow> usable (fl_cache s) k = None \<Longrightarrow>
    flight_step usable keep edits s (s\<lparr>fl_callers := (fl_callers s)(p := Wants k)\<rparr>)"
| join: "fl_callers s p = Wants k \<Longrightarrow> fl_loads s k = Some t \<Longrightarrow>
    flight_step usable keep edits s (s\<lparr>fl_callers := (fl_callers s)(p := Awaiting k t)\<rparr>)"
| spawn: "fl_callers s p = Wants k \<Longrightarrow> fl_loads s k = None \<Longrightarrow> t = fl_next s \<Longrightarrow>
    flight_step usable keep edits s
      (s\<lparr>fl_tasks := (fl_tasks s)(t \<mapsto> Running k), fl_loads := (fl_loads s)(k \<mapsto> t),
         fl_next := Suc t, fl_callers := (fl_callers s)(p := Awaiting k t)\<rparr>)"
| finish: "fl_tasks s t = Some (Running k) \<Longrightarrow>
    flight_step usable keep edits s (s\<lparr>fl_tasks := (fl_tasks s)(t \<mapsto> Done k (fl_source s k))\<rparr>)"
| resume: "fl_callers s p = Awaiting k t \<Longrightarrow> fl_tasks s t = Some (Done k v) \<Longrightarrow>
    flight_step usable keep edits s
      (s\<lparr>fl_loads := (if fl_loads s k = Some t then (fl_loads s)(k := None) else fl_loads s),
         fl_cache := keep k v (fl_cache s),
         fl_callers := (fl_callers s)(p := Returned k v)\<rparr>)"
| again: "fl_callers s p = Returned k v \<Longrightarrow>
    flight_step usable keep edits s (s\<lparr>fl_callers := (fl_callers s)(p := Idle)\<rparr>)"
| edit: "f \<in> edits \<Longrightarrow> flight_step usable keep edits s (s\<lparr>fl_cache := f (fl_cache s)\<rparr>)"
| change: "flight_step usable keep edits s (s\<lparr>fl_source := src\<rparr>)"

inductive_cases flight_stepE: "flight_step usable keep edits s s'"

abbreviation flight_run where
  "flight_run usable keep edits \<equiv> (flight_step usable keep edits)\<^sup>*\<^sup>*"

section \<open>The invariant\<close>

text \<open>A registered load exists and is for that key; a running load is registered, so there is one
  per key; a caller waits for an existing load of its own key.\<close>

definition task_for :: "('k, 'v) load_task option \<Rightarrow> 'k \<Rightarrow> bool" where
  "task_for x k \<longleftrightarrow> (case x of None \<Rightarrow> False | Some (Running j) \<Rightarrow> j = k | Some (Done j _) \<Rightarrow> j = k)"

definition flight_ok :: "('c, 'k, 'v) flight \<Rightarrow> bool" where
  "flight_ok s \<longleftrightarrow>
     (\<forall>k t. fl_loads s k = Some t \<longrightarrow> task_for (fl_tasks s t) k) \<and>
     (\<forall>t k. fl_tasks s t = Some (Running k) \<longrightarrow> fl_loads s k = Some t) \<and>
     (\<forall>t. fl_next s \<le> t \<longrightarrow> fl_tasks s t = None) \<and>
     (\<forall>p k t. fl_callers s p = Awaiting k t \<longrightarrow> task_for (fl_tasks s t) k)"

lemma task_for_simps [simp]:
  "\<not> task_for None k" "task_for (Some (Running j)) k \<longleftrightarrow> j = k" "task_for (Some (Done j v)) k \<longleftrightarrow> j = k"
  by (simp_all add: task_for_def)

lemma task_forE:
  assumes "task_for x k"
  obtains "x = Some (Running k)" | v where "x = Some (Done k v)"
  using assms by (auto simp: task_for_def split: option.splits load_task.splits)

lemma flight_ok_init [simp, intro]: "flight_ok (flight_init c src)"
  by (simp add: flight_ok_def flight_init_def)

lemma flight_okD:
  assumes "flight_ok s"
  shows "fl_loads s k = Some t \<Longrightarrow> task_for (fl_tasks s t) k"
    and "fl_tasks s t = Some (Running k) \<Longrightarrow> fl_loads s k = Some t"
    and "fl_tasks s (fl_next s) = None"
    and "fl_callers s p = Awaiting k t \<Longrightarrow> task_for (fl_tasks s t) k"
  using assms by (auto simp: flight_ok_def)

lemma flight_ok_step: "flight_step usable keep edits s s' \<Longrightarrow> flight_ok s \<Longrightarrow> flight_ok s'"
proof (induction rule: flight_step.induct)
  case (spawn s p k t)
  then have new: "fl_tasks s t = None" by (simp add: flight_okD)
  with spawn show ?case by (fastforce simp: flight_ok_def)
next
  case (finish s t k)
  then show ?case by (fastforce simp: flight_ok_def)
next
  case (resume s p k t v)
  then show ?case by (fastforce simp: flight_ok_def)
qed (auto simp: flight_ok_def)

lemma flight_ok_run: "flight_run usable keep edits s s' \<Longrightarrow> flight_ok s \<Longrightarrow> flight_ok s'"
  by (induction rule: rtranclp_induct) (auto intro: flight_ok_step)

text \<open>
  C11. Concurrent misses are deduplicated: in every reachable state at most one load of a key is
  running, so a burst of callers costs one query.
\<close>

theorem single_flight:
  assumes "flight_run usable keep edits (flight_init c src) s"
    and "fl_tasks s t1 = Some (Running k)" and "fl_tasks s t2 = Some (Running k)"
  shows "t1 = t2"
proof -
  note ok = flight_okD(2) [OF flight_ok_run [OF assms(1) flight_ok_init]]
  from ok [OF assms(2)] ok [OF assms(3)] show ?thesis by simp
qed


lemma start_load:
  assumes "usable c k = None"
  shows "\<exists>s. flight_run usable keep edits (flight_init c src) s \<and> fl_callers s p = Awaiting k 0 \<and>
    fl_tasks s 0 = Some (Running k) \<and> fl_cache s = c \<and> fl_source s = src \<and> fl_loads s = [k \<mapsto> 0]"
proof -
  define s0 where "s0 = flight_init c src"
  define s1 where "s1 = s0\<lparr>fl_callers := (fl_callers s0)(p := Wants k)\<rparr>"
  define s2 where "s2 = s1\<lparr>fl_tasks := (fl_tasks s1)(0 \<mapsto> Running k), fl_loads := (fl_loads s1)(k \<mapsto> 0),
         fl_next := Suc 0, fl_callers := (fl_callers s1)(p := Awaiting k 0)\<rparr>"
  have 1: "flight_step usable keep edits s0 s1"
    unfolding s1_def by (rule miss) (simp_all add: s0_def flight_init_def assms)
  have 2: "flight_step usable keep edits s1 s2"
    unfolding s2_def by (rule spawn) (simp_all add: s1_def s0_def flight_init_def)
  have "flight_run usable keep edits s0 s2" using 1 2 by (meson r_into_rtranclp rtranclp_trans)
  moreover have "fl_callers s2 p = Awaiting k 0 \<and> fl_tasks s2 0 = Some (Running k) \<and> fl_cache s2 = c \<and>
      fl_source s2 = src \<and> fl_loads s2 = [k \<mapsto> 0]"
    by (simp add: s2_def s1_def s0_def flight_init_def)
  ultimately show ?thesis unfolding s0_def by blast
qed

lemma end_load:
  assumes "fl_callers s p = Awaiting k t" and "fl_tasks s t = Some (Done k v)" and "fl_loads s = [k \<mapsto> t]"
  shows "\<exists>s'. flight_run usable keep edits s s' \<and> fl_callers s' p = Returned k v \<and>
    fl_cache s' = keep k v (fl_cache s) \<and> fl_source s' = fl_source s \<and> fl_loads s' = (\<lambda>_. None)"
  using resume [OF assms(1,2), of usable keep edits] assms(3)
  by (intro exI conjI) (erule r_into_rtranclp, simp_all)

section \<open>TenantService.get_tenant\<close>

definition tenant_usable :: "tenant_service \<Rightarrow> string \<Rightarrow> tenant option option" where
  "tenant_usable s tid = map_option Some (cached_tenant tid s)"

definition tenant_keep :: "string \<Rightarrow> tenant option \<Rightarrow> tenant_service \<Rightarrow> tenant_service" where
  "tenant_keep tid r s = (case r of None \<Rightarrow> s | Some t \<Rightarrow> cache_tenant (t_tenant_id t) t s)"

definition tenant_edits :: "(tenant_service \<Rightarrow> tenant_service) set" where
  "tenant_edits = range apply_update_message"

abbreviation tenant_run where
  "tenant_run \<equiv> flight_run tenant_usable tenant_keep tenant_edits"

lemma tenant_start:
  assumes "cached_tenant tid c = None"
  shows "\<exists>s. tenant_run (flight_init c src) s \<and> fl_callers s p = Awaiting tid 0 \<and>
    fl_tasks s 0 = Some (Running tid) \<and> fl_cache s = c \<and> fl_source s = src \<and> fl_loads s = [tid \<mapsto> 0]"
  by (rule start_load) (simp add: tenant_usable_def assms)

lemma cached_tenant_new [simp]: "cached_tenant tid new_tenant_service = None"
  by (simp add: cached_tenant_def new_tenant_service_def)

text \<open>
  Run alone, a call through the table of loads does what the function does: it returns the value of
  \<open>get_tenant\<close>, leaves its cache and no load behind.
\<close>

theorem get_tenant_flight:
  assumes "tid \<noteq> []"
  shows "\<exists>s'. tenant_run (flight_init c (load_tenant_from_db db)) s' \<and>
    fl_callers s' p = Returned tid (fst (get_tenant db tid c)) \<and>
    fl_cache s' = snd (get_tenant db tid c) \<and> fl_loads s' = (\<lambda>_. None)"
proof (cases "cached_tenant tid c")
  case (Some t)
  let ?s = "flight_init c (load_tenant_from_db db)"
  have "tenant_run ?s (?s\<lparr>fl_callers := (fl_callers ?s)(p := Returned tid (Some t))\<rparr>)"
    by (intro r_into_rtranclp hit) (simp_all add: flight_init_def tenant_usable_def Some)
  then show ?thesis using Some assms
    by (intro exI conjI) (assumption, simp_all add: get_tenant_def flight_init_def)
next
  case None
  let ?v = "load_tenant_from_db db tid"
  obtain s where s: "tenant_run (flight_init c (load_tenant_from_db db)) s" "fl_callers s p = Awaiting tid 0"
    "fl_tasks s 0 = Some (Running tid)" "fl_cache s = c" "fl_source s = load_tenant_from_db db"
    "fl_loads s = [tid \<mapsto> 0]"
    using tenant_start [OF None] by blast
  define s1 where "s1 = s\<lparr>fl_tasks := (fl_tasks s)(0 \<mapsto> Done tid (fl_source s tid))\<rparr>"
  have "flight_step tenant_usable tenant_keep tenant_edits s s1" unfolding s1_def by (rule finish [OF s(3)])
  then have r: "tenant_run (flight_init c (load_tenant_from_db db)) s1" using s(1) by simp
  obtain s2 where "tenant_run s1 s2" "fl_callers s2 p = Returned tid ?v" "fl_cache s2 = tenant_keep tid ?v c"
    "fl_loads s2 = (\<lambda>_. None)"
    using end_load [of s1 p tid 0 ?v tenant_usable tenant_keep tenant_edits] s by (auto simp: s1_def)
  then show ?thesis using r None assms
    by (intro exI [of _ s2]) (auto simp: get_tenant_def tenant_keep_def split: option.split)
qed

theorem get_tenant_flight_witness:
  "\<exists>s'. tenant_run (flight_init new_tenant_service (load_tenant_from_db (\<lambda>_. Inr (Some default_tenant)))) s' \<and>
    fl_callers s' 3 = Returned ''t1'' (Some default_tenant)"
  using get_tenant_flight [of "''t1''" new_tenant_service "\<lambda>_. Inr (Some default_tenant)" 3]
  by (auto simp: get_tenant_result load_tenant_from_db_def)

lemma example_load:
  "\<exists>s. tenant_run (flight_init new_tenant_service src) s \<and> fl_callers s p = Awaiting ''t1'' 0 \<and>
    fl_tasks s 0 = Some (Running ''t1'')"
  using tenant_start [OF cached_tenant_new] by blast

theorem single_flight_witness:
  "\<exists>s. fl_tasks s 0 = Some (Running ''t1'') \<and> tenant_run (flight_init new_tenant_service (\<lambda>_. None)) s \<and>
    (\<forall>t. fl_tasks s t = Some (Running ''t1'') \<longrightarrow> t = 0)"
proof -
  obtain s where s: "tenant_run (flight_init new_tenant_service (\<lambda>_. None)) s" "fl_tasks s 0 = Some (Running ''t1'')"
    using example_load by blast
  from single_flight [OF s(1) _ s(2)] s show ?thesis by blast
qed


text \<open>
  A load in flight outlives a removal: a tenant whose row is gone and whose removal message has been
  applied can be put back into the cache by a caller that was waiting for an older read, and stays
  there with no load running.
\<close>

theorem removed_tenant_resurrected:
  assumes "t_tenant_id t = tid"
  shows "\<exists>s1 s2. tenant_run (flight_init new_tenant_service (\<lambda>k. if k = tid then Some t else None)) s1 \<and>
    fl_source s1 = (\<lambda>_. None) \<and>
    tenant_run (s1\<lparr>fl_cache := apply_update_message
        \<lparr>um_tenant = None, um_tenant_id = Some tid, um_action = ACTION_REMOVE\<rparr> (fl_cache s1)\<rparr>) s2 \<and>
    fl_source s2 = (\<lambda>_. None) \<and> fl_loads s2 = (\<lambda>_. None) \<and> cached_tenant tid (fl_cache s2) = Some t"
proof -
  let ?src = "\<lambda>k. if k = tid then Some t else None"
  obtain s where s: "tenant_run (flight_init new_tenant_service ?src) s" "fl_callers s 0 = Awaiting tid 0"
    "fl_tasks s 0 = Some (Running tid)" "fl_source s = ?src" "fl_loads s = [tid \<mapsto> 0]"
    using tenant_start [OF cached_tenant_new] by blast
  define s1 where "s1 = s\<lparr>fl_tasks := (fl_tasks s)(0 \<mapsto> Done tid (fl_source s tid))\<rparr>"
  define s2 where "s2 = s1\<lparr>fl_source := (\<lambda>_. None)\<rparr>"
  define s3 where "s3 = s2\<lparr>fl_cache := apply_update_message
        \<lparr>um_tenant = None, um_tenant_id = Some tid, um_action = ACTION_REMOVE\<rparr> (fl_cache s2)\<rparr>"
  have "flight_step tenant_usable tenant_keep tenant_edits s s1" unfolding s1_def by (rule finish [OF s(3)])
  moreover have "flight_step tenant_usable tenant_keep tenant_edits s1 s2" unfolding s2_def by (rule change)
  ultimately have r: "tenant_run (flight_init new_tenant_service ?src) s2" using s(1) by simp
  obtain s4 where "tenant_run s3 s4" "fl_cache s4 = tenant_keep tid (Some t) (fl_cache s3)"
    "fl_source s4 = (\<lambda>_. None)" "fl_loads s4 = (\<lambda>_. None)"
    using end_load [of s3 0 tid 0 "Some t" tenant_usable tenant_keep tenant_edits] s
    by (auto simp: s3_def s2_def s1_def)
  then show ?thesis using r assms
    by (intro exI [of _ s2] exI [of _ s4])
      (auto simp: s3_def s2_def tenant_keep_def tenants.lookup_store)
qed

theorem removed_tenant_resurrected_witness:
  "\<exists>s1 s2. fl_source s1 = (\<lambda>_. None) \<and>
    tenant_run (s1\<lparr>fl_cache := apply_update_message
        \<lparr>um_tenant = None, um_tenant_id = Some [], um_action = ACTION_REMOVE\<rparr> (fl_cache s1)\<rparr>) s2 \<and>
    cached_tenant [] (fl_cache s2) = Some default_tenant"
  using removed_tenant_resurrected [of default_tenant "[]"] by (auto simp: default_tenant_def)

end
