(* ===== verification/Grant_Store.thy ===== *)
theory Grant_Store
  imports Ambient
begin

text \<open>
  \<^verbatim>\<open>_delegation/grant_store.py\<close>: the record behind a delegation grant, its JSON, and the
  store that writes, reads and deletes it through the cache client. The client is a parameter
  (\<open>cache_ops\<close>) over a state of its own; \<open>cache_ops_ok\<close> is the documented behaviour of
  \<^verbatim>\<open>SETEX\<close>, \<^verbatim>\<open>GET\<close> and \<^verbatim>\<open>DEL\<close> within a key's life time.
\<close>

section \<open>The cache client\<close>

record 'c cache_ops =
  co_setex :: "string \<Rightarrow> string \<Rightarrow> int \<Rightarrow> 'c \<Rightarrow> py_exn + 'c"
  co_get :: "string \<Rightarrow> 'c \<Rightarrow> py_exn + string option"
  co_delete :: "string \<Rightarrow> 'c \<Rightarrow> py_exn + 'c"

definition cache_ops_ok :: "'c cache_ops \<Rightarrow> bool" where
  "cache_ops_ok R \<longleftrightarrow>
     (\<forall>k v ttl c c'. co_setex R k v ttl c = Inr c' \<longrightarrow>
        co_get R k c' = Inr (Some v) \<and> (\<forall>j. j \<noteq> k \<longrightarrow> co_get R j c' = co_get R j c)) \<and>
     (\<forall>k c c'. co_delete R k c = Inr c' \<longrightarrow>
        co_get R k c' = Inr None \<and> (\<forall>j. j \<noteq> k \<longrightarrow> co_get R j c' = co_get R j c))"

lemma cache_ops_okD:
  assumes "cache_ops_ok R"
  shows "co_setex R k v ttl c = Inr c' \<Longrightarrow> co_get R k c' = Inr (Some v)"
    and "co_setex R k v ttl c = Inr c' \<Longrightarrow> j \<noteq> k \<Longrightarrow> co_get R j c' = co_get R j c"
    and "co_delete R k c = Inr c' \<Longrightarrow> co_get R k c' = Inr None"
    and "co_delete R k c = Inr c' \<Longrightarrow> j \<noteq> k \<Longrightarrow> co_get R j c' = co_get R j c"
  using assms unfolding cache_ops_ok_def by blast+

text \<open>The world of the delegation code: the ambient holders and the cache behind the client.\<close>

record 'c delegation_world =
  dl_ambient :: ambient
  dl_cache :: 'c

record 'c delegation_env =
  de_model :: model_env
  de_float :: "string \<Rightarrow> string"
  de_cache :: "'c cache_ops"

type_synonym ('c, 'a) delegation_act = "('c delegation_world, 'a) act"

definition cache_setex :: "'c delegation_env \<Rightarrow> string \<Rightarrow> string \<Rightarrow> int \<Rightarrow> ('c, unit) delegation_act" where
  "cache_setex E k v ttl = (\<lambda>w. case co_setex (de_cache E) k v ttl (dl_cache w) of
     Inl e \<Rightarrow> (Inl e, w) | Inr c \<Rightarrow> (Inr (), w\<lparr>dl_cache := c\<rparr>))"

definition cache_delete :: "'c delegation_env \<Rightarrow> string \<Rightarrow> ('c, unit) delegation_act" where
  "cache_delete E k = (\<lambda>w. case co_delete (de_cache E) k (dl_cache w) of
     Inl e \<Rightarrow> (Inl e, w) | Inr c \<Rightarrow> (Inr (), w\<lparr>dl_cache := c\<rparr>))"

definition cache_get :: "'c delegation_env \<Rightarrow> string \<Rightarrow> ('c, string option) delegation_act" where
  "cache_get E k = (\<lambda>w. (co_get (de_cache E) k (dl_cache w), w))"

section \<open>The record\<close>

record grant_record =
  g_tenant_id :: string
  g_user_id :: string
  g_organization_id :: string
  g_token_version :: string
  g_security_stamp :: string
  g_client_id :: string
  g_impersonation_session_id :: string
  g_original_tenant_id :: string

definition empty_grant :: grant_record where
  "empty_grant = \<lparr>g_tenant_id = [], g_user_id = [], g_organization_id = [], g_token_version = [],
     g_security_stamp = [], g_client_id = [], g_impersonation_session_id = [], g_original_tenant_id = []\<rparr>"

definition is_client_grant :: "grant_record \<Rightarrow> bool" where
  "is_client_grant g \<longleftrightarrow> g_user_id g = [] \<and> g_client_id g \<noteq> []"

definition is_impersonated :: "grant_record \<Rightarrow> bool" where
  "is_impersonated g \<longleftrightarrow> g_impersonation_session_id g \<noteq> []"

definition dump_by_alias :: "grant_record \<Rightarrow> pydict" where
  "dump_by_alias g =
     [(''TenantId'', PStr (g_tenant_id g)), (''UserId'', PStr (g_user_id g)),
      (''OrganizationId'', PStr (g_organization_id g)), (''TokenVersion'', PStr (g_token_version g)),
      (''SecurityStamp'', PStr (g_security_stamp g)), (''ClientId'', PStr (g_client_id g)),
      (''ImpersonationSessionId'', PStr (g_impersonation_session_id g)),
      (''OriginalTenantId'', PStr (g_original_tenant_id g))]"

definition to_wire_json :: "grant_record \<Rightarrow> string" where
  "to_wire_json g = json_dumps (PDict (dump_by_alias g))"

text \<open>\<^verbatim>\<open>DelegationGrantRecord(**payload)\<close>: a field is read under its alias, or else
  under its own name, and defaults to the empty text; other keys are ignored.\<close>

definition grant_field :: "model_env \<Rightarrow> pydict \<Rightarrow> string \<Rightarrow> string \<Rightarrow> py_exn + string" where
  "grant_field V d alias_name name =
     (case map_of d alias_name of
        Some v \<Rightarrow> coerce_str V v
      | None \<Rightarrow> (case map_of d name of Some v \<Rightarrow> coerce_str V v | None \<Rightarrow> Inr []))"

definition grant_of_payload :: "model_env \<Rightarrow> pyval \<Rightarrow> py_exn + grant_record" where
  "grant_of_payload V payload =
     (case payload of
        PDict d \<Rightarrow>
          (let f = grant_field V d in
           case (f ''TenantId'' ''tenant_id'', f ''UserId'' ''user_id'', f ''OrganizationId'' ''organization_id'',
                 f ''TokenVersion'' ''token_version'', f ''SecurityStamp'' ''security_stamp'', f ''ClientId'' ''client_id'',
                 f ''ImpersonationSessionId'' ''impersonation_session_id'', f ''OriginalTenantId'' ''original_tenant_id'') of
             (Inr t, Inr u, Inr g, Inr v, Inr s, Inr c, Inr i, Inr n) \<Rightarrow>
               Inr \<lparr>g_tenant_id = t, g_user_id = u, g_organization_id = g, g_token_version = v,
                    g_security_stamp = s, g_client_id = c, g_impersonation_session_id = i, g_original_tenant_id = n\<rparr>
           | _ \<Rightarrow> Inl ValidationError)
      | _ \<Rightarrow> Inl TypeError)"

section \<open>The store\<close>

definition grant_lifetime :: "int option \<Rightarrow> int" where
  "grant_lifetime ttl_seconds =
     (case ttl_seconds of Some n \<Rightarrow> if n > 0 then n else DEFAULT_GRANT_TTL_SECONDS
      | None \<Rightarrow> DEFAULT_GRANT_TTL_SECONDS)"

text \<open>\<open>bs\<close> are the random bytes of the new id.\<close>

definition write_grant :: "'c delegation_env \<Rightarrow> nat list \<Rightarrow> grant_record \<Rightarrow> int option \<Rightarrow> ('c, string) delegation_act" where
  "write_grant E bs g ttl_seconds =
     (let delegation_id = new_grant_id bs in
      seq (cache_setex E (grant_key delegation_id) (to_wire_json g) (grant_lifetime ttl_seconds))
        (\<lambda>_. ret delegation_id))"

definition user_grant :: "blocks_context \<Rightarrow> string \<Rightarrow> string \<Rightarrow> grant_record" where
  "user_grant c token_version security_stamp = empty_grant
     \<lparr>g_tenant_id := tenant_id c, g_user_id := user_id c, g_organization_id := organization_id c,
      g_token_version := token_version, g_security_stamp := security_stamp,
      g_impersonation_session_id := (if impersonated c then impersonation_session_id c else []),
      g_original_tenant_id := (if impersonated c then original_tenant_id c else [])\<rparr>"

definition create_grant ::
  "'c delegation_env \<Rightarrow> nat list \<Rightarrow> blocks_context option \<Rightarrow> string option \<Rightarrow> string option \<Rightarrow> int option
    \<Rightarrow> ('c, string) delegation_act" where
  "create_grant E bs context token_version security_stamp ttl_seconds =
     (case context of
        None \<Rightarrow> raise ValueError
      | Some c \<Rightarrow>
          if tenant_id c = [] \<or> user_id c = [] then raise ValueError
          else write_grant E bs (user_grant c (or_empty token_version) (or_empty security_stamp)) ttl_seconds)"

definition client_grant :: "string \<Rightarrow> string \<Rightarrow> string \<Rightarrow> grant_record" where
  "client_grant tid client org = empty_grant\<lparr>g_tenant_id := tid, g_client_id := client, g_organization_id := org\<rparr>"

definition create_client_grant ::
  "'c delegation_env \<Rightarrow> nat list \<Rightarrow> string \<Rightarrow> string \<Rightarrow> string option \<Rightarrow> int option
    \<Rightarrow> ('c, string) delegation_act" where
  "create_client_grant E bs tid client org ttl_seconds =
     (if tid = [] \<or> client = [] then raise ValueError
      else write_grant E bs (client_grant tid client (or_empty org)) ttl_seconds)"

definition delete_grant :: "'c delegation_env \<Rightarrow> string option \<Rightarrow> ('c, unit) delegation_act" where
  "delete_grant E delegation_id =
     (if \<not> is_well_formed delegation_id then ret ()
      else except_any (cache_delete E (grant_key (or_empty delegation_id))) (\<lambda>_. ret ()))"

text \<open>Text that does not parse, or does not build a record, reads as no grant; a cache that fails is
  not caught here.\<close>

definition parse_grant :: "'c delegation_env \<Rightarrow> string \<Rightarrow> py_exn + grant_record" where
  "parse_grant E raw = (case py_loads (de_float E) raw of
     Inl e \<Rightarrow> Inl e | Inr payload \<Rightarrow> grant_of_payload (de_model E) payload)"

definition get_grant :: "'c delegation_env \<Rightarrow> string option \<Rightarrow> ('c, grant_record option) delegation_act" where
  "get_grant E delegation_id =
     (if \<not> is_well_formed delegation_id then ret None
      else seq (cache_get E (grant_key (or_empty delegation_id))) (\<lambda>raw.
        if \<not> truthy_opt raw then ret None
        else except_any (seq (lift_exn (parse_grant E (or_empty raw))) (\<lambda>g. ret (Some g))) (\<lambda>_. ret None)))"

section \<open>What the store keeps\<close>

lemma grant_lifetime_pos: "grant_lifetime ttl_seconds > 0"
  by (auto simp: grant_lifetime_def DEFAULT_GRANT_TTL_SECONDS_def split: option.split)

lemma parse_to_wire [simp]:
  assumes "model_env_ok (de_model E)"
  shows "parse_grant E (to_wire_json g) = Inr g"
proof -
  have "json_plain (PDict (dump_by_alias g))" by (simp add: dump_by_alias_def)
  then have "py_loads (de_float E) (to_wire_json g) = Inr (PDict (dump_by_alias g))"
    unfolding to_wire_json_def by (rule py_loads_dumps)
  then show ?thesis
    using assms by (simp add: parse_grant_def grant_of_payload_def grant_field_def dump_by_alias_def)
qed

lemma to_wire_json_nonempty [simp]: "to_wire_json g \<noteq> []"
  by (simp add: to_wire_json_def)

text \<open>A grant was written under the id of some random bytes: the record and the state before and after.\<close>

definition written ::
  "'c delegation_env \<Rightarrow> nat list \<Rightarrow> grant_record \<Rightarrow> int option \<Rightarrow> 'c delegation_world \<Rightarrow> string
    \<Rightarrow> 'c delegation_world \<Rightarrow> bool" where
  "written E bs g ttl w i w' \<longleftrightarrow> i = new_grant_id bs \<and>
     co_setex (de_cache E) (grant_key i) (to_wire_json g) (grant_lifetime ttl) (dl_cache w) = Inr (dl_cache w') \<and>
     dl_ambient w' = dl_ambient w"

lemma write_grant_Inr: "write_grant E bs g ttl w = (Inr i, w') \<Longrightarrow> written E bs g ttl w i w'"
  by (auto simp: write_grant_def cache_setex_def Let_def act_simps written_def split: sum.splits)

lemma get_grant_pure: "get_grant E i w = (r, w') \<Longrightarrow> w' = w"
  by (auto simp: get_grant_def cache_get_def act_simps split: if_splits prod.splits sum.splits)

lemma get_grant_stored:
  assumes "model_env_ok (de_model E)" and "is_well_formed (Some i)"
    and "co_get (de_cache E) (grant_key i) (dl_cache w) = Inr (Some (to_wire_json g))"
  shows "get_grant E (Some i) w = (Inr (Some g), w)"
  using assms by (simp add: get_grant_def cache_get_def act_simps)

lemma get_grant_missing:
  assumes "co_get (de_cache E) (grant_key (or_empty i)) (dl_cache w) = Inr None"
  shows "get_grant E i w = (Inr None, w)"
  using assms by (simp add: get_grant_def cache_get_def act_simps)

lemma written_read_back:
  assumes "written E bs g ttl w i w'" and "cache_ops_ok (de_cache E)" and "model_env_ok (de_model E)"
    and "length bs = GRANT_ID_RANDOM_BYTES" and "\<forall>b \<in> set bs. b < 256"
  shows "is_well_formed (Some i) \<and> get_grant E (Some i) w' = (Inr (Some g), w')"
proof -
  have "is_well_formed (Some i)"
    using new_grant_id_well_formed [OF assms(4,4,5,5)] assms(1) by (simp add: written_def)
  moreover have "co_get (de_cache E) (grant_key i) (dl_cache w') = Inr (Some (to_wire_json g))"
    using assms(1) cache_ops_okD(1) [OF assms(2)] by (auto simp: written_def)
  ultimately show ?thesis using get_grant_stored [OF assms(3)] by blast
qed


section \<open>One cache\<close>

text \<open>A concrete client for the witnesses, over a table.\<close>

definition table_cache :: "(string \<times> string) list cache_ops" where
  "table_cache = \<lparr>co_setex = (\<lambda>k v ttl c. Inr (AList.update k v c)), co_get = (\<lambda>k c. Inr (map_of c k)),
     co_delete = (\<lambda>k c. Inr (AList.delete k c))\<rparr>"

definition table_env :: "(string \<times> string) list delegation_env" where
  "table_env = \<lparr>de_model = strict_env, de_float = id, de_cache = table_cache\<rparr>"

lemma table_env_simps [simp]:
  "de_model table_env = strict_env" "de_cache table_env = table_cache" "cache_ops_ok table_cache"
  by (auto simp: table_env_def table_cache_def cache_ops_ok_def update_conv' delete_conv')

lemma table_cache_simps [simp]:
  "co_setex table_cache k v ttl c = Inr (AList.update k v c)" "co_get table_cache k c = Inr (map_of c k)"
  "co_delete table_cache k c = Inr (AList.delete k c)"
  by (simp_all add: table_cache_def)

definition zero_bytes :: "nat list" where
  "zero_bytes = replicate 32 0"

lemma zero_bytes_ok [simp]: "length zero_bytes = GRANT_ID_RANDOM_BYTES" "\<forall>b \<in> set zero_bytes. b < 256"
  by (simp_all add: zero_bytes_def GRANT_ID_RANDOM_BYTES_def)

definition user_context :: blocks_context where
  "user_context = default_context\<lparr>tenant_id := ''t1'', user_id := ''u1'', is_authenticated := True\<rparr>"


end
