(* ===== verification/Grant_Factory.thy ===== *)
theory Grant_Factory
  imports Grant_Store
begin

text \<open>
  \<^verbatim>\<open>_delegation/grant_factory.py\<close>: the grant a send attaches to its message. An API
  request takes the version material, or the client id, from the validated claims; a worker carries
  them over from the grant it holds, when that grant is for the same tenant and the same user and
  organization, or the same client. The theorems say where a grant's identity comes from and what a
  failing cache does to a send.
\<close>

section \<open>The held grant\<close>

definition read_held_grant :: "'c delegation_env \<Rightarrow> string \<Rightarrow> ('c, grant_record option) delegation_act" where
  "read_held_grant E tid =
     seq (gets (\<lambda>w. current_grant (dl_ambient w))) (\<lambda>held_grant_id.
       if \<not> truthy_opt held_grant_id then ret None
       else seq (get_grant E held_grant_id) (\<lambda>r.
         case r of
           None \<Rightarrow> ret None
         | Some g \<Rightarrow> if g_tenant_id g \<noteq> tid then ret None else ret (Some g)))"

definition read_from_held_grant ::
  "'c delegation_env \<Rightarrow> blocks_context \<Rightarrow> ('c, string option \<times> string option) delegation_act" where
  "read_from_held_grant E c =
     seq (read_held_grant E (tenant_id c)) (\<lambda>r.
       case r of
         None \<Rightarrow> ret (None, None)
       | Some g \<Rightarrow>
           if is_client_grant g then ret (None, None)
           else if g_user_id g \<noteq> user_id c \<or> g_organization_id g \<noteq> organization_id c then ret (None, None)
           else ret (Some (g_token_version g), Some (g_security_stamp g)))"

section \<open>The grant of a send\<close>

definition create_for_user ::
  "'c delegation_env \<Rightarrow> nat list \<Rightarrow> blocks_context \<Rightarrow> int option \<Rightarrow> ('c, string option) delegation_act" where
  "create_for_user E bs c ttl_seconds =
     seq (gets (\<lambda>w. version_material (dl_ambient w))) (\<lambda>(tv, ss).
     seq (if \<not> truthy_opt tv \<and> \<not> truthy_opt ss then read_from_held_grant E c else ret (tv, ss))
       (\<lambda>(token_version, security_stamp).
       if \<not> truthy_opt token_version \<or> \<not> truthy_opt security_stamp then ret None
       else except_any
              (seq (create_grant E bs (Some c) token_version security_stamp ttl_seconds) (\<lambda>i. ret (Some i)))
              (\<lambda>_. ret None)))"

definition create_for_client ::
  "'c delegation_env \<Rightarrow> nat list \<Rightarrow> blocks_context \<Rightarrow> int option \<Rightarrow> ('c, string option) delegation_act" where
  "create_for_client E bs c ttl_seconds =
     seq (gets (\<lambda>w. case current_claims (dl_ambient w) of None \<Rightarrow> [] | Some d \<Rightarrow> d)) (\<lambda>claims.
     let claims_client_id = (if truthy (dlookup claims ''user_id'') then PNone else dlookup claims ''client_id'') in
     seq (if truthy claims_client_id then ret (Some (py_str claims_client_id, organization_id c))
          else seq (read_held_grant E (tenant_id c)) (\<lambda>held.
            case held of
              None \<Rightarrow> ret None
            | Some g \<Rightarrow>
                if \<not> is_client_grant g then ret None
                else if g_client_id g \<noteq> client_id c then ret None
                else ret (Some (g_client_id g, g_organization_id g)))) (\<lambda>subject.
       case subject of
         None \<Rightarrow> ret None
       | Some (client, org) \<Rightarrow>
           except_any
             (seq (create_client_grant E bs (tenant_id c) client (Some org) ttl_seconds) (\<lambda>i. ret (Some i)))
             (\<lambda>_. ret None)))"

definition create_for_send ::
  "'c delegation_env \<Rightarrow> nat list \<Rightarrow> int option \<Rightarrow> ('c, string option) delegation_act" where
  "create_for_send E bs ttl_seconds =
     seq (gets (\<lambda>w. get_context None (dl_ambient w))) (\<lambda>context.
       case context of
         None \<Rightarrow> ret None
       | Some c \<Rightarrow>
           if \<not> is_authenticated c \<or> tenant_id c = [] then ret None
           else if user_id c \<noteq> [] then create_for_user E bs c ttl_seconds
           else if client_id c \<noteq> [] then create_for_client E bs c ttl_seconds
           else ret None)"

section \<open>Inversion\<close>

lemma read_held_grant_run:
  assumes "read_held_grant E tid w = (r, w')"
  shows "w' = w \<and> (\<forall>g. r = Inr (Some g) \<longrightarrow>
    get_grant E (current_grant (dl_ambient w)) w = (Inr (Some g), w) \<and> g_tenant_id g = tid)"
  using assms
  by (auto simp: read_held_grant_def seq_run ret_run dest: get_grant_pure
      split: if_splits prod.splits sum.splits option.splits)

lemma read_from_held_grant_run:
  assumes "read_from_held_grant E c w = (r, w')"
  shows "w' = w \<and> (\<forall>tv ss. r = Inr (tv, ss) \<longrightarrow> (tv, ss) = (None, None) \<or>
    (\<exists>g. get_grant E (current_grant (dl_ambient w)) w = (Inr (Some g), w) \<and> \<not> is_client_grant g \<and>
       g_tenant_id g = tenant_id c \<and> g_user_id g = user_id c \<and> g_organization_id g = organization_id c \<and>
       tv = Some (g_token_version g) \<and> ss = Some (g_security_stamp g)))"
  using assms
  by (auto simp: read_from_held_grant_def seq_run ret_run dest!: read_held_grant_run
      split: if_splits prod.splits sum.splits option.splits)

lemma create_for_user_Inr:
  assumes "create_for_user E bs c ttl w = (Inr (Some i), w')"
  shows "tenant_id c \<noteq> [] \<and> user_id c \<noteq> [] \<and>
    (\<exists>tv ss. tv \<noteq> [] \<and> ss \<noteq> [] \<and> written E bs (user_grant c tv ss) ttl w i w' \<and>
      (version_material (dl_ambient w) = (Some tv, Some ss) \<or>
       (\<exists>g. get_grant E (current_grant (dl_ambient w)) w = (Inr (Some g), w) \<and> \<not> is_client_grant g \<and>
          g_tenant_id g = tenant_id c \<and> g_user_id g = user_id c \<and> g_organization_id g = organization_id c \<and>
          tv = g_token_version g \<and> ss = g_security_stamp g)))"
proof -
  have wr: "tenant_id c \<noteq> [] \<and> user_id c \<noteq> [] \<and> written E bs (user_grant c (or_empty tv) (or_empty ss)) ttl w i w'"
    if "except_any (seq (create_grant E bs (Some c) tv ss ttl) (\<lambda>i. ret (Some i))) (\<lambda>_. ret None) w = (Inr (Some i), w')"
    for tv ss
    using that
    by (auto simp: except_any_run seq_run ret_run create_grant_def raise_run dest: write_grant_Inr
        split: if_splits prod.splits sum.splits)
  obtain tv0 ss0 where vm: "version_material (dl_ambient w) = (tv0, ss0)" by (rule prod.exhaust)
  obtain r w1 where h: "read_from_held_grant E c w = (r, w1)" by (rule prod.exhaust)
  note hr = read_from_held_grant_run [OF h]
  show ?thesis
  proof (cases "truthy_opt tv0 \<or> truthy_opt ss0")
    case True
    with assms vm obtain a b where ab: "tv0 = Some a" "a \<noteq> []" "ss0 = Some b" "b \<noteq> []"
      and x: "except_any (seq (create_grant E bs (Some c) tv0 ss0 ttl) (\<lambda>i. ret (Some i))) (\<lambda>_. ret None) w = (Inr (Some i), w')"
      by (cases tv0; cases ss0) (auto simp: create_for_user_def truthy_opt_def split: if_splits)
    with wr [OF x] vm show ?thesis by (auto simp: or_empty_def)
  next
    case False
    with assms vm h hr obtain tv ss where r: "r = Inr (tv, ss)" "truthy_opt tv" "truthy_opt ss"
      and x: "except_any (seq (create_grant E bs (Some c) tv ss ttl) (\<lambda>i. ret (Some i))) (\<lambda>_. ret None) w = (Inr (Some i), w')"
      by (cases r) (auto simp: create_for_user_def seq_run gets_run ret_run split: if_splits)
    with hr obtain g where g: "get_grant E (current_grant (dl_ambient w)) w = (Inr (Some g), w)" "\<not> is_client_grant g"
        "g_tenant_id g = tenant_id c" "g_user_id g = user_id c" "g_organization_id g = organization_id c"
        "tv = Some (g_token_version g)" "ss = Some (g_security_stamp g)"
      by auto
    with wr [OF x] r show ?thesis
      by (intro conjI exI [of _ "g_token_version g"] exI [of _ "g_security_stamp g"] disjI2 exI [of _ g]) auto
  qed
qed

lemma create_for_client_Inr:
  assumes "create_for_client E bs c ttl w = (Inr (Some i), w')"
  shows "\<exists>client org. client \<noteq> [] \<and> tenant_id c \<noteq> [] \<and> written E bs (client_grant (tenant_id c) client org) ttl w i w' \<and>
     ((\<exists>claims. current_claims (dl_ambient w) = Some claims \<and> \<not> truthy (dlookup claims ''user_id'') \<and>
         client = py_str (dlookup claims ''client_id'') \<and> org = organization_id c) \<or>
      (\<exists>g. get_grant E (current_grant (dl_ambient w)) w = (Inr (Some g), w) \<and> is_client_grant g \<and>
         g_tenant_id g = tenant_id c \<and> client = g_client_id g \<and> g_client_id g = client_id c \<and> org = g_organization_id g))"
proof -
  have wr: "client \<noteq> [] \<and> tenant_id c \<noteq> [] \<and> written E bs (client_grant (tenant_id c) client org) ttl w i w'"
    if "except_any (seq (create_client_grant E bs (tenant_id c) client (Some org) ttl) (\<lambda>i. ret (Some i))) (\<lambda>_. ret None) w
        = (Inr (Some i), w')" for client org
    using that
    by (auto simp: except_any_run seq_run ret_run create_client_grant_def raise_run or_empty_def dest: write_grant_Inr
        split: if_splits prod.splits sum.splits)
  let ?claims = "case current_claims (dl_ambient w) of None \<Rightarrow> [] | Some d \<Rightarrow> d"
  show ?thesis
  proof (cases "\<not> truthy (dlookup ?claims ''user_id'') \<and> truthy (dlookup ?claims ''client_id'')")
    case True
    with assms have "except_any (seq (create_client_grant E bs (tenant_id c) (py_str (dlookup ?claims ''client_id''))
        (Some (organization_id c)) ttl) (\<lambda>i. ret (Some i))) (\<lambda>_. ret None) w = (Inr (Some i), w')"
      by (simp add: create_for_client_def Let_def)
    from wr [OF this] True show ?thesis by (cases "current_claims (dl_ambient w)") (auto simp: dget_def)
  next
    case False
    obtain r w1 where h: "read_held_grant E (tenant_id c) w = (r, w1)" by (rule prod.exhaust)
    from False assms h read_held_grant_run [OF h] obtain g where g: "r = Inr (Some g)" "is_client_grant g"
        "g_client_id g = client_id c"
      and x: "except_any (seq (create_client_grant E bs (tenant_id c) (g_client_id g) (Some (g_organization_id g)) ttl)
        (\<lambda>i. ret (Some i))) (\<lambda>_. ret None) w = (Inr (Some i), w')"
      by (cases r) (auto simp: create_for_client_def seq_run gets_run ret_run Let_def split: if_splits option.splits)
    with wr [OF x] read_held_grant_run [OF h] show ?thesis by auto
  qed
qed

section \<open>Whose authority a grant carries\<close>

text \<open>The identity a send may put into a grant: of the caller in context, with the version material or
  the client id of validated claims or of a held grant for the same subject.\<close>

definition grant_authority :: "'c delegation_env \<Rightarrow> 'c delegation_world \<Rightarrow> blocks_context \<Rightarrow> grant_record \<Rightarrow> bool" where
  "grant_authority E w c g \<longleftrightarrow>
     g_tenant_id g = tenant_id c \<and>
     (if user_id c \<noteq> [] then
        g_user_id g = user_id c \<and> g_organization_id g = organization_id c \<and> g_client_id g = [] \<and>
        g_token_version g \<noteq> [] \<and> g_security_stamp g \<noteq> [] \<and>
        (is_impersonated g \<longrightarrow> impersonated c \<and> g_impersonation_session_id g = impersonation_session_id c) \<and>
        (version_material (dl_ambient w) = (Some (g_token_version g), Some (g_security_stamp g)) \<or>
         (\<exists>h. get_grant E (current_grant (dl_ambient w)) w = (Inr (Some h), w) \<and> \<not> is_client_grant h \<and>
            g_tenant_id h = g_tenant_id g \<and> g_user_id h = g_user_id g \<and> g_organization_id h = g_organization_id g \<and>
            g_token_version h = g_token_version g \<and> g_security_stamp h = g_security_stamp g))
      else
        is_client_grant g \<and> \<not> is_impersonated g \<and> g_token_version g = [] \<and> g_security_stamp g = [] \<and>
        ((\<exists>claims. current_claims (dl_ambient w) = Some claims \<and> \<not> truthy (dlookup claims ''user_id'') \<and>
            g_client_id g = py_str (dlookup claims ''client_id'') \<and> g_organization_id g = organization_id c) \<or>
         (\<exists>h. get_grant E (current_grant (dl_ambient w)) w = (Inr (Some h), w) \<and> is_client_grant h \<and>
            g_tenant_id h = g_tenant_id g \<and> g_client_id h = g_client_id g \<and> g_client_id g = client_id c \<and>
            g_organization_id h = g_organization_id g)))"

lemma user_grant_simps [simp]:
  "g_tenant_id (user_grant c tv ss) = tenant_id c" "g_user_id (user_grant c tv ss) = user_id c"
  "g_organization_id (user_grant c tv ss) = organization_id c" "g_client_id (user_grant c tv ss) = []"
  "g_token_version (user_grant c tv ss) = tv" "g_security_stamp (user_grant c tv ss) = ss"
  "g_impersonation_session_id (user_grant c tv ss) = (if impersonated c then impersonation_session_id c else [])"
  "g_original_tenant_id (user_grant c tv ss) = (if impersonated c then original_tenant_id c else [])"
  by (simp_all add: user_grant_def empty_grant_def)

lemma client_grant_simps [simp]:
  "g_tenant_id (client_grant t k org) = t" "g_user_id (client_grant t k org) = []"
  "g_organization_id (client_grant t k org) = org" "g_client_id (client_grant t k org) = k"
  "g_token_version (client_grant t k org) = []" "g_security_stamp (client_grant t k org) = []"
  "g_impersonation_session_id (client_grant t k org) = []"
  by (simp_all add: client_grant_def empty_grant_def)

lemma create_for_send_written:
  assumes "create_for_send E bs ttl w = (Inr (Some i), w')"
  shows "\<exists>c g. get_context None (dl_ambient w) = Some c \<and> is_authenticated c \<and> tenant_id c \<noteq> [] \<and>
    written E bs g ttl w i w' \<and> grant_authority E w c g \<and>
    (user_id c \<noteq> [] \<longrightarrow> (\<exists>tv ss. g = user_grant c tv ss))"
proof -
  from assms obtain c where c: "get_context None (dl_ambient w) = Some c" "is_authenticated c" "tenant_id c \<noteq> []"
    and x: "(if user_id c \<noteq> [] then create_for_user E bs c ttl
             else if client_id c \<noteq> [] then create_for_client E bs c ttl else ret None) w = (Inr (Some i), w')"
    by (auto simp: create_for_send_def split: option.splits if_splits)
  show ?thesis
  proof (cases "user_id c = []")
    case False
    with x have "create_for_user E bs c ttl w = (Inr (Some i), w')" by simp
    from create_for_user_Inr [OF this] obtain tv ss where tv: "tv \<noteq> []" "ss \<noteq> []" "written E bs (user_grant c tv ss) ttl w i w'"
      and v: "version_material (dl_ambient w) = (Some tv, Some ss) \<or>
       (\<exists>g. get_grant E (current_grant (dl_ambient w)) w = (Inr (Some g), w) \<and> \<not> is_client_grant g \<and>
          g_tenant_id g = tenant_id c \<and> g_user_id g = user_id c \<and> g_organization_id g = organization_id c \<and>
          tv = g_token_version g \<and> ss = g_security_stamp g)" by blast
    have "grant_authority E w c (user_grant c tv ss)"
      using tv v False by (auto simp: grant_authority_def is_impersonated_def)
    with c tv show ?thesis by blast
  next
    case True
    with x have "create_for_client E bs c ttl w = (Inr (Some i), w')" by (auto split: if_splits)
    from create_for_client_Inr [OF this] obtain client org where
      k: "client \<noteq> []" "written E bs (client_grant (tenant_id c) client org) ttl w i w'"
      and v: "(\<exists>claims. current_claims (dl_ambient w) = Some claims \<and> \<not> truthy (dlookup claims ''user_id'') \<and>
         client = py_str (dlookup claims ''client_id'') \<and> org = organization_id c) \<or>
      (\<exists>g. get_grant E (current_grant (dl_ambient w)) w = (Inr (Some g), w) \<and> is_client_grant g \<and>
         g_tenant_id g = tenant_id c \<and> client = g_client_id g \<and> g_client_id g = client_id c \<and> org = g_organization_id g)"
      by blast
    have "grant_authority E w c (client_grant (tenant_id c) client org)"
      using k(1) v True by (auto simp: grant_authority_def is_impersonated_def is_client_grant_def)
    with c k True show ?thesis by blast
  qed
qed

text \<open>
  C5. A send never lends authority it does not have: the grant it stores names the tenant and the user
  (or the client) of the authenticated caller in context, and the version material or client id in it
  comes from validated claims or from a held grant for the same tenant and the same user and
  organization, or the same client. A user's grant is never made from a client's, nor the reverse.
\<close>

theorem send_grant_authority:
  assumes "create_for_send E bs ttl w = (Inr (Some i), w')"
    and "cache_ops_ok (de_cache E)" and "model_env_ok (de_model E)"
    and "length bs = GRANT_ID_RANDOM_BYTES" and "\<forall>b \<in> set bs. b < 256"
  shows "\<exists>c g. get_context None (dl_ambient w) = Some c \<and> is_authenticated c \<and> tenant_id c \<noteq> [] \<and>
    get_grant E (Some i) w' = (Inr (Some g), w') \<and> grant_authority E w c g \<and> dl_ambient w' = dl_ambient w"
  using create_for_send_written [OF assms(1)] written_read_back [OF _ assms(2-5)]
  by (fastforce simp: written_def)

text \<open>
  A send can fail because of delegation in one way only: the flow holds a grant and the cache fails
  when that grant is read. Everything else (no caller, no material, a failed write) sends the message
  without a grant.
\<close>

theorem send_fails_only_on_held_read:
  assumes "create_for_send E bs ttl w = (Inl e, w')"
  shows "e = Unmodelled \<or>
    (\<exists>h. current_grant (dl_ambient w) = Some h \<and> co_get (de_cache E) (grant_key h) (dl_cache w) = Inl e \<and> w' = w)"
proof -
  have get: "e = Unmodelled \<or> co_get (de_cache E) (grant_key (or_empty i)) (dl_cache v) = Inl e \<and> v' = v"
    if "get_grant E i v = (Inl e, v')" for i v v'
    using that by (auto simp: get_grant_def cache_get_def act_simps split: if_splits sum.splits prod.splits)
  have held: "e = Unmodelled \<or>
      (\<exists>h. current_grant (dl_ambient v) = Some h \<and> co_get (de_cache E) (grant_key h) (dl_cache v) = Inl e \<and> v' = v)"
    if "read_held_grant E t v = (Inl e, v')" for t v v'
    using that
    by (auto simp: read_held_grant_def seq_run ret_run elim!: truthy_optE dest!: get
        split: if_splits prod.splits sum.splits option.splits)
  have created: "e = Unmodelled" if "except_any (seq m k) (\<lambda>_. ret None) v = (Inl e, v')"
    for m :: "('c, string) delegation_act" and k :: "string \<Rightarrow> ('c, string option) delegation_act" and v v'
    using that by (auto simp: except_any_run ret_run split: prod.splits sum.splits if_splits)
  have from_held: "read_from_held_grant E c v = (Inl e, v') \<Longrightarrow> read_held_grant E (tenant_id c) v = (Inl e, v')" for c v v'
    by (auto simp: read_from_held_grant_def seq_run ret_run split: prod.splits sum.splits option.splits if_splits)
  have user: "e = Unmodelled \<or> read_held_grant E (tenant_id c) w = (Inl e, w')"
    if "create_for_user E bs c ttl w = (Inl e, w')" for c
    using that unfolding create_for_user_def
    by (auto simp: seq_run gets_run ret_run dest!: created from_held dest: read_from_held_grant_run
        split: prod.splits sum.splits if_splits)
  have client: "e = Unmodelled \<or> read_held_grant E (tenant_id c) w = (Inl e, w')"
    if "create_for_client E bs c ttl w = (Inl e, w')" for c
    using that unfolding create_for_client_def Let_def
    by (auto simp: seq_run gets_run ret_run dest!: created dest: read_held_grant_run
        split: prod.splits sum.splits if_splits option.splits)
  from assms obtain c where "create_for_user E bs c ttl w = (Inl e, w') \<or> create_for_client E bs c ttl w = (Inl e, w')"
    by (auto simp: create_for_send_def split: option.splits if_splits)
  with user client held show ?thesis by blast
qed

text \<open>
  A worker's send drops the impersonation session: over a context rebuilt from a message (which
  never carries the session) the chained user grant is not an impersonation grant, whatever the grant
  it is chained from names, though the original tenant is still written.
\<close>

theorem chained_send_drops_session:
  assumes "get_context None (dl_ambient w) = Some (sanitized c)" and "user_id c \<noteq> []"
    and "create_for_send E bs ttl w = (Inr (Some i), w')"
    and "cache_ops_ok (de_cache E)" and "model_env_ok (de_model E)"
    and "length bs = GRANT_ID_RANDOM_BYTES" and "\<forall>b \<in> set bs. b < 256"
  shows "\<exists>g. get_grant E (Some i) w' = (Inr (Some g), w') \<and> g_user_id g = user_id c \<and> \<not> is_impersonated g \<and>
    (impersonated c \<longrightarrow> g_original_tenant_id g = original_tenant_id (sanitized c))"
  using create_for_send_written [OF assms(3)] assms(1,2) written_read_back [OF _ assms(4-7)]
  by (fastforce simp: sanitized_def is_impersonated_def)

section \<open>A worker that sends on\<close>

text \<open>A worker processing the message of an impersonating user, holding that user's grant.\<close>

definition impersonating :: blocks_context where
  "impersonating = user_context\<lparr>impersonated := True, impersonation_session_id := ''sess'', original_tenant_id := ''home''\<rparr>"

definition held_id :: string where
  "held_id = new_grant_id (replicate 32 1)"

definition worker_world :: "(string \<times> string) list delegation_world" where
  "worker_world = \<lparr>dl_ambient = set_grant (Some held_id) (set_context (Some (sanitized impersonating)) empty_ambient),
     dl_cache = [(grant_key held_id, to_wire_json (user_grant impersonating ''1'' ''s''))]\<rparr>"

lemma held_id_ok: "is_well_formed (Some held_id)"
  using new_grant_id_well_formed [of "replicate 32 1" "replicate 32 1"]
  by (simp add: held_id_def GRANT_ID_RANDOM_BYTES_def)

lemma worker_world_simps [simp]:
  "current_grant (dl_ambient worker_world) = Some held_id" "current_claims (dl_ambient worker_world) = None"
  "version_material (dl_ambient worker_world) = (None, None)"
  "get_context None (dl_ambient worker_world) = Some (sanitized impersonating)"
  by (simp_all add: worker_world_def set_grant_def held_id_ok current_grant_def set_context_def empty_ambient_def
      version_material_def current_claims_def get_context_def get_test_mode_def)

lemma impersonating_simps [simp]:
  "tenant_id (sanitized impersonating) = ''t1''" "user_id (sanitized impersonating) = ''u1''"
  "organization_id (sanitized impersonating) = []" "is_authenticated (sanitized impersonating)"
  "impersonated impersonating" "impersonation_session_id impersonating = ''sess''"
  "tenant_id impersonating = ''t1''" "user_id impersonating = ''u1''" "organization_id impersonating = []"
  by (simp_all add: impersonating_def sanitized_def user_context_def default_context_def)

lemma worker_holds:
  "get_grant table_env (Some held_id) worker_world = (Inr (Some (user_grant impersonating ''1'' ''s'')), worker_world)"
  by (rule get_grant_stored) (simp_all add: held_id_ok worker_world_def strict_env_ok)

lemma worker_sends:
  "\<exists>w'. create_for_send table_env zero_bytes None worker_world = (Inr (Some (new_grant_id zero_bytes)), w')"
proof -
  have "held_id \<noteq> []" using held_id_ok well_formed_nonempty by blast
  then have "read_held_grant table_env ''t1'' worker_world
      = (Inr (Some (user_grant impersonating ''1'' ''s'')), worker_world)"
    by (simp add: read_held_grant_def seq_run gets_run worker_holds ret_run)
  then have "read_from_held_grant table_env (sanitized impersonating) worker_world = (Inr (Some ''1'', Some ''s''), worker_world)"
    by (simp add: read_from_held_grant_def seq_run ret_run is_client_grant_def)
  then show ?thesis
    by (simp add: create_for_send_def create_for_user_def seq_run gets_run ret_run except_any_run create_grant_def
        write_grant_def Let_def cache_setex_def)
qed

theorem send_grant_authority_witness:
  "\<exists>w' c g. create_for_send table_env zero_bytes None worker_world = (Inr (Some (new_grant_id zero_bytes)), w') \<and>
    get_grant table_env (Some (new_grant_id zero_bytes)) w' = (Inr (Some g), w') \<and>
    grant_authority table_env worker_world c g"
proof -
  obtain w' where s: "create_for_send table_env zero_bytes None worker_world = (Inr (Some (new_grant_id zero_bytes)), w')"
    using worker_sends by blast
  from send_grant_authority [OF s] s show ?thesis by fastforce
qed

theorem chained_send_drops_session_witness:
  "\<exists>w' g. is_impersonated (user_grant impersonating ''1'' ''s'') \<and>
    create_for_send table_env zero_bytes None worker_world = (Inr (Some (new_grant_id zero_bytes)), w') \<and>
    get_grant table_env (Some (new_grant_id zero_bytes)) w' = (Inr (Some g), w') \<and> \<not> is_impersonated g"
proof -
  obtain w' where s: "create_for_send table_env zero_bytes None worker_world = (Inr (Some (new_grant_id zero_bytes)), w')"
    using worker_sends by blast
  have "is_impersonated (user_grant impersonating ''1'' ''s'')" by (simp add: is_impersonated_def)
  with chained_send_drops_session [OF _ _ s, of impersonating] s show ?thesis by fastforce
qed

theorem send_fails_only_on_held_read_witness:
  "let E = table_env\<lparr>de_cache := table_cache\<lparr>co_get := (\<lambda>_ _. Inl OtherError)\<rparr>\<rparr> in
   create_for_send E zero_bytes None worker_world = (Inl OtherError, worker_world) \<and>
   current_grant (dl_ambient worker_world) \<noteq> None"
proof -
  let ?E = "table_env\<lparr>de_cache := table_cache\<lparr>co_get := (\<lambda>_ _. Inl OtherError)\<rparr>\<rparr>"
  have "held_id \<noteq> []" using held_id_ok well_formed_nonempty by blast
  then have e: "create_for_send ?E zero_bytes None worker_world = (Inl OtherError, worker_world)"
    by (simp add: create_for_send_def create_for_user_def read_from_held_grant_def read_held_grant_def
        get_grant_def cache_get_def seq_run gets_run ret_run held_id_ok)
  from send_fails_only_on_held_read [OF e] e show ?thesis by auto
qed

end
