(* ===== verification/Endpoint_Resolver.thy ===== *)
theory Endpoint_Resolver
  imports Delegation_Signature Http_Request Read_Through
begin

text \<open>
  \<^verbatim>\<open>_delegation/endpoint_resolver.py\<close>: the token endpoint of IAM for a tenant, found by OIDC
  discovery and kept per tenant, or else taken from the configuration and not kept. The environment
  variables, the loaded configuration (an object, or not loaded) and the discovery request are
  parameters; the lock that serialises discovery is the one of \<open>Single_Flight\<close>, here one call
  runs at a time.
\<close>

section \<open>Settings\<close>

record endpoint_env =
  ee_getenv :: "string \<Rightarrow> string option"
  ee_configurations :: "pydict option"
  ee_fetch :: "string \<Rightarrow> py_exn + int \<times> pyval"

definition text_setting :: "pyval \<Rightarrow> string option" where
  "text_setting v = (case v of PStr s \<Rightarrow> if \<not> blank s then Some (py_strip s) else None | _ \<Rightarrow> None)"

definition resolve_setting :: "endpoint_env \<Rightarrow> string \<Rightarrow> string option" where
  "resolve_setting E key =
     (if \<not> blank (or_empty (ee_getenv E key)) then Some (py_strip (or_empty (ee_getenv E key)))
      else case ee_configurations E of
        None \<Rightarrow> None
      | Some cfg \<Rightarrow>
          (let section_value = (case dlookup cfg FRONTEND_RUNTIME_SECTION of
                                  PDict d \<Rightarrow> text_setting (dlookup d key)
                                | _ \<Rightarrow> None) in
           if section_value \<noteq> None then section_value else text_setting (dlookup cfg key)))"

section \<open>The resolver\<close>

record endpoint_resolver =
  er_discovered :: "(string \<times> string) list"
  er_fallback_warning_logged :: bool

definition new_endpoint_resolver :: endpoint_resolver where
  "new_endpoint_resolver = \<lparr>er_discovered = [], er_fallback_warning_logged = False\<rparr>"

definition found_endpoint :: "string \<Rightarrow> endpoint_resolver \<Rightarrow> string option" where
  "found_endpoint tid s = map_of (er_discovered s) tid"

definition keep_endpoint :: "string \<Rightarrow> string \<Rightarrow> endpoint_resolver \<Rightarrow> endpoint_resolver" where
  "keep_endpoint tid e s = s\<lparr>er_discovered := AList.update tid e (er_discovered s)\<rparr>"

definition drop_endpoint :: "string \<Rightarrow> endpoint_resolver \<Rightarrow> endpoint_resolver" where
  "drop_endpoint tid s = s\<lparr>er_discovered := AList.delete tid (er_discovered s)\<rparr>"

interpretation endpoints: read_through found_endpoint keep_endpoint drop_endpoint
  by unfold_locales (simp_all add: found_endpoint_def keep_endpoint_def drop_endpoint_def update_conv' delete_conv')

definition ensure_configured :: "endpoint_env \<Rightarrow> py_exn + unit" where
  "ensure_configured E =
     (if truthy_opt (resolve_setting E IAM_BASE_URL_KEY) \<or> truthy_opt (resolve_setting E IAM_TOKEN_ENDPOINT_KEY)
      then Inr () else Inl RuntimeError)"

definition discovery_url :: "string \<Rightarrow> string \<Rightarrow> string" where
  "discovery_url base_url tid = rstrip_chars ''/'' base_url @ ''/'' @ tid @ ''/.well-known/openid-configuration''"

text \<open>A failed request, another status, a document without an absolute endpoint: nothing is discovered.
  Reading the endpoint of a document that is not an object, and splitting a malformed URL, raise.\<close>

definition try_discover :: "endpoint_env \<Rightarrow> string \<Rightarrow> py_exn + string option" where
  "try_discover E tid =
     (case resolve_setting E IAM_BASE_URL_KEY of
        None \<Rightarrow> Inr None
      | Some base_url \<Rightarrow>
          (case ee_fetch E (discovery_url base_url tid) of
             Inl _ \<Rightarrow> Inr None
           | Inr (status, document) \<Rightarrow>
               if status \<noteq> 200 then Inr None
               else case py_or document (PDict []) of
                 PDict d \<Rightarrow>
                   (case dlookup d ''token_endpoint'' of
                      PStr token_endpoint \<Rightarrow>
                        (case url_split token_endpoint of
                           Inl e \<Rightarrow> Inl e
                         | Inr (scheme, netloc) \<Rightarrow>
                             if scheme = [] \<or> netloc = [] then Inr None else Inr (Some token_endpoint))
                    | _ \<Rightarrow> Inr None)
               | _ \<Rightarrow> Inl AttributeError))"

definition get_token_endpoint ::
  "endpoint_env \<Rightarrow> string \<Rightarrow> endpoint_resolver \<Rightarrow> (py_exn + string) \<times> endpoint_resolver" where
  "get_token_endpoint E tid s =
     (if tid = [] then (Inl RuntimeError, s)
      else if truthy_opt (found_endpoint tid s) then (Inr (or_empty (found_endpoint tid s)), s)
      else case try_discover E tid of
        Inl e \<Rightarrow> (Inl e, s)
      | Inr discovered \<Rightarrow>
          if truthy_opt discovered then (Inr (or_empty discovered), keep_endpoint tid (or_empty discovered) s)
          else (case resolve_setting E IAM_TOKEN_ENDPOINT_KEY of
                  Some configured \<Rightarrow> (Inr configured, s\<lparr>er_fallback_warning_logged := True\<rparr>)
                | None \<Rightarrow> (Inl RuntimeError, s)))"

definition reset_endpoints :: "endpoint_resolver \<Rightarrow> endpoint_resolver" where
  "reset_endpoints s = s\<lparr>er_discovered := [], er_fallback_warning_logged := False\<rparr>"

section \<open>Where an endpoint comes from\<close>

definition absolute_url :: "string \<Rightarrow> bool" where
  "absolute_url u = (case url_split u of Inl _ \<Rightarrow> False | Inr (scheme, netloc) \<Rightarrow> scheme \<noteq> [] \<and> netloc \<noteq> [])"

definition endpoints_ok :: "endpoint_resolver \<Rightarrow> bool" where
  "endpoints_ok s \<longleftrightarrow> list_all (\<lambda>(k, e). absolute_url e) (er_discovered s)"

lemma absolute_nonempty: "absolute_url u \<Longrightarrow> u \<noteq> []"
  by (auto simp: absolute_url_def url_split_def clean_url_def split_scheme_def starts_with_def)

lemma found_absolute: "endpoints_ok s \<Longrightarrow> found_endpoint tid s = Some e \<Longrightarrow> absolute_url e"
  by (auto simp: endpoints_ok_def found_endpoint_def list_all_iff dest!: map_of_SomeD)

lemma list_all_update:
  "list_all P xs \<Longrightarrow> P (k, v) \<Longrightarrow> list_all P (AList.update k v xs)"
  by (induction xs) auto

lemma endpoints_ok_keep: "endpoints_ok s \<Longrightarrow> absolute_url e \<Longrightarrow> endpoints_ok (keep_endpoint tid e s)"
  by (simp add: endpoints_ok_def keep_endpoint_def list_all_update)

lemma try_discover_absolute: "try_discover E tid = Inr (Some e) \<Longrightarrow> absolute_url e"
  by (auto simp: try_discover_def absolute_url_def split: option.splits sum.splits prod.splits if_splits pyval.splits)

lemma resolve_setting_not_blank: "resolve_setting E key = Some v \<Longrightarrow> v \<noteq> []"
  by (auto simp: resolve_setting_def text_setting_def blank_def Let_def
      split: option.splits if_splits pyval.splits)

text \<open>
  The token endpoint is never guessed: it is the absolute URL that an earlier discovery for this
  tenant left, or the one discovered now, which is kept for this tenant alone, or else the configured
  one, which is not kept, so discovery is tried again. A failure keeps nothing, and every kept endpoint
  is an absolute URL.
\<close>

theorem endpoint_resolution:
  assumes "endpoints_ok s" and "get_token_endpoint E tid s = (r, s')"
  shows "endpoints_ok s' \<and> (j \<noteq> tid \<longrightarrow> found_endpoint j s' = found_endpoint j s) \<and>
    (case r of
       Inl _ \<Rightarrow> s' = s
     | Inr e \<Rightarrow> tid \<noteq> [] \<and>
         (found_endpoint tid s = Some e \<and> absolute_url e \<and> s' = s \<or>
          found_endpoint tid s = None \<and> try_discover E tid = Inr (Some e) \<and> absolute_url e \<and> found_endpoint tid s' = Some e \<or>
          found_endpoint tid s = None \<and> try_discover E tid = Inr None \<and>
            resolve_setting E IAM_TOKEN_ENDPOINT_KEY = Some e \<and> er_discovered s' = er_discovered s))"
proof (cases "tid = []")
  case True
  with assms show ?thesis by (auto simp: get_token_endpoint_def)
next
  case tid: False
  show ?thesis
  proof (cases "found_endpoint tid s")
    case (Some e)
    with found_absolute [OF assms(1) Some] absolute_nonempty [of e] tid assms show ?thesis
      by (auto simp: get_token_endpoint_def)
  next
    case n: None
    show ?thesis
    proof (cases "try_discover E tid")
      case (Inl x)
      with n tid assms show ?thesis by (auto simp: get_token_endpoint_def)
    next
      case (Inr d)
      show ?thesis
      proof (cases d)
        case None
        with Inr n tid assms show ?thesis
          by (auto simp: get_token_endpoint_def endpoints_ok_def found_endpoint_def split: option.splits)
      next
        case (Some e)
        with Inr have d: "try_discover E tid = Inr (Some e)" by simp
        from try_discover_absolute [OF d] have a: "absolute_url e" "e \<noteq> []" by (auto dest: absolute_nonempty)
        with d n tid assms have "r = Inr e" "s' = keep_endpoint tid e s" by (auto simp: get_token_endpoint_def)
        with a d n tid endpoints_ok_keep [OF assms(1) a(1)] show ?thesis
          by (simp add: endpoints.lookup_store)
      qed
    qed
  qed
qed

definition sample_endpoints :: endpoint_env where
  "sample_endpoints = \<lparr>ee_getenv = (\<lambda>k. if k = IAM_BASE_URL_KEY then Some ''http://iam/'' else None),
     ee_configurations = None,
     ee_fetch = (\<lambda>u. if u = ''http://iam/t1/.well-known/openid-configuration''
       then Inr (200, PDict [(''token_endpoint'', PStr ''http://iam/v2/oidc/token'')]) else Inl OtherError)\<rparr>"

theorem endpoint_resolution_witness:
  "\<exists>s'. get_token_endpoint sample_endpoints ''t1'' new_endpoint_resolver = (Inr ''http://iam/v2/oidc/token'', s') \<and>
    endpoints_ok s' \<and> found_endpoint ''t1'' s' = Some ''http://iam/v2/oidc/token'' \<and> found_endpoint ''t2'' s' = None"
proof -
  have d: "try_discover sample_endpoints ''t1'' = Inr (Some ''http://iam/v2/oidc/token'')" by code_simp
  obtain s' where g: "get_token_endpoint sample_endpoints ''t1'' new_endpoint_resolver
      = (Inr ''http://iam/v2/oidc/token'', s')"
    using d by (simp add: get_token_endpoint_def found_endpoint_def new_endpoint_resolver_def)
  have "endpoints_ok new_endpoint_resolver" by (simp add: endpoints_ok_def new_endpoint_resolver_def)
  from endpoint_resolution [OF this g, of "''t2''"] g d show ?thesis
    by (auto simp: found_endpoint_def new_endpoint_resolver_def)
qed

end
