(* ===== verification/Token_Provider.thy ===== *)
theory Token_Provider
  imports Complex_Main Ambient Tenant_Service Endpoint_Resolver
begin

text \<open>
  \<^verbatim>\<open>_delegation/token_provider.py\<close>: redeeming the ambient grant for an access token, the
  per-grant cache of tokens with its sweep, and the headers of an outbound call. The POST to the token
  endpoint, the HMAC, the trace headers, the conversion of a float to an integer and the clock are
  parameters. \<open>clk n\<close> is the \<open>n\<close>-th place in one call where the code reads the clock: the sweep, the
  first look, the look under the lock, the signature, the expiry. One call runs at a time; \<open>locked\<close>
  says which locks other callers hold when the sweep runs.
\<close>

section \<open>Reading a response\<close>

record cached_token =
  ct_access_token :: string
  ct_expires_at :: real

definition is_usable :: "real \<Rightarrow> cached_token \<Rightarrow> bool" where
  "is_usable now t \<longleftrightarrow> now < ct_expires_at t - of_int TOKEN_RENEWAL_MARGIN_SECONDS"

fun first_of :: "pyval \<Rightarrow> string list \<Rightarrow> py_exn + pyval" where
  "first_of payload [] = Inr PNone"
| "first_of payload (name # names) =
     (case payload of
        PDict d \<Rightarrow> (case map_of d name of Some v \<Rightarrow> Inr v | None \<Rightarrow> first_of payload names)
      | PList xs \<Rightarrow> if PStr name \<in> set xs then Inl TypeError else first_of payload names
      | PStr s \<Rightarrow> if contains_str name s then Inl TypeError else first_of payload names
      | _ \<Rightarrow> Inl TypeError)"

definition py_int :: "(string \<Rightarrow> py_exn + int) \<Rightarrow> pyval \<Rightarrow> py_exn + int" where
  "py_int int_of_float v =
     (case v of
        PInt n \<Rightarrow> Inr n
      | PBool b \<Rightarrow> Inr (if b then 1 else 0)
      | PFloat t \<Rightarrow> int_of_float t
      | PStr s \<Rightarrow> int_of_text s
      | _ \<Rightarrow> Inl TypeError)"

section \<open>The provider\<close>

type_synonym headers = "(string \<times> string) list"

record token_request =
  tr_endpoint :: string
  tr_form :: "(string \<times> string) list"
  tr_headers :: headers

record token_env =
  te_tenant_db :: "string \<Rightarrow> py_exn + tenant option"
  te_endpoints :: endpoint_env
  te_hmac :: "string \<Rightarrow> string \<Rightarrow> string"
  te_float :: "string \<Rightarrow> string"
  te_int_of_float :: "string \<Rightarrow> py_exn + int"
  te_inject :: "headers \<Rightarrow> headers"
  te_post :: "token_request \<Rightarrow> py_exn + int \<times> string"
  te_random :: "nat list"
  te_locked :: "string \<Rightarrow> bool"

record token_provider =
  tp_tokens :: "(string \<times> cached_token) list"
  tp_locks :: "string list"
  tp_call_count :: int

record token_world =
  tw_ambient :: ambient
  tw_tenants :: tenant_service
  tw_endpoints :: endpoint_resolver
  tw_provider :: token_provider
  tw_posts :: "token_request list"

definition new_token_provider :: token_provider where
  "new_token_provider = \<lparr>tp_tokens = [], tp_locks = [], tp_call_count = 0\<rparr>"

definition kept_token :: "string \<Rightarrow> token_provider \<Rightarrow> cached_token option" where
  "kept_token i s = map_of (tp_tokens s) i"

definition keep_token :: "string \<Rightarrow> cached_token \<Rightarrow> token_provider \<Rightarrow> token_provider" where
  "keep_token i t s = s\<lparr>tp_tokens := AList.update i t (tp_tokens s)\<rparr>"

definition drop_token :: "string \<Rightarrow> token_provider \<Rightarrow> token_provider" where
  "drop_token i s = s\<lparr>tp_tokens := AList.delete i (tp_tokens s)\<rparr>"

interpretation tokens: read_through kept_token keep_token drop_token
  by unfold_locales (simp_all add: kept_token_def keep_token_def drop_token_def update_conv' delete_conv')

definition invalidate_token :: "string option \<Rightarrow> token_provider \<Rightarrow> token_provider" where
  "invalidate_token i s =
     (if \<not> truthy_opt i then s
      else (drop_token (or_empty i) s)\<lparr>tp_locks := filter (\<lambda>k. k \<noteq> or_empty i) (tp_locks s)\<rparr>)"

definition sweep_expired :: "(string \<Rightarrow> bool) \<Rightarrow> real \<Rightarrow> token_provider \<Rightarrow> token_provider" where
  "sweep_expired locked now s =
     (let stale = map fst (filter (\<lambda>(k, t). \<not> is_usable now t) (tp_tokens s)) in
      s\<lparr>tp_tokens := filter (\<lambda>(k, t). k \<notin> set stale) (tp_tokens s),
        tp_locks := filter (\<lambda>k. k \<notin> set stale \<or> locked k) (tp_locks s)\<rparr>)"

definition SWEEP_INTERVAL_CALLS :: int where "SWEEP_INTERVAL_CALLS = 64"

section \<open>The exchange\<close>

definition exchange_form :: "(string \<Rightarrow> string \<Rightarrow> string) \<Rightarrow> string \<Rightarrow> string \<Rightarrow> string \<Rightarrow> int \<Rightarrow> string \<Rightarrow> (string \<times> string) list" where
  "exchange_form hmac tid delegation_id nonce ts salt =
     [(''grant_type'', TOKEN_EXCHANGE_GRANT_TYPE), (''subject_token'', delegation_id),
      (''subject_token_type'', DELEGATION_GRANT_TOKEN_TYPE), (''nonce'', nonce), (''ts'', show_int ts),
      (''sig'', sign hmac tid delegation_id nonce ts salt)]"

definition token_lifetime :: "token_env \<Rightarrow> pyval \<Rightarrow> py_exn + int" where
  "token_lifetime E expires_in =
     (case (case py_int (te_int_of_float E) expires_in of
              Inl e \<Rightarrow> if e = TypeError \<or> is_ValueError e then Inr 0 else Inl e
            | Inr n \<Rightarrow> Inr n) of
        Inl e \<Rightarrow> Inl e
      | Inr n \<Rightarrow> Inr (if n \<le> 0 then TOKEN_RENEWAL_MARGIN_SECONDS * 2 else n))"

definition read_token :: "token_env \<Rightarrow> real \<Rightarrow> string \<Rightarrow> py_exn + cached_token option" where
  "read_token E now body =
     (case py_loads (te_float E) body of
        Inl e \<Rightarrow> if e = Unmodelled then Inl e else Inr None
      | Inr payload \<Rightarrow>
          (case first_of payload [''access_token'', ''accessToken'', ''AccessToken''] of
             Inl e \<Rightarrow> Inl e
           | Inr access_token \<Rightarrow>
               if \<not> truthy access_token then Inr None
               else case first_of payload [''expires_in'', ''expiresIn'', ''ExpiresIn''] of
                 Inl e \<Rightarrow> Inl e
               | Inr v \<Rightarrow>
                   (case token_lifetime E v of
                      Inl e \<Rightarrow> Inl e
                    | Inr n \<Rightarrow> Inr (Some \<lparr>ct_access_token = py_str access_token,
                                       ct_expires_at = now + of_int n\<rparr>))))"

definition read_error_code :: "token_env \<Rightarrow> string \<Rightarrow> string" where
  "read_error_code E body =
     (case py_loads (te_float E) body of
        Inr (PDict d) \<Rightarrow> py_str (dget d ''error'' (PStr ''unknown''))
      | _ \<Rightarrow> ''unknown'')"

text \<open>The tenant's salt signs the exchange; a tenant without one, or a rejected exchange, gives no
  token. A body above the model's alphabet leaves it.\<close>

definition exchange :: "token_env \<Rightarrow> (nat \<Rightarrow> real) \<Rightarrow> string \<Rightarrow> string \<Rightarrow> (token_world, cached_token option) act" where
  "exchange E clk tid delegation_id =
     seq (\<lambda>w. case get_tenant (te_tenant_db E) tid (tw_tenants w) of (t, s) \<Rightarrow> (Inr t, w\<lparr>tw_tenants := s\<rparr>)) (\<lambda>tenant.
     let salt = (case tenant of None \<Rightarrow> [] | Some t \<Rightarrow> t_tenant_salt t) in
     if salt = [] then ret None
     else
     seq (\<lambda>w. case get_token_endpoint (te_endpoints E) tid (tw_endpoints w) of (r, s) \<Rightarrow> (r, w\<lparr>tw_endpoints := s\<rparr>)) (\<lambda>endpoint.
     let p = \<lparr>tr_endpoint = endpoint,
              tr_form = exchange_form (te_hmac E) tid delegation_id (new_nonce (te_random E)) \<lfloor>clk 3\<rfloor> salt,
              tr_headers = te_inject E [(BLOCKS_KEY_HEADER, tid)]\<rparr> in
     seq (modify (\<lambda>w. w\<lparr>tw_posts := tw_posts w @ [p]\<rparr>)) (\<lambda>_.
     seq (lift_exn (te_post E p)) (\<lambda>(status, body).
     if status < 200 \<or> status \<ge> 300 then ret None
     else lift_exn (read_token E (clk 4) body)))))"

section \<open>One call\<close>

definition update_provider :: "(token_provider \<Rightarrow> token_provider) \<Rightarrow> (token_world, unit) act" where
  "update_provider f = modify (\<lambda>w. w\<lparr>tw_provider := f (tw_provider w)\<rparr>)"

definition usable_token :: "real \<Rightarrow> string \<Rightarrow> token_provider \<Rightarrow> string option" where
  "usable_token now i s =
     (case kept_token i s of None \<Rightarrow> None
      | Some t \<Rightarrow> if is_usable now t then Some (ct_access_token t) else None)"

definition count_call :: "(string \<Rightarrow> bool) \<Rightarrow> real \<Rightarrow> token_provider \<Rightarrow> token_provider" where
  "count_call locked now s =
     (let s' = s\<lparr>tp_call_count := tp_call_count s + 1\<rparr> in
      if tp_call_count s' mod SWEEP_INTERVAL_CALLS = 0 then sweep_expired locked now s' else s')"

definition get_token :: "token_env \<Rightarrow> (nat \<Rightarrow> real) \<Rightarrow> (token_world, string option) act" where
  "get_token E clk =
     seq (gets (\<lambda>w. current_grant (tw_ambient w))) (\<lambda>grant.
     if \<not> truthy_opt grant then ret None
     else let i = or_empty grant in
     seq (gets (\<lambda>w. get_context None (tw_ambient w))) (\<lambda>context.
     let tid = (case context of None \<Rightarrow> [] | Some c \<Rightarrow> tenant_id c) in
     if tid = [] then ret None
     else
     seq (update_provider (count_call (te_locked E) (clk 0))) (\<lambda>_.
     seq (gets (\<lambda>w. usable_token (clk 1) i (tw_provider w))) (\<lambda>cached.
     if cached \<noteq> None then ret cached
     else
     seq (update_provider (\<lambda>s. s\<lparr>tp_locks := List.insert i (tp_locks s)\<rparr>)) (\<lambda>_.
     seq (gets (\<lambda>w. usable_token (clk 2) i (tw_provider w))) (\<lambda>cached.
     if cached \<noteq> None then ret cached
     else
     seq (update_provider (drop_token i)) (\<lambda>_.
     seq (except_any (exchange E clk tid i) (\<lambda>_. ret None)) (\<lambda>token.
     case token of
       None \<Rightarrow> ret None
     | Some t \<Rightarrow> seq (update_provider (keep_token i t)) (\<lambda>_. ret (Some (ct_access_token t)))))))))))"

section \<open>Outbound headers\<close>

definition has_header :: "string \<Rightarrow> headers \<Rightarrow> bool" where
  "has_header name hs = list_ex (\<lambda>(k, _). py_lower k = name) hs"

definition delegated_auth_headers :: "token_env \<Rightarrow> (nat \<Rightarrow> real) \<Rightarrow> headers option \<Rightarrow> (token_world, headers) act" where
  "delegated_auth_headers E clk existing =
     (let hs = (case existing of None \<Rightarrow> [] | Some h \<Rightarrow> h) in
      if has_header ''authorization'' hs then ret hs
      else
      seq (gets (\<lambda>w. has_grant (tw_ambient w))) (\<lambda>g.
      if \<not> g then ret hs
      else
      seq (get_token E clk) (\<lambda>token.
      if \<not> truthy_opt token then ret hs
      else let hs = AList.update ''Authorization'' (''Bearer '' @ or_empty token) hs in
      seq (gets (\<lambda>w. get_context None (tw_ambient w))) (\<lambda>context.
      let tid = (case context of None \<Rightarrow> [] | Some c \<Rightarrow> tenant_id c) in
      if tid \<noteq> [] \<and> \<not> has_header BLOCKS_KEY_HEADER hs then ret (AList.update BLOCKS_KEY_HEADER tid hs)
      else ret hs))))"

section \<open>Lemmas\<close>

lemma usable_token_Some:
  "usable_token now i s = Some t \<longleftrightarrow> (\<exists>k. kept_token i s = Some k \<and> is_usable now k \<and> t = ct_access_token k)"
  by (auto simp: usable_token_def split: option.splits)

lemma map_of_filter_pairs:
  "map_of (filter (\<lambda>(k, v). P k) xs) i = (if P i then map_of xs i else None)"
  by (induction xs) auto

lemma kept_sweep: "kept_token i (sweep_expired locked now s) = Some k \<Longrightarrow> kept_token i s = Some k"
  by (simp add: sweep_expired_def Let_def kept_token_def map_of_filter_pairs split: if_splits)

lemma kept_count: "kept_token i (count_call locked now s) = Some k \<Longrightarrow> kept_token i s = Some k"
  by (auto simp: count_call_def Let_def kept_token_def dest: kept_sweep [unfolded kept_token_def] split: if_splits)

text \<open>The sweep never takes a usable token, when no grant has two entries.\<close>

lemma usable_survives:
  assumes "kept_token i s = Some k" and "is_usable now k" and "is_pydict (tp_tokens s)"
  shows "kept_token i (count_call locked now s) = Some k"
proof -
  have "i \<notin> set (map fst (filter (\<lambda>(k, t). \<not> is_usable now t) (tp_tokens s)))"
    using assms by (auto simp: kept_token_def is_pydict_def dest: eq_key_imp_eq_value)
  then show ?thesis
    using assms(1) by (simp add: count_call_def Let_def sweep_expired_def kept_token_def map_of_filter_pairs)
qed

lemma count_call_posts [simp]:
  "tw_posts (w\<lparr>tw_provider := f\<rparr>) = tw_posts w" "tw_ambient (w\<lparr>tw_provider := f\<rparr>) = tw_ambient w"
  by simp_all

lemma exchange_Inr:
  assumes "exchange E clk tid i w = (Inr r, w')"
  shows "tw_ambient w' = tw_ambient w \<and> tw_provider w' = tw_provider w \<and>
    (\<forall>k. r = Some k \<longrightarrow> (\<exists>tn endpoint status body.
       fst (get_tenant (te_tenant_db E) tid (tw_tenants w)) = Some tn \<and> t_tenant_salt tn \<noteq> [] \<and>
       fst (get_token_endpoint (te_endpoints E) tid (tw_endpoints w)) = Inr endpoint \<and>
       tw_posts w' = tw_posts w @ [\<lparr>tr_endpoint = endpoint,
          tr_form = exchange_form (te_hmac E) tid i (new_nonce (te_random E)) \<lfloor>clk 3\<rfloor> (t_tenant_salt tn),
          tr_headers = te_inject E [(BLOCKS_KEY_HEADER, tid)]\<rparr>] \<and>
       te_post E (last (tw_posts w')) = Inr (status, body) \<and> 200 \<le> status \<and> status < 300 \<and>
       read_token E (clk 4) body = Inr (Some k)))"
  using assms
  by (auto simp: exchange_def act_simps Let_def split: prod.splits sum.splits option.splits if_splits)

lemma exchange_Inl_ambient:
  "exchange E clk tid i w = (x, w') \<Longrightarrow> tw_ambient w' = tw_ambient w \<and> tw_provider w' = tw_provider w"
  by (auto simp: exchange_def act_simps Let_def split: prod.splits sum.splits option.splits if_splits)

lemma read_token_Some:
  assumes "read_token E now body = Inr (Some k)"
  shows "ct_expires_at k > now"
  using assms
  by (auto simp: read_token_def token_lifetime_def TOKEN_RENEWAL_MARGIN_SECONDS_def
      split: sum.splits if_splits option.splits)

text \<open>The three ways a call for a grant and a tenant goes.\<close>

lemma get_token_run:
  assumes g: "current_grant (tw_ambient w) = Some i" "i \<noteq> []"
    and c: "get_context None (tw_ambient w) = Some c" "tenant_id c \<noteq> []"
    and s: "s = count_call (te_locked E) (clk 0) (tw_provider w)"
  shows "get_token E clk w =
    (if usable_token (clk 1) i s \<noteq> None then (Inr (usable_token (clk 1) i s), w\<lparr>tw_provider := s\<rparr>)
     else let s1 = s\<lparr>tp_locks := List.insert i (tp_locks s)\<rparr> in
       if usable_token (clk 2) i s1 \<noteq> None then (Inr (usable_token (clk 2) i s1), w\<lparr>tw_provider := s1\<rparr>)
       else seq (except_any (exchange E clk (tenant_id c) i) (\<lambda>_. ret None)) (\<lambda>token.
         case token of
           None \<Rightarrow> ret None
         | Some t \<Rightarrow> seq (update_provider (keep_token i t)) (\<lambda>_. ret (Some (ct_access_token t))))
         (w\<lparr>tw_provider := drop_token i s1\<rparr>))"
  using g c by (simp add: get_token_def update_provider_def s Let_def)

lemma get_token_Some:
  assumes "get_token E clk w = (Inr (Some t), w')"
  obtains i c where "current_grant (tw_ambient w) = Some i" and "i \<noteq> []"
    and "get_context None (tw_ambient w) = Some c" and "tenant_id c \<noteq> []"
  using assms
  by (auto simp: get_token_def Let_def elim!: truthy_optE split: if_splits option.splits)

lemma kept_after_count:
  assumes "s1 = count_call locked now s\<lparr>tp_locks := L\<rparr> \<or> s1 = count_call locked now s"
    and "usable_token t i s1 = Some x"
  shows "\<exists>k. kept_token i s = Some k \<and> is_usable t k \<and> x = ct_access_token k"
proof -
  from assms(2) obtain k where k: "kept_token i s1 = Some k" "is_usable t k" "x = ct_access_token k"
    by (auto simp: usable_token_Some)
  have "kept_token i (count_call locked now s) = Some k" using k(1) assms(1) by (auto simp: kept_token_def)
  with k show ?thesis by (blast dest: kept_count)
qed

lemma get_token_outcome:
  assumes "get_token E clk w = (Inr (Some t), w')"
    and g: "current_grant (tw_ambient w) = Some i" "i \<noteq> []"
    and c: "get_context None (tw_ambient w) = Some c" "tenant_id c \<noteq> []"
  shows "tw_ambient w' = tw_ambient w \<and>
    ((\<exists>k. kept_token i (tw_provider w) = Some k \<and> t = ct_access_token k \<and>
        (is_usable (clk 1) k \<or> is_usable (clk 2) k) \<and> tw_posts w' = tw_posts w) \<or>
     (\<exists>tn p status body k. fst (get_tenant (te_tenant_db E) (tenant_id c) (tw_tenants w)) = Some tn \<and>
        tw_posts w' = tw_posts w @ [p] \<and>
        tr_form p = exchange_form (te_hmac E) (tenant_id c) i (new_nonce (te_random E)) \<lfloor>clk 3\<rfloor> (t_tenant_salt tn) \<and>
        t_tenant_salt tn \<noteq> [] \<and> te_post E p = Inr (status, body) \<and> 200 \<le> status \<and> status < 300 \<and>
        read_token E (clk 4) body = Inr (Some k) \<and> t = ct_access_token k \<and> kept_token i (tw_provider w') = Some k))"
proof -
  let ?s = "count_call (te_locked E) (clk 0) (tw_provider w)"
  let ?s1 = "?s\<lparr>tp_locks := List.insert i (tp_locks ?s)\<rparr>"
  note run = get_token_run [OF g c refl, of E clk, unfolded assms(1) Let_def]
  show ?thesis
  proof (cases "usable_token (clk 1) i ?s")
    case (Some x)
    with run have "t = x" "w' = w\<lparr>tw_provider := ?s\<rparr>" by auto
    with kept_after_count [OF disjI2 [OF refl] Some] g c show ?thesis by auto
  next
    case n1: None
    show ?thesis
    proof (cases "usable_token (clk 2) i ?s1")
      case (Some x)
      with run n1 have "t = x" "w' = w\<lparr>tw_provider := ?s1\<rparr>" by auto
      with kept_after_count [OF disjI1 [OF refl] Some] g c show ?thesis by auto
    next
      case n2: None
      with run n1 obtain k w1 where e: "exchange E clk (tenant_id c) i (w\<lparr>tw_provider := drop_token i ?s1\<rparr>) = (Inr (Some k), w1)"
        and w': "w' = w1\<lparr>tw_provider := keep_token i k (tw_provider w1)\<rparr>" "t = ct_access_token k"
        by (auto simp: seq_run except_any_run ret_run update_provider_def modify_run
            split: prod.splits sum.splits option.splits if_splits)
      from exchange_Inr [OF e] w' g c show ?thesis
        by (fastforce simp: tokens.lookup_store)
    qed
  qed
qed


text \<open>
  Redeeming a grant never raises: an unreachable endpoint, a rejected or malformed answer, a missing
  salt all end in no token.
\<close>

theorem get_token_never_raises:
  assumes "get_token E clk w = (Inl e, w')"
  shows "e = Unmodelled"
proof -
  have "e = Unmodelled" if "except_any m (\<lambda>_. ret None) v = (Inl e, v')"
    for m :: "(token_world, cached_token option) act" and v v'
    using that by (auto simp: except_any_run ret_run split: prod.splits sum.splits if_splits)
  then show ?thesis using assms
    by (auto simp: get_token_def Let_def seq_run gets_run ret_run update_provider_def modify_run
        split: if_splits prod.splits sum.splits option.splits)
qed


text \<open>
  Attaching the delegated token never changes a header that is already there: a caller's own
  Authorization, in any letter case, wins and nothing is redeemed; otherwise at most the bearer token
  and the tenant's key are added.
\<close>

theorem delegated_headers_only_add:
  assumes "delegated_auth_headers E clk (Some hs) w = (Inr hs', w')"
  shows "(has_header ''authorization'' hs \<longrightarrow> hs' = hs \<and> w' = w) \<and>
    (\<forall>k v. map_of hs k = Some v \<longrightarrow> map_of hs' k = Some v) \<and>
    set hs' \<subseteq> set hs \<union> {h. \<exists>t c. t \<noteq> [] \<and> get_context None (tw_ambient w') = Some c \<and>
      (h = (''Authorization'', ''Bearer '' @ t) \<or> h = (BLOCKS_KEY_HEADER, tenant_id c))}"
proof -
  have new: "map_of hs0 k = None" if "\<not> has_header (py_lower k) hs0" for k and hs0 :: headers
    using that by (auto simp: has_header_def list_ex_iff map_of_eq_None_iff)
  have lower: "py_lower ''Authorization'' = ''authorization''" "py_lower BLOCKS_KEY_HEADER = BLOCKS_KEY_HEADER"
    by (simp_all add: py_lower_def lower_char_def BLOCKS_KEY_HEADER_def py_eval)
  show ?thesis
  proof (cases "has_header ''authorization'' hs")
    case True
    with assms show ?thesis by (auto simp: delegated_auth_headers_def)
  next
    case False
    then have a: "map_of hs ''Authorization'' = None" using new [of "''Authorization''" hs] by (simp add: lower)
    from assms False consider "hs' = hs"
      | t w1 where "t \<noteq> []" "get_token E clk w = (Inr (Some t), w1)"
          "(let hs1 = AList.update ''Authorization'' (''Bearer '' @ t) hs;
             tid = (case get_context None (tw_ambient w1) of None \<Rightarrow> [] | Some c \<Rightarrow> tenant_id c) in
            if tid \<noteq> [] \<and> \<not> has_header BLOCKS_KEY_HEADER hs1 then hs' = AList.update BLOCKS_KEY_HEADER tid hs1
            else hs' = hs1)" "w' = w1"
      by (auto simp: delegated_auth_headers_def Let_def split: if_splits elim!: seq_Inr_elim truthy_optE)
    then show ?thesis
    proof cases
      case 1
      with False show ?thesis by simp
    next
      case 2
      let ?hs1 = "AList.update ''Authorization'' (''Bearer '' @ t) hs"
      have "hs' = ?hs1 \<or> (\<exists>c. get_context None (tw_ambient w') = Some c \<and> \<not> has_header BLOCKS_KEY_HEADER ?hs1 \<and>
          hs' = AList.update BLOCKS_KEY_HEADER (tenant_id c) ?hs1)"
        using 2(3,4) by (auto simp: Let_def split: if_splits option.splits)
      moreover have "\<exists>c. get_context None (tw_ambient w') = Some c"
        using get_token_Some [OF 2(2)] get_token_outcome [OF 2(2)] 2(4) by metis
      ultimately show ?thesis
        using False a 2(1) set_update_subset [of "''Authorization''" "''Bearer '' @ t" hs] new [of BLOCKS_KEY_HEADER ?hs1]
          set_update_subset [of BLOCKS_KEY_HEADER _ ?hs1]
        by (fastforce simp: lower)
    qed
  qed
qed

section \<open>One exchange\<close>

definition sample_body :: pydict where
  "sample_body = [(''access_token'', PStr ''tok''), (''expires_in'', PInt 300)]"

definition sample_token_env :: token_env where
  "sample_token_env = \<lparr>te_tenant_db = (\<lambda>tid. Inr (Some (default_tenant\<lparr>t_tenant_id := tid, t_tenant_salt := ''salt''\<rparr>))),
     te_endpoints = sample_endpoints, te_hmac = (\<lambda>k m. k @ m), te_float = id, te_int_of_float = (\<lambda>_. Inr 0),
     te_inject = id, te_post = (\<lambda>_. Inr (200, json_dumps (PDict sample_body))), te_random = [], te_locked = (\<lambda>_. False)\<rparr>"

definition sample_grant_id :: string where
  "sample_grant_id = new_grant_id (replicate 32 1)"

definition sample_token_world :: token_world where
  "sample_token_world = \<lparr>
     tw_ambient = set_grant (Some sample_grant_id) (set_context (Some (default_context\<lparr>tenant_id := ''t1''\<rparr>)) empty_ambient),
     tw_tenants = new_tenant_service, tw_endpoints = new_endpoint_resolver, tw_provider = new_token_provider, tw_posts = []\<rparr>"

definition at_time :: "real \<Rightarrow> nat \<Rightarrow> real" where
  "at_time t n = t"

lemma sample_grant_id_ok: "is_well_formed (Some sample_grant_id)" "sample_grant_id \<noteq> []"
  using new_grant_id_well_formed [of "replicate 32 1" "replicate 32 1"] well_formed_nonempty
  by (auto simp: sample_grant_id_def GRANT_ID_RANDOM_BYTES_def)

lemma sample_token_world_simps [simp]:
  "current_grant (tw_ambient sample_token_world) = Some sample_grant_id"
  "get_context None (tw_ambient sample_token_world) = Some (default_context\<lparr>tenant_id := ''t1''\<rparr>)"
  "tw_provider sample_token_world = new_token_provider" "tw_posts sample_token_world = []"
  "tw_tenants sample_token_world = new_tenant_service" "tw_endpoints sample_token_world = new_endpoint_resolver"
  by (simp_all add: sample_token_world_def set_grant_def sample_grant_id_ok current_grant_def set_context_def
      empty_ambient_def get_context_def get_test_mode_def)

lemma sample_read_token:
  "read_token sample_token_env now (json_dumps (PDict sample_body)) =
     Inr (Some \<lparr>ct_access_token = ''tok'', ct_expires_at = now + 300\<rparr>)"
proof -
  have "json_plain (PDict sample_body)" by (simp add: sample_body_def max_int_digits_def py_eval)
  note r = py_loads_dumps [OF this]
  show ?thesis
    unfolding read_token_def r
    by (simp add: sample_body_def token_lifetime_def py_int_def)
qed

lemma fresh_exchange:
  assumes i: "current_grant a = Some i" "i \<noteq> []" and c: "get_context None a = Some c" "tenant_id c = ''t1''"
  shows "\<exists>w' p. get_token sample_token_env clk (sample_token_world\<lparr>tw_ambient := a\<rparr>) = (Inr (Some ''tok''), w') \<and> tw_posts w' = [p] \<and>
     tw_provider w' = new_token_provider\<lparr>tp_tokens := [(i, \<lparr>ct_access_token = ''tok'', ct_expires_at = clk 4 + 300\<rparr>)],
       tp_locks := [i], tp_call_count := 1\<rparr>"
proof -
  have e: "get_token_endpoint (te_endpoints sample_token_env) ''t1'' new_endpoint_resolver
      = (Inr ''http://iam/v2/oidc/token'', keep_endpoint ''t1'' ''http://iam/v2/oidc/token'' new_endpoint_resolver)"
  proof -
    have "try_discover sample_endpoints ''t1'' = Inr (Some ''http://iam/v2/oidc/token'')" by code_simp
    then show ?thesis
      by (simp add: get_token_endpoint_def found_endpoint_def new_endpoint_resolver_def sample_token_env_def)
  qed
  have t: "get_tenant (te_tenant_db sample_token_env) ''t1'' new_tenant_service =
    (Some (default_tenant\<lparr>t_tenant_id := ''t1'', t_tenant_salt := ''salt''\<rparr>),
     cache_tenant ''t1'' (default_tenant\<lparr>t_tenant_id := ''t1'', t_tenant_salt := ''salt''\<rparr>) new_tenant_service)"
    by (simp add: get_tenant_def load_tenant_from_db_def sample_token_env_def cached_tenant_def new_tenant_service_def)
  have post: "te_post sample_token_env p = Inr (200, json_dumps (PDict sample_body))" for p
    by (simp add: sample_token_env_def del: json_dumps.simps)
  show ?thesis
    using i(2) c(2) get_token_run [of "sample_token_world\<lparr>tw_ambient := a\<rparr>" i c _ sample_token_env clk] i c
    by (simp add: usable_token_def kept_token_def count_call_def Let_def new_token_provider_def SWEEP_INTERVAL_CALLS_def
        drop_token_def keep_token_def seq_run except_any_run exchange_def t e post sample_read_token
        modify_run ret_run lift_exn_run update_provider_def del: json_dumps.simps)
qed

lemma sample_exchange:
  "\<exists>w' p. get_token sample_token_env clk sample_token_world = (Inr (Some ''tok''), w') \<and> tw_posts w' = [p] \<and>
     tw_provider w' = new_token_provider\<lparr>tp_tokens := [(sample_grant_id, \<lparr>ct_access_token = ''tok'', ct_expires_at = clk 4 + 300\<rparr>)],
       tp_locks := [sample_grant_id], tp_call_count := 1\<rparr>"
  using fresh_exchange [OF sample_token_world_simps(1) sample_grant_id_ok(2) sample_token_world_simps(2)] by simp


theorem get_token_never_raises_witness:
  "(\<exists>w'. get_token (sample_token_env\<lparr>te_float := id\<rparr>) (at_time 0) sample_token_world = (Inr (Some ''tok''), w')) \<and>
   (\<forall>e w'. get_token sample_token_env (at_time 0) sample_token_world = (Inl e, w') \<longrightarrow> e = Unmodelled)"
  using sample_exchange [of "at_time 0"] get_token_never_raises [of sample_token_env "at_time 0" sample_token_world]
  by (auto simp: sample_token_env_def)


theorem delegated_headers_only_add_witness:
  "\<exists>hs' w'. delegated_auth_headers sample_token_env (at_time 0) (Some [(''Accept'', ''x'')]) sample_token_world = (Inr hs', w') \<and>
    map_of hs' ''Accept'' = Some ''x'' \<and> map_of hs' ''Authorization'' = Some ''Bearer tok''"
proof -
  obtain w' where g: "get_token sample_token_env (at_time 0) sample_token_world = (Inr (Some ''tok''), w')"
    using sample_exchange by blast
  have a: "tw_ambient w' = tw_ambient sample_token_world"
    using get_token_outcome [OF g sample_token_world_simps(1) sample_grant_id_ok(2) sample_token_world_simps(2)] by simp
  have "has_grant (tw_ambient sample_token_world)"
    using sample_grant_id_ok sample_token_world_simps(1) by (simp add: has_grant_def current_grant_def)
  then have "\<exists>hs'. delegated_auth_headers sample_token_env (at_time 0) (Some [(''Accept'', ''x'')]) sample_token_world = (Inr hs', w') \<and>
      map_of hs' ''Authorization'' = Some ''Bearer tok''"
    using g by (simp add: delegated_auth_headers_def seq_run gets_run ret_run a has_header_def py_lower_def
        lower_char_def py_eval BLOCKS_KEY_HEADER_def Let_def)
  then obtain hs' where h: "delegated_auth_headers sample_token_env (at_time 0) (Some [(''Accept'', ''x'')]) sample_token_world = (Inr hs', w')"
    and au: "map_of hs' ''Authorization'' = Some ''Bearer tok''" by blast
  from delegated_headers_only_add [OF h] h au show ?thesis by auto
qed

end
