(* ===== verification/Messaging.thy ===== *)
theory Messaging
  imports Grant_Factory Token_Provider Py_Url
begin

text \<open>
  The parts of \<^verbatim>\<open>_message\<close> both brokers share: the configuration and the choice of a broker
  from the connection string, the registry of event handlers, the consumer that runs one, and the
  message a sender builds. A handler is a function, a class or an object; what it does is an arbitrary
  action on the state application code shares with this one: the ambient holders, the cache and the
  provider of delegated tokens.
\<close>

section \<open>Configuration\<close>

record azure_configuration =
  ac_queues :: "string list"
  ac_topics :: "string list"
  ac_queue_max_size :: int
  ac_queue_max_delivery :: int
  ac_queue_prefetch :: int
  ac_queue_ttl :: int
  ac_topic_prefetch :: int
  ac_topic_max_size :: int
  ac_topic_ttl :: int
  ac_subscription_max_delivery :: int
  ac_subscription_ttl :: int
  ac_max_concurrent_calls :: int
  ac_max_processing_minutes :: int
  ac_renewal_interval :: int

text \<open>Time spans are in seconds.\<close>

definition default_azure :: azure_configuration where
  "default_azure = \<lparr>ac_queues = [], ac_topics = [], ac_queue_max_size = 1024, ac_queue_max_delivery = 2,
     ac_queue_prefetch = 10, ac_queue_ttl = 604800, ac_topic_prefetch = 10, ac_topic_max_size = 1024,
     ac_topic_ttl = 604800, ac_subscription_max_delivery = 2, ac_subscription_ttl = 604800,
     ac_max_concurrent_calls = 5, ac_max_processing_minutes = 300, ac_renewal_interval = 270\<rparr>"

record consumer_subscription =
  su_queue_name :: string
  su_exchange_name :: string
  su_prefetch_count :: int
  su_exchange_type :: string
  su_routing_key :: string
  su_should_bypass_authorization :: bool
  su_durable :: bool
  su_parallel_processing :: bool

record rabbit_configuration =
  rc_consumer_subscriptions :: "consumer_subscription list"
  rc_message_ttl_seconds :: int

record message_configuration =
  mq_connection :: "string option"
  mq_service_name :: "string option"
  mq_queues :: "string list"
  mq_topics :: "string list"
  mq_consumer_subscriptions :: "consumer_subscription list option"
  mq_azure :: "azure_configuration option"
  mq_rabbit :: "rabbit_configuration option"

definition set_queues :: "string list \<Rightarrow> azure_configuration \<Rightarrow> azure_configuration" where
  "set_queues queue_list c = c\<lparr>ac_queues := map py_lower (filter (\<lambda>q. \<not> blank q) queue_list)\<rparr>"

definition set_topics :: "string list \<Rightarrow> azure_configuration \<Rightarrow> azure_configuration" where
  "set_topics topic_list c = c\<lparr>ac_topics := map py_lower (filter (\<lambda>t. \<not> blank t) topic_list)\<rparr>"

definition subscription :: "string \<Rightarrow> string \<Rightarrow> int \<Rightarrow> bool \<Rightarrow> consumer_subscription" where
  "subscription queue exchange_name prefetch parallel =
     \<lparr>su_queue_name = queue, su_exchange_name = exchange_name, su_prefetch_count = prefetch, su_exchange_type = ''fanout'',
      su_routing_key = [], su_should_bypass_authorization = False, su_durable = True, su_parallel_processing = parallel\<rparr>"

definition bind_to_queue :: "string \<Rightarrow> int \<Rightarrow> consumer_subscription" where
  "bind_to_queue queue prefetch = subscription queue [] prefetch False"

definition bind_to_queue_via_exchange :: "string \<Rightarrow> string \<Rightarrow> int \<Rightarrow> bool \<Rightarrow> consumer_subscription" where
  "bind_to_queue_via_exchange queue exchange_name prefetch parallel = subscription queue exchange_name prefetch parallel"

definition get_subscription_name :: "message_configuration \<Rightarrow> string \<Rightarrow> string" where
  "get_subscription_name c topic =
     topic @ ''_sub_'' @ (case mq_service_name c of None \<Rightarrow> ''None'' | Some s \<Rightarrow> s)"

text \<open>A connection string that does not split is not RabbitMQ's.\<close>

definition get_provider :: "string \<Rightarrow> string" where
  "get_provider connection =
     (case url_split connection of
        Inl _ \<Rightarrow> ''azure''
      | Inr (scheme, _) \<Rightarrow> if py_lower scheme \<in> {''amqp'', ''amqps''} then ''rabbitmq'' else ''azure'')"

definition resolve_provider :: "message_configuration \<Rightarrow> message_configuration" where
  "resolve_provider c =
     (if mq_azure c \<noteq> None \<or> mq_rabbit c \<noteq> None then c
      else if \<not> truthy_opt (mq_connection c) then c
      else if get_provider (or_empty (mq_connection c)) = ''rabbitmq'' then
        c\<lparr>mq_rabbit := Some \<lparr>rc_consumer_subscriptions =
             map (\<lambda>q. bind_to_queue q 5) (mq_queues c) @
             (case mq_consumer_subscriptions c of None \<Rightarrow> [] | Some ss \<Rightarrow> ss),
           rc_message_ttl_seconds = 0\<rparr>\<rparr>
      else c\<lparr>mq_azure := Some (default_azure\<lparr>ac_queues := mq_queues c, ac_topics := mq_topics c\<rparr>)\<rparr>)"

section \<open>Handlers\<close>

record 'c app_world =
  ap_delegation :: "'c delegation_world"
  ap_provider :: token_provider

type_synonym ('c, 'a) app_act = "('c app_world, 'a) act"

abbreviation ambient_of :: "'c app_world \<Rightarrow> ambient" where
  "ambient_of a \<equiv> dl_ambient (ap_delegation a)"

definition in_delegation :: "('c, 'a) delegation_act \<Rightarrow> ('c, 'a) app_act" where
  "in_delegation m = (\<lambda>a. case m (ap_delegation a) of (r, d) \<Rightarrow> (r, a\<lparr>ap_delegation := d\<rparr>))"

definition with_ambient :: "(ambient \<Rightarrow> ambient) \<Rightarrow> 'c app_world \<Rightarrow> 'c app_world" where
  "with_ambient f a = a\<lparr>ap_delegation := (ap_delegation a)\<lparr>dl_ambient := f (ambient_of a)\<rparr>\<rparr>"

text \<open>A coroutine function is awaited on the decoded body. A plain function runs, and then its result is
  not awaitable. A class is callable as well, so its constructor is called on the body and the instance
  is awaited. An object that is not callable would be called to make an instance, which raises.\<close>

datatype 'c handler =
    HandlerFunction "pyval \<Rightarrow> ('c, unit) app_act"
  | PlainFunction "pyval \<Rightarrow> ('c, unit) app_act"
  | HandlerClass "pyval \<Rightarrow> ('c, unit) app_act" "pyval \<Rightarrow> ('c, unit) app_act"
  | HandlerObject "pyval \<Rightarrow> ('c, unit) app_act"
  | NoHandler

fun is_callable :: "'c handler \<Rightarrow> bool" where
  "is_callable (HandlerFunction f) = True"
| "is_callable (PlainFunction f) = True"
| "is_callable (HandlerClass build handle) = True"
| "is_callable _ = False"

fun has_handle :: "'c handler \<Rightarrow> bool" where
  "has_handle (HandlerClass build handle) = True"
| "has_handle (HandlerObject handle) = True"
| "has_handle _ = False"

fun await_call :: "'c handler \<Rightarrow> pyval \<Rightarrow> ('c, unit) app_act" where
  "await_call (HandlerFunction f) v = f v"
| "await_call (PlainFunction f) v = seq (f v) (\<lambda>_. raise TypeError)"
| "await_call (HandlerClass build handle) v = seq (build v) (\<lambda>_. raise TypeError)"
| "await_call _ v = raise TypeError"

fun call_without_arguments :: "'c handler \<Rightarrow> ('c, pyval \<Rightarrow> ('c, unit) app_act) app_act" where
  "call_without_arguments (HandlerClass build handle) = ret handle"
| "call_without_arguments _ = raise TypeError"

type_synonym 'c registry = "(string \<times> 'c handler) list"

definition register_handler :: "string \<Rightarrow> 'c handler \<Rightarrow> 'c registry \<Rightarrow> py_exn + 'c registry" where
  "register_handler event_type h g =
     (if event_type = [] then Inl ValueError
      else if map_of g event_type \<noteq> None then Inl KeyError
      else Inr (AList.update event_type h g))"

definition resolve_handler :: "'c registry \<Rightarrow> string \<Rightarrow> py_exn + 'c handler" where
  "resolve_handler g event_type =
     (case map_of g event_type of None \<Rightarrow> Inl ValueError | Some h \<Rightarrow> Inr h)"

definition consume ::
  "'c delegation_env \<Rightarrow> 'c registry \<Rightarrow> string \<Rightarrow> string \<Rightarrow> ('c, unit) app_act" where
  "consume E g event_type body =
     seq (lift_exn (resolve_handler g event_type)) (\<lambda>h.
       if is_callable h then seq (lift_exn (py_loads (de_float E) body)) (\<lambda>v. await_call h v)
       else if has_handle h then
         seq (call_without_arguments h) (\<lambda>instance_handle.
         seq (lift_exn (py_loads (de_float E) body)) (\<lambda>v. instance_handle v))
       else raise TypeError)"

section \<open>Messages\<close>

record consumer_message =
  msg_consumer_name :: string
  msg_payload :: pydict
  msg_payload_type :: string
  msg_context :: "string option"
  msg_routing_key :: string
  msg_delegation_ttl_seconds :: "int option"

record event_message =
  ev_body :: string
  ev_type :: string

definition dump_event :: "event_message \<Rightarrow> string" where
  "dump_event m = json_dumps (PDict [(''body'', PStr (ev_body m)), (''type'', PStr (ev_type m))])"

text \<open>\<^verbatim>\<open>EventMessage(**json.loads(text))\<close>.\<close>

definition event_of_payload :: "model_env \<Rightarrow> pyval \<Rightarrow> py_exn + event_message" where
  "event_of_payload V payload =
     (case payload of
        PDict d \<Rightarrow>
          (case (map_of d ''body'', map_of d ''type'') of
             (Some b, Some t) \<Rightarrow>
               (case (coerce_str V b, coerce_str V t) of
                  (Inr body, Inr type_name) \<Rightarrow> Inr \<lparr>ev_body = body, ev_type = type_name\<rparr>
                | _ \<Rightarrow> Inl ValidationError)
           | _ \<Rightarrow> Inl ValidationError)
      | _ \<Rightarrow> Inl TypeError)"

definition parse_event :: "'c delegation_env \<Rightarrow> string \<Rightarrow> py_exn + event_message" where
  "parse_event E text = (case py_loads (de_float E) text of
     Inl e \<Rightarrow> Inl e | Inr payload \<Rightarrow> event_of_payload (de_model E) payload)"

section \<open>Lemmas\<close>

lemma parse_dump_event [simp]:
  assumes "model_env_ok (de_model E)"
  shows "parse_event E (dump_event m) = Inr m"
proof -
  have "json_plain (PDict [(''body'', PStr (ev_body m)), (''type'', PStr (ev_type m))])" by simp
  from py_loads_dumps [OF this] assms show ?thesis
    unfolding parse_event_def dump_event_def by (simp add: event_of_payload_def)
qed

text \<open>Once registered, an event's handler is fixed: registering again raises and changes nothing.\<close>

lemma register_resolve:
  "register_handler t h g = Inr g' \<Longrightarrow> resolve_handler g' t = Inr h \<and>
    (\<forall>u. u \<noteq> t \<longrightarrow> resolve_handler g' u = resolve_handler g u) \<and> register_handler t h' g' = Inl KeyError"
  by (auto simp: register_handler_def resolve_handler_def split: if_splits option.splits)

text \<open>A class registered as a handler never has its \<^verbatim>\<open>handle\<close> run, and the message
  fails; an object with a \<^verbatim>\<open>handle\<close> is refused.\<close>

lemma handler_class_never_handles:
  assumes "resolve_handler g t = Inr (HandlerClass build handle1)"
  shows "consume E g t body = consume E (AList.update t (HandlerClass build handle2) g) t body \<and>
    (\<exists>e. fst (consume E g t body a) = Inl e)"
proof -
  have "\<exists>e. fst (seq (build v) (\<lambda>_. raise TypeError) b) = Inl e" for v b
    by (auto simp: act_simps split: prod.split sum.split)
  with assms show ?thesis
    by (auto simp: consume_def resolve_handler_def seq_run lift_exn_run split: option.splits sum.split)
qed

lemma handler_object_refused:
  "resolve_handler g t = Inr (HandlerObject handle) \<Longrightarrow> consume E g t body a = (Inl TypeError, a)"
  by (simp add: consume_def act_simps)

end
