(* ===== verification/Message_Worker.thy ===== *)
theory Message_Worker
  imports Messaging Crypto_Service
begin

text \<open>
  What the workers of both brokers do around a handler: they read a message's headers, restore the
  sender's context and grant, dispatch the event, settle the message and release the grant. The broker
  is a parameter that says how a settlement ends, given what the worker did before. The worker's log is
  part of its state: what it dispatched and with which result, what it settled, which grant it released;
  the theorems on ordering read it.
\<close>

section \<open>The worker's world\<close>

datatype settlement = Ack | Complete | Abandon

datatype worker_event =
    Handled "py_exn + unit"
  | Settled settlement "py_exn + unit"
  | Released string

record 'c worker_state =
  ww_app :: "'c app_world"
  ww_log :: "worker_event list"
  ww_renewals :: "string list"

type_synonym ('c, 'a) worker_act = "('c worker_state, 'a) act"

record 'c worker_env =
  we_delegation :: "'c delegation_env"
  we_registry :: "'c registry"
  we_settle :: "worker_event list \<Rightarrow> settlement \<Rightarrow> py_exn + unit"

definition in_app :: "('c, 'a) app_act \<Rightarrow> ('c, 'a) worker_act" where
  "in_app m = (\<lambda>w. case m (ww_app w) of (r, a) \<Rightarrow> (r, w\<lparr>ww_app := a\<rparr>))"

definition log_event :: "worker_event \<Rightarrow> ('c, unit) worker_act" where
  "log_event e = modify (\<lambda>w. w\<lparr>ww_log := ww_log w @ [e]\<rparr>)"

definition settle :: "'c worker_env \<Rightarrow> settlement \<Rightarrow> ('c, unit) worker_act" where
  "settle E x = seq (gets (\<lambda>w. we_settle E (ww_log w) x)) (\<lambda>r.
     seq (log_event (Settled x r)) (\<lambda>_. lift_exn r))"

definition set_ambient :: "(ambient \<Rightarrow> ambient) \<Rightarrow> ('c, unit) worker_act" where
  "set_ambient f = modify (\<lambda>w. w\<lparr>ww_app := with_ambient f (ww_app w)\<rparr>)"

section \<open>Headers\<close>

datatype header_value = HBytes bytes | HVal pyval

definition decoded :: "header_value \<Rightarrow> py_exn + pyval" where
  "decoded h = (case h of HBytes b \<Rightarrow> map_sum id PStr (utf8_decode b) | HVal v \<Rightarrow> Inr v)"

section \<open>Restoring the sender's context\<close>

text \<open>Text that is not JSON, or not a context, leaves the context as it is.\<close>

definition restore_security_context :: "'c worker_env \<Rightarrow> pyval \<Rightarrow> ('c, unit) worker_act" where
  "restore_security_context E raw =
     (if \<not> truthy raw then ret ()
      else except_any
        (seq (case raw of PStr s \<Rightarrow> lift_exn (py_loads (de_float (we_delegation E)) s) | _ \<Rightarrow> raise TypeError) (\<lambda>sc.
         seq (lift_exn (from_transport (de_model (we_delegation E)) (Some sc))) (\<lambda>c.
         set_ambient (set_context c))))
        (\<lambda>_. ret ()))"

section \<open>Dispatch\<close>

text \<open>Parse the envelope and run the handler of its type.\<close>

definition dispatch_event :: "'c worker_env \<Rightarrow> string \<Rightarrow> ('c, unit) app_act" where
  "dispatch_event E body =
     seq (lift_exn (parse_event (we_delegation E) body)) (\<lambda>m.
     consume (we_delegation E) (we_registry E) (ev_type m) (ev_body m))"

definition run_handler :: "'c worker_env \<Rightarrow> string \<Rightarrow> ('c, unit) worker_act" where
  "run_handler E body = (\<lambda>w. case in_app (dispatch_event E body) w of
     (r, w') \<Rightarrow> (r, w'\<lparr>ww_log := ww_log w' @ [Handled r]\<rparr>))"

section \<open>Releasing the grant\<close>

definition release_delegation_grant :: "'c worker_env \<Rightarrow> string option \<Rightarrow> ('c, unit) worker_act" where
  "release_delegation_grant E g =
     (if \<not> truthy_opt g then ret ()
      else seq (log_event (Released (or_empty g))) (\<lambda>_.
        seq (modify (\<lambda>w. w\<lparr>ww_app := (ww_app w)\<lparr>ap_provider := invalidate_token g (ap_provider (ww_app w))\<rparr>\<rparr>)) (\<lambda>_.
        in_app (in_delegation (delete_grant (we_delegation E) g)))))"

definition clear_holders :: "('c, unit) worker_act" where
  "clear_holders = set_ambient (\<lambda>a. clear_grant (clear_context a))"

text \<open>A \<^verbatim>\<open>finally\<close> block that can raise: what it raises replaces the outcome of the body,
  which it may look at.\<close>

definition finally_act :: "('w, 'a) act \<Rightarrow> (py_exn + 'a \<Rightarrow> ('w, unit) act) \<Rightarrow> ('w, 'a) act" where
  "finally_act m f = (\<lambda>w. case m w of (r, w') \<Rightarrow>
     (case f r w' of (Inl e, w'') \<Rightarrow> (Inl e, w'') | (Inr _, w'') \<Rightarrow> (r, w'')))"

lemma finally_act_run [act_simps]:
  "finally_act m f w = (case m w of (r, w') \<Rightarrow>
     (case f r w' of (Inl e, w'') \<Rightarrow> (Inl e, w'') | (Inr _, w'') \<Rightarrow> (r, w'')))"
  by (simp add: finally_act_def)

section \<open>Lemmas\<close>

lemmas worker_defs = in_app_def in_delegation_def log_event_def settle_def set_ambient_def with_ambient_def
  run_handler_def clear_holders_def release_delegation_grant_def

lemma ambient_with [simp]: "ambient_of (with_ambient f a) = f (ambient_of a)"
  "ap_provider (with_ambient f a) = ap_provider a"
  "dl_cache (ap_delegation (with_ambient f a)) = dl_cache (ap_delegation a)"
  by (simp_all add: with_ambient_def)

lemma settle_run: "settle E x w = (we_settle E (ww_log w) x, w\<lparr>ww_log := ww_log w @ [Settled x (we_settle E (ww_log w) x)]\<rparr>)"
  by (simp add: settle_def log_event_def act_simps)

lemma run_handler_run: "run_handler E body w = (case dispatch_event E body (ww_app w) of
    (r, a) \<Rightarrow> (r, w\<lparr>ww_app := a, ww_log := ww_log w @ [Handled r]\<rparr>))"
  by (simp add: run_handler_def in_app_def split: prod.split)

lemma clear_holders_run: "clear_holders w = (Inr (), w\<lparr>ww_app := with_ambient (\<lambda>a. clear_grant (clear_context a)) (ww_app w)\<rparr>)"
  by (simp add: clear_holders_def set_ambient_def act_simps)

text \<open>Deleting a grant raises nothing but the mark of a run that left the model.\<close>

lemma delete_grant_run:
  assumes "delete_grant E g d = (r, d')"
  shows "dl_ambient d' = dl_ambient d \<and> (r = Inr () \<or> r = Inl Unmodelled)"
  using assms by (auto simp: delete_grant_def cache_delete_def act_simps split: if_splits sum.splits)

lemma release_run:
  assumes "release_delegation_grant E g w = (r, w')"
  shows "ww_log w' = ww_log w @ (if truthy_opt g then [Released (or_empty g)] else []) \<and>
    ambient_of (ww_app w') = ambient_of (ww_app w) \<and> (r = Inr () \<or> r = Inl Unmodelled) \<and>
    ww_renewals w' = ww_renewals w \<and> (\<not> truthy_opt g \<longrightarrow> w' = w)"
  using assms
  by (auto simp: worker_defs act_simps dest!: delete_grant_run split: if_splits prod.splits)

text \<open>A context that was sanitized for transport is restored.\<close>

lemma restore_sanitized:
  assumes "model_env_ok (de_model (we_delegation E))"
    and "\<And>d. expire_on c = Some d \<Longrightarrow> coerce_datetime (de_model (we_delegation E)) (PStr d) = Inr d"
  shows "restore_security_context E (PStr (json_dumps (PDict (create_sanitized_for_transport (Some c))))) w =
    set_ambient (set_context (Some (sanitized c))) w"
proof -
  have "py_loads fl (json_dumps (PDict (create_sanitized_for_transport (Some c)))) =
      Inr (PDict (create_sanitized_for_transport (Some c)))" for fl
    by (rule py_loads_dumps) (rule json_plain_transport)
  moreover have "json_dumps (PDict d) \<noteq> []" for d by simp
  ultimately show ?thesis
    unfolding restore_security_context_def
    by (simp add: except_any_run seq_run lift_exn_run from_transport_sanitized [OF assms] set_ambient_def modify_run
        del: json_dumps.simps)
qed

lemma restore_frame:
  assumes "restore_security_context E raw w = (r, w')"
  shows "ww_log w' = ww_log w \<and> ww_renewals w' = ww_renewals w \<and> current_grant (ambient_of (ww_app w')) = current_grant (ambient_of (ww_app w)) \<and>
    (r = Inr () \<or> r = Inl Unmodelled)"
  using assms
  by (auto simp: restore_security_context_def set_ambient_def act_simps
      split: if_splits prod.splits sum.splits pyval.splits)

section \<open>A worker\<close>

text \<open>One handler, which succeeds, over a broker that accepts every settlement.\<close>

definition broker_env :: "(string \<times> string) list worker_env" where
  "broker_env = \<lparr>we_delegation = table_env, we_registry = [(''job'', HandlerFunction (\<lambda>_. ret ()))], we_settle = (\<lambda>_ _. Inr ())\<rparr>"

definition idle_worker :: "(string \<times> string) list \<Rightarrow> (string \<times> string) list worker_state" where
  "idle_worker cache = \<lparr>ww_app = \<lparr>ap_delegation = \<lparr>dl_ambient = empty_ambient, dl_cache = cache\<rparr>, ap_provider = new_token_provider\<rparr>,
     ww_log = [], ww_renewals = []\<rparr>"

definition job_body :: string where
  "job_body = dump_event \<lparr>ev_body = json_dumps (PDict []), ev_type = ''job''\<rparr>"

lemma broker_env_simps [simp]:
  "we_delegation broker_env = table_env" "we_settle broker_env l x = Inr ()"
  "resolve_handler (we_registry broker_env) ''job'' = Inr (HandlerFunction (\<lambda>_. ret ()))"
  by (simp_all add: broker_env_def resolve_handler_def)

lemma idle_worker_simps [simp]:
  "ww_log (idle_worker c) = []" "dl_cache (ap_delegation (ww_app (idle_worker c))) = c" "ambient_of (ww_app (idle_worker c)) = empty_ambient"
  by (simp_all add: idle_worker_def)

lemma sample_dispatch [simp]: "dispatch_event broker_env job_body a = (Inr (), a)"
proof -
  have "parse_event table_env job_body = Inr \<lparr>ev_body = json_dumps (PDict []), ev_type = ''job''\<rparr>"
    unfolding job_body_def by (rule parse_dump_event) (simp add: strict_env_ok)
  moreover have "py_loads (de_float table_env) (json_dumps (PDict [])) = Inr (PDict [])" by (rule py_loads_dumps) simp
  ultimately show ?thesis
    by (simp add: dispatch_event_def consume_def act_simps del: json_dumps.simps)
qed

end
