(* ===== verification/Rabbit_Worker.thy ===== *)
theory Rabbit_Worker
  imports Message_Worker
begin

text \<open>
  \<^verbatim>\<open>_message/rabbit_mq/rabbit_message_worker.py\<close>: one delivery, from its headers to its ACK.
  The spans it opens are left out, but not the reads that build them: baggage that is not an object and
  a body that is not UTF-8 raise there. The theorems say what a delivery does to the log, the grant
  and the context, and which deliveries are never acknowledged.
\<close>

record rabbit_message =
  rm_headers :: "(string \<times> header_value) list"
  rm_body :: header_value

section \<open>Headers\<close>

definition rabbit_decode :: "header_value \<Rightarrow> py_exn + string" where
  "rabbit_decode h = map_sum id (\<lambda>v. if v = PNone then [] else py_str v) (decoded h)"

definition rabbit_header :: "rabbit_message \<Rightarrow> string \<Rightarrow> string \<Rightarrow> py_exn + string" where
  "rabbit_header m k d = rabbit_decode (case map_of (rm_headers m) k of None \<Rightarrow> HVal (PStr d) | Some h \<Rightarrow> h)"

text \<open>What the worker keeps of the headers: the baggage and the grant.\<close>

definition rabbit_headers :: "rabbit_message \<Rightarrow> py_exn + string \<times> string \<times> string option" where
  "rabbit_headers m =
     (case rabbit_header m ''TraceId'' [] of Inl e \<Rightarrow> Inl e | Inr trace_id \<Rightarrow>
     (case rabbit_header m ''SpanId'' [] of Inl e \<Rightarrow> Inl e | Inr span_id \<Rightarrow>
     (case rabbit_header m ''TenantId'' [] of Inl e \<Rightarrow> Inl e | Inr tid \<Rightarrow>
     (case rabbit_header m ''SecurityContext'' [] of Inl e \<Rightarrow> Inl e | Inr security_context_raw \<Rightarrow>
     (case rabbit_header m ''Baggage'' ''{}'' of Inl e \<Rightarrow> Inl e | Inr baggage \<Rightarrow>
     (case rabbit_header m DELEGATION_GRANT_HEADER [] of Inl e \<Rightarrow> Inl e | Inr g \<Rightarrow>
        Inr (security_context_raw, baggage, if g = [] then None else Some g)))))))"

definition restore_message_context :: "'c worker_env \<Rightarrow> rabbit_message \<Rightarrow> ('c, string \<times> string option) worker_act" where
  "restore_message_context E m =
     seq (lift_exn (rabbit_headers m)) (\<lambda>(security_context_raw, baggage, g).
     seq (restore_security_context E (PStr security_context_raw)) (\<lambda>_.
     seq (set_ambient (set_grant g)) (\<lambda>_. ret (baggage, g))))"

section \<open>One delivery\<close>

definition read_baggage :: "'c worker_env \<Rightarrow> string \<Rightarrow> py_exn + unit" where
  "read_baggage E baggage =
     (case py_loads (de_float (we_delegation E)) baggage of
        Inl e \<Rightarrow> if e = JSONDecodeError \<or> e = TypeError then Inr () else Inl e
      | Inr (PDict d) \<Rightarrow> Inr ()
      | Inr _ \<Rightarrow> Inl AttributeError)"

definition rabbit_body :: "rabbit_message \<Rightarrow> py_exn + string" where
  "rabbit_body m = map_sum id py_str (decoded (rm_body m))"

definition dispatch_and_settle :: "'c worker_env \<Rightarrow> string \<Rightarrow> string option \<Rightarrow> ('c, unit) worker_act" where
  "dispatch_and_settle E body g =
     seq (finally_act
       (except_any (seq (run_handler E body) (\<lambda>_. ret True)) (\<lambda>_. ret False))
       (\<lambda>r. let processed_successfully = (r = Inr True) in
         seq (settle E Ack) (\<lambda>_.
         seq (if processed_successfully then release_delegation_grant E g else ret ()) (\<lambda>_.
         clear_holders)))) (\<lambda>_. ret ())"

definition process_message :: "'c worker_env \<Rightarrow> rabbit_message \<Rightarrow> ('c, unit) worker_act" where
  "process_message E m =
     seq (restore_message_context E m) (\<lambda>(baggage, g).
     seq (lift_exn (read_baggage E baggage)) (\<lambda>_.
     seq (lift_exn (rabbit_body m)) (\<lambda>body.
     dispatch_and_settle E body g)))"

section \<open>The callback\<close>

text \<open>A delivery of a parallel queue becomes a task of its own, with its own copy of the ambient
  holders; what it raises stays in the task. The callback returns the tasks it created.\<close>

definition rabbit_callback :: "'c worker_env \<Rightarrow> bool \<Rightarrow> rabbit_message \<Rightarrow> ('c, rabbit_message list) worker_act" where
  "rabbit_callback E parallel m =
     except_any (if parallel then ret [m] else seq (process_message E m) (\<lambda>_. ret [])) (\<lambda>_. ret [])"

definition run_task :: "'c worker_env \<Rightarrow> rabbit_message \<Rightarrow> ('c, unit) worker_act" where
  "run_task E m = (\<lambda>w. case process_message E m w of
     (r, w') \<Rightarrow> (Inr (), w'\<lparr>ww_app := with_ambient (\<lambda>_. ambient_of (ww_app w)) (ww_app w')\<rparr>))"

section \<open>Lemmas\<close>

text \<open>The messages the worker gets as far as dispatching.\<close>

definition readable :: "'c worker_env \<Rightarrow> rabbit_message \<Rightarrow> string \<Rightarrow> string option \<Rightarrow> bool" where
  "readable E m body g \<longleftrightarrow> (\<exists>sc baggage. rabbit_headers m = Inr (sc, baggage, g) \<and> read_baggage E baggage = Inr () \<and>
     rabbit_body m = Inr body)"

text \<open>From the dispatch on: the handler's outcome, the ACK, and a release after both succeeded.\<close>

lemma dispatch_and_settle_run:
  assumes "dispatch_and_settle E body g w = (r, w')"
    and d: "dispatch_event E body (ww_app w) = (x, a)"
    and s: "we_settle E (ww_log w @ [Handled x]) Ack = y"
  shows "ww_log w' = ww_log w @ [Handled x, Settled Ack y] @
      (if x = Inr () \<and> y = Inr () \<and> truthy_opt g then [Released (or_empty g)] else []) \<and>
    (\<not> (x = Inr () \<and> y = Inr () \<and> truthy_opt g) \<longrightarrow>
       dl_cache (ap_delegation (ww_app w')) = dl_cache (ap_delegation a) \<and> ap_provider (ww_app w') = ap_provider a) \<and>
    (y = Inr () \<and> r \<noteq> Inl Unmodelled \<longrightarrow> r = Inr () \<and>
       get_context None (ambient_of (ww_app w')) = None \<and> current_grant (ambient_of (ww_app w')) = None) \<and>
    (\<forall>e. y = Inl e \<longrightarrow> r = Inl e)"
proof -
  have clr: "get_context None (clear_grant (clear_context b)) = None" "current_grant (clear_grant (clear_context b)) = None" for b
    by (simp_all add: ambient_defs)
  show ?thesis
  proof (cases x)
    case (Inl e)
    with assms clr show ?thesis
      by (cases y) (auto simp: dispatch_and_settle_def Let_def act_simps run_handler_run settle_run clear_holders_run
          split: if_splits)
  next
    case (Inr u)
    obtain q w1 where q: "release_delegation_grant E g
        (w\<lparr>ww_app := a, ww_log := ww_log w @ [Handled (Inr ()), Settled Ack (Inr ())]\<rparr>) = (q, w1)" by (rule prod.exhaust)
    from Inr assms clr q release_run [OF q] show ?thesis
      by (cases y) (auto simp: dispatch_and_settle_def Let_def act_simps run_handler_run settle_run clear_holders_run
          split: if_splits sum.splits)
  qed
qed

text \<open>Before the dispatch only the ambient holders change.\<close>

lemma restore_context_run:
  assumes "restore_message_context E m w = (Inr (baggage, g), w')"
  shows "\<exists>sc. rabbit_headers m = Inr (sc, baggage, g)"
    and "ww_log w' = ww_log w"
    and "current_grant (ambient_of (ww_app w')) = (if is_well_formed g then g else None)"
  using assms
  by (auto simp: restore_message_context_def set_ambient_def act_simps grant_var.current_put
      dest!: restore_frame split: prod.splits sum.splits option.splits)

lemma restore_context_log:
  "restore_message_context E m w = (r, w') \<Longrightarrow> ww_log w' = ww_log w"
  by (auto simp: restore_message_context_def set_ambient_def act_simps
      dest!: restore_frame split: prod.splits sum.splits)

text \<open>
  C7. The life of a delivery the worker can read: its handler runs once, holding the grant the message
  names when that is well formed; the delivery is acknowledged whatever the handler did; the
  grant is released only after the handler and the acknowledgement succeeded, and otherwise cache and
  tokens stay as the handler left them; and once acknowledged, no context and no grant stays behind.
\<close>

theorem rabbit_message_life:
  assumes "readable E m body g" and "process_message E m w = (r, w')" and "r \<noteq> Inl Unmodelled"
  shows "\<exists>a x a' y. dispatch_event E body a = (x, a') \<and>
    current_grant (ambient_of a) = (if is_well_formed g then g else None) \<and>
    y = we_settle E (ww_log w @ [Handled x]) Ack \<and>
    ww_log w' = ww_log w @ [Handled x, Settled Ack y] @
      (if x = Inr () \<and> y = Inr () \<and> truthy_opt g then [Released (or_empty g)] else []) \<and>
    (\<not> (x = Inr () \<and> y = Inr () \<and> truthy_opt g) \<longrightarrow>
       dl_cache (ap_delegation (ww_app w')) = dl_cache (ap_delegation a') \<and> ap_provider (ww_app w') = ap_provider a') \<and>
    (y = Inr () \<longrightarrow> r = Inr () \<and> get_context None (ambient_of (ww_app w')) = None \<and>
       current_grant (ambient_of (ww_app w')) = None)"
proof -
  obtain sc baggage where m: "rabbit_headers m = Inr (sc, baggage, g)" "read_baggage E baggage = Inr ()"
      "rabbit_body m = Inr body"
    using assms(1) by (auto simp: readable_def)
  obtain q w1 where rs: "restore_message_context E m w = (q, w1)" by (rule prod.exhaust)
  have "q = Inr (baggage, g)"
    using rs m assms(2,3)
    by (auto simp: restore_message_context_def process_message_def set_ambient_def act_simps
        dest!: restore_frame split: prod.splits sum.splits)
  with rs have rs: "restore_message_context E m w = (Inr (baggage, g), w1)" by simp
  obtain x a where d: "dispatch_event E body (ww_app w1) = (x, a)" by (rule prod.exhaust)
  have "dispatch_and_settle E body g w1 = (r, w')"
    using assms(2) m rs by (simp add: process_message_def act_simps)
  note run = dispatch_and_settle_run [OF this d refl] and before = restore_context_run(2,3) [OF rs]
  show ?thesis
    by (intro exI [of _ "ww_app w1"] exI [of _ x] exI [of _ a] exI [of _ "we_settle E (ww_log w @ [Handled x]) Ack"])
      (use run before d assms(3) in simp)
qed

text \<open>
  A delivery is acknowledged only if it can be read: one with a header or body that is not UTF-8, or with
  baggage that is not an object, raises before the handler, is never settled, and when its headers
  decode its grant stays in the ambient holder.
\<close>

theorem rabbit_unreadable_never_settled:
  assumes "\<nexists>body g. readable E m body g" and "process_message E m w = (r, w')"
  shows "(\<exists>e. r = Inl e) \<and> ww_log w' = ww_log w \<and>
    (\<forall>sc baggage g. rabbit_headers m = Inr (sc, baggage, g) \<longrightarrow> r = Inl Unmodelled \<or>
       current_grant (ambient_of (ww_app w')) = (if is_well_formed g then g else None))"
proof -
  obtain q w1 where rs: "restore_message_context E m w = (q, w1)" by (rule prod.exhaust)
  show ?thesis
  proof (cases q)
    case (Inl e)
    with rs assms(2) restore_context_log [OF rs] show ?thesis
      by (auto simp: process_message_def restore_message_context_def set_ambient_def act_simps
          dest!: restore_frame split: prod.splits sum.splits)
  next
    case (Inr bg)
    then obtain baggage g where q: "q = Inr (baggage, g)" by (cases bg) auto
    from restore_context_run [OF rs [unfolded q]] assms rs q show ?thesis
      by (cases "read_baggage E baggage"; cases "rabbit_body m")
        (auto simp: process_message_def act_simps readable_def, metis+)
  qed
qed

section \<open>Deliveries\<close>

definition sample_delivery :: "string \<Rightarrow> rabbit_message" where
  "sample_delivery baggage = \<lparr>rm_headers = [(''Baggage'', HVal (PStr baggage)), (DELEGATION_GRANT_HEADER, HVal (PStr held_id))],
     rm_body = HVal (PStr job_body)\<rparr>"

lemma sample_headers: "rabbit_headers (sample_delivery baggage) = Inr ([], baggage, Some held_id)"
  using well_formed_nonempty [OF held_id_ok]
  by (simp add: rabbit_headers_def rabbit_header_def rabbit_decode_def decoded_def sample_delivery_def DELEGATION_GRANT_HEADER_def)

lemma sample_baggage:
  "read_baggage broker_env (json_dumps (PDict [])) = Inr ()" "read_baggage broker_env (json_dumps (PList [])) = Inl AttributeError"
proof -
  have "py_loads fl (json_dumps (PDict [])) = Inr (PDict [])" "py_loads fl (json_dumps (PList [])) = Inr (PList [])" for fl
    by (rule py_loads_dumps, simp)+
  then show "read_baggage broker_env (json_dumps (PDict [])) = Inr ()" "read_baggage broker_env (json_dumps (PList [])) = Inl AttributeError"
    by (simp_all add: read_baggage_def del: json_dumps.simps)
qed

lemma sample_restore:
  "\<exists>w. restore_message_context broker_env (sample_delivery baggage) (idle_worker c) = (Inr (baggage, Some held_id), w)"
  by (simp add: restore_message_context_def sample_headers restore_security_context_def set_ambient_def act_simps)

theorem rabbit_message_life_witness:
  "\<exists>w'. process_message broker_env (sample_delivery (json_dumps (PDict []))) (idle_worker []) = (Inr (), w') \<and>
    ww_log w' = [Handled (Inr ()), Settled Ack (Inr ()), Released held_id] \<and>
    current_grant (ambient_of (ww_app w')) = None"
proof -
  let ?m = "sample_delivery (json_dumps (PDict []))"
  have body: "rabbit_body ?m = Inr job_body" by (simp add: rabbit_body_def decoded_def sample_delivery_def)
  have readable: "readable broker_env ?m job_body (Some held_id)"
    unfolding readable_def using sample_headers sample_baggage(1) body by blast
  obtain w where "restore_message_context broker_env ?m (idle_worker []) = (Inr (json_dumps (PDict []), Some held_id), w)"
    using sample_restore by blast
  then have "\<exists>w'. process_message broker_env ?m (idle_worker []) = (Inr (), w')"
    using body sample_baggage(1)
    by (simp add: process_message_def dispatch_and_settle_def run_handler_run settle_run clear_holders_run act_simps
        release_delegation_grant_def log_event_def in_app_def in_delegation_def delete_grant_def held_id_ok cache_delete_def
        truthy_opt_def Let_def split: prod.split sum.split del: json_dumps.simps)
  then obtain w' where run: "process_message broker_env ?m (idle_worker []) = (Inr (), w')" ..
  from rabbit_message_life [OF readable run] run show ?thesis
    using well_formed_nonempty [OF held_id_ok] by (auto simp: truthy_opt_def or_empty_def)
qed

theorem rabbit_unreadable_never_settled_witness:
  "\<exists>r w'. process_message broker_env (sample_delivery (json_dumps (PList []))) (idle_worker []) = (r, w') \<and>
    r = Inl AttributeError \<and> ww_log w' = [] \<and> current_grant (ambient_of (ww_app w')) = Some held_id"
proof -
  let ?m = "sample_delivery (json_dumps (PList []))"
  obtain w where "restore_message_context broker_env ?m (idle_worker []) = (Inr (json_dumps (PList []), Some held_id), w)"
    using sample_restore by blast
  then have run: "process_message broker_env ?m (idle_worker []) = (Inl AttributeError, w)"
    using sample_baggage(2) by (simp add: process_message_def act_simps del: json_dumps.simps)
  have "\<nexists>body g. readable broker_env ?m body g"
    using sample_headers [of "json_dumps (PList [])"] sample_baggage(2) by (auto simp: readable_def simp del: json_dumps.simps)
  from rabbit_unreadable_never_settled [OF this run] run sample_headers held_id_ok show ?thesis by fastforce
qed

end
