(* ===== verification/Rabbit_Service.thy ===== *)
theory Rabbit_Service
  imports Messaging "HOL-Library.Sublist"
begin

text \<open>
  \<^verbatim>\<open>_message/rabbit_mq/rabbit_mq_service.py\<close> and the start of the RabbitMQ worker: the
  connection, the declaration of queues, exchanges and bindings, and the consumers. The broker is a
  parameter that answers every call, given the calls before it; the service records the calls it made.
\<close>

datatype rabbit_call =
    Connect
  | OpenChannel
  | DeclareQueue string bool
  | DeclareExchange string string bool
  | BindQueue string string string
  | SetQos int
  | ConsumeQueue string
  | CloseChannel
  | CloseConnection

record rabbit_broker =
  br_answer :: "rabbit_call list \<Rightarrow> rabbit_call \<Rightarrow> py_exn + unit"
  br_exchange_type :: "string \<Rightarrow> bool"
  br_channel_closed :: "rabbit_call list \<Rightarrow> bool"
  br_connection_closed :: "rabbit_call list \<Rightarrow> bool"

record rabbit_service =
  rs_connection :: bool
  rs_channel :: bool
  rs_calls :: "rabbit_call list"

definition new_rabbit_service :: rabbit_service where
  "new_rabbit_service = \<lparr>rs_connection = False, rs_channel = False, rs_calls = []\<rparr>"

type_synonym 'a rabbit_act = "(rabbit_service, 'a) act"

definition broker_call :: "rabbit_broker \<Rightarrow> rabbit_call \<Rightarrow> unit rabbit_act" where
  "broker_call B c = (\<lambda>s. (br_answer B (rs_calls s) c, s\<lparr>rs_calls := rs_calls s @ [c]\<rparr>))"

fun for_each :: "('x \<Rightarrow> ('w, unit) act) \<Rightarrow> 'x list \<Rightarrow> ('w, unit) act" where
  "for_each f [] = ret ()"
| "for_each f (x # xs) = seq (f x) (\<lambda>_. for_each f xs)"

section \<open>The service\<close>

definition create_connection :: "rabbit_broker \<Rightarrow> unit rabbit_act" where
  "create_connection B =
     seq (broker_call B Connect) (\<lambda>_.
     seq (modify (\<lambda>s. s\<lparr>rs_connection := True\<rparr>)) (\<lambda>_.
     seq (broker_call B OpenChannel) (\<lambda>_.
     modify (\<lambda>s. s\<lparr>rs_channel := True\<rparr>))))"

definition declare_subscription :: "rabbit_broker \<Rightarrow> consumer_subscription \<Rightarrow> unit rabbit_act" where
  "declare_subscription B x =
     seq (broker_call B (DeclareQueue (su_queue_name x) (su_durable x))) (\<lambda>_.
     seq (if su_exchange_name x = [] then ret ()
          else if \<not> br_exchange_type B (su_exchange_type x) then raise ValueError
          else seq (broker_call B (DeclareExchange (su_exchange_name x) (su_exchange_type x) (su_durable x))) (\<lambda>_.
            broker_call B (BindQueue (su_queue_name x) (su_exchange_name x) (su_routing_key x)))) (\<lambda>_.
     broker_call B (SetQos (su_prefetch_count x))))"

definition initialize_subscriptions :: "rabbit_broker \<Rightarrow> message_configuration \<Rightarrow> unit rabbit_act" where
  "initialize_subscriptions B c =
     seq (gets rs_channel) (\<lambda>channel.
     if \<not> channel then raise RuntimeError
     else case mq_rabbit c of
       None \<Rightarrow> ret ()
     | Some r \<Rightarrow> for_each (declare_subscription B) (rc_consumer_subscriptions r))"

definition close_service :: "rabbit_broker \<Rightarrow> unit rabbit_act" where
  "close_service B =
     seq (gets (\<lambda>s. rs_channel s \<and> \<not> br_channel_closed B (rs_calls s))) (\<lambda>open_channel.
     seq (if open_channel then except_any (broker_call B CloseChannel) (\<lambda>_. ret ()) else ret ()) (\<lambda>_.
     seq (gets (\<lambda>s. rs_connection s \<and> \<not> br_connection_closed B (rs_calls s))) (\<lambda>open_connection.
     if open_connection then except_any (broker_call B CloseConnection) (\<lambda>_. ret ()) else ret ())))"

section \<open>Starting the worker\<close>

definition start_consumer :: "rabbit_broker \<Rightarrow> consumer_subscription \<Rightarrow> unit rabbit_act" where
  "start_consumer B x =
     seq (broker_call B (DeclareQueue (su_queue_name x) (su_durable x))) (\<lambda>_.
     seq (broker_call B (SetQos (su_prefetch_count x))) (\<lambda>_.
     broker_call B (ConsumeQueue (su_queue_name x))))"

definition start_consuming :: "rabbit_broker \<Rightarrow> consumer_subscription list \<Rightarrow> unit rabbit_act" where
  "start_consuming B xs = for_each (start_consumer B) xs"

definition initialize_worker :: "message_configuration \<Rightarrow> py_exn + rabbit_service" where
  "initialize_worker c = (if \<not> truthy_opt (mq_connection c) then Inl ValueError else Inr new_rabbit_service)"

definition configured_subscriptions :: "message_configuration \<Rightarrow> consumer_subscription list" where
  "configured_subscriptions c = (case mq_rabbit c of None \<Rightarrow> [] | Some r \<Rightarrow> rc_consumer_subscriptions r)"

text \<open>\<open>run_worker\<close> returns whether the worker went on to wait for messages.\<close>

definition run_worker :: "rabbit_broker \<Rightarrow> message_configuration \<Rightarrow> bool rabbit_act" where
  "run_worker B c =
     seq (create_connection B) (\<lambda>_.
     seq (initialize_subscriptions B c) (\<lambda>_.
     seq (gets rs_channel) (\<lambda>channel.
     if \<not> channel then raise RuntimeError
     else if configured_subscriptions c = [] then ret False
     else seq (start_consuming B (configured_subscriptions c)) (\<lambda>_. ret True))))"

section \<open>The topology a configuration asks for\<close>

definition declare_calls :: "consumer_subscription \<Rightarrow> rabbit_call list" where
  "declare_calls x =
     [DeclareQueue (su_queue_name x) (su_durable x)] @
     (if su_exchange_name x = [] then []
      else [DeclareExchange (su_exchange_name x) (su_exchange_type x) (su_durable x),
            BindQueue (su_queue_name x) (su_exchange_name x) (su_routing_key x)]) @
     [SetQos (su_prefetch_count x)]"

definition consume_calls :: "consumer_subscription \<Rightarrow> rabbit_call list" where
  "consume_calls x = [DeclareQueue (su_queue_name x) (su_durable x), SetQos (su_prefetch_count x), ConsumeQueue (su_queue_name x)]"

definition topology_calls :: "consumer_subscription list \<Rightarrow> rabbit_call list" where
  "topology_calls xs = [Connect, OpenChannel] @ concat (map declare_calls xs) @ concat (map consume_calls xs)"

text \<open>A run that makes the calls of a script in order and stops at the first failure.\<close>

definition follows :: "'a rabbit_act \<Rightarrow> rabbit_call list \<Rightarrow> bool" where
  "follows m cs \<longleftrightarrow> (\<forall>s r s'. m s = (r, s') \<longrightarrow> (rs_channel s \<longrightarrow> rs_channel s') \<and>
     (\<exists>done_calls. rs_calls s' = rs_calls s @ done_calls \<and> prefix done_calls cs \<and>
       ((\<exists>v. r = Inr v) \<longrightarrow> done_calls = cs)))"

lemma follows_ret [intro]: "follows (ret x) []"
  by (auto simp: follows_def)

lemma follows_raise [intro]: "follows (raise e) cs"
  by (auto simp: follows_def)

lemma follows_call [intro]: "follows (broker_call B c) [c]"
  by (auto simp: follows_def broker_call_def)

lemma follows_keep [intro]: "(\<And>s. rs_calls (f s) = rs_calls s \<and> (rs_channel s \<longrightarrow> rs_channel (f s))) \<Longrightarrow> follows (modify f) []"
  by (auto simp: follows_def)

lemma follows_seq:
  assumes m: "follows m cs" and k: "\<And>x. follows (k x) ds"
  shows "follows (seq m k) (cs @ ds)"
  unfolding follows_def
proof (intro allI impI)
  fix s r s' assume run: "seq m k s = (r, s')"
  obtain q s1 where q: "m s = (q, s1)" by (rule prod.exhaust)
  note qs = m [unfolded follows_def, rule_format, OF q]
  show "(rs_channel s \<longrightarrow> rs_channel s') \<and> (\<exists>done_calls. rs_calls s' = rs_calls s @ done_calls \<and>
      prefix done_calls (cs @ ds) \<and> ((\<exists>v. r = Inr v) \<longrightarrow> done_calls = cs @ ds))"
  proof (cases q)
    case (Inl e)
    with run q qs show ?thesis by (auto simp: seq_run prefix_def)
  next
    case (Inr x)
    with run q have "k x s1 = (r, s')" by (simp add: seq_run)
    from k [unfolded follows_def, rule_format, OF this] qs Inr show ?thesis by fastforce
  qed
qed

lemma follows_for_each: "(\<And>x. follows (f x) (g x)) \<Longrightarrow> follows (for_each f xs) (concat (map g xs))"
  by (induction xs) (auto intro: follows_seq)

lemma follows_gets: "(\<And>x. follows (k x) cs) \<Longrightarrow> follows (seq (gets f) k) cs"
  using follows_seq [of "gets f" "[]" k cs] by (auto simp: follows_def)

lemma follows_declare: "follows (declare_subscription B x) (declare_calls x)"
  unfolding declare_subscription_def declare_calls_def
  by (intro follows_seq follows_call) (auto intro: follows_seq [of _ "[_]" _ "[_]", simplified])

lemma follows_consume: "follows (start_consumer B x) (consume_calls x)"
  unfolding start_consumer_def consume_calls_def
  by (auto intro!: follows_seq [of _ "[_]", simplified])

text \<open>
  C34. The worker builds the topology its configuration asks for, in order: on a fresh service, whatever
  the broker answers, the calls made are a prefix of the script (connect, channel, per subscription
  its queue, its exchange and binding when it names one, its prefetch, then per subscription the
  consumer under that prefetch); a worker that goes on to wait has made all of them.
\<close>

theorem worker_follows_topology:
  assumes "run_worker B c new_rabbit_service = (r, s)"
  shows "prefix (rs_calls s) (topology_calls (configured_subscriptions c)) \<and>
    (r = Inr True \<longrightarrow> rs_calls s = topology_calls (configured_subscriptions c) \<and> configured_subscriptions c \<noteq> []) \<and>
    (r = Inr False \<longrightarrow> rs_calls s = [Connect, OpenChannel] \<and> configured_subscriptions c = [])"
proof -
  have conn: "follows (create_connection B) [Connect, OpenChannel]"
    unfolding create_connection_def
    by (rule follows_seq [of _ "[_]" _ "[_]", simplified] follows_seq [of _ "[]", simplified]
        follows_seq [of _ "[_]" _ "[]", simplified] | rule follows_call follows_keep | simp)+
  have "follows (initialize_subscriptions B c) (concat (map declare_calls (configured_subscriptions c)))"
    unfolding initialize_subscriptions_def configured_subscriptions_def
    by (auto intro!: follows_gets follows_for_each follows_declare split: option.split)
  note all = follows_seq [OF conn follows_seq [OF this]]
  have cons: "follows (seq (gets rs_channel) (\<lambda>channel. if \<not> channel then raise RuntimeError
     else if configured_subscriptions c = [] then ret False
     else seq (start_consuming B (configured_subscriptions c)) (\<lambda>_. ret True)))
     (concat (map consume_calls (configured_subscriptions c)))"
    unfolding start_consuming_def
    by (auto intro!: follows_gets follows_seq [of _ "concat _" _ "[]", simplified] follows_for_each follows_consume)
  have "follows (run_worker B c) (topology_calls (configured_subscriptions c))"
    using all [OF cons] by (simp add: run_worker_def topology_calls_def)
  then have f: "prefix (rs_calls s) (topology_calls (configured_subscriptions c)) \<and>
      ((\<exists>v. r = Inr v) \<longrightarrow> rs_calls s = topology_calls (configured_subscriptions c))"
    using assms by (fastforce simp: follows_def new_rabbit_service_def)
  moreover have "(r = Inr True \<longrightarrow> configured_subscriptions c \<noteq> []) \<and> (r = Inr False \<longrightarrow> configured_subscriptions c = [])"
    using assms by (auto simp: run_worker_def act_simps split: prod.splits sum.splits if_splits)
  ultimately show ?thesis by (auto simp: topology_calls_def)
qed

text \<open>A broker that accepts the queue and refuses the exchange: the worker stops there.\<close>

definition sample_broker :: rabbit_broker where
  "sample_broker = \<lparr>br_answer = (\<lambda>cs c. if c = DeclareExchange ''orders'' ''fanout'' True then Inl OtherError else Inr ()),
     br_exchange_type = (\<lambda>t. t = ''fanout''), br_channel_closed = (\<lambda>_. False), br_connection_closed = (\<lambda>_. False)\<rparr>"

definition sample_configuration :: "string \<Rightarrow> message_configuration" where
  "sample_configuration exchange_name = \<lparr>mq_connection = Some ''amqp://h'', mq_service_name = None, mq_queues = [], mq_topics = [],
     mq_consumer_subscriptions = None, mq_azure = None,
     mq_rabbit = Some \<lparr>rc_consumer_subscriptions = [bind_to_queue_via_exchange ''jobs'' exchange_name 5 False], rc_message_ttl_seconds = 0\<rparr>\<rparr>"

theorem worker_follows_topology_witness:
  "\<exists>s. run_worker sample_broker (sample_configuration ''orders'') new_rabbit_service = (Inl OtherError, s) \<and>
    prefix (rs_calls s) (topology_calls (configured_subscriptions (sample_configuration ''orders''))) \<and>
    (\<exists>t. run_worker sample_broker (sample_configuration []) new_rabbit_service = (Inr True, t) \<and>
      rs_calls t = [Connect, OpenChannel, DeclareQueue ''jobs'' True, SetQos 5, DeclareQueue ''jobs'' True, SetQos 5, ConsumeQueue ''jobs''])"
proof -
  note defs = run_worker_def create_connection_def initialize_subscriptions_def declare_subscription_def broker_call_def
    start_consuming_def start_consumer_def configured_subscriptions_def sample_broker_def sample_configuration_def
    new_rabbit_service_def bind_to_queue_via_exchange_def subscription_def seq_run modify_run gets_run ret_run
  obtain s where s: "run_worker sample_broker (sample_configuration ''orders'') new_rabbit_service = (Inl OtherError, s)"
    by (simp add: defs)
  obtain t where t: "run_worker sample_broker (sample_configuration []) new_rabbit_service = (Inr True, t)"
    by (simp add: defs)
  from s t worker_follows_topology [OF s] worker_follows_topology [OF t] show ?thesis
    by (auto simp: topology_calls_def configured_subscriptions_def sample_configuration_def declare_calls_def
        consume_calls_def bind_to_queue_via_exchange_def subscription_def)
qed

section \<open>The life of a worker\<close>

text \<open>The worker object: its service once it is initialised, and its stop event. A run reports whether the
  worker is left waiting for that event.\<close>

record rabbit_worker =
  rw_service :: "rabbit_service option"
  rw_stopping :: bool

definition new_rabbit_worker :: rabbit_worker where
  "new_rabbit_worker = \<lparr>rw_service = None, rw_stopping = False\<rparr>"

type_synonym 'a rabbit_worker_act = "(rabbit_worker, 'a) act"

definition initialize_rabbit_worker :: "message_configuration \<Rightarrow> unit rabbit_worker_act" where
  "initialize_rabbit_worker c =
     seq (lift_exn (initialize_worker c)) (\<lambda>s. modify (\<lambda>w. w\<lparr>rw_service := Some s\<rparr>))"

definition run_rabbit_worker :: "rabbit_broker \<Rightarrow> message_configuration \<Rightarrow> bool rabbit_worker_act" where
  "run_rabbit_worker B c = (\<lambda>w. case rw_service w of
       None \<Rightarrow> (Inl RuntimeError, w)
     | Some s \<Rightarrow> (case run_worker B c s of
         (r, s') \<Rightarrow> (map_sum id (\<lambda>consuming. consuming \<and> \<not> rw_stopping w) r, w\<lparr>rw_service := Some s'\<rparr>)))"

definition stop_rabbit_worker :: "rabbit_broker \<Rightarrow> unit rabbit_worker_act" where
  "stop_rabbit_worker B =
     seq (modify (\<lambda>w. w\<lparr>rw_stopping := True\<rparr>)) (\<lambda>_ w. case rw_service w of
       None \<Rightarrow> (Inr (), w)
     | Some s \<Rightarrow> (case close_service B s of (r, s') \<Rightarrow> (r, w\<lparr>rw_service := Some s'\<rparr>)))"

text \<open>Closing makes at most two calls, the channel's before the connection's, and raises whatever the broker answers
  to neither.\<close>

lemma close_service_run:
  assumes "\<And>cs c. br_answer B cs c \<noteq> Inl Unmodelled"
  shows "\<exists>cs. close_service B s = (Inr (), s\<lparr>rs_calls := rs_calls s @ cs\<rparr>) \<and>
    cs = (if rs_channel s \<and> \<not> br_channel_closed B (rs_calls s) then [CloseChannel] else []) @
      (if rs_connection s \<and> \<not> br_connection_closed B (rs_calls s @
          (if rs_channel s \<and> \<not> br_channel_closed B (rs_calls s) then [CloseChannel] else [])) then [CloseConnection] else [])"
  using assms [of "rs_calls s" CloseChannel] assms [of "rs_calls s" CloseConnection] assms [of "rs_calls s @ [CloseChannel]" CloseConnection]
  by (auto simp: close_service_def broker_call_def act_simps split: sum.splits)

lemma stopping_run: "rw_stopping w \<Longrightarrow> fst (run_rabbit_worker B c w) \<noteq> Inr True"
  by (cases "fst (run_worker B c (the (rw_service w)))") (auto simp: run_rabbit_worker_def split: option.split prod.split)

text \<open>Stopping never raises; a worker that waits is woken, one that is run afterwards does not wait, and a worker
  that was never initialised makes no call.\<close>

lemma stop_releases_broker:
  assumes "\<And>cs c. br_answer B cs c \<noteq> Inl Unmodelled"
  shows "\<exists>w'. stop_rabbit_worker B w = (Inr (), w') \<and> rw_stopping w' \<and> fst (run_rabbit_worker B' c w') \<noteq> Inr True \<and>
    (case rw_service w of
       None \<Rightarrow> rw_service w' = None
     | Some s \<Rightarrow> \<exists>s'. rw_service w' = Some s' \<and>
         (rs_channel s \<and> rs_connection s \<and> \<not> br_channel_closed B (rs_calls s) \<and>
            \<not> br_connection_closed B (rs_calls s @ [CloseChannel]) \<longrightarrow>
          rs_calls s' = rs_calls s @ [CloseChannel, CloseConnection]))"
proof (cases "rw_service w")
  case None
  then show ?thesis using stopping_run [of _ B' c] by (simp add: stop_rabbit_worker_def act_simps)
next
  case (Some s)
  from close_service_run [of B s, OF assms] obtain s' where "close_service B s = (Inr (), s')"
    "rs_channel s \<and> rs_connection s \<and> \<not> br_channel_closed B (rs_calls s) \<and> \<not> br_connection_closed B (rs_calls s @ [CloseChannel]) \<Longrightarrow>
      rs_calls s' = rs_calls s @ [CloseChannel, CloseConnection]" by force
  with Some show ?thesis
    using stopping_run [of _ B' c] by (auto simp: stop_rabbit_worker_def act_simps)
qed

text \<open>Run before it is initialised it raises and makes no call; initialising needs a connection.\<close>

lemma uninitialised_worker:
  "run_rabbit_worker B c new_rabbit_worker = (Inl RuntimeError, new_rabbit_worker)"
  "\<not> truthy_opt (mq_connection c) \<Longrightarrow> initialize_rabbit_worker c w = (Inl ValueError, w)"
  by (simp_all add: run_rabbit_worker_def new_rabbit_worker_def initialize_rabbit_worker_def initialize_worker_def act_simps)

end
