(* ===== verification/Message_Client.thy ===== *)
theory Message_Client
  imports Rabbit_Service
begin

text \<open>
  The senders of both brokers: \<^verbatim>\<open>rabbit_message_client.py\<close> and
  \<^verbatim>\<open>azure_message_client.py\<close>. A send reads the ambient context, writes it without
  its secrets into the message's headers, asks the grant factory for a delegation grant and hands the
  message to the broker. The broker is a parameter; the trace ids and the root attributes of the current
  span are parameters as well.
\<close>

section \<open>What both put into a message\<close>

record 'c send_env =
  sn_delegation :: "'c delegation_env"
  sn_random :: "nat list"
  sn_trace_id :: string
  sn_span_id :: string
  sn_root_attributes :: pydict

type_synonym text_headers = "(string \<times> string) list"

definition serialize_payload :: "pyval \<Rightarrow> py_exn + pydict" where
  "serialize_payload payload =
     (case payload of
        PDict d \<Rightarrow> Inr d
      | PStr s \<Rightarrow> Inr [(''message'', PStr s)]
      | _ \<Rightarrow> Inl TypeError)"

definition security_context_text :: "consumer_message \<Rightarrow> blocks_context option \<Rightarrow> string" where
  "security_context_text m c =
     (if truthy_opt (msg_context m) then or_empty (msg_context m)
      else json_dumps (PDict (create_sanitized_for_transport c)))"

definition tracing_headers :: "'c send_env \<Rightarrow> consumer_message \<Rightarrow> blocks_context option \<Rightarrow> text_headers" where
  "tracing_headers E m c =
     [(''TenantId'', case c of None \<Rightarrow> [] | Some x \<Rightarrow> tenant_id x),
      (''TraceId'', sn_trace_id E), (''SpanId'', sn_span_id E),
      (''SecurityContext'', security_context_text m c),
      (''Baggage'', json_dumps (PDict (sn_root_attributes E)))]"

definition with_grant :: "text_headers \<Rightarrow> string option \<Rightarrow> text_headers" where
  "with_grant hs g = (if truthy_opt g then AList.update DELEGATION_GRANT_HEADER (or_empty g) hs else hs)"

text \<open>The headers and the text of a message, with the grant written on the way.\<close>

definition envelope_of ::
  "'c send_env \<Rightarrow> consumer_message \<Rightarrow> blocks_context option \<Rightarrow> ('c, text_headers \<times> string) delegation_act" where
  "envelope_of E m c =
     seq (lift_exn (serialize_payload (PDict (msg_payload m)))) (\<lambda>payload.
     seq (create_for_send (sn_delegation E) (sn_random E) (msg_delegation_ttl_seconds m)) (\<lambda>g.
     ret (with_grant (tracing_headers E m c) g,
          dump_event \<lparr>ev_body = json_dumps (PDict payload), ev_type = msg_payload_type m\<rparr>)))"

section \<open>RabbitMQ\<close>

record publication =
  pb_exchange :: "string option"
  pb_routing_key :: string
  pb_mandatory :: bool
  pb_persistent :: bool
  pb_expiration :: "int option"
  pb_headers :: text_headers
  pb_body :: string

record 'c rabbit_client =
  rb_delegation :: "'c delegation_world"
  rb_service :: rabbit_service
  rb_initialized :: bool
  rb_published :: "publication list"

record 'c rabbit_client_env =
  rv_send :: "'c send_env"
  rv_broker :: rabbit_broker
  rv_configuration :: message_configuration
  rv_get_exchange :: "string \<Rightarrow> py_exn + unit"
  rv_publish :: "publication list \<Rightarrow> publication \<Rightarrow> py_exn + unit"

type_synonym ('c, 'a) rabbit_client_act = "('c rabbit_client, 'a) act"

definition on_service :: "'a rabbit_act \<Rightarrow> ('c, 'a) rabbit_client_act" where
  "on_service m = (\<lambda>w. case m (rb_service w) of (r, s) \<Rightarrow> (r, w\<lparr>rb_service := s\<rparr>))"

definition rabbit_delegation :: "('c, 'a) delegation_act \<Rightarrow> ('c, 'a) rabbit_client_act" where
  "rabbit_delegation m = (\<lambda>w. case m (rb_delegation w) of (r, d) \<Rightarrow> (r, w\<lparr>rb_delegation := d\<rparr>))"

definition ensure_initialized :: "'c rabbit_client_env \<Rightarrow> ('c, unit) rabbit_client_act" where
  "ensure_initialized V =
     seq (gets rb_initialized) (\<lambda>i.
     if i then ret ()
     else
     seq (on_service (create_connection (rv_broker V))) (\<lambda>_.
     seq (gets (\<lambda>w. rs_channel (rb_service w))) (\<lambda>channel.
     if \<not> channel then raise RuntimeError
     else
     seq (on_service (initialize_subscriptions (rv_broker V) (rv_configuration V))) (\<lambda>_.
     modify (\<lambda>w. w\<lparr>rb_initialized := True\<rparr>)))))"

definition rabbit_publish :: "'c rabbit_client_env \<Rightarrow> publication \<Rightarrow> ('c, unit) rabbit_client_act" where
  "rabbit_publish V p =
     seq (case pb_exchange p of None \<Rightarrow> ret () | Some x \<Rightarrow> lift_exn (rv_get_exchange V x)) (\<lambda>_.
     seq (gets (\<lambda>w. rv_publish V (rb_published w) p)) (\<lambda>r.
     seq (lift_exn r) (\<lambda>_.
     modify (\<lambda>w. w\<lparr>rb_published := rb_published w @ [p]\<rparr>))))"

text \<open>The time to live is read after the grant was written.\<close>

definition rabbit_send :: "'c rabbit_client_env \<Rightarrow> consumer_message \<Rightarrow> bool \<Rightarrow> ('c, bool) rabbit_client_act" where
  "rabbit_send V m is_exchange =
     seq (ensure_initialized V) (\<lambda>_.
     seq (gets (\<lambda>w. get_context None (dl_ambient (rb_delegation w)))) (\<lambda>security_context.
     seq (rabbit_delegation (envelope_of (rv_send V) m security_context)) (\<lambda>(hs, body).
     seq (case mq_rabbit (rv_configuration V) of None \<Rightarrow> raise AttributeError | Some r \<Rightarrow> ret (rc_message_ttl_seconds r)) (\<lambda>ttl.
     seq (gets (\<lambda>w. rs_channel (rb_service w))) (\<lambda>channel.
     if \<not> channel then raise RuntimeError
     else
     seq (rabbit_publish V \<lparr>pb_exchange = (if is_exchange then Some (msg_consumer_name m) else None),
            pb_routing_key = (if is_exchange then msg_routing_key m else msg_consumer_name m),
            pb_mandatory = True, pb_persistent = True, pb_expiration = (if ttl > 0 then Some ttl else None),
            pb_headers = hs, pb_body = body\<rparr>) (\<lambda>_. ret True))))))"

definition rabbit_client_close :: "'c rabbit_client_env \<Rightarrow> ('c, unit) rabbit_client_act" where
  "rabbit_client_close V =
     seq (on_service (close_service (rv_broker V))) (\<lambda>_. modify (\<lambda>w. w\<lparr>rb_initialized := False\<rparr>))"

section \<open>Azure Service Bus\<close>

text \<open>A sender is the client's n-th, for a queue or a topic.\<close>

datatype sender_kind = QueueSender | TopicSender

record sender =
  sr_name :: string
  sr_kind :: sender_kind
  sr_serial :: nat

record bus_message =
  bm_properties :: "(string \<times> pyval) list"
  bm_body :: string

datatype azure_send_event =
    Attempt sender bus_message "py_exn + unit"
  | CloseSender sender

record 'c azure_client =
  az_delegation :: "'c delegation_world"
  az_senders :: "(string \<times> sender) list"
  az_built :: nat
  az_log :: "azure_send_event list"

record 'c azure_client_env =
  av_send :: "'c send_env"
  av_azure :: azure_configuration
  av_deliver :: "azure_send_event list \<Rightarrow> sender \<Rightarrow> bus_message \<Rightarrow> py_exn + unit"

type_synonym ('c, 'a) azure_client_act = "('c azure_client, 'a) act"

definition azure_delegation :: "('c, 'a) delegation_act \<Rightarrow> ('c, 'a) azure_client_act" where
  "azure_delegation m = (\<lambda>w. case m (az_delegation w) of (r, d) \<Rightarrow> (r, w\<lparr>az_delegation := d\<rparr>))"

definition sender_kind_of :: "azure_configuration \<Rightarrow> string \<Rightarrow> sender_kind" where
  "sender_kind_of c name = (if name \<in> set (ac_queues c) then QueueSender else TopicSender)"

definition build_sender :: "'c azure_client_env \<Rightarrow> string \<Rightarrow> ('c, sender) azure_client_act" where
  "build_sender V name = (\<lambda>w.
     (Inr \<lparr>sr_name = name, sr_kind = sender_kind_of (av_azure V) name, sr_serial = az_built w\<rparr>,
      w\<lparr>az_built := az_built w + 1\<rparr>))"

definition put_sender :: "string \<Rightarrow> sender \<Rightarrow> ('c, unit) azure_client_act" where
  "put_sender name s = modify (\<lambda>w. w\<lparr>az_senders := AList.update name s (az_senders w)\<rparr>)"

definition initialize_senders :: "'c azure_client_env \<Rightarrow> ('c, unit) azure_client_act" where
  "initialize_senders V =
     for_each (\<lambda>name. seq (build_sender V name) (put_sender name)) (ac_queues (av_azure V) @ ac_topics (av_azure V))"

definition get_sender :: "'c azure_client_env \<Rightarrow> string \<Rightarrow> ('c, sender) azure_client_act" where
  "get_sender V name =
     seq (gets (\<lambda>w. map_of (az_senders w) name)) (\<lambda>known.
     case known of
       Some s \<Rightarrow> ret s
     | None \<Rightarrow> seq (build_sender V name) (\<lambda>s. seq (put_sender name s) (\<lambda>_. ret s)))"

text \<open>Closing the stale sender is best effort.\<close>

definition replace_sender :: "'c azure_client_env \<Rightarrow> string \<Rightarrow> ('c, sender) azure_client_act" where
  "replace_sender V name =
     seq (gets (\<lambda>w. map_of (az_senders w) name)) (\<lambda>stale.
     seq (modify (\<lambda>w. w\<lparr>az_senders := AList.delete name (az_senders w)\<rparr>)) (\<lambda>_.
     seq (case stale of None \<Rightarrow> ret () | Some s \<Rightarrow> modify (\<lambda>w. w\<lparr>az_log := az_log w @ [CloseSender s]\<rparr>)) (\<lambda>_.
     get_sender V name)))"

definition send_on :: "'c azure_client_env \<Rightarrow> bus_message \<Rightarrow> sender \<Rightarrow> ('c, unit) azure_client_act" where
  "send_on V b s =
     seq (gets (\<lambda>w. av_deliver V (az_log w) s b)) (\<lambda>r.
     seq (modify (\<lambda>w. w\<lparr>az_log := az_log w @ [Attempt s b r]\<rparr>)) (\<lambda>_. lift_exn r))"

definition deliver :: "'c azure_client_env \<Rightarrow> string \<Rightarrow> bus_message \<Rightarrow> ('c, unit) azure_client_act" where
  "deliver V name b =
     seq (get_sender V name) (\<lambda>s.
     except_any (send_on V b s) (\<lambda>_. seq (replace_sender V name) (send_on V b)))"

text \<open>The code guards against a missing context when it builds the properties, but reads the tenant of
  the context before, for the trace.\<close>

definition azure_send :: "'c azure_client_env \<Rightarrow> consumer_message \<Rightarrow> ('c, bool) azure_client_act" where
  "azure_send V m =
     seq (gets (\<lambda>w. get_context None (dl_ambient (az_delegation w)))) (\<lambda>security_context.
     if security_context = None then raise AttributeError
     else
     seq (azure_delegation (envelope_of (av_send V) m security_context)) (\<lambda>(hs, body).
     seq (deliver V (msg_consumer_name m) \<lparr>bm_properties = map (\<lambda>(k, v). (k, PStr v)) hs, bm_body = body\<rparr>)
       (\<lambda>_. ret True)))"

section \<open>The senders\<close>

text \<open>Every sender is the one built for its name, of the configured kind, and older than the next.\<close>

definition senders_ok :: "'c azure_client_env \<Rightarrow> 'c azure_client \<Rightarrow> bool" where
  "senders_ok V w \<longleftrightarrow>
     (\<forall>(n, s) \<in> set (az_senders w). sr_name s = n \<and> sr_kind s = sender_kind_of (av_azure V) n \<and> sr_serial s < az_built w)"

lemma senders_okD:
  "senders_ok V w \<Longrightarrow> map_of (az_senders w) n = Some s \<Longrightarrow>
     sr_name s = n \<and> sr_kind s = sender_kind_of (av_azure V) n \<and> sr_serial s < az_built w"
  by (fastforce simp: senders_ok_def dest: map_of_SomeD)

lemma senders_ok_log [simp]: "senders_ok V (w\<lparr>az_log := l\<rparr>) = senders_ok V w"
  by (simp add: senders_ok_def)

lemma senders_ok_delete: "senders_ok V w \<Longrightarrow> senders_ok V (w\<lparr>az_senders := AList.delete n (az_senders w)\<rparr>)"
  by (auto simp: senders_ok_def dest: set_delete_subset)

lemma get_sender_run:
  assumes "get_sender V n w = (r, w')" and "senders_ok V w"
  obtains s where "r = Inr s" and "map_of (az_senders w') n = Some s" and "senders_ok V w'" and "az_log w' = az_log w"
    and "az_delegation w' = az_delegation w" and "map_of (az_senders w) n = Some s \<and> w' = w \<or>
      map_of (az_senders w) n = None \<and> sr_serial s = az_built w"
proof (cases "map_of (az_senders w) n")
  case (Some s)
  with assms that show ?thesis by (auto simp: get_sender_def act_simps)
next
  case None
  let ?s = "\<lparr>sr_name = n, sr_kind = sender_kind_of (av_azure V) n, sr_serial = az_built w\<rparr>"
  have w': "r = Inr ?s" "w' = w\<lparr>az_built := az_built w + 1, az_senders := AList.update n ?s (az_senders w)\<rparr>"
    using assms(1) None by (auto simp: get_sender_def build_sender_def put_sender_def act_simps)
  have "set (AList.update n ?s (az_senders w)) \<subseteq> insert (n, ?s) (set (az_senders w))" by (rule set_update_subset)
  then have "senders_ok V w'" using assms(2) unfolding w' senders_ok_def by (fastforce simp: less_Suc_eq)
  then show ?thesis using that w' None by simp
qed

lemma send_on_run:
  "send_on V b s w = (av_deliver V (az_log w) s b, w\<lparr>az_log := az_log w @ [Attempt s b (av_deliver V (az_log w) s b)]\<rparr>)"
  by (simp add: send_on_def act_simps)

lemma deliver_run:
  assumes "deliver V n b w = (r, w')" and "senders_ok V w"
  shows "senders_ok V w' \<and> az_delegation w' = az_delegation w \<and>
    ((\<exists>s. az_log w' = az_log w @ [Attempt s b r] \<and> (r = Inr () \<or> r = Inl Unmodelled) \<and>
        map_of (az_senders w') n = Some s) \<or>
     (\<exists>s e s'. az_log w' = az_log w @ [Attempt s b (Inl e), CloseSender s, Attempt s' b r] \<and>
        map_of (az_senders w') n = Some s' \<and> sr_serial s < sr_serial s' \<and>
        sr_kind s' = sender_kind_of (av_azure V) n))"
proof -
  obtain q w1 where q: "get_sender V n w = (q, w1)" by (rule prod.exhaust)
  from get_sender_run [OF this assms(2)] obtain s where s: "q = Inr s" "map_of (az_senders w1) n = Some s"
      "senders_ok V w1" "az_log w1 = az_log w" "az_delegation w1 = az_delegation w" by metis
  let ?x = "av_deliver V (az_log w1) s b"
  show ?thesis
  proof (cases "?x = Inr () \<or> ?x = Inl Unmodelled")
    case True
    with assms(1) q s show ?thesis by (auto simp: deliver_def seq_run except_any_run send_on_run)
  next
    case False
    then obtain e where e: "?x = Inl e" "e \<noteq> Unmodelled" by (cases ?x) auto
    define w2 where "w2 = w1\<lparr>az_senders := AList.delete n (az_senders w1),
      az_log := az_log w1 @ [Attempt s b (Inl e), CloseSender s]\<rparr>"
    obtain q' w3 where q': "get_sender V n w2 = (q', w3)" by (rule prod.exhaust)
    have ok2: "senders_ok V w2" using senders_ok_delete [OF s(3), of n] by (simp add: w2_def senders_ok_def)
    have gone: "map_of (az_senders w2) n = None" by (simp add: w2_def)
    from get_sender_run [OF q' ok2] gone obtain s' where s': "q' = Inr s'" "map_of (az_senders w3) n = Some s'" "senders_ok V w3"
        "az_log w3 = az_log w2" "az_delegation w3 = az_delegation w2" "sr_serial s' = az_built w2"
      by (metis option.distinct(1))
    have "deliver V n b w = send_on V b s' w3"
      using q s e q' s'(1) by (simp add: deliver_def seq_run except_any_run send_on_run replace_sender_def modify_run gets_run w2_def)
    with assms(1) have r: "r = av_deliver V (az_log w3) s' b" "w' = w3\<lparr>az_log := az_log w3 @ [Attempt s' b r]\<rparr>"
      by (auto simp: send_on_run)
    have log: "az_log w' = az_log w @ [Attempt s b (Inl e), CloseSender s, Attempt s' b r]"
      using s'(4) s(4) by (subst r(2)) (simp add: w2_def)
    have "sr_serial s < sr_serial s'" "sr_kind s' = sender_kind_of (av_azure V) n"
      using senders_okD [OF s(3,2)] senders_okD [OF s'(3,2)] s'(6) by (simp_all add: w2_def)
    moreover have "senders_ok V w'" "az_delegation w' = az_delegation w" "map_of (az_senders w') n = Some s'"
      using s' s(5) by (simp_all add: r(2) w2_def)
    ultimately show ?thesis using log by blast
  qed
qed

text \<open>
  A message is offered to the broker once, or twice when the first attempt failed: then the failed
  sender was closed and replaced, the second attempt is on a sender built after it, and its outcome is
  the outcome of the send. The sender kept for the destination is the one that was used last, of the
  kind the destination is configured as.
\<close>

theorem azure_delivery_attempts:
  assumes "deliver V n b w = (r, w')" and "senders_ok V w"
  shows "senders_ok V w' \<and> az_delegation w' = az_delegation w \<and>
    ((\<exists>s. az_log w' = az_log w @ [Attempt s b r] \<and> (r = Inr () \<or> r = Inl Unmodelled) \<and>
        map_of (az_senders w') n = Some s) \<or>
     (\<exists>s e s'. az_log w' = az_log w @ [Attempt s b (Inl e), CloseSender s, Attempt s' b r] \<and>
        map_of (az_senders w') n = Some s' \<and> sr_serial s < sr_serial s' \<and>
        sr_kind s' = sender_kind_of (av_azure V) n))"
  by (rule deliver_run [OF assms])

text \<open>Without a context a send to Azure raises before anything is sent, although the properties have a
  value for that case.\<close>

lemma azure_send_needs_context:
  "get_context None (dl_ambient (az_delegation w)) = None \<Longrightarrow> azure_send V m w = (Inl AttributeError, w)"
  by (simp add: azure_send_def act_simps)

section \<open>A client\<close>

definition sample_send_env :: "(string \<times> string) list send_env" where
  "sample_send_env = \<lparr>sn_delegation = table_env, sn_random = zero_bytes, sn_trace_id = ''t'', sn_span_id = ''s'', sn_root_attributes = []\<rparr>"

definition sample_azure_env :: "(string \<times> string) list azure_client_env" where
  "sample_azure_env = \<lparr>av_send = sample_send_env, av_azure = default_azure\<lparr>ac_queues := [''jobs'']\<rparr>,
     av_deliver = (\<lambda>l s b. if sr_serial s = 0 then Inl OtherError else Inr ())\<rparr>"

definition sample_azure_client :: "(string \<times> string) list azure_client" where
  "sample_azure_client = \<lparr>az_delegation = worker_world, az_senders = [], az_built = 0, az_log = []\<rparr>"

text \<open>The first sender's link is dead, so the message goes out on the second.\<close>

theorem azure_delivery_attempts_witness:
  "\<exists>w' s s' b. deliver sample_azure_env ''jobs'' b sample_azure_client = (Inr (), w') \<and>
    az_log w' = [Attempt s b (Inl OtherError), CloseSender s, Attempt s' b (Inr ())] \<and> sr_kind s' = QueueSender"
proof -
  let ?b = "\<lparr>bm_properties = [], bm_body = []\<rparr>"
  obtain w' where run: "deliver sample_azure_env ''jobs'' ?b sample_azure_client = (Inr (), w')"
    and l: "hd (az_log w') = Attempt \<lparr>sr_name = ''jobs'', sr_kind = QueueSender, sr_serial = 0\<rparr> ?b (Inl OtherError)"
    by (simp add: deliver_def get_sender_def build_sender_def put_sender_def send_on_def replace_sender_def act_simps
        sample_azure_env_def sample_azure_client_def sender_kind_of_def)
  have "senders_ok sample_azure_env sample_azure_client" by (simp add: senders_ok_def sample_azure_client_def)
  from azure_delivery_attempts [OF run this] l
  have "\<exists>s s'. az_log w' = [Attempt s ?b (Inl OtherError), CloseSender s, Attempt s' ?b (Inr ())] \<and> sr_kind s' = QueueSender"
    by (auto simp: sample_azure_client_def sender_kind_of_def sample_azure_env_def)
  with run show ?thesis by blast
qed

end
