(* ===== verification/Azure_Worker.thy ===== *)
theory Azure_Worker
  imports Message_Worker Message_Client
begin

text \<open>
  \<^verbatim>\<open>_message/azure/azure_message_worker.py\<close>: the start of the receivers, one receiver's
  loop over its messages, the handling of one message and the renewal of its lock. The renewal runs
  beside the handler; it touches nothing but the lock and is modelled by itself.
\<close>

datatype azure_body = NoBody | Sections "bytes list" | Value pyval

record azure_message =
  am_id :: string
  am_properties :: "((bytes + string) \<times> header_value) list"
  am_body :: azure_body

section \<open>Reading a message\<close>

text \<open>The decoded properties, a later one replacing an earlier one of the same name.\<close>

fun decode_items :: "((bytes + string) \<times> header_value) list \<Rightarrow> pydict \<Rightarrow> py_exn + pydict" where
  "decode_items [] d = Inr d"
| "decode_items ((k, v) # kvs) d =
     (case (case k of Inl b \<Rightarrow> utf8_decode b | Inr s \<Rightarrow> Inr s) of
        Inl e \<Rightarrow> Inl e
      | Inr name \<Rightarrow>
          (case decoded v of
             Inl e \<Rightarrow> Inl e
           | Inr x \<Rightarrow> decode_items kvs (AList.update name x d)))"

definition decode_app_properties :: "azure_message \<Rightarrow> py_exn + pydict" where
  "decode_app_properties m = decode_items (am_properties m) []"

text \<open>Sections of bytes are joined; any other iterable joins only when it is empty.\<close>

definition decode_message_body :: "azure_message \<Rightarrow> py_exn + string" where
  "decode_message_body m =
     (let join_empty = (\<lambda>empty. if empty then Inr [] else Inl TypeError) in
      case am_body m of
        NoBody \<Rightarrow> Inr ''{}''
      | Sections bs \<Rightarrow> utf8_decode (concat bs)
      | Value PNone \<Rightarrow> Inr ''{}''
      | Value (PStr s) \<Rightarrow> join_empty (s = [])
      | Value (PList xs) \<Rightarrow> join_empty (xs = [])
      | Value (PDict d) \<Rightarrow> join_empty (d = [])
      | Value v \<Rightarrow> Inr (py_str v))"

definition azure_baggage :: "'c worker_env \<Rightarrow> pyval \<Rightarrow> py_exn + unit" where
  "azure_baggage E baggage =
     (case baggage of
        PStr s \<Rightarrow>
          (case py_loads (de_float (we_delegation E)) s of
             Inl e \<Rightarrow> if e = JSONDecodeError then Inr () else Inl e
           | Inr (PDict d) \<Rightarrow> Inr ()
           | Inr _ \<Rightarrow> Inl AttributeError)
      | _ \<Rightarrow> Inl TypeError)"

text \<open>The grant header, \<^verbatim>\<open>or None\<close>; the holder looks for its prefix, which only text has.\<close>

definition grant_of_value :: "pyval \<Rightarrow> py_exn + string option" where
  "grant_of_value v =
     (if \<not> truthy v then Inr None else case v of PStr s \<Rightarrow> Inr (Some s) | _ \<Rightarrow> Inl AttributeError)"

section \<open>One message\<close>

definition process_and_complete :: "'c worker_env \<Rightarrow> azure_message \<Rightarrow> pyval \<Rightarrow> string option \<Rightarrow> ('c, unit) worker_act" where
  "process_and_complete E m baggage g =
     seq (lift_exn (azure_baggage E baggage)) (\<lambda>_.
     seq (lift_exn (decode_message_body m)) (\<lambda>body.
     seq (run_handler E body) (\<lambda>_.
     seq (settle E Complete) (\<lambda>_.
     release_delegation_grant E g))))"

definition abandon_quietly :: "'c worker_env \<Rightarrow> ('c, unit) worker_act" where
  "abandon_quietly E = except_any (settle E Abandon) (\<lambda>_. ret ())"

definition renewing :: "azure_message \<Rightarrow> ('c, unit) worker_act" where
  "renewing m = modify (\<lambda>w. w\<lparr>ww_renewals := List.insert (am_id m) (ww_renewals w)\<rparr>)"

definition stop_renewing :: "azure_message \<Rightarrow> ('c, unit) worker_act" where
  "stop_renewing m = modify (\<lambda>w. w\<lparr>ww_renewals := filter (\<lambda>i. i \<noteq> am_id m) (ww_renewals w)\<rparr>)"

definition message_handler :: "'c worker_env \<Rightarrow> azure_message \<Rightarrow> ('c, unit) worker_act" where
  "message_handler E m =
     seq (lift_exn (decode_app_properties m)) (\<lambda>d.
     seq (restore_security_context E (dget d ''SecurityContext'' (PStr []))) (\<lambda>_.
     seq (lift_exn (grant_of_value (dlookup d DELEGATION_GRANT_HEADER))) (\<lambda>g.
     seq (set_ambient (set_grant g)) (\<lambda>_.
     seq (renewing m) (\<lambda>_.
     finally_act
       (except_any (process_and_complete E m (dget d ''Baggage'' (PStr ''{}'')) g)
         (\<lambda>e. seq (abandon_quietly E) (\<lambda>_. raise e)))
       (\<lambda>_. seq (stop_renewing m) (\<lambda>_. clear_holders)))))))"

section \<open>A receiver\<close>

definition receive_one :: "'c worker_env \<Rightarrow> azure_message \<Rightarrow> ('c, unit) worker_act" where
  "receive_one E m = except_any (message_handler E m) (\<lambda>_. abandon_quietly E)"

definition process_receiver :: "'c worker_env \<Rightarrow> azure_message list \<Rightarrow> ('c, unit) worker_act" where
  "process_receiver E ms = for_each (receive_one E) ms"

text \<open>The task of a receiver, given the messages it yields and how its stream ends, when the worker stops or when
  the link to the bus fails.\<close>

definition safe_receiver_wrapper :: "'c worker_env \<Rightarrow> azure_message list \<Rightarrow> py_exn + unit \<Rightarrow> ('c, unit) worker_act" where
  "safe_receiver_wrapper E ms stream_end = except_any (seq (process_receiver E ms) (\<lambda>_. lift_exn stream_end)) (\<lambda>_. ret ())"

section \<open>Starting and stopping\<close>

record receiver =
  rc_entity :: string
  rc_subscription :: "string option"
  rc_prefetch :: int

text \<open>What stopping does, in its order: the events of the renewal tasks are set, receivers and client closed.\<close>

datatype azure_call =
    Cancel_Renewal string
  | Close_Receiver receiver
  | Close_Bus_Client

record azure_worker =
  aw_client :: bool
  aw_receivers :: "receiver list"
  aw_renewing :: "string list" \<comment> \<open>the messages whose locks are being renewed\<close>
  aw_calls :: "azure_call list"

definition new_azure_worker :: azure_worker where
  "new_azure_worker = \<lparr>aw_client = False, aw_receivers = [], aw_renewing = [], aw_calls = []\<rparr>"

definition azure_initialize :: "message_configuration \<Rightarrow> string option \<Rightarrow> (azure_worker, unit) act" where
  "azure_initialize c secret_connection =
     (if \<not> truthy_opt (mq_connection c) \<and> \<not> truthy_opt secret_connection then raise ValueError
      else modify (\<lambda>s. s\<lparr>aw_client := True\<rparr>))"

definition add_receiver :: "receiver \<Rightarrow> (azure_worker, unit) act" where
  "add_receiver x = modify (\<lambda>s. s\<lparr>aw_receivers := aw_receivers s @ [x]\<rparr>)"

text \<open>The configuration has no attribute \<^verbatim>\<open>subscription_name\<close>. The result is the list
  of receivers whose loops are run.\<close>

definition azure_run :: "message_configuration \<Rightarrow> (azure_worker, receiver list) act" where
  "azure_run c =
     seq (gets aw_client) (\<lambda>client.
     if \<not> client then raise ValueError
     else case mq_azure c of
       None \<Rightarrow> raise AttributeError
     | Some z \<Rightarrow>
         let queue_receivers = map (\<lambda>q. \<lparr>rc_entity = q, rc_subscription = None, rc_prefetch = ac_queue_prefetch z\<rparr>) (ac_queues z) in
         seq (for_each add_receiver queue_receivers) (\<lambda>_.
         if ac_topics z \<noteq> [] then raise AttributeError else ret queue_receivers))"

definition azure_call :: "(azure_call \<Rightarrow> py_exn + unit) \<Rightarrow> azure_call \<Rightarrow> (azure_worker, unit) act" where
  "azure_call answer c = seq (modify (\<lambda>s. s\<lparr>aw_calls := aw_calls s @ [c]\<rparr>)) (\<lambda>_. lift_exn (answer c))"

text \<open>A receiver that does not close is passed over, the client is not; setting an event cannot fail.\<close>

definition azure_stop :: "(azure_call \<Rightarrow> py_exn + unit) \<Rightarrow> (azure_worker, unit) act" where
  "azure_stop answer =
     seq (modify (\<lambda>s. s\<lparr>aw_calls := aw_calls s @ map Cancel_Renewal (aw_renewing s), aw_renewing := []\<rparr>)) (\<lambda>_.
     seq (gets aw_receivers) (\<lambda>receivers.
     seq (for_each (\<lambda>x. except_any (azure_call answer (Close_Receiver x)) (\<lambda>_. ret ())) receivers) (\<lambda>_.
     seq (modify (\<lambda>s. s\<lparr>aw_receivers := []\<rparr>)) (\<lambda>_.
     seq (gets aw_client) (\<lambda>client. if client then azure_call answer Close_Bus_Client else ret ())))))"

section \<open>Renewing a lock\<close>

text \<open>What the renewal task sees at each wake-up: whether the handler finished, the seconds since the
  start, how the renewal would end.\<close>

record wake =
  wk_cancelled :: bool
  wk_elapsed :: real
  wk_renewal :: "py_exn + unit"

text \<open>How often the lock was renewed, and whether the task ended within the wake-ups given.\<close>

fun renew_loop :: "real \<Rightarrow> wake list \<Rightarrow> nat \<Rightarrow> nat \<times> bool" where
  "renew_loop limit [] n = (n, False)"
| "renew_loop limit (k # ks) n =
     (if wk_cancelled k then (n, True)
      else if wk_elapsed k > limit then (n, True)
      else case wk_renewal k of Inl e \<Rightarrow> (n, True) | Inr _ \<Rightarrow> renew_loop limit ks (n + 1))"

definition auto_renewal :: "azure_configuration \<Rightarrow> wake list \<Rightarrow> nat \<times> bool" where
  "auto_renewal z ks = renew_loop (of_int (ac_max_processing_minutes z * 60)) ks 0"

section \<open>What a message leaves in the log\<close>

definition message_grant :: "azure_message \<Rightarrow> py_exn + string option" where
  "message_grant m =
     (case decode_app_properties m of Inl e \<Rightarrow> Inl e | Inr d \<Rightarrow> grant_of_value (dlookup d DELEGATION_GRANT_HEADER))"

text \<open>Completed after the handler, with the grant released after that; or processing or completing
  failed, and it is abandoned by the handler and again by the receiver; or its headers cannot be
  read, and it is abandoned once.\<close>

definition completed_log :: "string option \<Rightarrow> worker_event list" where
  "completed_log g = [Handled (Inr ()), Settled Complete (Inr ())] @ (if truthy_opt g then [Released (or_empty g)] else [])"

definition failed_log :: "worker_event list \<Rightarrow> bool" where
  "failed_log es \<longleftrightarrow> es = [] \<or> (\<exists>e. es = [Handled (Inl e)]) \<or> (\<exists>e. es = [Handled (Inr ()), Settled Complete (Inl e)])"

definition azure_outcome :: "azure_message \<Rightarrow> worker_event list \<Rightarrow> bool" where
  "azure_outcome m es \<longleftrightarrow>
     (case message_grant m of
        Inl e \<Rightarrow> \<exists>y. es = [Settled Abandon y]
      | Inr g \<Rightarrow> es = completed_log g \<or> (\<exists>pre y z. failed_log pre \<and> es = pre @ [Settled Abandon y, Settled Abandon z]))"

lemma process_and_complete_run:
  assumes "process_and_complete E m baggage g w = (r, w')" and "r \<noteq> Inl Unmodelled"
  shows "\<exists>es. ww_log w' = ww_log w @ es \<and> (r = Inr () \<longrightarrow> es = completed_log g) \<and> (r \<noteq> Inr () \<longrightarrow> failed_log es)"
  using assms
  by (auto simp: process_and_complete_def act_simps run_handler_run settle_run completed_log_def failed_log_def
      dest!: release_run split: sum.splits prod.splits) (metis old.unit.exhaust sumE)+

lemma abandon_quietly_run:
  "abandon_quietly E w = (if we_settle E (ww_log w) Abandon = Inl Unmodelled then Inl Unmodelled else Inr (),
     w\<lparr>ww_log := ww_log w @ [Settled Abandon (we_settle E (ww_log w) Abandon)]\<rparr>)"
  by (auto simp: abandon_quietly_def act_simps settle_run split: sum.split)

lemma process_and_complete_log:
  assumes "azure_baggage E baggage = Inr ()" and "decode_message_body m = Inr body"
    and "dispatch_event E body (ww_app w) = (x, a)"
  shows "\<exists>rest. ww_log (snd (process_and_complete E m baggage g w)) = ww_log w @ [Handled x] @ rest"
proof (cases x)
  case (Inl e)
  with assms show ?thesis by (simp add: process_and_complete_def act_simps run_handler_run)
next
  case (Inr u)
  define w1 where "w1 = w\<lparr>ww_app := a, ww_log := ww_log w @ [Handled (Inr ()), Settled Complete (Inr ())]\<rparr>"
  obtain r w2 where r: "release_delegation_grant E g w1 = (r, w2)" by (rule prod.exhaust)
  from release_run [OF this] have "ww_log w2 = ww_log w1 @ (if truthy_opt g then [Released (or_empty g)] else [])" by simp
  with assms Inr r show ?thesis
    by (cases "we_settle E (ww_log w @ [Handled (Inr ())]) Complete")
      (simp_all add: process_and_complete_def act_simps run_handler_run settle_run w1_def)
qed

text \<open>How a message whose headers can be read is handled, once the context is restored.\<close>

definition after_message :: "azure_message \<Rightarrow> 'c worker_state \<Rightarrow> 'c worker_state" where
  "after_message m w = snd (clear_holders (snd (stop_renewing m w)))"

lemma after_message_simps [simp]:
  "get_context None (ambient_of (ww_app (after_message m w))) = None"
  "current_grant (ambient_of (ww_app (after_message m w))) = None"
  "am_id m \<notin> set (ww_renewals (after_message m w))" "ww_log (after_message m w) = ww_log w"
  by (simp_all add: after_message_def clear_holders_run stop_renewing_def modify_run ambient_defs)

definition before_message :: "azure_message \<Rightarrow> string option \<Rightarrow> 'c worker_state \<Rightarrow> 'c worker_state" where
  "before_message m g w = snd (renewing m (snd (set_ambient (set_grant g) w)))"

lemma before_message_simps [simp]:
  "ww_log (before_message m g w) = ww_log w" "ww_app (before_message m g w) = with_ambient (set_grant g) (ww_app w)"
  by (simp_all add: before_message_def renewing_def set_ambient_def modify_run)

lemma message_handler_eq:
  assumes "decode_app_properties m = Inr d" and "grant_of_value (dlookup d DELEGATION_GRANT_HEADER) = Inr g"
    and "restore_security_context E (dget d ''SecurityContext'' (PStr [])) w = (Inr (), w1)"
    and "process_and_complete E m (dget d ''Baggage'' (PStr ''{}'')) g (before_message m g w1) = (x, w3)"
  shows "message_handler E m w = (case x of
      Inl e \<Rightarrow> (if e = Unmodelled then (x, after_message m w3) else
        (if we_settle E (ww_log w3) Abandon = Inl Unmodelled then Inl Unmodelled else Inl e,
         after_message m (w3\<lparr>ww_log := ww_log w3 @ [Settled Abandon (we_settle E (ww_log w3) Abandon)]\<rparr>)))
    | Inr u \<Rightarrow> (x, after_message m w3))"
  using assms
  by (auto simp: message_handler_def act_simps renewing_def set_ambient_def before_message_def after_message_def
      abandon_quietly_run clear_holders_run stop_renewing_def split: sum.splits)

lemma message_handler_run:
  assumes run: "message_handler E m w = (r, w')" and r: "r \<noteq> Inl Unmodelled" and g: "message_grant m = Inr g"
  shows "\<exists>es. ww_log w' = ww_log w @ es \<and> (r = Inr () \<longrightarrow> es = completed_log g) \<and>
      (r \<noteq> Inr () \<longrightarrow> (\<exists>pre y. failed_log pre \<and> es = pre @ [Settled Abandon y]))"
    and "get_context None (ambient_of (ww_app w')) = None \<and> current_grant (ambient_of (ww_app w')) = None \<and>
      am_id m \<notin> set (ww_renewals w')"
proof -
  obtain d where d: "decode_app_properties m = Inr d" "grant_of_value (dlookup d DELEGATION_GRANT_HEADER) = Inr g"
    using g by (auto simp: message_grant_def split: sum.splits)
  obtain q w1 where q: "restore_security_context E (dget d ''SecurityContext'' (PStr [])) w = (q, w1)" by (rule prod.exhaust)
  have q1: "q = Inr ()" using restore_frame [OF q] run r d q by (auto simp: message_handler_def act_simps)
  obtain x w3 where x: "process_and_complete E m (dget d ''Baggage'' (PStr ''{}'')) g (before_message m g w1) = (x, w3)"
    by (rule prod.exhaust)
  note eq = message_handler_eq [OF d q [unfolded q1] x, unfolded run]
  show "get_context None (ambient_of (ww_app w')) = None \<and> current_grant (ambient_of (ww_app w')) = None \<and>
      am_id m \<notin> set (ww_renewals w')"
    using eq by (auto split: sum.splits if_splits)
  show "\<exists>es. ww_log w' = ww_log w @ es \<and> (r = Inr () \<longrightarrow> es = completed_log g) \<and>
      (r \<noteq> Inr () \<longrightarrow> (\<exists>pre y. failed_log pre \<and> es = pre @ [Settled Abandon y]))"
    using eq r process_and_complete_run [OF x] restore_frame [OF q] by (cases x) (auto split: if_splits)
qed

lemma receive_one_run:
  assumes "receive_one E m w = (r, w')" and "r \<noteq> Inl Unmodelled"
  shows "r = Inr () \<and> (\<exists>es. ww_log w' = ww_log w @ es \<and> azure_outcome m es)"
proof -
  obtain q w1 where q: "message_handler E m w = (q, w1)" by (rule prod.exhaust)
  show ?thesis
  proof (cases "message_grant m")
    case (Inr g)
    from message_handler_run(1) [OF q _ Inr] assms q Inr show ?thesis
      by (cases q) (fastforce simp: receive_one_def act_simps abandon_quietly_run azure_outcome_def split: if_splits)+
  next
    case (Inl e)
    then have "ww_log w1 = ww_log w \<and> (\<exists>e. q = Inl e)"
      using q by (auto simp: message_grant_def message_handler_def act_simps dest!: restore_frame split: sum.splits prod.splits)
    with assms q Inl show ?thesis
      by (auto simp: receive_one_def act_simps abandon_quietly_run azure_outcome_def split: if_splits)
  qed
qed

text \<open>
  C8. A receiver never stops on a message, and settles every one: the log of a run is, message by
  message, either the handler's success, the completion and then the release of the grant, or a failure
  and its abandonment, so that a grant is only ever released after its message was completed.
\<close>

theorem azure_receiver_settles_all:
  assumes "process_receiver E ms w = (r, w')" and "r \<noteq> Inl Unmodelled"
  shows "r = Inr () \<and> (\<exists>segments. list_all2 azure_outcome ms segments \<and> ww_log w' = ww_log w @ concat segments)"
  using assms unfolding process_receiver_def
proof (induction ms arbitrary: w)
  case Nil
  then show ?case by (auto intro: exI [of _ "[]"])
next
  case (Cons m ms)
  obtain q w1 where q: "receive_one E m w = (q, w1)" by (rule prod.exhaust)
  with Cons.prems have "q \<noteq> Inl Unmodelled" by (auto simp: seq_run)
  from receive_one_run [OF q this] obtain es where q1: "q = Inr ()" "ww_log w1 = ww_log w @ es" "azure_outcome m es" by blast
  with Cons.IH [of w1] Cons.prems q have "r = Inr () \<and> (\<exists>segments. list_all2 azure_outcome ms segments \<and> ww_log w' = ww_log w1 @ concat segments)"
    by (simp add: seq_run)
  with q1 show ?case by (metis append.assoc concat.simps(2) list_all2_Cons)
qed

text \<open>
  After a message whose headers can be read, however its handling ends, the context and the grant
  are cleared and its lock is no longer renewed.
\<close>

theorem azure_message_leaves_nothing:
  assumes "message_handler E m w = (r, w')" and "r \<noteq> Inl Unmodelled" and "message_grant m = Inr g"
  shows "get_context None (ambient_of (ww_app w')) = None \<and> current_grant (ambient_of (ww_app w')) = None \<and>
    am_id m \<notin> set (ww_renewals w')"
  by (rule message_handler_run(2) [OF assms])

lemma renew_loop_bound:
  assumes "\<And>i. i < length ks \<Longrightarrow> of_nat (n + i + 1) * interval \<le> wk_elapsed (ks ! i)"
    and "renew_loop limit ks n = (k, b)" and "of_nat n * interval \<le> limit"
  shows "of_nat k * interval \<le> limit \<and> (b \<or> k = n + length ks)"
  using assms
proof (induction ks arbitrary: n)
  case (Cons x xs)
  have x: "of_nat (n + 1) * interval \<le> wk_elapsed x" using Cons.prems(1) [of 0] by simp
  have xs: "of_nat (Suc n + i + 1) * interval \<le> wk_elapsed (xs ! i)" if "i < length xs" for i
    using Cons.prems(1) [of "Suc i"] that by (simp add: algebra_simps)
  show ?case using Cons.prems(2,3) Cons.IH [of "Suc n", OF xs] x by (auto split: if_splits sum.splits)
qed auto


text \<open>A configured topic stops the worker: no receiver runs, not even a queue's.\<close>

lemma azure_topic_stops_worker:
  assumes "aw_client s" and "mq_azure c = Some z" and "ac_topics z \<noteq> []"
  shows "fst (azure_run c s) = Inl AttributeError"
proof -
  have "fst (for_each add_receiver xs t) = Inr ()" for xs t
    by (induction xs arbitrary: t) (simp_all add: add_receiver_def act_simps)
  then show ?thesis
    using assms by (auto simp: azure_run_def act_simps Let_def split: prod.split sum.split)
      (metis fst_conv old.sum.distinct(1))+
qed

text \<open>Whatever its receivers answer, a worker that is stopped has closed every one of them, ended every renewal and then
  closed its client, whose failure alone is raised. It keeps the client: stopped again, it closes it again.\<close>

lemma azure_stop_run:
  assumes "\<And>c. answer c \<noteq> Inl Unmodelled"
  shows "azure_stop answer s = (if aw_client s then answer Close_Bus_Client else Inr (),
    s\<lparr>aw_receivers := [], aw_renewing := [],
      aw_calls := aw_calls s @ map Cancel_Renewal (aw_renewing s) @ map Close_Receiver (aw_receivers s) @
        (if aw_client s then [Close_Bus_Client] else [])\<rparr>)"
proof -
  have one: "except_any (azure_call answer (Close_Receiver x)) (\<lambda>_. ret ()) t = (Inr (), t\<lparr>aw_calls := aw_calls t @ [Close_Receiver x]\<rparr>)" for x t
    using assms [of "Close_Receiver x"] by (auto simp: azure_call_def act_simps split: sum.split)
  have "for_each (\<lambda>x. except_any (azure_call answer (Close_Receiver x)) (\<lambda>_. ret ())) xs t =
      (Inr (), t\<lparr>aw_calls := aw_calls t @ map Close_Receiver xs\<rparr>)" for xs t
    by (induction xs arbitrary: t) (simp_all add: one seq_run ret_run)
  then show ?thesis by (simp add: azure_stop_def azure_call_def seq_run modify_run gets_run ret_run lift_exn_run)
qed

text \<open>A receiver whose link fails ends like one that was stopped: what it yielded before is settled, and nothing
  receives from its queue any more.\<close>

lemma failed_link_ends_receiver:
  assumes "process_receiver E ms w = (Inr (), w')" and "e \<noteq> Unmodelled"
  shows "safe_receiver_wrapper E ms (Inl e) w = (Inr (), w')" and "safe_receiver_wrapper E ms (Inr ()) w = (Inr (), w')"
  using assms by (simp_all add: safe_receiver_wrapper_def act_simps)

section \<open>Messages\<close>

text \<open>A message that names a grant, and one whose body is missing.\<close>

definition sample_message :: "azure_body \<Rightarrow> azure_message" where
  "sample_message body = \<lparr>am_id = ''m1'', am_properties = [(Inl (utf8_encode DELEGATION_GRANT_HEADER), HVal (PStr held_id))], am_body = body\<rparr>"

lemma sample_properties: "decode_app_properties (sample_message body) = Inr [(DELEGATION_GRANT_HEADER, PStr held_id)]"
  by (simp add: decode_app_properties_def sample_message_def utf8_round_trip decoded_def)

lemma sample_message_grant: "message_grant (sample_message body) = Inr (Some held_id)"
  using well_formed_nonempty [OF held_id_ok] by (simp add: message_grant_def sample_properties grant_of_value_def dget_def)

lemma sample_empty_dict: "py_loads fl ''{}'' = Inr (PDict [])"
proof -
  have "py_loads fl (json_dumps (PDict [])) = Inr (PDict [])" by (rule py_loads_dumps) simp
  then show ?thesis by simp
qed

lemma sample_message_handled:
  "\<exists>w'. message_handler broker_env (sample_message (Sections [utf8_encode job_body])) w = (Inr (), w')"
  "\<exists>w'. message_handler broker_env (sample_message NoBody) w = (Inl ValidationError, w')"
proof -
  note eq = message_handler_eq [OF sample_properties, of "Some held_id" broker_env w w]
  have pre: "grant_of_value (dlookup [(DELEGATION_GRANT_HEADER, PStr held_id)] DELEGATION_GRANT_HEADER) = Inr (Some held_id)"
      "restore_security_context broker_env (dget [(DELEGATION_GRANT_HEADER, PStr held_id)] ''SecurityContext'' (PStr [])) w = (Inr (), w)"
    using well_formed_nonempty [OF held_id_ok]
    by (simp_all add: grant_of_value_def dget_def restore_security_context_def DELEGATION_GRANT_HEADER_def ret_run)
  have bg: "azure_baggage broker_env (dget [(DELEGATION_GRANT_HEADER, PStr held_id)] ''Baggage'' (PStr ''{}'')) = Inr ()"
    by (simp add: azure_baggage_def dget_def DELEGATION_GRANT_HEADER_def sample_empty_dict)
  have "\<exists>v. process_and_complete broker_env (sample_message (Sections [utf8_encode job_body]))
      (dget [(DELEGATION_GRANT_HEADER, PStr held_id)] ''Baggage'' (PStr ''{}'')) (Some held_id) u = (Inr (), v)" for u
    by (simp add: process_and_complete_def bg decode_message_body_def sample_message_def utf8_round_trip act_simps run_handler_run
        settle_run release_delegation_grant_def log_event_def in_app_def in_delegation_def delete_grant_def held_id_ok
        cache_delete_def truthy_opt_def split: prod.split)
  then obtain v where v: "process_and_complete broker_env (sample_message (Sections [utf8_encode job_body]))
      (dget [(DELEGATION_GRANT_HEADER, PStr held_id)] ''Baggage'' (PStr ''{}'')) (Some held_id)
      (before_message (sample_message (Sections [utf8_encode job_body])) (Some held_id) w) = (Inr (), v)" by blast
  from eq [OF pre v] show "\<exists>w'. message_handler broker_env (sample_message (Sections [utf8_encode job_body])) w = (Inr (), w')" by simp
  have "dispatch_event broker_env ''{}'' a = (Inl ValidationError, a)" for a
    by (simp add: dispatch_event_def parse_event_def sample_empty_dict event_of_payload_def act_simps)
  then have "\<exists>v. process_and_complete broker_env (sample_message NoBody)
      (dget [(DELEGATION_GRANT_HEADER, PStr held_id)] ''Baggage'' (PStr ''{}'')) (Some held_id) u = (Inl ValidationError, v)" for u
    by (simp add: process_and_complete_def bg decode_message_body_def sample_message_def act_simps run_handler_run)
  then obtain v where v: "process_and_complete broker_env (sample_message NoBody)
      (dget [(DELEGATION_GRANT_HEADER, PStr held_id)] ''Baggage'' (PStr ''{}'')) (Some held_id)
      (before_message (sample_message NoBody) (Some held_id) w) = (Inl ValidationError, v)" by blast
  from eq [OF pre v] show "\<exists>w'. message_handler broker_env (sample_message NoBody) w = (Inl ValidationError, w')" by simp
qed

theorem azure_receiver_settles_all_witness:
  "\<exists>w' s1 s2. process_receiver broker_env [sample_message NoBody, sample_message (Sections [utf8_encode job_body])] (idle_worker []) = (Inr (), w') \<and>
    ww_log w' = s1 @ s2 \<and> azure_outcome (sample_message NoBody) s1 \<and> azure_outcome (sample_message (Sections [utf8_encode job_body])) s2"
proof -
  let ?ms = "[sample_message NoBody, sample_message (Sections [utf8_encode job_body])]"
  obtain w1 where "message_handler broker_env (sample_message NoBody) (idle_worker []) = (Inl ValidationError, w1)"
    using sample_message_handled(2) by blast
  then obtain u where 1: "receive_one broker_env (sample_message NoBody) (idle_worker []) = (Inr (), u)"
    by (simp add: receive_one_def act_simps abandon_quietly_run)
  from sample_message_handled(1) [of u] obtain w' where
    "receive_one broker_env (sample_message (Sections [utf8_encode job_body])) u = (Inr (), w')"
    by (auto simp: receive_one_def act_simps)
  with 1 have run: "process_receiver broker_env ?ms (idle_worker []) = (Inr (), w')"
    by (simp add: process_receiver_def seq_run ret_run)
  from azure_receiver_settles_all [OF run] obtain segs where "list_all2 azure_outcome ?ms segs" "ww_log w' = concat segs"
    by auto
  then obtain s1 s2 where "azure_outcome (sample_message NoBody) s1" "ww_log w' = s1 @ s2"
      "azure_outcome (sample_message (Sections [utf8_encode job_body])) s2"
    by (auto simp: list_all2_Cons1)
  with run show ?thesis by blast
qed

theorem azure_message_leaves_nothing_witness:
  "\<exists>w'. message_handler broker_env (sample_message NoBody) (idle_worker []) = (Inl ValidationError, w') \<and>
    current_grant (ambient_of (ww_app w')) = None"
proof -
  obtain w' where run: "message_handler broker_env (sample_message NoBody) (idle_worker []) = (Inl ValidationError, w')"
    using sample_message_handled(2) by blast
  from azure_message_leaves_nothing [OF run _ sample_message_grant] run show ?thesis by auto
qed


end
