(* ===== verification/Message_Transport.thy ===== *)
theory Message_Transport
  imports Rabbit_Worker Azure_Worker
begin

text \<open>
  From the sender to the handler. The locale \<open>message_channel\<close> says what a channel owes the code on both
  sides of it: the headers and the text of a message arrive, and a worker that can read a message
  dispatches it over the restored context and grant. Both brokers' workers are instances, and what a
  handler sees of a send is proved once.
\<close>

definition as_header :: "bool \<Rightarrow> string \<Rightarrow> header_value" where
  "as_header as_bytes s = (if as_bytes then HBytes (utf8_encode s) else HVal (PStr s))"

lemma decoded_as_header [simp]: "decoded (as_header b s) = Inr (PStr s)"
  by (simp add: as_header_def decoded_def utf8_round_trip)

section \<open>What a handler sees of a send\<close>

definition arrival :: "blocks_context \<Rightarrow> string option \<Rightarrow> 'c app_world \<Rightarrow> 'c app_world" where
  "arrival c g a = with_ambient (set_grant g) (with_ambient (set_context (Some (sanitized c))) a)"

text \<open>A handler starts with the sanitized context of the sender and with the grant the send wrote, which
  names a record that is there and holds the sender's authority.\<close>

definition arrives ::
  "'c send_env \<Rightarrow> consumer_message \<Rightarrow> 'c delegation_world \<Rightarrow> blocks_context \<Rightarrow> 'c app_world \<Rightarrow> bool" where
  "arrives S m d c a \<longleftrightarrow>
     get_context None (ambient_of a) = Some (sanitized c) \<and>
     fst (create_for_send (sn_delegation S) (sn_random S) (msg_delegation_ttl_seconds m) d) = Inr (current_grant (ambient_of a)) \<and>
     (\<forall>i. current_grant (ambient_of a) = Some i \<longrightarrow>
        (\<exists>gr. fst (get_grant (sn_delegation S) (Some i) (ap_delegation a)) = Inr (Some gr) \<and>
              grant_authority (sn_delegation S) d c gr))"

text \<open>What the send and the receiving side have to agree on.\<close>

definition agree :: "'c send_env \<Rightarrow> 'c worker_env \<Rightarrow> blocks_context \<Rightarrow> consumer_message \<Rightarrow> (pyval \<Rightarrow> ('c, unit) app_act) \<Rightarrow> bool" where
  "agree S E c m f \<longleftrightarrow>
     we_delegation E = sn_delegation S \<and> model_env_ok (de_model (sn_delegation S)) \<and> cache_ops_ok (de_cache (sn_delegation S)) \<and>
     length (sn_random S) = GRANT_ID_RANDOM_BYTES \<and> (\<forall>x \<in> set (sn_random S). x < 256) \<and>
     (\<forall>t. expire_on c = Some t \<longrightarrow> coerce_datetime (de_model (sn_delegation S)) (PStr t) = Inr t) \<and>
     \<not> truthy_opt (msg_context m) \<and> json_plain (PDict (msg_payload m)) \<and> json_plain (PDict (sn_root_attributes S)) \<and>
     resolve_handler (we_registry E) (msg_payload_type m) = Inr (HandlerFunction f)"

lemma get_grant_cache:
  "dl_cache d = dl_cache d' \<Longrightarrow> fst (get_grant E i d) = fst (get_grant E i d')"
  by (simp add: get_grant_def cache_get_def act_simps split: sum.split)

lemma envelope_run:
  assumes "envelope_of S m c d = (Inr (hs, body), d')"
  obtains g where "create_for_send (sn_delegation S) (sn_random S) (msg_delegation_ttl_seconds m) d = (Inr g, d')"
    and "hs = with_grant (tracing_headers S m c) g"
    and "body = dump_event \<lparr>ev_body = json_dumps (PDict (msg_payload m)), ev_type = msg_payload_type m\<rparr>"
  using assms by (auto simp: envelope_of_def serialize_payload_def seq_run ret_run lift_exn_run split: prod.splits sum.splits)

lemma tracing_lookup:
  "map_of (with_grant (tracing_headers S m c) g) DELEGATION_GRANT_HEADER = (if truthy_opt g then g else None)"
  "map_of (with_grant (tracing_headers S m c) g) ''SecurityContext'' = Some (security_context_text m c)"
  "map_of (with_grant (tracing_headers S m c) g) ''Baggage'' = Some (json_dumps (PDict (sn_root_attributes S)))"
  "distinct (map fst (with_grant (tracing_headers S m c) g))"
  by (cases g; simp add: with_grant_def tracing_headers_def DELEGATION_GRANT_HEADER_def distinct_update truthy_opt_def or_empty_def)+

lemma arrival_arrives:
  assumes ok: "agree S E c m f" and ctx: "get_context None (dl_ambient d) = Some c"
    and g: "create_for_send (sn_delegation S) (sn_random S) (msg_delegation_ttl_seconds m) d = (Inr g, d')"
    and cache: "dl_cache (ap_delegation a) = dl_cache d'"
  shows "arrives S m d c (arrival c g a)"
proof (cases g)
  case None
  with g show ?thesis by (simp add: arrives_def arrival_def ambient_defs is_well_formed_def)
next
  case (Some i)
  from create_for_send_written [OF g [unfolded Some]] ctx obtain gr
    where gr: "written (sn_delegation S) (sn_random S) gr (msg_delegation_ttl_seconds m) d i d'"
      "grant_authority (sn_delegation S) d c gr" by auto
  from written_read_back [OF gr(1)] ok
  have r: "is_well_formed (Some i)" "get_grant (sn_delegation S) (Some i) d' = (Inr (Some gr), d')"
    by (auto simp: agree_def)
  have "dl_cache (ap_delegation (arrival c g a)) = dl_cache d'" using cache by (simp add: arrival_def)
  from get_grant_cache [OF this, of "sn_delegation S" "Some i"] r gr(2) g Some
  show ?thesis by (auto simp: arrives_def arrival_def ambient_defs)
qed

section \<open>The contract\<close>

locale message_channel =
  fixes carry :: "text_headers \<Rightarrow> string \<Rightarrow> 'm"
    and read_header :: "'m \<Rightarrow> string \<Rightarrow> py_exn + string option"
    and read_body :: "'m \<Rightarrow> py_exn + string"
    and process :: "'c worker_env \<Rightarrow> 'm \<Rightarrow> ('c, unit) worker_act"
  assumes header_carried: "distinct (map fst hs) \<Longrightarrow> read_header (carry hs body) k = Inr (map_of hs k)"
    and body_carried: "read_body (carry hs body) = Inr body"
    and dispatches:
      "\<lbrakk>read_header m ''SecurityContext'' = Inr (Some sc); read_header m ''Baggage'' = Inr (Some bg);
        py_loads (de_float (we_delegation E)) bg = Inr (PDict d);
        read_header m ''TraceId'' = Inr tr; read_header m ''SpanId'' = Inr sp; read_header m ''TenantId'' = Inr tn;
        read_header m DELEGATION_GRANT_HEADER = Inr g; g \<noteq> Some []; read_body m = Inr body;
        restore_security_context E (PStr sc) w = (Inr (), w1); process E m w = (r, w')\<rbrakk> \<Longrightarrow>
       \<exists>rest. ww_log w' = ww_log w1 @
         [Handled (fst (dispatch_event E body (with_ambient (set_grant g) (ww_app w1))))] @ rest"
begin

lemma carried_message_handled:
  assumes "distinct (map fst hs)" and "map_of hs ''SecurityContext'' = Some sc" and "map_of hs ''Baggage'' = Some bg"
    and "py_loads (de_float (we_delegation E)) bg = Inr (PDict d)" and "map_of hs DELEGATION_GRANT_HEADER \<noteq> Some []"
    and "restore_security_context E (PStr sc) w = (Inr (), w1)" and "process E (carry hs body) w = (r, w')"
  shows "\<exists>rest. ww_log w' = ww_log w1 @ [Handled (fst (dispatch_event E body
    (with_ambient (set_grant (map_of hs DELEGATION_GRANT_HEADER)) (ww_app w1))))] @ rest"
  by (rule dispatches [where m = "carry hs body" and w = w and E = E])
    (use assms in \<open>simp_all add: header_carried body_carried\<close>)

lemma sent_message_handled:
  assumes ok: "agree S E c m f" and ctx: "get_context None (dl_ambient d) = Some c"
    and sent: "envelope_of S m (Some c) d = (Inr (hs, body), d')"
    and cache: "dl_cache (ap_delegation (ww_app w)) = dl_cache d'"
    and run: "process E (carry hs body) w = (r, w')"
  shows "\<exists>a rest. ww_log w' = ww_log w @ [Handled (fst (f (PDict (msg_payload m)) a))] @ rest \<and> arrives S m d c a"
proof -
  from sent obtain g where g: "create_for_send (sn_delegation S) (sn_random S) (msg_delegation_ttl_seconds m) d = (Inr g, d')"
    and hs: "hs = with_grant (tracing_headers S m (Some c)) g"
    and body: "body = dump_event \<lparr>ev_body = json_dumps (PDict (msg_payload m)), ev_type = msg_payload_type m\<rparr>"
    by (rule envelope_run)
  note ok' = ok [unfolded agree_def]
  have sc: "security_context_text m (Some c) = json_dumps (PDict (create_sanitized_for_transport (Some c)))"
    using ok' by (simp add: security_context_text_def del: json_dumps.simps)
  define w1 where "w1 = snd (set_ambient (set_context (Some (sanitized c))) w)"
  have rs: "restore_security_context E (PStr (security_context_text m (Some c))) w = (Inr (), w1)"
    unfolding sc using ok' by (subst restore_sanitized) (auto simp: w1_def set_ambient_def modify_run)
  have bg: "py_loads (de_float (we_delegation E)) (json_dumps (PDict (sn_root_attributes S))) = Inr (PDict (sn_root_attributes S))"
    using ok' by (intro py_loads_dumps) simp
  have a: "with_ambient (set_grant (map_of hs DELEGATION_GRANT_HEADER)) (ww_app w1) = arrival c g (ww_app w)"
    unfolding hs tracing_lookup
    by (cases g) (auto simp: arrival_def w1_def set_ambient_def modify_run set_grant_def is_well_formed_def with_ambient_def)
  have "fst (dispatch_event E body b) = fst (f (PDict (msg_payload m)) b)" for b
  proof -
    have "parse_event (we_delegation E) body = Inr \<lparr>ev_body = json_dumps (PDict (msg_payload m)), ev_type = msg_payload_type m\<rparr>"
      unfolding body using ok' by (intro parse_dump_event) simp
    moreover have "py_loads (de_float (we_delegation E)) (json_dumps (PDict (msg_payload m))) = Inr (PDict (msg_payload m))"
      using ok' by (intro py_loads_dumps) simp
    ultimately show ?thesis
      using ok' by (simp add: dispatch_event_def consume_def seq_run lift_exn_run del: json_dumps.simps)
  qed
  with carried_message_handled [of hs, OF _ _ _ bg _ rs run] a hs
  have "\<exists>rest. ww_log w' = ww_log w1 @ [Handled (fst (f (PDict (msg_payload m)) (arrival c g (ww_app w))))] @ rest"
    by (cases g) (auto simp: tracing_lookup truthy_opt_def simp del: json_dumps.simps)
  moreover have "ww_log w1 = ww_log w" by (simp add: w1_def set_ambient_def modify_run)
  ultimately show ?thesis using arrival_arrives [OF ok ctx g cache] by metis
qed

end

section \<open>RabbitMQ\<close>

definition rabbit_delivery :: "bool \<Rightarrow> text_headers \<Rightarrow> string \<Rightarrow> rabbit_message" where
  "rabbit_delivery as_bytes hs body =
     \<lparr>rm_headers = map (\<lambda>(k, v). (k, as_header as_bytes v)) hs, rm_body = HBytes (utf8_encode body)\<rparr>"

definition rabbit_read :: "rabbit_message \<Rightarrow> string \<Rightarrow> py_exn + string option" where
  "rabbit_read m k = (case map_of (rm_headers m) k of None \<Rightarrow> Inr None | Some h \<Rightarrow> map_sum id Some (rabbit_decode h))"

lemma rabbit_header_read:
  assumes "rabbit_read m k = Inr v"
  shows "rabbit_header m k d = Inr (case v of None \<Rightarrow> d | Some s \<Rightarrow> s)"
proof (cases "map_of (rm_headers m) k")
  case None
  with assms show ?thesis by (auto simp: rabbit_read_def rabbit_header_def rabbit_decode_def decoded_def)
next
  case (Some h)
  with assms obtain s where "rabbit_decode h = Inr s" "v = Some s"
    unfolding rabbit_read_def by (cases "rabbit_decode h") auto
  with Some show ?thesis by (simp add: rabbit_header_def)
qed

lemma map_of_pairs: "map_of (map (\<lambda>(k, v). (k, f v)) xs) k = map_option f (map_of xs k)"
  by (induction xs) auto

interpretation rabbit_channel: message_channel "rabbit_delivery b" rabbit_read rabbit_body process_message
proof
  fix hs :: text_headers and body k
  show "rabbit_read (rabbit_delivery b hs body) k = Inr (map_of hs k)"
    by (auto simp: rabbit_read_def rabbit_delivery_def map_of_pairs rabbit_decode_def split: option.split)
  show "rabbit_body (rabbit_delivery b hs body) = Inr body"
    by (simp add: rabbit_body_def rabbit_delivery_def decoded_def utf8_round_trip)
next
  fix m sc bg and E :: "'c worker_env" and d tr sp tn g body and w w1 :: "'c worker_state" and r w'
  assume h: "rabbit_read m ''SecurityContext'' = Inr (Some sc)" "rabbit_read m ''Baggage'' = Inr (Some bg)"
      "py_loads (de_float (we_delegation E)) bg = Inr (PDict d)"
      "rabbit_read m ''TraceId'' = Inr tr" "rabbit_read m ''SpanId'' = Inr sp" "rabbit_read m ''TenantId'' = Inr tn"
      "rabbit_read m DELEGATION_GRANT_HEADER = Inr g" "g \<noteq> Some []" "rabbit_body m = Inr body"
      "restore_security_context E (PStr sc) w = (Inr (), w1)" "process_message E m w = (r, w')"
  have hs: "rabbit_headers m = Inr (sc, bg, g)"
    using h(8) by (auto simp: rabbit_headers_def rabbit_header_read [OF h(1)] rabbit_header_read [OF h(2)] rabbit_header_read [OF h(4)]
        rabbit_header_read [OF h(5)] rabbit_header_read [OF h(6)] rabbit_header_read [OF h(7)] split: option.split)
  have "dispatch_and_settle E body g (w1\<lparr>ww_app := with_ambient (set_grant g) (ww_app w1)\<rparr>) = (r, w')"
    using h(3,9-) hs by (simp add: process_message_def restore_message_context_def read_baggage_def set_ambient_def act_simps)
  from dispatch_and_settle_run [OF this prod.collapse [symmetric] refl]
  show "\<exists>rest. ww_log w' = ww_log w1 @
      [Handled (fst (dispatch_event E body (with_ambient (set_grant g) (ww_app w1))))] @ rest"
    by auto
qed

section \<open>Azure Service Bus\<close>

definition azure_delivery :: "bool \<Rightarrow> string \<Rightarrow> text_headers \<Rightarrow> string \<Rightarrow> azure_message" where
  "azure_delivery as_bytes i hs body =
     \<lparr>am_id = i,
      am_properties = map (\<lambda>(k, v). (if as_bytes then Inl (utf8_encode k) else Inr k, as_header as_bytes v)) hs,
      am_body = Sections [utf8_encode body]\<rparr>"

definition azure_read :: "azure_message \<Rightarrow> string \<Rightarrow> py_exn + string option" where
  "azure_read m k =
     (case decode_app_properties m of
        Inl e \<Rightarrow> Inl e
      | Inr d \<Rightarrow>
          (case map_of d k of None \<Rightarrow> Inr None | Some (PStr s) \<Rightarrow> Inr (Some s) | Some _ \<Rightarrow> Inl TypeError))"

lemma decode_items_carried:
  "distinct (map fst hs) \<Longrightarrow>
   \<exists>d'. decode_items (map (\<lambda>(k, v). (if b then Inl (utf8_encode k) else Inr k, as_header b v)) hs) d = Inr d' \<and>
     (\<forall>k. map_of d' k = (case map_of hs k of Some v \<Rightarrow> Some (PStr v) | None \<Rightarrow> map_of d k))"
proof (induction hs arbitrary: d)
  case (Cons h hs)
  obtain n v where h: "h = (n, v)" by (cases h)
  then have "map_of hs n = None" using Cons.prems by (auto simp: map_of_eq_None_iff)
  with Cons.IH [of "AList.update n (PStr v) d"] Cons.prems h show ?case
    by (auto simp: utf8_round_trip split: option.split)
qed simp

lemma azure_read_value:
  assumes "decode_app_properties m = Inr d" and "azure_read m k = Inr v"
  shows "dget d k x = (case v of None \<Rightarrow> x | Some s \<Rightarrow> PStr s)"
  using assms by (auto simp: azure_read_def dget_def split: option.splits pyval.splits)

interpretation azure_channel: message_channel "azure_delivery b i" azure_read decode_message_body message_handler
proof
  fix hs :: text_headers and body k
  assume "distinct (map fst hs)"
  from decode_items_carried [OF this, of b "[]"]
  show "azure_read (azure_delivery b i hs body) k = Inr (map_of hs k)"
    by (auto simp: azure_read_def azure_delivery_def decode_app_properties_def split: option.split)
next
  fix hs :: text_headers and body
  show "decode_message_body (azure_delivery b i hs body) = Inr body"
    by (simp add: decode_message_body_def azure_delivery_def utf8_round_trip)
next
  fix m sc bg and E :: "'c worker_env" and d tr sp tn g body and w w1 :: "'c worker_state" and r w'
  assume h: "azure_read m ''SecurityContext'' = Inr (Some sc)" "azure_read m ''Baggage'' = Inr (Some bg)"
      "py_loads (de_float (we_delegation E)) bg = Inr (PDict d)"
      "azure_read m ''TraceId'' = Inr tr" "azure_read m ''SpanId'' = Inr sp" "azure_read m ''TenantId'' = Inr tn"
      "azure_read m DELEGATION_GRANT_HEADER = Inr g" "g \<noteq> Some []" "decode_message_body m = Inr body"
      "restore_security_context E (PStr sc) w = (Inr (), w1)" "message_handler E m w = (r, w')"
  obtain a where a: "decode_app_properties m = Inr a" using h(1) by (auto simp: azure_read_def split: sum.splits)
  have g: "grant_of_value (dlookup a DELEGATION_GRANT_HEADER) = Inr g"
    using azure_read_value [OF a h(7), of PNone] h(8) by (auto simp: grant_of_value_def split: option.splits)
  have bg: "azure_baggage E (dget a ''Baggage'' (PStr ''{}'')) = Inr ()"
    using azure_read_value [OF a h(2), of "PStr ''{}''"] h(3) by (simp add: azure_baggage_def)
  have rs: "restore_security_context E (dget a ''SecurityContext'' (PStr [])) w = (Inr (), w1)"
    using azure_read_value [OF a h(1)] h(10) by simp
  let ?p = "process_and_complete E m (dget a ''Baggage'' (PStr ''{}'')) g (before_message m g w1)"
  have "\<exists>rest. ww_log w' = ww_log (snd ?p) @ rest"
    using message_handler_eq [OF a g rs prod.collapse [symmetric]] h(11) by (auto split: sum.splits if_splits)
  moreover have "\<exists>rest. ww_log (snd ?p) = ww_log w1 @
      [Handled (fst (dispatch_event E body (with_ambient (set_grant g) (ww_app w1))))] @ rest"
    using process_and_complete_log [OF bg h(9) prod.collapse [symmetric], of g "before_message m g w1"] by simp
  ultimately show "\<exists>rest. ww_log w' = ww_log w1 @
      [Handled (fst (dispatch_event E body (with_ambient (set_grant g) (ww_app w1))))] @ rest"
    by auto
qed

section \<open>From send to handler\<close>

lemma rabbit_send_run:
  assumes "rabbit_send V m x s = (Inr v, s')" and "get_context None (dl_ambient (rb_delegation s)) = Some c"
  obtains p where "rb_published s' = rb_published s @ [p]"
    and "envelope_of (rv_send V) m (Some c) (rb_delegation s) = (Inr (pb_headers p, pb_body p), rb_delegation s')"
proof -
  have init: "rb_delegation t' = rb_delegation t \<and> rb_published t' = rb_published t"
    if "ensure_initialized V t = (q, t')" for q t t'
    using that by (auto simp: ensure_initialized_def on_service_def act_simps split: if_splits prod.splits sum.splits)
  from assms that show thesis
    by (auto simp: rabbit_send_def rabbit_publish_def rabbit_delegation_def act_simps
        split: prod.splits sum.splits option.splits if_splits dest!: init)
qed

text \<open>
  From a RabbitMQ send to the handler: a message sent under a context is published, and a worker that
  receives it, with its headers as text or as bytes, first of all runs the registered handler on the
  payload that was sent; the handler sees the sender's context without its secrets and holds the
  delegation grant the send wrote, whose record it can read and whose authority is the sender's.
\<close>

lemma rabbit_send_reaches_handler:
  assumes "rabbit_send V m x s = (Inr v, s')" and "get_context None (dl_ambient (rb_delegation s)) = Some c"
    and "agree (rv_send V) E c m f" and "dl_cache (ap_delegation (ww_app w)) = dl_cache (rb_delegation s')"
  shows "\<exists>p. rb_published s' = rb_published s @ [p] \<and>
    (\<forall>b. \<exists>a rest. ww_log (snd (process_message E (rabbit_delivery b (pb_headers p) (pb_body p)) w)) =
        ww_log w @ [Handled (fst (f (PDict (msg_payload m)) a))] @ rest \<and>
      arrives (rv_send V) m (rb_delegation s) c a)"
proof -
  obtain p where p: "rb_published s' = rb_published s @ [p]"
    "envelope_of (rv_send V) m (Some c) (rb_delegation s) = (Inr (pb_headers p, pb_body p), rb_delegation s')"
    by (rule rabbit_send_run [OF assms(1,2)])
  then show ?thesis
    using rabbit_channel.sent_message_handled [OF assms(3,2) p(2) assms(4) prod.collapse [symmetric]] by blast
qed

text \<open>
  From an Azure send to the handler: the message whose last delivery attempt succeeded carries the same to
  the handler of the worker that receives it.
\<close>

lemma azure_send_reaches_handler:
  assumes "azure_send V m s = (Inr v, s')" and "get_context None (dl_ambient (az_delegation s)) = Some c"
    and "senders_ok V s" and "agree (av_send V) E c m f"
    and "dl_cache (ap_delegation (ww_app w)) = dl_cache (az_delegation s')"
  shows "\<exists>sn hs body. last (az_log s') = Attempt sn \<lparr>bm_properties = map (\<lambda>(k, v). (k, PStr v)) hs, bm_body = body\<rparr> (Inr ()) \<and>
    (\<forall>b i. \<exists>a rest. ww_log (snd (message_handler E (azure_delivery b i hs body) w)) =
        ww_log w @ [Handled (fst (f (PDict (msg_payload m)) a))] @ rest \<and>
      arrives (av_send V) m (az_delegation s) c a)"
proof -
  obtain q d where q: "envelope_of (av_send V) m (Some c) (az_delegation s) = (q, d)" by (rule prod.exhaust)
  with assms(1,2) obtain hs body where e: "q = Inr (hs, body)"
    by (cases q) (auto simp: azure_send_def azure_delegation_def act_simps)
  let ?b = "\<lparr>bm_properties = map (\<lambda>(k, v). (k, PStr v)) hs, bm_body = body\<rparr>" and ?s = "s\<lparr>az_delegation := d\<rparr>"
  have dl: "deliver V (msg_consumer_name m) ?b ?s = (Inr (), s')"
    using assms(1,2) q e by (auto simp: azure_send_def azure_delegation_def act_simps split: prod.splits sum.splits)
  have "senders_ok V ?s" using assms(3) by (simp add: senders_ok_def)
  note out = deliver_run [OF dl this]
  then have d: "az_delegation s' = d" and l: "\<exists>sn. last (az_log s') = Attempt sn ?b (Inr ())" by auto
  with azure_channel.sent_message_handled [OF assms(4,2) q [unfolded e] assms(5) [unfolded d] prod.collapse [symmetric]]
  show ?thesis by blast
qed

section \<open>A worker that sends\<close>

text \<open>A worker processing an impersonating user's message sends a job on.\<close>

definition sample_job :: consumer_message where
  "sample_job = \<lparr>msg_consumer_name = ''jobs'', msg_payload = [], msg_payload_type = ''job'', msg_context = None,
     msg_routing_key = [], msg_delegation_ttl_seconds = None\<rparr>"

definition sample_rabbit_env :: "(string \<times> string) list rabbit_client_env" where
  "sample_rabbit_env = \<lparr>rv_send = sample_send_env, rv_broker = sample_broker, rv_configuration = sample_configuration [],
     rv_get_exchange = (\<lambda>_. Inr ()), rv_publish = (\<lambda>_ _. Inr ())\<rparr>"

definition sample_rabbit_client :: "(string \<times> string) list rabbit_client" where
  "sample_rabbit_client = \<lparr>rb_delegation = worker_world, rb_service = new_rabbit_service\<lparr>rs_channel := True\<rparr>,
     rb_initialized = True, rb_published = []\<rparr>"

lemma sample_envelope: "\<exists>r d. envelope_of sample_send_env sample_job c worker_world = (Inr r, d)"
  using worker_sends
  by (auto simp: envelope_of_def serialize_payload_def seq_run lift_exn_run ret_run sample_send_env_def sample_job_def)

lemma sample_agree: "agree sample_send_env broker_env (sanitized impersonating) sample_job (\<lambda>_. ret ())"
  using strict_env_ok
  by (simp add: agree_def sample_send_env_def sample_job_def truthy_opt_def impersonating_def sanitized_def user_context_def
      default_context_def)

end
