(* ===== verification/Delegated_Call.thy ===== *)
theory Delegated_Call
  imports Message_Transport
begin

text \<open>
  The whole way of a delegated call: a service sends a message, a worker handles it, and the handler asks for a
  token of the grant the message carried. The theorem composes the send, the worker and the token
  provider: what is exchanged is the grant whose record holds the sender's authority, under the sender's
  tenant.
\<close>

section \<open>Redeeming in a handler\<close>

text \<open>The exchange \<open>p\<close> redeems a grant that the handler's world \<open>a\<close> holds and whose record speaks for the sender.\<close>

definition redeems ::
  "token_env \<Rightarrow> 'c send_env \<Rightarrow> 'c delegation_world \<Rightarrow> blocks_context \<Rightarrow> 'c app_world \<Rightarrow> tenant \<Rightarrow> token_request \<Rightarrow> bool" where
  "redeems T S d c a tn p \<longleftrightarrow>
     (\<exists>i gr ts. current_grant (ambient_of a) = Some i \<and>
        fst (get_grant (sn_delegation S) (Some i) (ap_delegation a)) = Inr (Some gr) \<and>
        grant_authority (sn_delegation S) d c gr \<and>
        tr_form p = exchange_form (te_hmac T) (tenant_id c) i (new_nonce (te_random T)) ts (t_tenant_salt tn))"

lemma handler_redeems:
  assumes "arrives S m d c a" and "tw_ambient w = ambient_of a" and "get_token T clk w = (Inr (Some t), w')"
    and "\<And>i. kept_token i (tw_provider w) = None"
  shows "\<exists>tn p. fst (get_tenant (te_tenant_db T) (tenant_id c) (tw_tenants w)) = Some tn \<and>
    tw_posts w' = tw_posts w @ [p] \<and> redeems T S d c a tn p"
proof -
  have ctx: "get_context None (tw_ambient w) = Some (sanitized c)" using assms(1,2) by (simp add: arrives_def)
  have tid: "tenant_id (sanitized c) = tenant_id c" by (simp add: sanitized_def)
  obtain i where i: "current_grant (tw_ambient w) = Some i" "i \<noteq> []" and ne: "tenant_id (sanitized c) \<noteq> []"
    using get_token_Some [OF assms(3)] ctx by (metis option.inject)
  from get_token_outcome [OF assms(3) i ctx ne] assms(4) obtain tn p where
    "fst (get_tenant (te_tenant_db T) (tenant_id c) (tw_tenants w)) = Some tn" "tw_posts w' = tw_posts w @ [p]"
    "tr_form p = exchange_form (te_hmac T) (tenant_id c) i (new_nonce (te_random T)) \<lfloor>clk 3\<rfloor> (t_tenant_salt tn)"
    by (auto simp: tid)
  moreover obtain gr where "fst (get_grant (sn_delegation S) (Some i) (ap_delegation a)) = Inr (Some gr)"
      "grant_authority (sn_delegation S) d c gr"
    using assms(1,2) i by (auto simp: arrives_def)
  ultimately show ?thesis using i assms(2) by (auto simp: redeems_def)
qed

text \<open>
  C6. From a RabbitMQ send to the delegated call of its handler: a message sent under a context is published, and
  a worker that receives it, with its headers as text or as bytes, first of all runs the registered handler
  on the payload that was sent. The handler arrives with the sender's context, without its secrets, and with the
  grant the send wrote; and a token it is given by a provider that holds none was exchanged, under the sender's
  tenant, for that grant, whose record can be read and holds the sender's authority and no more.
\<close>

theorem delegated_call:
  assumes "rabbit_send V m x s = (Inr v, s')" and "get_context None (dl_ambient (rb_delegation s)) = Some c"
    and "agree (rv_send V) E c m f" and "dl_cache (ap_delegation (ww_app w)) = dl_cache (rb_delegation s')"
  shows "\<exists>p. rb_published s' = rb_published s @ [p] \<and>
    (\<forall>b. \<exists>a rest. ww_log (snd (process_message E (rabbit_delivery b (pb_headers p) (pb_body p)) w)) =
        ww_log w @ [Handled (fst (f (PDict (msg_payload m)) a))] @ rest \<and>
      arrives (rv_send V) m (rb_delegation s) c a \<and>
      (\<forall>T clk w0 t w1. tw_ambient w0 = ambient_of a \<and> (\<forall>i. kept_token i (tw_provider w0) = None) \<and>
          get_token T clk w0 = (Inr (Some t), w1) \<longrightarrow>
        (\<exists>tn q. fst (get_tenant (te_tenant_db T) (tenant_id c) (tw_tenants w0)) = Some tn \<and>
          tw_posts w1 = tw_posts w0 @ [q] \<and> redeems T (rv_send V) (rb_delegation s) c a tn q)))"
proof -
  have call: "\<exists>tn q. fst (get_tenant (te_tenant_db T) (tenant_id c) (tw_tenants w0)) = Some tn \<and>
      tw_posts w1 = tw_posts w0 @ [q] \<and> redeems T (rv_send V) (rb_delegation s) c a tn q"
    if "arrives (rv_send V) m (rb_delegation s) c a" "tw_ambient w0 = ambient_of a"
      "\<forall>i. kept_token i (tw_provider w0) = None" "get_token T clk w0 = (Inr (Some t), w1)" for a T clk w0 t w1
    using handler_redeems [OF that(1,2,4)] that(3) by blast
  from rabbit_send_reaches_handler [OF assms] obtain p where pub: "rb_published s' = rb_published s @ [p]"
    and handled: "\<And>b. \<exists>a rest. ww_log (snd (process_message E (rabbit_delivery b (pb_headers p) (pb_body p)) w)) =
        ww_log w @ [Handled (fst (f (PDict (msg_payload m)) a))] @ rest \<and> arrives (rv_send V) m (rb_delegation s) c a"
    by blast
  show ?thesis
  proof (intro exI [of _ p] conjI allI pub)
    fix b
    from handled [of b] obtain a rest where l: "ww_log (snd (process_message E (rabbit_delivery b (pb_headers p) (pb_body p)) w)) =
        ww_log w @ [Handled (fst (f (PDict (msg_payload m)) a))] @ rest" and a: "arrives (rv_send V) m (rb_delegation s) c a"
      by blast
    show "\<exists>a rest. ww_log (snd (process_message E (rabbit_delivery b (pb_headers p) (pb_body p)) w)) =
        ww_log w @ [Handled (fst (f (PDict (msg_payload m)) a))] @ rest \<and>
      arrives (rv_send V) m (rb_delegation s) c a \<and>
      (\<forall>T clk w0 t w1. tw_ambient w0 = ambient_of a \<and> (\<forall>i. kept_token i (tw_provider w0) = None) \<and>
          get_token T clk w0 = (Inr (Some t), w1) \<longrightarrow>
        (\<exists>tn q. fst (get_tenant (te_tenant_db T) (tenant_id c) (tw_tenants w0)) = Some tn \<and>
          tw_posts w1 = tw_posts w0 @ [q] \<and> redeems T (rv_send V) (rb_delegation s) c a tn q))"
      by (rule exI [of _ a], rule exI [of _ rest]) (use l a call in blast)
  qed
qed

section \<open>A job sent on\<close>

theorem delegated_call_witness:
  "\<exists>s' p (a :: (string \<times> string) list app_world) rest w1 q. rabbit_send sample_rabbit_env sample_job False sample_rabbit_client = (Inr True, s') \<and>
    rb_published s' = [p] \<and>
    ww_log (snd (process_message broker_env (rabbit_delivery True (pb_headers p) (pb_body p))
      (idle_worker (dl_cache (rb_delegation s'))))) = [Handled (Inr ())] @ rest \<and>
    get_token sample_token_env (at_time 0) (sample_token_world\<lparr>tw_ambient := ambient_of a\<rparr>) = (Inr (Some ''tok''), w1) \<and>
    tw_posts w1 = [q] \<and>
    redeems sample_token_env sample_send_env worker_world (sanitized impersonating) a
      (default_tenant\<lparr>t_tenant_id := ''t1'', t_tenant_salt := ''salt''\<rparr>) q"
proof -
  obtain r d where e: "envelope_of sample_send_env sample_job (Some (sanitized impersonating)) worker_world = (Inr r, d)"
    using sample_envelope by blast
  then obtain s' where run: "rabbit_send sample_rabbit_env sample_job False sample_rabbit_client = (Inr True, s')"
    by (cases r) (simp add: rabbit_send_def ensure_initialized_def rabbit_delegation_def rabbit_publish_def act_simps
        sample_rabbit_env_def sample_rabbit_client_def sample_configuration_def)
  let ?w = "idle_worker (dl_cache (rb_delegation s'))" and ?c = "sanitized impersonating"
  have a: "agree (rv_send sample_rabbit_env) broker_env ?c sample_job (\<lambda>_. ret ())"
    "get_context None (dl_ambient (rb_delegation sample_rabbit_client)) = Some ?c"
    "dl_cache (ap_delegation (ww_app ?w)) = dl_cache (rb_delegation s')"
    "rv_send sample_rabbit_env = sample_send_env" "rb_delegation sample_rabbit_client = worker_world"
    "rb_published sample_rabbit_client = []" "ww_log ?w = []"
    using sample_agree by (simp_all add: sample_rabbit_env_def sample_rabbit_client_def)
  from delegated_call [OF run a(2,1,3)] obtain p a rest where p: "rb_published s' = [p]"
    and l: "ww_log (snd (process_message broker_env (rabbit_delivery True (pb_headers p) (pb_body p)) ?w)) = [Handled (Inr ())] @ rest"
    and arr: "arrives sample_send_env sample_job worker_world ?c a"
    and call: "\<And>T clk w0 t w1. tw_ambient w0 = ambient_of a \<Longrightarrow> (\<forall>i. kept_token i (tw_provider w0) = None) \<Longrightarrow>
          get_token T clk w0 = (Inr (Some t), w1) \<Longrightarrow>
        \<exists>tn q. fst (get_tenant (te_tenant_db T) (tenant_id ?c) (tw_tenants w0)) = Some tn \<and>
          tw_posts w1 = tw_posts w0 @ [q] \<and> redeems T sample_send_env worker_world ?c a tn q"
    unfolding a(4-7) by (simp add: ret_run) blast
  have i: "current_grant (ambient_of a) = Some (new_grant_id zero_bytes)"
    using arr worker_sends by (auto simp: arrives_def sample_send_env_def sample_job_def)
  have ne: "new_grant_id zero_bytes \<noteq> []" using new_grant_id_well_formed [of zero_bytes zero_bytes] well_formed_nonempty by fastforce
  have c: "get_context None (ambient_of a) = Some (sanitized ?c)" "tenant_id (sanitized ?c) = ''t1''" "tenant_id ?c = ''t1''"
    using arr by (simp_all add: arrives_def sanitized_def impersonating_def user_context_def)
  let ?t = "sample_token_world\<lparr>tw_ambient := ambient_of a\<rparr>"
  obtain w1 where g: "get_token sample_token_env (at_time 0) ?t = (Inr (Some ''tok''), w1)"
    using fresh_exchange [OF i ne c(1,2)] by blast
  from call [OF _ _ g] obtain tn q where
    "fst (get_tenant (te_tenant_db sample_token_env) ''t1'' new_tenant_service) = Some tn" "tw_posts w1 = [q]"
    "redeems sample_token_env sample_send_env worker_world ?c a tn q"
    by (auto simp: c(3) kept_token_def new_token_provider_def)
  moreover from this(1) have "tn = default_tenant\<lparr>t_tenant_id := ''t1'', t_tenant_salt := ''salt''\<rparr>"
    by (simp add: get_tenant_def load_tenant_from_db_def sample_token_env_def cached_tenant_def new_tenant_service_def)
  ultimately show ?thesis using run p l g by blast
qed

end
