(* ===== verification/Subscription_Usage.thy ===== *)
theory Subscription_Usage
  imports Access_Control Token_Provider
begin

text \<open>
  \<^verbatim>\<open>_subscription\<close> and the usage dependency of \<^verbatim>\<open>_auth/auth.py\<close>: the
  query for the current period's rows, the conversion of a stored row, and the snapshot a request reads.
  The collection, the clock and Python's \<^verbatim>\<open>float()\<close> are parameters; a float is the text
  of its \<^verbatim>\<open>repr\<close>, compared by \<open>ue_le\<close>.
\<close>

section \<open>Stored rows\<close>

datatype subscription_status = INCOMPLETE | INCOMPLETE_EXPIRED | TRIALING | ACTIVE | PAST_DUE | UNPAID | CANCELED

fun status_value :: "subscription_status \<Rightarrow> int" where
  "status_value INCOMPLETE = 0"
| "status_value INCOMPLETE_EXPIRED = 1"
| "status_value TRIALING = 2"
| "status_value ACTIVE = 3"
| "status_value PAST_DUE = 4"
| "status_value UNPAID = 5"
| "status_value CANCELED = 6"

text \<open>A stored value is a plain one or a \<^verbatim>\<open>Decimal128\<close>.\<close>

datatype stored = Plain pyval | Decimal128 string

record usage_doc =
  ud_tenant_id :: string
  ud_organization_id :: string
  ud_status :: int
  ud_period_start :: real
  ud_period_end :: real
  ud_fields :: "(string \<times> stored) list"

record usage_env =
  ue_model :: model_env
  ue_float :: "pyval \<Rightarrow> py_exn + string"
  ue_decimal_float :: "string \<Rightarrow> py_exn + string"
  ue_int_of_float :: "string \<Rightarrow> py_exn + int"
  ue_le :: "string \<Rightarrow> string \<Rightarrow> bool"
  ue_collection :: "string \<Rightarrow> py_exn + usage_doc list"
  ue_now :: real

section \<open>The query\<close>

definition usage_query :: "usage_env \<Rightarrow> string \<Rightarrow> string \<Rightarrow> usage_doc \<Rightarrow> bool" where
  "usage_query U tid org d \<longleftrightarrow>
     ud_tenant_id d = tid \<and> ud_organization_id d = org \<and> ud_status d = status_value ACTIVE \<and>
     ud_period_start d \<le> ue_now U \<and> ud_period_end d > ue_now U"

definition get_current_usage_docs :: "usage_env \<Rightarrow> string \<Rightarrow> string \<Rightarrow> py_exn + usage_doc list" where
  "get_current_usage_docs U tid org = map_sum id (filter (usage_query U tid org)) (ue_collection U tid)"

section \<open>Converting a row\<close>

definition field_of :: "usage_doc \<Rightarrow> string \<Rightarrow> stored \<Rightarrow> stored" where
  "field_of d k v = (case map_of (ud_fields d) k of None \<Rightarrow> v | Some x \<Rightarrow> x)"

definition number :: "usage_env \<Rightarrow> stored \<Rightarrow> py_exn + string" where
  "number U v =
     (if v = Plain PNone then Inr ''0.0''
      else case (case v of Plain x \<Rightarrow> ue_float U x | Decimal128 t \<Rightarrow> ue_decimal_float U t) of
        Inl e \<Rightarrow> if e = TypeError \<or> is_ValueError e then Inr ''0.0'' else Inl e
      | Inr f \<Rightarrow> Inr f)"

definition MAX_QUANTITY_SCALE :: int where "MAX_QUANTITY_SCALE = 6"

definition quantity_scale_of :: "usage_env \<Rightarrow> stored \<Rightarrow> py_exn + int" where
  "quantity_scale_of U v =
     (case (case v of Plain x \<Rightarrow> py_int (ue_int_of_float U) x | Decimal128 t \<Rightarrow> Inl TypeError) of
        Inl e \<Rightarrow> if e = TypeError \<or> is_ValueError e then Inr 0 else Inl e
      | Inr n \<Rightarrow> Inr (max 0 (min MAX_QUANTITY_SCALE n)))"

definition stored_truthy :: "stored \<Rightarrow> bool" where
  "stored_truthy v = (case v of Plain x \<Rightarrow> truthy x | Decimal128 t \<Rightarrow> True)"

definition meter_key_of :: "usage_env \<Rightarrow> stored \<Rightarrow> py_exn + string" where
  "meter_key_of U v =
     (case v of
        Plain x \<Rightarrow> if truthy x then coerce_str (ue_model U) x else Inr []
      | Decimal128 t \<Rightarrow> Inl ValidationError)"

definition to_result :: "usage_env \<Rightarrow> usage_doc \<Rightarrow> py_exn + usage_result" where
  "to_result U d =
     (case number U (field_of d ''Used'' (Plain PNone)) of Inl e \<Rightarrow> Inl e | Inr used \<Rightarrow>
     (case number U (field_of d ''Included'' (Plain PNone)) of Inl e \<Rightarrow> Inl e | Inr included \<Rightarrow>
     (let overage_allowed = stored_truthy (field_of d ''OverageAllowed'' (Plain (PBool True))) in
     (case quantity_scale_of U (field_of d ''QuantityScale'' (Plain PNone)) of Inl e \<Rightarrow> Inl e | Inr scale \<Rightarrow>
     (case number U (field_of d ''Remaining'' (Plain PNone)) of Inl e \<Rightarrow> Inl e | Inr remaining \<Rightarrow>
     (case number U (field_of d ''Overage'' (Plain PNone)) of Inl e \<Rightarrow> Inl e | Inr overage \<Rightarrow>
     (case meter_key_of U (field_of d ''MeterKey'' (Plain PNone)) of Inl e \<Rightarrow> Inl e | Inr meter_key \<Rightarrow>
        Inr \<lparr>u_allowed = (ue_le U used included \<or> overage_allowed), u_meter_key = meter_key, u_used = used,
             u_remaining = remaining, u_overage = overage, u_replayed = False, u_quantity_scale = scale,
             u_is_fraction_allowed = (scale > 0)\<rparr>)))))))"

fun convert_all :: "('x \<Rightarrow> py_exn + 'y) \<Rightarrow> 'x list \<Rightarrow> py_exn + 'y list" where
  "convert_all f [] = Inr []"
| "convert_all f (x # xs) =
     (case f x of Inl e \<Rightarrow> Inl e
      | Inr y \<Rightarrow> (case convert_all f xs of Inl e \<Rightarrow> Inl e | Inr ys \<Rightarrow> Inr (y # ys)))"

text \<open>The conversion stands outside the code's \<^verbatim>\<open>try\<close>.\<close>

definition get_usage_current :: "usage_env \<Rightarrow> string \<Rightarrow> string \<Rightarrow> py_exn + usage_result list option" where
  "get_usage_current U tid org =
     (if tid = [] \<or> org = [] then Inr None
      else case get_current_usage_docs U tid org of
        Inl e \<Rightarrow> if e = Unmodelled then Inl e else Inr None
      | Inr docs \<Rightarrow> map_sum id Some (convert_all (to_result U) docs))"

section \<open>The snapshot\<close>

definition value_or :: "string \<Rightarrow> string option \<Rightarrow> string option" where
  "value_or s d = (if s \<noteq> [] then Some s else d)"

text \<open>The ids of the lookup: the context's, and the arguments where it has none.\<close>

definition lookup_ids :: "blocks_context option \<Rightarrow> string option \<Rightarrow> string option \<Rightarrow> string option \<times> string option" where
  "lookup_ids context tid org =
     (case context of
        None \<Rightarrow> (tid, org)
      | Some c \<Rightarrow> (value_or (tenant_id c) tid, value_or (organization_id c) org))"

definition keep_snapshot :: "usage_result list option \<Rightarrow> (auth_world, usage_result list option) act" where
  "keep_snapshot s = seq (modify (\<lambda>w. w\<lparr>aw_ambient := set_usage s (aw_ambient w)\<rparr>)) (\<lambda>_. ret s)"

definition resolve_subscription_usage ::
  "usage_env \<Rightarrow> string option \<Rightarrow> string option \<Rightarrow> (auth_world, usage_result list option) act" where
  "resolve_subscription_usage U tid org =
     seq current_context (\<lambda>context.
     case lookup_ids context tid org of (t, g) \<Rightarrow>
       if \<not> truthy_opt t \<or> \<not> truthy_opt g then keep_snapshot None
       else seq (except_any (lift_exn (get_usage_current U (or_empty t) (or_empty g))) (\<lambda>_. ret None)) keep_snapshot)"

definition subscription_usage_snapshot ::
  "auth_env \<Rightarrow> permission_db \<Rightarrow> bool \<Rightarrow> usage_env \<Rightarrow> bool \<Rightarrow> string option \<Rightarrow> string option \<Rightarrow> request
    \<Rightarrow> (auth_world, blocks_context option) act" where
  "subscription_usage_snapshot E db db_ready U bypass_authorization tid org r =
     seq (if bypass_authorization then seq (authorize E db db_ready None True r) (\<lambda>c. ret (Some c)) else current_context) (\<lambda>context.
     if context = None \<and> \<not> (truthy_opt tid \<and> truthy_opt org) then raise (unauthorized ''Missing context'')
     else seq (resolve_subscription_usage U tid org) (\<lambda>_. ret context))"

section \<open>Lemmas\<close>

lemma convert_all_Inr: "convert_all f xs = Inr ys \<longleftrightarrow> list_all2 (\<lambda>x y. f x = Inr y) xs ys"
  by (induction xs arbitrary: ys) (auto simp: list_all2_Cons1 split: sum.splits, metis sum.inject(2))

lemma quantity_scale_bounds:
  "quantity_scale_of U v = Inr n \<Longrightarrow> 0 \<le> n \<and> n \<le> MAX_QUANTITY_SCALE"
  by (auto simp: quantity_scale_of_def MAX_QUANTITY_SCALE_def split: sum.splits if_splits)

text \<open>What a converted row says of the stored one.\<close>

lemma to_result_Inr:
  assumes "to_result U d = Inr u"
  shows "0 \<le> u_quantity_scale u \<and> u_quantity_scale u \<le> MAX_QUANTITY_SCALE \<and>
    (u_is_fraction_allowed u \<longleftrightarrow> u_quantity_scale u > 0) \<and> \<not> u_replayed u \<and>
    number U (field_of d ''Used'' (Plain PNone)) = Inr (u_used u) \<and>
    (\<exists>included. number U (field_of d ''Included'' (Plain PNone)) = Inr included \<and>
      (u_allowed u \<longleftrightarrow> ue_le U (u_used u) included \<or> stored_truthy (field_of d ''OverageAllowed'' (Plain (PBool True)))))"
  using assms by (auto simp: to_result_def Let_def split: sum.splits dest!: quantity_scale_bounds)


text \<open>One row, out of its quota, of the caller's organization, and one of another's.\<close>

definition sample_usage_env :: usage_env where
  "sample_usage_env = \<lparr>ue_model = strict_env, ue_float = (\<lambda>v. case v of PInt n \<Rightarrow> Inr (show_int n) | _ \<Rightarrow> Inl TypeError),
     ue_decimal_float = Inr, ue_int_of_float = (\<lambda>_. Inl ValueError), ue_le = (\<lambda>x y. x = y),
     ue_collection = (\<lambda>_. Inr (map (\<lambda>org. \<lparr>ud_tenant_id = ''t1'', ud_organization_id = org, ud_status = 3, ud_period_start = 0,
       ud_period_end = 2, ud_fields = [(''MeterKey'', Plain (PStr ''calls'')), (''Used'', Decimal128 ''7.5''),
         (''OverageAllowed'', Plain (PBool False)), (''QuantityScale'', Plain (PInt 9))]\<rparr>) [''o1'', ''o2''])),
     ue_now = 1\<rparr>"

definition sample_usage :: usage_result where
  "sample_usage = \<lparr>u_allowed = False, u_meter_key = ''calls'', u_used = ''7.5'', u_remaining = ''0.0'', u_overage = ''0.0'',
     u_replayed = False, u_quantity_scale = 6, u_is_fraction_allowed = True\<rparr>"

lemma sample_usage_current: "get_usage_current sample_usage_env ''t1'' ''o1'' = Inr (Some [sample_usage])"
  by (simp add: get_usage_current_def get_current_usage_docs_def usage_query_def sample_usage_env_def to_result_def number_def
      field_of_def stored_truthy_def quantity_scale_of_def py_int_def MAX_QUANTITY_SCALE_def meter_key_of_def strict_env_def
      sample_usage_def)


end
