(* ===== verification/Mongo_Context.thy ===== *)
theory Mongo_Context
  imports Tenant_Service Ambient
begin

text \<open>
  \<^verbatim>\<open>_database/mongo_context.py\<close> and \<^verbatim>\<open>db_context.py\<close>: the process-wide
  clients and database handles, and the lookups that hand them out. A \<^verbatim>\<open>MongoClient\<close> is its
  connection string and a serial number, a handle is its client and its name; constructing a client is a
  parameter that may raise. Threads share the two dicts; the double-checked lock around them is a step
  relation, where a read of a dict outside the lock and the guarded block are steps of their own.
\<close>

section \<open>The registry\<close>

record mongo_client =
  cl_connection :: string
  cl_serial :: nat

record mongo_database =
  db_client :: mongo_client
  db_name :: string

type_synonym database_key = "string \<times> string"

record mongo_registry =
  mr_clients :: "(string \<times> mongo_client) list"
  mr_databases :: "(database_key \<times> mongo_database) list"
  mr_created :: nat

type_synonym 'a mongo_act = "(mongo_registry, 'a) act"

definition empty_registry :: mongo_registry where
  "empty_registry = \<lparr>mr_clients = [], mr_databases = [], mr_created = 0\<rparr>"

definition get_client :: "(string \<Rightarrow> py_exn + unit) \<Rightarrow> string \<Rightarrow> mongo_client mongo_act" where
  "get_client construct connection =
     seq (gets (\<lambda>s. map_of (mr_clients s) connection)) (\<lambda>known.
     case known of
       Some c \<Rightarrow> ret c
     | None \<Rightarrow>
         seq (lift_exn (construct connection)) (\<lambda>_.
         seq (gets (\<lambda>s. \<lparr>cl_connection = connection, cl_serial = mr_created s\<rparr>)) (\<lambda>c.
         seq (modify (\<lambda>s. s\<lparr>mr_clients := AList.update connection c (mr_clients s), mr_created := mr_created s + 1\<rparr>)) (\<lambda>_.
         ret c))))"

text \<open>The block under the lock.\<close>

definition guarded_lookup :: "(string \<Rightarrow> py_exn + unit) \<Rightarrow> database_key \<Rightarrow> mongo_database mongo_act" where
  "guarded_lookup construct key =
     seq (gets (\<lambda>s. map_of (mr_databases s) key)) (\<lambda>known.
     case known of
       Some d \<Rightarrow> ret d
     | None \<Rightarrow>
         seq (get_client construct (fst key)) (\<lambda>c.
         let d = \<lparr>db_client = c, db_name = snd key\<rparr> in
         seq (modify (\<lambda>s. s\<lparr>mr_databases := AList.update key d (mr_databases s)\<rparr>)) (\<lambda>_. ret d)))"

definition get_database_by_connection :: "(string \<Rightarrow> py_exn + unit) \<Rightarrow> string \<Rightarrow> string \<Rightarrow> mongo_database mongo_act" where
  "get_database_by_connection construct connection name =
     (if connection = [] then raise ValueError
      else if name = [] then raise ValueError
      else
      seq (gets (\<lambda>s. map_of (mr_databases s) (connection, name))) (\<lambda>known.
      case known of Some d \<Rightarrow> ret d | None \<Rightarrow> guarded_lookup construct (connection, name)))"

section \<open>The provider\<close>

record mongo_world =
  mw_context :: "blocks_context option"
  mw_tenants :: tenant_service
  mw_registry :: mongo_registry

definition on_registry :: "'a mongo_act \<Rightarrow> (mongo_world, 'a) act" where
  "on_registry m = (\<lambda>w. case m (mw_registry w) of (r, s) \<Rightarrow> (r, w\<lparr>mw_registry := s\<rparr>))"

definition database_tenant :: "blocks_context option \<Rightarrow> string option \<Rightarrow> string" where
  "database_tenant context tid =
     (if truthy_opt tid then or_empty tid else case context of None \<Rightarrow> [] | Some c \<Rightarrow> tenant_id c)"

definition get_database ::
  "(string \<Rightarrow> py_exn + unit) \<Rightarrow> (string \<Rightarrow> py_exn + tenant option) \<Rightarrow> string option
    \<Rightarrow> (mongo_world, mongo_database option) act" where
  "get_database construct db tid =
     seq (gets (\<lambda>w. database_tenant (mw_context w) tid)) (\<lambda>t.
     if t = [] then ret None
     else
     seq (\<lambda>w. case get_db_connection db t (mw_tenants w) of (r, s) \<Rightarrow> (Inr r, w\<lparr>mw_tenants := s\<rparr>)) (\<lambda>r.
     case r of
       None \<Rightarrow> raise ValueError
     | Some (name, connection) \<Rightarrow>
         if connection = [] \<or> name = [] then raise ValueError
         else seq (on_registry (get_database_by_connection construct connection name)) (\<lambda>d. ret (Some d))))"

definition get_collection ::
  "(string \<Rightarrow> py_exn + unit) \<Rightarrow> (string \<Rightarrow> py_exn + tenant option) \<Rightarrow> string \<Rightarrow> string option
    \<Rightarrow> (mongo_world, mongo_database \<times> string) act" where
  "get_collection construct db collection tid =
     seq (get_database construct db tid) (\<lambda>d.
     case d of None \<Rightarrow> raise RuntimeError | Some x \<Rightarrow> ret (x, collection))"

section \<open>DbContext\<close>

definition get_provider_instance :: "'p option \<Rightarrow> py_exn + 'p" where
  "get_provider_instance provider = (case provider of None \<Rightarrow> Inl RuntimeError | Some p \<Rightarrow> Inr p)"

section \<open>The registry's invariant\<close>

text \<open>A client is filed under its own connection and is older than the next one, no two connections share
  one, and a handle is filed under its client's connection and its own name, its client being the one of
  that connection.\<close>

definition registry_ok :: "mongo_registry \<Rightarrow> bool" where
  "registry_ok s \<longleftrightarrow>
     (\<forall>x c. map_of (mr_clients s) x = Some c \<longrightarrow> cl_connection c = x \<and> cl_serial c < mr_created s) \<and>
     (\<forall>x y c d. map_of (mr_clients s) x = Some c \<longrightarrow> map_of (mr_clients s) y = Some d \<longrightarrow> cl_serial c = cl_serial d \<longrightarrow> x = y) \<and>
     (\<forall>x n d. map_of (mr_databases s) (x, n) = Some d \<longrightarrow> db_name d = n \<and> map_of (mr_clients s) x = Some (db_client d)) \<and>
     card (dom (map_of (mr_clients s))) = mr_created s"

lemma registry_ok_empty [simp]: "registry_ok empty_registry"
  by (simp add: registry_ok_def empty_registry_def)

lemma registry_okD:
  assumes "registry_ok s"
  shows "map_of (mr_clients s) x = Some c \<Longrightarrow> cl_connection c = x \<and> cl_serial c < mr_created s"
    and "map_of (mr_clients s) x = Some c \<Longrightarrow> map_of (mr_clients s) y = Some d \<Longrightarrow> cl_serial c = cl_serial d \<Longrightarrow> x = y"
    and "map_of (mr_databases s) (x, n) = Some b \<Longrightarrow> db_name b = n \<and> map_of (mr_clients s) x = Some (db_client b)"
    and "card (dom (map_of (mr_clients s))) = mr_created s"
  using assms unfolding registry_ok_def by blast+

text \<open>What the block under the lock does: it keeps every entry, and returns the one it files.\<close>

definition extends :: "mongo_registry \<Rightarrow> mongo_registry \<Rightarrow> bool" where
  "extends s s' \<longleftrightarrow> map_of (mr_clients s) \<subseteq>\<^sub>m map_of (mr_clients s') \<and> map_of (mr_databases s) \<subseteq>\<^sub>m map_of (mr_databases s')"

lemma extends_refl [simp]: "extends s s"
  by (simp add: extends_def)

lemma extends_trans: "extends s t \<Longrightarrow> extends t u \<Longrightarrow> extends s u"
  by (auto simp: extends_def intro: map_le_trans)

lemma get_client_run:
  assumes "get_client construct x s = (r, s')" and "registry_ok s"
  shows "registry_ok s' \<and> extends s s' \<and> mr_databases s' = mr_databases s \<and>
    (\<forall>c. r = Inr c \<longrightarrow> map_of (mr_clients s') x = Some c) \<and> (\<forall>e. r = Inl e \<longrightarrow> s' = s \<and> construct x = Inl e)"
proof (cases "map_of (mr_clients s) x")
  case (Some c)
  with assms show ?thesis by (auto simp: get_client_def act_simps)
next
  case None
  show ?thesis
  proof (cases "construct x")
    case (Inl e)
    with assms None show ?thesis by (auto simp: get_client_def act_simps)
  next
    case (Inr u)
    let ?c = "\<lparr>cl_connection = x, cl_serial = mr_created s\<rparr>"
    have s': "r = Inr ?c" "s' = s\<lparr>mr_clients := AList.update x ?c (mr_clients s), mr_created := mr_created s + 1\<rparr>"
      using assms(1) None Inr by (auto simp: get_client_def act_simps)
    have old: "cl_serial d < mr_created s" if "map_of (mr_clients s) y = Some d" for y d
      using registry_okD(1) [OF assms(2) that] ..
    have sel: "mr_clients s' = AList.update x ?c (mr_clients s)" "mr_created s' = mr_created s + 1" "mr_databases s' = mr_databases s"
      using s'(2) by simp_all
    have "registry_ok s'"
      unfolding registry_ok_def sel map_of_update
    proof (intro conjI allI impI)
      fix y c assume "((map_of (mr_clients s))(x \<mapsto> ?c)) y = Some c"
      then show "cl_connection c = y" "cl_serial c < mr_created s + 1"
        using registry_okD(1) [OF assms(2), of y c] by (auto split: if_splits)
    next
      fix y z c d assume "((map_of (mr_clients s))(x \<mapsto> ?c)) y = Some c" "((map_of (mr_clients s))(x \<mapsto> ?c)) z = Some d"
        "cl_serial c = cl_serial d"
      then show "y = z"
        using old [of y c] old [of z d] registry_okD(2) [OF assms(2), of y c z d] by (cases "y = x"; cases "z = x") auto
    next
      fix y n d assume "map_of (mr_databases s) (y, n) = Some d"
      from registry_okD(3) [OF assms(2) this] None
      show "db_name d = n" "((map_of (mr_clients s))(x \<mapsto> ?c)) y = Some (db_client d)" by auto
    next
      have "x \<notin> dom (map_of (mr_clients s))" using None by auto
      then show "card (dom ((map_of (mr_clients s))(x \<mapsto> ?c))) = mr_created s + 1"
        using registry_okD(4) [OF assms(2)] by (simp add: finite_dom_map_of)
    qed
    moreover have "extends s s'" using None by (auto simp: extends_def sel map_le_def)
    moreover have "map_of (mr_clients s') x = Some ?c" unfolding sel by simp
    ultimately show ?thesis using s'(1) sel(3) by auto
  qed
qed

lemma guarded_lookup_run:
  assumes "guarded_lookup construct key s = (r, s')" and "registry_ok s"
  shows "registry_ok s' \<and> extends s s' \<and> (\<forall>d. r = Inr d \<longrightarrow> map_of (mr_databases s') key = Some d)"
proof (cases "map_of (mr_databases s) key")
  case (Some d)
  with assms show ?thesis by (auto simp: guarded_lookup_def act_simps)
next
  case None
  obtain q s1 where q: "get_client construct (fst key) s = (q, s1)" by (rule prod.exhaust)
  note c = get_client_run [OF q assms(2)]
  show ?thesis
  proof (cases q)
    case (Inl e)
    with assms(1) None q c show ?thesis by (auto simp: guarded_lookup_def act_simps)
  next
    case (Inr x)
    let ?d = "\<lparr>db_client = x, db_name = snd key\<rparr>"
    have s': "r = Inr ?d" "s' = s1\<lparr>mr_databases := AList.update key ?d (mr_databases s1)\<rparr>"
      using assms(1) None q Inr by (auto simp: guarded_lookup_def act_simps Let_def)
    have sel: "mr_clients s' = mr_clients s1" "mr_created s' = mr_created s1" "mr_databases s' = AList.update key ?d (mr_databases s1)"
      using s'(2) by simp_all
    have ok: "registry_ok s1" and x: "map_of (mr_clients s1) (fst key) = Some x" and e: "extends s s1" "mr_databases s1 = mr_databases s"
      using c Inr by auto
    have "registry_ok s'"
      unfolding registry_ok_def sel map_of_update
    proof (intro conjI allI impI)
      fix y n d assume "((map_of (mr_databases s1))(key \<mapsto> ?d)) (y, n) = Some d"
      then show "db_name d = n" "map_of (mr_clients s1) y = Some (db_client d)"
        using x registry_okD(3) [OF ok, of y n d] by (auto split: if_splits)
    qed (use registry_okD [OF ok] in blast)+
    moreover have "extends s s'" using e None by (auto simp: extends_def sel map_le_def)
    moreover have "map_of (mr_databases s') key = Some ?d" unfolding sel by simp
    ultimately show ?thesis using s'(1) by auto
  qed
qed

section \<open>Threads\<close>

text \<open>A thread asks for a key, looks without the lock, and if it found nothing queues for the lock and runs
  the block. A block that raises releases the lock and files no handle.\<close>

datatype mongo_thread =
    Free
  | Asks database_key
  | Queued database_key
  | Inside database_key
  | Got database_key mongo_database
  | Raised py_exn

record mongo_run =
  mn_registry :: mongo_registry
  mn_lock :: "nat option"
  mn_threads :: "nat \<Rightarrow> mongo_thread"

definition mongo_init :: mongo_run where
  "mongo_init = \<lparr>mn_registry = empty_registry, mn_lock = None, mn_threads = (\<lambda>_. Free)\<rparr>"

inductive mongo_step :: "(string \<Rightarrow> py_exn + unit) \<Rightarrow> mongo_run \<Rightarrow> mongo_run \<Rightarrow> bool" for construct where
  ask: "mn_threads s i = Free \<Longrightarrow> x \<noteq> [] \<Longrightarrow> n \<noteq> [] \<Longrightarrow>
    mongo_step construct s (s\<lparr>mn_threads := (mn_threads s)(i := Asks (x, n))\<rparr>)"
| found: "mn_threads s i = Asks k \<Longrightarrow> map_of (mr_databases (mn_registry s)) k = Some d \<Longrightarrow>
    mongo_step construct s (s\<lparr>mn_threads := (mn_threads s)(i := Got k d)\<rparr>)"
| missed: "mn_threads s i = Asks k \<Longrightarrow> map_of (mr_databases (mn_registry s)) k = None \<Longrightarrow>
    mongo_step construct s (s\<lparr>mn_threads := (mn_threads s)(i := Queued k)\<rparr>)"
| enter: "mn_threads s i = Queued k \<Longrightarrow> mn_lock s = None \<Longrightarrow>
    mongo_step construct s (s\<lparr>mn_threads := (mn_threads s)(i := Inside k), mn_lock := Some i\<rparr>)"
| leave: "mn_threads s i = Inside k \<Longrightarrow> guarded_lookup construct k (mn_registry s) = (r, g) \<Longrightarrow>
    mongo_step construct s (s\<lparr>mn_threads := (mn_threads s)(i := (case r of Inl e \<Rightarrow> Raised e | Inr d \<Rightarrow> Got k d)),
      mn_registry := g, mn_lock := None\<rparr>)"
| again: "mn_threads s i = Got k d \<or> mn_threads s i = Raised e \<Longrightarrow>
    mongo_step construct s (s\<lparr>mn_threads := (mn_threads s)(i := Free)\<rparr>)"

abbreviation mongo_runs :: "(string \<Rightarrow> py_exn + unit) \<Rightarrow> mongo_run \<Rightarrow> mongo_run \<Rightarrow> bool" where
  "mongo_runs construct \<equiv> (mongo_step construct)\<^sup>*\<^sup>*"

definition mongo_ok :: "mongo_run \<Rightarrow> bool" where
  "mongo_ok s \<longleftrightarrow>
     registry_ok (mn_registry s) \<and>
     (\<forall>i k. mn_threads s i = Inside k \<longrightarrow> mn_lock s = Some i) \<and>
     (\<forall>i. mn_lock s = Some i \<longrightarrow> (\<exists>k. mn_threads s i = Inside k)) \<and>
     (\<forall>i k d. mn_threads s i = Got k d \<longrightarrow> map_of (mr_databases (mn_registry s)) k = Some d)"

lemma mongo_ok_init [simp]: "mongo_ok mongo_init"
  by (simp add: mongo_ok_def mongo_init_def)

lemma mongo_okD:
  assumes "mongo_ok s"
  shows "registry_ok (mn_registry s)" and "mn_threads s i = Inside k \<Longrightarrow> mn_lock s = Some i"
    and "mn_lock s = Some i \<Longrightarrow> \<exists>k. mn_threads s i = Inside k"
    and "mn_threads s i = Got k d \<Longrightarrow> map_of (mr_databases (mn_registry s)) k = Some d"
  using assms unfolding mongo_ok_def by blast+

lemma mongo_okI:
  assumes "registry_ok (mn_registry s)" and "\<And>i k. mn_threads s i = Inside k \<Longrightarrow> mn_lock s = Some i"
    and "\<And>i. mn_lock s = Some i \<Longrightarrow> \<exists>k. mn_threads s i = Inside k"
    and "\<And>i k d. mn_threads s i = Got k d \<Longrightarrow> map_of (mr_databases (mn_registry s)) k = Some d"
  shows "mongo_ok s"
  using assms unfolding mongo_ok_def by blast

text \<open>A thread outside the block that moves outside the block.\<close>

lemma mongo_ok_thread:
  assumes ok: "mongo_ok s" and "\<And>k. mn_threads s i \<noteq> Inside k" and "\<And>k. t \<noteq> Inside k"
    and "\<And>k d. t = Got k d \<Longrightarrow> map_of (mr_databases (mn_registry s)) k = Some d"
  shows "mongo_ok (s\<lparr>mn_threads := (mn_threads s)(i := t)\<rparr>)"
proof (rule mongo_okI)
  fix j assume "mn_lock (s\<lparr>mn_threads := (mn_threads s)(i := t)\<rparr>) = Some j"
  then obtain k where k: "mn_threads s j = Inside k" using mongo_okD(3) [OF ok] by auto
  then have "j \<noteq> i" using assms(2) by blast
  with k show "\<exists>k. mn_threads (s\<lparr>mn_threads := (mn_threads s)(i := t)\<rparr>) j = Inside k" by simp
next
  fix j k assume "mn_threads (s\<lparr>mn_threads := (mn_threads s)(i := t)\<rparr>) j = Inside k"
  then have "mn_threads s j = Inside k" using assms(3) by (cases "j = i") auto
  from mongo_okD(2) [OF ok this] show "mn_lock (s\<lparr>mn_threads := (mn_threads s)(i := t)\<rparr>) = Some j" by simp
qed (use assms(4) mongo_okD(1,4) [OF ok] in \<open>auto split: if_splits\<close>)

lemma mongo_ok_step: "mongo_step construct s s' \<Longrightarrow> mongo_ok s \<Longrightarrow> mongo_ok s'"
proof (induction rule: mongo_step.induct)
  case (leave s i k r g)
  note g = guarded_lookup_run [OF leave(2) mongo_okD(1) [OF leave(3)]]
  have got: "map_of (mr_databases g) l = Some d" if "mn_threads s j = Got l d" for j l d
    using mongo_okD(4) [OF leave(3) that] g unfolding extends_def map_le_def by (metis domI)
  have only: "j = i" if "mn_threads s j = Inside l" for j l
    using mongo_okD(2) [OF leave(3) leave(1)] mongo_okD(2) [OF leave(3) that] by simp
  obtain x n where "k = (x, n)" by (cases k)
  then show ?case by (intro mongo_okI) (use g got only in \<open>auto split: if_splits sum.splits\<close>)
next
  case (enter s i k)
  have "\<And>j l. mn_threads s j \<noteq> Inside l" using mongo_okD(2) [OF enter(3)] enter(2) by fastforce
  then show ?case by (intro mongo_okI) (use mongo_okD(1,4) [OF enter(3)] in \<open>auto split: if_splits\<close>)
qed (auto intro!: mongo_ok_thread)

lemma mongo_ok_run: "mongo_runs construct mongo_init s \<Longrightarrow> mongo_ok s"
  by (induction rule: rtranclp_induct) (auto intro: mongo_ok_step)

text \<open>
  C20. However threads interleave: two that got a handle for the same connection and name hold the same handle,
  a handle belongs to the connection and the database it was asked for, handles of different connections
  never share a client, and as many clients were constructed as there are connections in use.
\<close>

theorem mongo_handles_shared:
  assumes "mongo_runs construct mongo_init s"
    and "mn_threads s i = Got (x, n) d" and "mn_threads s j = Got (y, m) e"
  shows "cl_connection (db_client d) = x \<and> db_name d = n \<and> (x = y \<and> n = m \<longrightarrow> d = e) \<and>
    (db_client d = db_client e \<longleftrightarrow> x = y) \<and>
    card (dom (map_of (mr_clients (mn_registry s)))) = mr_created (mn_registry s)"
proof -
  have ok: "mongo_ok s" by (rule mongo_ok_run [OF assms(1)])
  note reg = mongo_okD(1) [OF ok] and d = mongo_okD(4) [OF ok assms(2)] and e = mongo_okD(4) [OF ok assms(3)]
  from registry_okD(3) [OF reg d] have kd: "db_name d = n" "map_of (mr_clients (mn_registry s)) x = Some (db_client d)" by simp_all
  from registry_okD(3) [OF reg e] have ke: "map_of (mr_clients (mn_registry s)) y = Some (db_client e)" by simp
  have c: "cl_connection (db_client d) = x" "cl_connection (db_client e) = y"
    using registry_okD(1) [OF reg kd(2)] registry_okD(1) [OF reg ke] by simp_all
  have "db_client d = db_client e \<longleftrightarrow> x = y" by (metis c kd(2) ke option.inject)
  moreover have "x = y \<and> n = m \<longrightarrow> d = e" using d e by auto
  moreover note kd(1) c(1) registry_okD(4) [OF reg]
  ultimately show ?thesis by (iprover intro: conjI)
qed

text \<open>The lock never deadlocks: while a thread waits for it, some thread can move.\<close>

lemma queued_not_stuck:
  assumes "mongo_runs construct mongo_init s" and "mn_threads s i = Queued k"
  shows "\<exists>j s'. mongo_step construct s s' \<and> (mn_lock s = None \<and> mn_threads s' i = Inside k \<or>
    mn_lock s = Some j \<and> mn_lock s' = None)"
proof (cases "mn_lock s")
  case None
  from mongo_step.enter [OF assms(2) None] None show ?thesis by (intro exI conjI) auto
next
  case (Some j)
  then obtain l where l: "mn_threads s j = Inside l" using mongo_ok_run [OF assms(1)] by (auto simp: mongo_ok_def)
  obtain r g where "guarded_lookup construct l (mn_registry s) = (r, g)" by (rule prod.exhaust)
  from mongo_step.leave [OF l this] Some show ?thesis by (intro exI conjI) auto
qed

text \<open>Two threads race for one database of one cluster.\<close>

theorem mongo_handles_shared_witness:
  "\<exists>s d. mongo_runs (\<lambda>_. Inr ()) mongo_init s \<and> mn_threads s 0 = Got (''mongodb://a'', ''db'') d \<and>
    mn_threads s 1 = Got (''mongodb://a'', ''db'') d \<and> mr_created (mn_registry s) = 1"
proof -
  let ?k = "(''mongodb://a'', ''db'')" and ?c = "\<lambda>_ :: string. Inr () :: py_exn + unit"
  let ?d = "\<lparr>db_client = \<lparr>cl_connection = ''mongodb://a'', cl_serial = 0\<rparr>, db_name = ''db''\<rparr>"
  let ?g = "\<lparr>mr_clients = [(''mongodb://a'', db_client ?d)], mr_databases = [(?k, ?d)], mr_created = 1\<rparr>"
  note step = rtranclp.rtrancl_into_rtrancl [of "mongo_step ?c" mongo_init]
  define T where "T a b = mongo_init\<lparr>mn_threads := (\<lambda>i. if i = 0 then a else if i = 1 then b else Free)\<rparr>" for a b
  have g: "guarded_lookup ?c ?k empty_registry = (Inr ?d, ?g)" "guarded_lookup ?c ?k ?g = (Inr ?d, ?g)"
    by (simp_all add: guarded_lookup_def get_client_def act_simps Let_def empty_registry_def)
  have reg: "mn_registry (T a b) = empty_registry" "mn_lock (T a b) = None" "mn_threads (T a b) 0 = a" "mn_threads (T a b) 1 = b" for a b
    by (simp_all add: T_def mongo_init_def)
  have upd: "(mn_threads (T a b))(0 := x) = mn_threads (T x b)" "(mn_threads (T a b))(1 := x) = mn_threads (T a x)" for a b x
    by (auto simp: T_def mongo_init_def)
  have init: "mongo_init = T Free Free" by (auto simp: T_def mongo_init_def)
  have 1: "mongo_step ?c mongo_init (T (Asks ?k) Free)"
    using mongo_step.ask [of "T Free Free" 0 "''mongodb://a''" "''db''" ?c] unfolding init by (simp add: reg reg [simplified] upd upd [simplified]) (simp add: T_def)
  have 2: "mongo_step ?c (T (Asks ?k) Free) (T (Asks ?k) (Asks ?k))"
    using mongo_step.ask [of "T (Asks ?k) Free" 1 "''mongodb://a''" "''db''" ?c] reg(4) [of "Asks ?k" Free]
    by (simp only: upd) (simp add: T_def)
  have 3: "mongo_step ?c (T (Asks ?k) (Asks ?k)) (T (Queued ?k) (Asks ?k))"
    using mongo_step.missed [of "T (Asks ?k) (Asks ?k)" 0 ?k ?c] by (simp add: reg reg [simplified] upd upd [simplified] empty_registry_def) (simp add: T_def)
  have 4: "mongo_step ?c (T (Queued ?k) (Asks ?k)) (T (Queued ?k) (Queued ?k))"
    using mongo_step.missed [of "T (Queued ?k) (Asks ?k)" 1 ?k ?c] by (simp add: reg reg [simplified] upd upd [simplified] empty_registry_def) (simp add: T_def)
  have 5: "mongo_step ?c (T (Queued ?k) (Queued ?k)) (T (Inside ?k) (Queued ?k)\<lparr>mn_lock := Some 0\<rparr>)"
    using mongo_step.enter [of "T (Queued ?k) (Queued ?k)" 0 ?k ?c] by (simp add: reg reg [simplified] upd upd [simplified]) (simp add: T_def)
  have 6: "mongo_step ?c (T (Inside ?k) (Queued ?k)\<lparr>mn_lock := Some 0\<rparr>) (T (Got ?k ?d) (Queued ?k)\<lparr>mn_registry := ?g\<rparr>)"
    using mongo_step.leave [of "T (Inside ?k) (Queued ?k)\<lparr>mn_lock := Some 0\<rparr>" 0 ?k ?c] g by (simp add: reg reg [simplified] upd upd [simplified]) (simp add: T_def mongo_init_def)
  have 7: "mongo_step ?c (T (Got ?k ?d) (Queued ?k)\<lparr>mn_registry := ?g\<rparr>) (T (Got ?k ?d) (Inside ?k)\<lparr>mn_registry := ?g, mn_lock := Some 1\<rparr>)"
    using mongo_step.enter [of "T (Got ?k ?d) (Queued ?k)\<lparr>mn_registry := ?g\<rparr>" 1 ?k ?c] by (simp add: reg reg [simplified] upd upd [simplified]) (simp add: T_def mongo_init_def)
  have 8: "mongo_step ?c (T (Got ?k ?d) (Inside ?k)\<lparr>mn_registry := ?g, mn_lock := Some 1\<rparr>) (T (Got ?k ?d) (Got ?k ?d)\<lparr>mn_registry := ?g\<rparr>)"
    using mongo_step.leave [of "T (Got ?k ?d) (Inside ?k)\<lparr>mn_registry := ?g, mn_lock := Some 1\<rparr>" 1 ?k ?c] g
    by (simp add: reg reg [simplified] upd upd [simplified]) (simp add: T_def mongo_init_def)
  have run: "mongo_runs ?c mongo_init (T (Got ?k ?d) (Got ?k ?d)\<lparr>mn_registry := ?g\<rparr>)"
    by (rule step [OF step [OF step [OF step [OF step [OF step [OF step [OF step [OF rtranclp.rtrancl_refl 1] 2] 3] 4] 5] 6] 7] 8])
  have got: "mn_threads (T (Got ?k ?d) (Got ?k ?d)\<lparr>mn_registry := ?g\<rparr>) 0 = Got ?k ?d"
    "mn_threads (T (Got ?k ?d) (Got ?k ?d)\<lparr>mn_registry := ?g\<rparr>) 1 = Got ?k ?d" by (simp_all add: T_def)
  from mongo_handles_shared [OF run got] have "mr_created ?g = 1" by simp
  with run got show ?thesis by (intro exI conjI) (assumption | simp)+
qed

end
