(* ===== verification/Redis_Client.thy ===== *)
theory Redis_Client
  imports Grant_Store Crypto_Service Token_Provider
begin

text \<open>
  \<^verbatim>\<open>_cache/redis_client.py\<close>: the connection string, the commands under their trace spans,
  and the subscriptions. The server is a parameter (\<open>redis_server\<close>), a command a function on its state that
  may raise; \<open>redis_ok\<close> is what Redis documents of \<^verbatim>\<open>SET\<close>,
  \<^verbatim>\<open>SETEX\<close>, \<^verbatim>\<open>GET\<close> and \<^verbatim>\<open>DEL\<close>, within a key's life
  time and with responses left as bytes. Under it the client is the cache the delegation store relies on
  (\<open>cache_ops_ok\<close>).
\<close>

section \<open>The connection string\<close>

record redis_parsing =
  rp_parse_url :: "string \<Rightarrow> py_exn + pydict"
  rp_thousandth :: "int \<Rightarrow> string"
  rp_int_of_float :: "string \<Rightarrow> py_exn + int"

definition ALLOWED_KEYS :: "string list" where
  "ALLOWED_KEYS = [''host'', ''port'', ''username'', ''password'', ''db'', ''ssl'', ''socket_connect_timeout'', ''socket_timeout'',
     ''encoding'', ''encoding_errors'', ''decode_responses'', ''retry_on_timeout'', ''max_connections'']"

definition connection_url :: "string \<Rightarrow> string" where
  "connection_url connection_string =
     (case partition_at (CHR '','') connection_string of (host_port, _, rest) \<Rightarrow>
        let query = map (\<lambda>c. if c = CHR '','' then CHR ''&'' else c) rest in
        ''redis://'' @ host_port @ (if query = [] then [] else ''/?'' @ query))"

definition user_part :: "string \<Rightarrow> string option" where
  "user_part connection_string =
     map_option (drop 5) (List.find (starts_with ''user='') (map py_strip (split_on (CHR '','') connection_string)))"

definition with_username :: "string \<Rightarrow> pydict \<Rightarrow> pydict" where
  "with_username connection_string config =
     (if truthy (dlookup config ''username'') then config
      else case user_part connection_string of
        None \<Rightarrow> config
      | Some u \<Rightarrow> AList.update ''username'' (PStr u) config)"

definition in_seconds :: "redis_parsing \<Rightarrow> string \<Rightarrow> string \<Rightarrow> pydict \<Rightarrow> py_exn + pydict" where
  "in_seconds P source target config =
     (case map_of config source of
        None \<Rightarrow> Inr config
      | Some v \<Rightarrow>
          (case py_int (rp_int_of_float P) v of
             Inl e \<Rightarrow> Inl e
           | Inr n \<Rightarrow> Inr (AList.update target (PFloat (rp_thousandth P n)) (AList.delete source config))))"

definition parse_connection_string :: "redis_parsing \<Rightarrow> string \<Rightarrow> py_exn + pydict" where
  "parse_connection_string P connection_string =
     (case rp_parse_url P (connection_url connection_string) of
        Inl e \<Rightarrow> Inl e
      | Inr config \<Rightarrow>
          (case in_seconds P ''connectTimeout'' ''socket_connect_timeout'' (with_username connection_string config) of
             Inl e \<Rightarrow> Inl e
           | Inr config' \<Rightarrow>
               (case in_seconds P ''syncTimeout'' ''socket_timeout'' config' of
                  Inl e \<Rightarrow> Inl e
                | Inr config'' \<Rightarrow> Inr (filter (\<lambda>(k, v). k \<in> set ALLOWED_KEYS) config''))))"

section \<open>The client\<close>

datatype redis_value = RStr string | RBytes bytes

type_synonym ('s, 'a) redis_command = "'s \<Rightarrow> py_exn + 'a \<times> 's"

record 's redis_server =
  rd_exists :: "string \<Rightarrow> ('s, int) redis_command"
  rd_setex :: "string \<Rightarrow> int \<Rightarrow> redis_value \<Rightarrow> ('s, bool) redis_command"
  rd_set :: "string \<Rightarrow> redis_value \<Rightarrow> ('s, bool) redis_command"
  rd_get :: "string \<Rightarrow> ('s, redis_value option) redis_command"
  rd_delete :: "string \<Rightarrow> ('s, int) redis_command"
  rd_hset :: "string \<Rightarrow> (string \<times> redis_value) list \<Rightarrow> ('s, unit) redis_command"
  rd_expire :: "string \<Rightarrow> int \<Rightarrow> ('s, bool) redis_command"
  rd_hgetall :: "string \<Rightarrow> ('s, (string \<times> redis_value) list) redis_command"
  rd_publish :: "string \<Rightarrow> string \<Rightarrow> ('s, int) redis_command"
  rd_subscribe :: "string \<Rightarrow> ('s, unit) redis_command"

record redis_span =
  sp_key :: string
  sp_operation :: string
  sp_properties :: pydict
  sp_failed :: bool

record 's redis_client =
  rl_server :: 's
  rl_async_open :: bool
  rl_spans :: "redis_span list"

type_synonym ('s, 'a) redis_act = "('s redis_client, 'a) act"

definition command :: "('s, 'a) redis_command \<Rightarrow> ('s, 'a) redis_act" where
  "command c = (\<lambda>w. case c (rl_server w) of Inl e \<Rightarrow> (Inl e, w) | Inr (x, s) \<Rightarrow> (Inr x, w\<lparr>rl_server := s\<rparr>))"

definition get_async_client :: "('s, unit) redis_act" where
  "get_async_client = modify (\<lambda>w. w\<lparr>rl_async_open := True\<rparr>)"

text \<open>A command under its span: what it set is kept, a failure is marked and raised again.\<close>

definition traced :: "string \<Rightarrow> string \<Rightarrow> ('s, 'a \<times> pydict) redis_act \<Rightarrow> ('s, 'a) redis_act" where
  "traced key operation m = (\<lambda>w. case m w of
     (Inl e, w') \<Rightarrow> (Inl e, w'\<lparr>rl_spans := rl_spans w' @
        [\<lparr>sp_key = key, sp_operation = operation, sp_properties = [(''error'', PBool True)], sp_failed = True\<rparr>]\<rparr>)
   | (Inr (x, ps), w') \<Rightarrow> (Inr x, w'\<lparr>rl_spans := rl_spans w' @
        [\<lparr>sp_key = key, sp_operation = operation, sp_properties = ps, sp_failed = False\<rparr>]\<rparr>))"

definition coerce_bytes :: "redis_value option \<Rightarrow> bytes option" where
  "coerce_bytes v = map_option (\<lambda>x. case x of RBytes b \<Rightarrow> b | RStr s \<Rightarrow> map (\<lambda>c. of_nat (code c)) s) v"

section \<open>The commands\<close>

definition ttl_property :: "int option \<Rightarrow> pydict" where
  "ttl_property ttl = (case ttl of None \<Rightarrow> [] | Some n \<Rightarrow> [(''ttl'', PInt n)])"

definition store_value :: "'s redis_server \<Rightarrow> string \<Rightarrow> nat \<Rightarrow> redis_value \<Rightarrow> int option \<Rightarrow> ('s, bool \<times> pydict) redis_act" where
  "store_value R key len v ttl =
     seq (case ttl of Some n \<Rightarrow> command (rd_setex R key n v) | None \<Rightarrow> command (rd_set R key v)) (\<lambda>success.
     ret (success, [(''value_length'', PInt (int len))] @ ttl_property ttl @ [(''success'', PBool success)]))"

definition key_exists :: "'s redis_server \<Rightarrow> string \<Rightarrow> ('s, bool) redis_act" where
  "key_exists R key = traced key ''KeyExists''
     (seq (command (rd_exists R key)) (\<lambda>n. ret (n > 0, [(''exists'', PBool (n > 0))])))"

definition add_string_value :: "'s redis_server \<Rightarrow> string \<Rightarrow> string \<Rightarrow> int option \<Rightarrow> ('s, bool) redis_act" where
  "add_string_value R key value ttl = traced key ''AddStringValue'' (store_value R key (length value) (RStr value) ttl)"

definition value_size :: "redis_value \<Rightarrow> nat" where
  "value_size v = (case v of RStr s \<Rightarrow> length s | RBytes b \<Rightarrow> length b)"

definition get_string_value :: "'s redis_server \<Rightarrow> string \<Rightarrow> ('s, redis_value option) redis_act" where
  "get_string_value R key = traced key ''GetStringValue''
     (seq (command (rd_get R key)) (\<lambda>v.
      ret (v, [(''found'', PBool (v \<noteq> None))] @
        (case v of None \<Rightarrow> [] | Some x \<Rightarrow> if value_size x = 0 then [] else [(''value_length'', PInt (int (value_size x)))]))))"

definition add_bytes_value :: "'s redis_server \<Rightarrow> string \<Rightarrow> bytes \<Rightarrow> int option \<Rightarrow> ('s, bool) redis_act" where
  "add_bytes_value R key value ttl = traced key ''AddBytesValue'' (store_value R key (length value) (RBytes value) ttl)"

definition get_bytes_value :: "'s redis_server \<Rightarrow> string \<Rightarrow> ('s, bytes option) redis_act" where
  "get_bytes_value R key = traced key ''GetBytesValue''
     (seq (command (rd_get R key)) (\<lambda>v.
      let b = coerce_bytes v in
      ret (b, [(''found'', PBool (b \<noteq> None))] @ (case b of None \<Rightarrow> [] | Some x \<Rightarrow> [(''value_length'', PInt (int (length x)))]))))"

definition remove_key :: "'s redis_server \<Rightarrow> string \<Rightarrow> ('s, bool) redis_act" where
  "remove_key R key = traced key ''RemoveKey''
     (seq (command (rd_delete R key)) (\<lambda>n. ret (n > 0, [(''deleted'', PBool (n > 0))])))"

definition add_hash_value :: "'s redis_server \<Rightarrow> string \<Rightarrow> (string \<times> redis_value) list \<Rightarrow> int option \<Rightarrow> ('s, bool) redis_act" where
  "add_hash_value R key value ttl = traced key ''AddHashValue''
     (seq (command (rd_hset R key value)) (\<lambda>_.
      seq (case ttl of Some n \<Rightarrow> command (rd_expire R key n) | None \<Rightarrow> ret True) (\<lambda>success.
      ret (success, [(''field_count'', PInt (int (length value)))] @ ttl_property ttl @ [(''success'', PBool success)]))))"

definition get_hash_value :: "'s redis_server \<Rightarrow> string \<Rightarrow> ('s, (string \<times> redis_value) list) redis_act" where
  "get_hash_value R key = traced key ''GetHashValue''
     (seq (command (rd_hgetall R key)) (\<lambda>d.
      ret (d, [(''found'', PBool (d \<noteq> [])), (''field_count'', PInt (int (length d)))])))"

text \<open>The asynchronous client is opened on first use and sends the same commands.\<close>

definition key_exists_async :: "'s redis_server \<Rightarrow> string \<Rightarrow> ('s, bool) redis_act" where
  "key_exists_async R key = seq get_async_client (\<lambda>_. key_exists R key)"

definition add_string_value_async :: "'s redis_server \<Rightarrow> string \<Rightarrow> string \<Rightarrow> int option \<Rightarrow> ('s, bool) redis_act" where
  "add_string_value_async R key value ttl = seq get_async_client (\<lambda>_. add_string_value R key value ttl)"

definition get_string_value_async :: "'s redis_server \<Rightarrow> string \<Rightarrow> ('s, redis_value option) redis_act" where
  "get_string_value_async R key = seq get_async_client (\<lambda>_. get_string_value R key)"

definition add_bytes_value_async :: "'s redis_server \<Rightarrow> string \<Rightarrow> bytes \<Rightarrow> int option \<Rightarrow> ('s, bool) redis_act" where
  "add_bytes_value_async R key value ttl = seq get_async_client (\<lambda>_. add_bytes_value R key value ttl)"

definition get_bytes_value_async :: "'s redis_server \<Rightarrow> string \<Rightarrow> ('s, bytes option) redis_act" where
  "get_bytes_value_async R key = seq get_async_client (\<lambda>_. get_bytes_value R key)"

definition remove_key_async :: "'s redis_server \<Rightarrow> string \<Rightarrow> ('s, bool) redis_act" where
  "remove_key_async R key = seq get_async_client (\<lambda>_. remove_key R key)"

definition add_hash_value_async :: "'s redis_server \<Rightarrow> string \<Rightarrow> (string \<times> redis_value) list \<Rightarrow> int option \<Rightarrow> ('s, bool) redis_act" where
  "add_hash_value_async R key value ttl = seq get_async_client (\<lambda>_. add_hash_value R key value ttl)"

definition get_hash_value_async :: "'s redis_server \<Rightarrow> string \<Rightarrow> ('s, (string \<times> redis_value) list) redis_act" where
  "get_hash_value_async R key = seq get_async_client (\<lambda>_. get_hash_value R key)"

definition publish_async :: "'s redis_server \<Rightarrow> string \<Rightarrow> string \<Rightarrow> ('s, int) redis_act" where
  "publish_async R channel message =
     (if channel = [] then raise ValueError
      else seq get_async_client (\<lambda>_. traced channel ''Publish''
        (seq (command (rd_publish R channel message)) (\<lambda>n.
         ret (n, [(''message_length'', PInt (int (length message))), (''subscribers_notified'', PInt n)])))))"

section \<open>The client as the delegation store's cache\<close>

definition bytes_of_value :: "redis_value \<Rightarrow> bytes" where
  "bytes_of_value v = (case v of RStr s \<Rightarrow> utf8_encode s | RBytes b \<Rightarrow> b)"

definition redis_ok :: "'s redis_server \<Rightarrow> bool" where
  "redis_ok R \<longleftrightarrow>
     (\<forall>k s x s'. rd_get R k s = Inr (x, s') \<longrightarrow> s' = s) \<and>
     (\<forall>k n v s x s'. rd_setex R k n v s = Inr (x, s') \<longrightarrow>
        rd_get R k s' = Inr (Some (RBytes (bytes_of_value v)), s') \<and> (\<forall>j. j \<noteq> k \<longrightarrow> map_sum id fst (rd_get R j s') = map_sum id fst (rd_get R j s))) \<and>
     (\<forall>k v s x s'. rd_set R k v s = Inr (x, s') \<longrightarrow>
        rd_get R k s' = Inr (Some (RBytes (bytes_of_value v)), s') \<and> (\<forall>j. j \<noteq> k \<longrightarrow> map_sum id fst (rd_get R j s') = map_sum id fst (rd_get R j s))) \<and>
     (\<forall>k s x s'. rd_delete R k s = Inr (x, s') \<longrightarrow>
        rd_get R k s' = Inr (None, s') \<and> (\<forall>j. j \<noteq> k \<longrightarrow> map_sum id fst (rd_get R j s') = map_sum id fst (rd_get R j s)))"

lemma redis_okD:
  assumes "redis_ok R"
  shows "rd_get R k s = Inr (x, s') \<Longrightarrow> s' = s"
    and "rd_setex R k n v s = Inr (b, s') \<Longrightarrow> rd_get R k s' = Inr (Some (RBytes (bytes_of_value v)), s')"
    and "rd_setex R k n v s = Inr (b, s') \<Longrightarrow> j \<noteq> k \<Longrightarrow> map_sum id fst (rd_get R j s') = map_sum id fst (rd_get R j s)"
    and "rd_set R k v s = Inr (b, s') \<Longrightarrow> rd_get R k s' = Inr (Some (RBytes (bytes_of_value v)), s')"
    and "rd_delete R k s = Inr (m, s') \<Longrightarrow> rd_get R k s' = Inr (None, s')"
    and "rd_delete R k s = Inr (m, s') \<Longrightarrow> j \<noteq> k \<Longrightarrow> map_sum id fst (rd_get R j s') = map_sum id fst (rd_get R j s)"
  using assms unfolding redis_ok_def by metis+

text \<open>\<^verbatim>\<open>json.loads\<close> reads the bytes as UTF-8.\<close>

definition text_of_value :: "redis_value \<Rightarrow> py_exn + string" where
  "text_of_value v = (case v of RStr s \<Rightarrow> Inr s | RBytes b \<Rightarrow> utf8_decode b)"

definition redis_cache :: "'s redis_server \<Rightarrow> 's redis_client cache_ops" where
  "redis_cache R = \<lparr>
     co_setex = (\<lambda>k v ttl w. case add_string_value_async R k v (Some ttl) w of (Inl e, _) \<Rightarrow> Inl e | (Inr _, w') \<Rightarrow> Inr w'),
     co_get = (\<lambda>k w. case fst (get_string_value_async R k w) of
        Inl e \<Rightarrow> Inl e | Inr None \<Rightarrow> Inr None | Inr (Some x) \<Rightarrow> map_sum id Some (text_of_value x)),
     co_delete = (\<lambda>k w. case remove_key_async R k w of (Inl e, _) \<Rightarrow> Inl e | (Inr _, w') \<Rightarrow> Inr w')\<rparr>"

lemma command_run: "command c w = (case c (rl_server w) of Inl e \<Rightarrow> (Inl e, w) | Inr (x, s) \<Rightarrow> (Inr x, w\<lparr>rl_server := s\<rparr>))"
  by (simp add: command_def)

lemma traced_run: "traced k p m w = (map_sum id fst (fst (m w)), (snd (m w))\<lparr>rl_spans := rl_spans (snd (m w)) @
    [\<lparr>sp_key = k, sp_operation = p, sp_properties = (case fst (m w) of Inl e \<Rightarrow> [(''error'', PBool True)] | Inr (x, ps) \<Rightarrow> ps),
      sp_failed = (case fst (m w) of Inl e \<Rightarrow> True | Inr _ \<Rightarrow> False)\<rparr>]\<rparr>)"
  by (auto simp: traced_def split: prod.split sum.split)

lemmas redis_runs = command_run traced_run get_async_client_def store_value_def act_simps

lemma cache_get_run:
  "co_get (redis_cache R) k w = (case map_sum id fst (rd_get R k (rl_server w)) of
     Inl e \<Rightarrow> Inl e | Inr None \<Rightarrow> Inr None | Inr (Some x) \<Rightarrow> map_sum id Some (text_of_value x))"
  by (auto simp: redis_cache_def get_string_value_async_def get_string_value_def redis_runs split: sum.split option.split)

lemma cache_setex_run:
  "co_setex (redis_cache R) k v ttl w = Inr w' \<Longrightarrow> \<exists>b. rd_setex R k ttl (RStr v) (rl_server w) = Inr (b, rl_server w')"
  by (auto simp: redis_cache_def add_string_value_async_def add_string_value_def redis_runs split: sum.splits prod.splits)

lemma cache_delete_run:
  "co_delete (redis_cache R) k w = Inr w' \<Longrightarrow> \<exists>n. rd_delete R k (rl_server w) = Inr (n, rl_server w')"
  by (auto simp: redis_cache_def remove_key_async_def remove_key_def redis_runs split: sum.splits prod.splits)

text \<open>
  C21. The Redis client is the cache the delegation grants are kept in: over a server that behaves as Redis
  documents, what is stored under a key is read back as the same text, a removed key reads as absent, and
  no other key is affected.
\<close>

theorem redis_client_is_cache:
  assumes "redis_ok R"
  shows "cache_ops_ok (redis_cache R)"
  unfolding cache_ops_ok_def
proof (intro conjI allI impI)
  fix k v ttl w w' assume "co_setex (redis_cache R) k v ttl w = Inr w'"
  then obtain b where b: "rd_setex R k ttl (RStr v) (rl_server w) = Inr (b, rl_server w')" using cache_setex_run by blast
  from redis_okD(2) [OF assms b] show "co_get (redis_cache R) k w' = Inr (Some v)"
    by (simp add: cache_get_run bytes_of_value_def text_of_value_def utf8_round_trip)
  fix j assume "j \<noteq> k"
  from redis_okD(3) [OF assms b this] show "co_get (redis_cache R) j w' = co_get (redis_cache R) j w"
    by (simp add: cache_get_run)
next
  fix k w w' assume "co_delete (redis_cache R) k w = Inr w'"
  then obtain n where n: "rd_delete R k (rl_server w) = Inr (n, rl_server w')" using cache_delete_run by blast
  from redis_okD(5) [OF assms n] show "co_get (redis_cache R) k w' = Inr None" by (simp add: cache_get_run)
  fix j assume "j \<noteq> k"
  from redis_okD(6) [OF assms n this] show "co_get (redis_cache R) j w' = co_get (redis_cache R) j w"
    by (simp add: cache_get_run)
qed

text \<open>Bytes come back as they were stored.\<close>

lemma bytes_round_trip:
  assumes "redis_ok R" and "add_bytes_value R k b ttl w = (Inr x, w')"
  shows "fst (get_bytes_value R k w') = Inr (Some b)"
proof -
  have "rd_get R k (rl_server w') = Inr (Some (RBytes b), rl_server w')"
    using assms(2) redis_okD(2,4) [OF assms(1)]
    by (cases ttl) (fastforce simp: add_bytes_value_def redis_runs bytes_of_value_def split: sum.splits prod.splits)+
  then show ?thesis by (simp add: get_bytes_value_def redis_runs coerce_bytes_def Let_def)
qed

text \<open>What a connection string turns into: only settings the client takes, the user under either name, the
  time-outs in seconds, everything else as it was parsed.\<close>

lemma in_seconds_run:
  assumes "in_seconds P source target config = Inr config'" and "source \<noteq> target"
  shows "map_of config' k = (if k = target then (case map_of config source of
        Some v \<Rightarrow> Some (PFloat (rp_thousandth P (projr (py_int (rp_int_of_float P) v)))) | None \<Rightarrow> map_of config k)
      else if k = source then None else map_of config k)"
  using assms by (auto simp: in_seconds_def split: option.splits sum.splits)

lemma connection_settings:
  assumes "parse_connection_string P s = Inr config" and "rp_parse_url P (connection_url s) = Inr raw"
  shows "set (map fst config) \<subseteq> set ALLOWED_KEYS"
    and "map_of config ''username'' = (if truthy (dlookup raw ''username'') \<or> user_part s = None then map_of raw ''username''
           else map_option PStr (user_part s))"
    and "k \<in> set ALLOWED_KEYS \<Longrightarrow> k \<notin> {''username'', ''socket_connect_timeout'', ''socket_timeout''} \<Longrightarrow> map_of config k = map_of raw k"
proof -
  from assms obtain c1 c2 where c1: "in_seconds P ''connectTimeout'' ''socket_connect_timeout'' (with_username s raw) = Inr c1"
    and c2: "in_seconds P ''syncTimeout'' ''socket_timeout'' c1 = Inr c2" and config: "config = filter (\<lambda>(k, v). k \<in> set ALLOWED_KEYS) c2"
    by (auto simp: parse_connection_string_def split: sum.splits)
  have get: "map_of config k = (if k \<in> set ALLOWED_KEYS then map_of c2 k else None)" for k
    unfolding config by (rule map_of_filter_key)
  show "set (map fst config) \<subseteq> set ALLOWED_KEYS" by (auto simp: config)
  show "map_of config ''username'' = (if truthy (dlookup raw ''username'') \<or> user_part s = None then map_of raw ''username''
      else map_option PStr (user_part s))"
    by (auto simp: get ALLOWED_KEYS_def in_seconds_run [OF c2] in_seconds_run [OF c1] with_username_def split: option.splits)
  assume "k \<in> set ALLOWED_KEYS" "k \<notin> {''username'', ''socket_connect_timeout'', ''socket_timeout''}"
  then show "map_of config k = map_of raw k"
    by (auto simp: get ALLOWED_KEYS_def in_seconds_run [OF c2] in_seconds_run [OF c1] with_username_def split: option.splits)
qed

section \<open>A server\<close>

definition table_server :: "(string \<times> bytes) list redis_server" where
  "table_server = \<lparr>rd_exists = (\<lambda>k s. Inr (if map_of s k = None then 0 else 1, s)),
     rd_setex = (\<lambda>k n v s. Inr (True, AList.update k (bytes_of_value v) s)),
     rd_set = (\<lambda>k v s. Inr (True, AList.update k (bytes_of_value v) s)),
     rd_get = (\<lambda>k s. Inr (map_option RBytes (map_of s k), s)),
     rd_delete = (\<lambda>k s. Inr (if map_of s k = None then 0 else 1, AList.delete k s)),
     rd_hset = (\<lambda>k m s. Inl OtherError), rd_expire = (\<lambda>k n s. Inr (map_of s k \<noteq> None, s)), rd_hgetall = (\<lambda>k s. Inr ([], s)),
     rd_publish = (\<lambda>c m s. Inr (0, s)), rd_subscribe = (\<lambda>c s. Inr ((), s))\<rparr>"

lemma table_server_ok: "redis_ok table_server"
  by (simp add: redis_ok_def table_server_def)

theorem redis_client_is_cache_witness:
  "\<exists>w. co_setex (redis_cache table_server) ''k'' ''v'' 60 \<lparr>rl_server = [], rl_async_open = False, rl_spans = []\<rparr> = Inr w \<and>
    co_get (redis_cache table_server) ''k'' w = Inr (Some ''v'')"
proof -
  obtain w where w: "co_setex (redis_cache table_server) ''k'' ''v'' 60 \<lparr>rl_server = [], rl_async_open = False, rl_spans = []\<rparr> = Inr w"
    by (simp add: redis_cache_def add_string_value_async_def add_string_value_def redis_runs table_server_def)
  from cache_ops_okD(1) [OF redis_client_is_cache [OF table_server_ok] w] w show ?thesis by blast
qed

end
