(* ===== verification/Redis_Subscriptions.thy ===== *)
theory Redis_Subscriptions
  imports Redis_Client
begin

text \<open>
  The subscriptions of \<^verbatim>\<open>_cache/redis_client.py\<close>: a subscription is a task that reads the
  channel and calls its handler. When the handler raises, the error branch reads a logger the class does
  not have, and so does the branch around it: the task ends with an \<^verbatim>\<open>AttributeError\<close>.
  The theorem says what that does to the channel and to the client's shutdown.
\<close>

section \<open>Tasks\<close>

type_synonym channel_handler = "string \<Rightarrow> string \<Rightarrow> py_exn + unit"

datatype task_state = Listening | Ended | Crashed py_exn

record sub_task =
  tk_channel :: string
  tk_handler :: channel_handler
  tk_state :: task_state

record 's redis_hub =
  rh_client :: "'s redis_client"
  rh_subscriptions :: "(string \<times> channel_handler) list"
  rh_tasks :: "sub_task list"
  rh_pubsub_tasks :: "(string \<times> nat) list"
  rh_disposed :: bool
  rh_handled :: "(string \<times> string) list"

type_synonym ('s, 'a) hub_act = "('s redis_hub, 'a) act"

record incoming =
  in_type :: string
  in_channel :: redis_value
  in_data :: redis_value

definition on_client :: "('s, 'a) redis_act \<Rightarrow> ('s, 'a) hub_act" where
  "on_client m = (\<lambda>w. case m (rh_client w) of (r, c) \<Rightarrow> (r, w\<lparr>rh_client := c\<rparr>))"

section \<open>Subscribing\<close>

definition start_task :: "string \<Rightarrow> channel_handler \<Rightarrow> ('s, unit) hub_act" where
  "start_task channel h = modify (\<lambda>w. w\<lparr>
     rh_tasks := rh_tasks w @ [\<lparr>tk_channel = channel, tk_handler = h, tk_state = Listening\<rparr>],
     rh_pubsub_tasks := AList.update channel (length (rh_tasks w)) (rh_pubsub_tasks w)\<rparr>)"

definition subscribe_async :: "'s redis_server \<Rightarrow> string \<Rightarrow> channel_handler option \<Rightarrow> ('s, unit) hub_act" where
  "subscribe_async R channel handler =
     (if channel = [] then raise ValueError
      else case handler of
        None \<Rightarrow> raise ValueError
      | Some h \<Rightarrow>
          seq (on_client get_async_client) (\<lambda>_.
          try_except
            (seq (modify (\<lambda>w. w\<lparr>rh_subscriptions := AList.update channel h (rh_subscriptions w)\<rparr>)) (\<lambda>_.
             seq (on_client (traced channel ''Subscribe'' (seq (command (rd_subscribe R channel))
               (\<lambda>_. ret ((), [(''subscribed'', PBool True)]))))) (\<lambda>_.
             start_task channel h)))
            (\<lambda>e. seq (modify (\<lambda>w. w\<lparr>rh_subscriptions := AList.delete channel (rh_subscriptions w)\<rparr>)) (\<lambda>_. raise e))))"

section \<open>Handling a message\<close>

text \<open>What the task's loop does with one message: a failure in it ends in the missing logger.\<close>

definition handle_message :: "sub_task \<Rightarrow> incoming \<Rightarrow> py_exn + (string \<times> string) option" where
  "handle_message t m =
     (if in_type m \<noteq> ''message'' then Inr None
      else let failed = (\<lambda>e. if e = Unmodelled then Inl e else Inl AttributeError) in
        case text_of_value (in_channel m) of Inl e \<Rightarrow> failed e
      | Inr channel \<Rightarrow>
          (case text_of_value (in_data m) of Inl e \<Rightarrow> failed e
           | Inr data \<Rightarrow>
               (case tk_handler t channel data of Inl e \<Rightarrow> failed e | Inr _ \<Rightarrow> Inr (Some (channel, data)))))"

definition receive_message :: "nat \<Rightarrow> incoming \<Rightarrow> 's redis_hub \<Rightarrow> 's redis_hub" where
  "receive_message i m w =
     (if i < length (rh_tasks w) \<and> tk_state (rh_tasks w ! i) = Listening then
        case handle_message (rh_tasks w ! i) m of
          Inl e \<Rightarrow> w\<lparr>rh_tasks := (rh_tasks w)[i := (rh_tasks w ! i)\<lparr>tk_state := Crashed e\<rparr>]\<rparr>
        | Inr None \<Rightarrow> w
        | Inr (Some x) \<Rightarrow> w\<lparr>rh_handled := rh_handled w @ [x]\<rparr>
      else w)"

section \<open>Ending\<close>

text \<open>Cancel a task and await it: a listening one ends; one that crashed raises what it crashed with.\<close>

definition cancel_and_await :: "nat \<Rightarrow> ('s, unit) hub_act" where
  "cancel_and_await i = (\<lambda>w.
     if i < length (rh_tasks w) then
       (case tk_state (rh_tasks w ! i) of
          Listening \<Rightarrow> (Inr (), w\<lparr>rh_tasks := (rh_tasks w)[i := (rh_tasks w ! i)\<lparr>tk_state := Ended\<rparr>]\<rparr>)
        | Ended \<Rightarrow> (Inr (), w)
        | Crashed e \<Rightarrow> (Inl e, w))
     else (Inr (), w))"

definition unsubscribe_async :: "string \<Rightarrow> ('s, unit) hub_act" where
  "unsubscribe_async channel =
     (if channel = [] then raise ValueError
      else
      seq (gets (\<lambda>w. map_of (rh_pubsub_tasks w) channel)) (\<lambda>known.
      seq (case known of
             None \<Rightarrow> ret ()
           | Some i \<Rightarrow> seq (modify (\<lambda>w. w\<lparr>rh_pubsub_tasks := AList.delete channel (rh_pubsub_tasks w)\<rparr>)) (\<lambda>_. cancel_and_await i)) (\<lambda>_.
      modify (\<lambda>w. w\<lparr>rh_subscriptions := AList.delete channel (rh_subscriptions w)\<rparr>))))"

definition dispose_client :: "'s redis_hub \<Rightarrow> 's redis_hub" where
  "dispose_client w = (if rh_disposed w then w else w\<lparr>rh_subscriptions := [], rh_disposed := True\<rparr>)"

fun cancel_all :: "(string \<times> nat) list \<Rightarrow> ('s, unit) hub_act" where
  "cancel_all [] = ret ()"
| "cancel_all ((channel, i) # ts) = seq (cancel_and_await i) (\<lambda>_. cancel_all ts)"

definition dispose_async :: "('s, unit) hub_act" where
  "dispose_async =
     seq (gets rh_disposed) (\<lambda>disposed.
     if disposed then ret ()
     else
     seq (gets rh_pubsub_tasks) (\<lambda>ts.
     seq (cancel_all ts) (\<lambda>_.
     modify (\<lambda>w. w\<lparr>rh_pubsub_tasks := [], rh_subscriptions := [], rh_disposed := True\<rparr>))))"

section \<open>A crashed subscription\<close>

definition crashed :: "'s redis_hub \<Rightarrow> nat \<Rightarrow> py_exn \<Rightarrow> bool" where
  "crashed w i e \<longleftrightarrow> i < length (rh_tasks w) \<and> tk_state (rh_tasks w ! i) = Crashed e"

lemma crashed_receives_nothing: "crashed w i e \<Longrightarrow> receive_message i m w = w"
  by (auto simp: crashed_def receive_message_def)

lemma crash_stays: "crashed w i e \<Longrightarrow> crashed (receive_message j m w) i e"
  by (auto simp: crashed_def receive_message_def nth_list_update split: sum.split option.split)

lemma cancel_all_crashed:
  assumes "crashed w i e" and "(channel, i) \<in> set ts"
  shows "(\<exists>e'. fst (cancel_all ts w) = Inl e') \<and> rh_disposed (snd (cancel_all ts w)) = rh_disposed w"
  using assms
proof (induction ts arbitrary: w)
  case (Cons t ts)
  obtain c j where t: "t = (c, j)" by (cases t)
  obtain r w1 where r: "cancel_and_await j w = (r, w1)" by (rule prod.exhaust)
  have d: "rh_disposed w1 = rh_disposed w" "(\<exists>e'. r = Inl e') \<or> (j \<noteq> i \<and> crashed w1 i e)"
    using r Cons.prems(1) by (auto simp: cancel_and_await_def crashed_def nth_list_update split: if_splits task_state.splits)
  show ?case
  proof (cases r)
    case (Inl e')
    with t r d show ?thesis by (simp add: seq_run)
  next
    case (Inr u)
    with d t Cons.prems(2) have "crashed w1 i e" "(channel, i) \<in> set ts" by auto
    from Cons.IH [OF this] Inr t r d show ?thesis by (simp add: seq_run)
  qed
qed simp

text \<open>
  One failing message silences a channel: when the handler of a subscription raises, its task is over with
  an AttributeError; from then on no message of that subscription is handled, whatever else arrives, while
  the client still lists the channel; unsubscribing raises that error, and shutting the client down raises
  and leaves it undisposed.
\<close>

theorem subscription_dies_with_handler:
  assumes "map_of (rh_pubsub_tasks w) channel = Some i" and "channel \<noteq> []" and "i < length (rh_tasks w)"
    and "tk_state (rh_tasks w ! i) = Listening" and "in_type m = ''message''"
    and "text_of_value (in_channel m) = Inr c" and "text_of_value (in_data m) = Inr d"
    and "tk_handler (rh_tasks w ! i) c d = Inl e" and "e \<noteq> Unmodelled" and "\<not> rh_disposed w"
    and "v = fold (\<lambda>(j, x). receive_message j x) arrivals (receive_message i m w)"
  shows "crashed v i AttributeError \<and> receive_message i x v = v \<and> map_of (rh_pubsub_tasks v) channel = Some i \<and>
    fst (unsubscribe_async channel v) = Inl AttributeError \<and>
    (\<exists>e'. fst (dispose_async v) = Inl e') \<and> \<not> rh_disposed (snd (dispose_async v))"
proof -
  have frame: "rh_pubsub_tasks (receive_message j y u) = rh_pubsub_tasks u" "rh_disposed (receive_message j y u) = rh_disposed u"
    for j y and u :: "'a redis_hub"
    by (auto simp: receive_message_def split: sum.split option.split)
  have "crashed (receive_message i m w) i AttributeError"
    using assms(3-9) by (simp add: receive_message_def handle_message_def crashed_def)
  then have v: "crashed v i AttributeError \<and> rh_pubsub_tasks v = rh_pubsub_tasks w \<and> rh_disposed v = rh_disposed w"
    unfolding assms(11)
    by (induction arrivals rule: rev_induct) (auto simp: frame crash_stays)
  have "fst (unsubscribe_async channel v) = Inl AttributeError"
    using v assms(1,2) by (simp add: unsubscribe_async_def cancel_and_await_def crashed_def act_simps)
  moreover have "(channel, i) \<in> set (rh_pubsub_tasks v)" using v assms(1) by (auto dest: map_of_SomeD)
  with cancel_all_crashed [of v i AttributeError] v
  have "(\<exists>e'. fst (cancel_all (rh_pubsub_tasks v) v) = Inl e')" "rh_disposed (snd (cancel_all (rh_pubsub_tasks v) v)) = rh_disposed v"
    by blast+
  then have "(\<exists>e'. fst (dispose_async v) = Inl e') \<and> \<not> rh_disposed (snd (dispose_async v))"
    using v assms(10) by (auto simp: dispose_async_def act_simps split: prod.splits)
  moreover have "receive_message i x v = v" using v by (simp add: crashed_receives_nothing [of v i AttributeError])
  ultimately show ?thesis using v assms(1) by simp
qed

text \<open>A handler that refuses its first message.\<close>

definition sample_hub :: "unit redis_hub" where
  "sample_hub = \<lparr>rh_client = \<lparr>rl_server = (), rl_async_open = True, rl_spans = []\<rparr>, rh_subscriptions = [],
     rh_tasks = [\<lparr>tk_channel = ''c'', tk_handler = (\<lambda>_ d. if d = ''bad'' then Inl ValueError else Inr ()), tk_state = Listening\<rparr>],
     rh_pubsub_tasks = [(''c'', 0)], rh_disposed = False, rh_handled = []\<rparr>"

theorem subscription_dies_with_handler_witness:
  "let msg = (\<lambda>d. \<lparr>in_type = ''message'', in_channel = RStr ''c'', in_data = RStr d\<rparr>);
       v = receive_message 0 (msg ''good'') (receive_message 0 (msg ''bad'') sample_hub) in
   rh_handled v = [] \<and> crashed v 0 AttributeError \<and> \<not> rh_disposed (snd (dispose_async v))"
proof -
  let ?msg = "\<lambda>d. \<lparr>in_type = ''message'', in_channel = RStr ''c'', in_data = RStr d\<rparr>"
  let ?v = "receive_message 0 (?msg ''good'') (receive_message 0 (?msg ''bad'') sample_hub)"
  have "crashed ?v 0 AttributeError \<and> \<not> rh_disposed (snd (dispose_async ?v))"
    using subscription_dies_with_handler [of sample_hub "''c''" 0 "?msg ''bad''" "''c''" "''bad''" ValueError ?v "[(0, ?msg ''good'')]"]
    by (simp add: sample_hub_def text_of_value_def)
  moreover have "rh_handled ?v = []"
    by (simp add: receive_message_def handle_message_def sample_hub_def text_of_value_def Let_def)
  ultimately show ?thesis by (simp add: Let_def)
qed

end
