(* ===== verification/Log_Exporter.thy ===== *)
theory Log_Exporter
  imports Py_Values
begin

text \<open>
  \<^verbatim>\<open>_lmt/mongo_log_exporter.py\<close>: log records queue up, a background thread collects them
  into batches and inserts a batch when it is full or when the logger stops. Callers and the thread
  interleave: a step is one call of \<^verbatim>\<open>enqueue\<close>, the stop event, or one statement of
  the thread's loop. The theorem says where every record is, and what is lost.
\<close>

section \<open>A record\<close>

record log_source =
  lg_level :: string
  lg_message :: string
  lg_logger :: string
  lg_tenant_id :: string
  lg_trace_id :: string
  lg_span_id :: string

text \<open>The filter that enriches a record, and the document made of it; the clock and the current span's ids
  are parameters.\<close>

definition filter_record :: "string option \<Rightarrow> string \<Rightarrow> string \<Rightarrow> log_source \<Rightarrow> log_source" where
  "filter_record context_tenant trace_id span_id r = r\<lparr>
     lg_tenant_id := (case context_tenant of None \<Rightarrow> ''miscellaneous'' | Some t \<Rightarrow> t),
     lg_trace_id := trace_id, lg_span_id := span_id\<rparr>"

definition log_document :: "pyval \<Rightarrow> string \<Rightarrow> string \<Rightarrow> log_source \<Rightarrow> pydict" where
  "log_document now trace_id span_id r =
     [(''Timestamp'', now), (''Level'', PStr (lg_level r)), (''Message'', PStr (lg_message r)),
      (''TenantId'', PStr (if lg_tenant_id r \<noteq> [] then lg_tenant_id r else ''miscellaneous'')),
      (''LoggerName'', PStr (lg_logger r)),
      (''TraceId'', PStr (if lg_trace_id r \<noteq> [] then lg_trace_id r else trace_id)),
      (''SpanId'', PStr (if lg_span_id r \<noteq> [] then lg_span_id r else span_id))]"

section \<open>The collection\<close>

text \<open>What the bootstrap does to the log collection, given whether it exists, whether it is a time series,
  and the names and keys of its indexes.\<close>

datatype log_setup = CreateCollection | DropCollection | CreateIndex

record log_collection =
  lc_exists :: bool
  lc_time_series :: bool
  lc_indexes :: "(string \<times> (string \<times> int) list) list"

definition create_collection_if_not_exists :: "log_collection \<Rightarrow> log_setup list" where
  "create_collection_if_not_exists c =
     (if \<not> lc_exists c then [CreateCollection]
      else if \<not> lc_time_series c then [DropCollection, CreateCollection]
      else [])"

definition create_index_if_needed :: "string \<Rightarrow> (string \<times> (string \<times> int) list) list \<Rightarrow> log_setup list" where
  "create_index_if_needed collection indexes =
     (if list_ex (\<lambda>(n, k). n = collection @ ''_Index'') indexes \<or>
         list_ex (\<lambda>(n, k). n \<noteq> ''_id_'' \<and> k = [(''TenantId'', 1), (''Timestamp'', -1)]) indexes
      then [] else [CreateIndex])"

section \<open>The thread\<close>

datatype worker_place = AtLoop | Waiting | Checking | Stopped

record 'd log_state =
  ls_queue :: "'d list"
  ls_batch :: "'d list"
  ls_written :: "'d list"
  ls_refused :: "'d list"
  ls_stop :: bool
  ls_place :: worker_place
  ls_enqueued :: "'d list"
  ls_flushed :: "'d list"

definition log_init :: "'d log_state" where
  "log_init = \<lparr>ls_queue = [], ls_batch = [], ls_written = [], ls_refused = [], ls_stop = False, ls_place = AtLoop,
     ls_enqueued = [], ls_flushed = []\<rparr>"

text \<open>Insert the batch; a refused batch is dropped. \<open>ls_flushed\<close> collects both in order.\<close>

definition flush_batch :: "bool \<Rightarrow> 'd log_state \<Rightarrow> 'd log_state" where
  "flush_batch accepted s =
     (if accepted then s\<lparr>ls_written := ls_written s @ ls_batch s, ls_flushed := ls_flushed s @ ls_batch s, ls_batch := []\<rparr>
      else s\<lparr>ls_refused := ls_refused s @ ls_batch s, ls_flushed := ls_flushed s @ ls_batch s, ls_batch := []\<rparr>)"

definition flush_due :: "nat \<Rightarrow> 'd log_state \<Rightarrow> bool" where
  "flush_due batch_size s \<longleftrightarrow> ls_batch s \<noteq> [] \<and> (batch_size \<le> length (ls_batch s) \<or> ls_stop s)"

inductive log_step :: "nat \<Rightarrow> 'd log_state \<Rightarrow> 'd log_state \<Rightarrow> bool" for batch_size where
  enqueue: "log_step batch_size s (s\<lparr>ls_queue := ls_queue s @ [d], ls_enqueued := ls_enqueued s @ [d]\<rparr>)"
| stop: "log_step batch_size s (s\<lparr>ls_stop := True\<rparr>)"
| turn: "ls_place s = AtLoop \<Longrightarrow> \<not> ls_stop s \<Longrightarrow> log_step batch_size s (s\<lparr>ls_place := Waiting\<rparr>)"
| take: "ls_place s = Waiting \<Longrightarrow> ls_queue s = d # q \<Longrightarrow>
    log_step batch_size s (s\<lparr>ls_queue := q, ls_batch := ls_batch s @ [d], ls_place := Checking\<rparr>)"
| timeout: "ls_place s = Waiting \<Longrightarrow> ls_queue s = [] \<Longrightarrow> log_step batch_size s (s\<lparr>ls_place := Checking\<rparr>)"
| flush: "ls_place s = Checking \<Longrightarrow> flush_due batch_size s \<Longrightarrow>
    log_step batch_size s (flush_batch accepted s\<lparr>ls_place := AtLoop\<rparr>)"
| keep: "ls_place s = Checking \<Longrightarrow> \<not> flush_due batch_size s \<Longrightarrow> log_step batch_size s (s\<lparr>ls_place := AtLoop\<rparr>)"
| finish: "ls_place s = AtLoop \<Longrightarrow> ls_stop s \<Longrightarrow> log_step batch_size s (flush_batch accepted s\<lparr>ls_place := Stopped\<rparr>)"

abbreviation log_run :: "nat \<Rightarrow> 'd log_state \<Rightarrow> 'd log_state \<Rightarrow> bool" where
  "log_run batch_size \<equiv> (log_step batch_size)\<^sup>*\<^sup>*"

section \<open>Where the records are\<close>

definition log_ok :: "nat \<Rightarrow> 'd log_state \<Rightarrow> bool" where
  "log_ok batch_size s \<longleftrightarrow>
     ls_enqueued s = ls_flushed s @ ls_batch s @ ls_queue s \<and>
     length (ls_flushed s) = length (ls_written s) + length (ls_refused s) \<and>
     length (ls_batch s) < batch_size + (if ls_place s = Checking then 1 else 0) \<and>
     (ls_place s = Stopped \<longrightarrow> ls_batch s = []) \<and>
     (\<not> ls_stop s \<longrightarrow> ls_place s \<noteq> Stopped \<and> (ls_flushed s \<noteq> [] \<longrightarrow> batch_size \<le> length (ls_flushed s)))"

lemma flush_batch_simps [simp]:
  "ls_batch (flush_batch a s) = []" "ls_queue (flush_batch a s) = ls_queue s" "ls_stop (flush_batch a s) = ls_stop s"
  "ls_enqueued (flush_batch a s) = ls_enqueued s" "ls_flushed (flush_batch a s) = ls_flushed s @ ls_batch s"
  "length (ls_written (flush_batch a s)) + length (ls_refused (flush_batch a s)) =
    length (ls_written s) + length (ls_refused s) + length (ls_batch s)"
  by (simp_all add: flush_batch_def)

lemma log_ok_step: "log_step n s s' \<Longrightarrow> 0 < n \<Longrightarrow> log_ok n s \<Longrightarrow> log_ok n s'"
proof (induction rule: log_step.induct)
  case (take s d q)
  then show ?case by (auto simp: log_ok_def)
next
  case (flush s accepted)
  then show ?case by (auto simp: log_ok_def flush_due_def)
next
  case (keep s)
  then show ?case by (auto simp: log_ok_def flush_due_def)
qed (auto simp: log_ok_def)

lemma stopped_step:
  "log_step n t t' \<Longrightarrow> ls_place t = Stopped \<Longrightarrow>
     ls_written t' = ls_written t \<and> ls_place t' = Stopped \<and> (\<exists>ds. ls_queue t' = ls_queue t @ ds)"
  by (erule log_step.cases) auto

lemma stopped_run:
  "log_run n t t' \<Longrightarrow> ls_place t = Stopped \<Longrightarrow>
     ls_written t' = ls_written t \<and> ls_place t' = Stopped \<and> (\<exists>ds. ls_queue t' = ls_queue t @ ds)"
proof (induction rule: rtranclp_induct)
  case (step y z)
  from step.IH [OF step.prems] obtain ds where y: "ls_written y = ls_written t" "ls_place y = Stopped" "ls_queue y = ls_queue t @ ds"
    by blast
  from stopped_step [OF step.hyps(2) y(2)] obtain es where
    "ls_written z = ls_written y" "ls_place z = Stopped" "ls_queue z = ls_queue y @ es" by blast
  with y show ?case by simp
qed simp

lemma log_ok_run:
  assumes "log_run n log_init s" and "0 < n"
  shows "log_ok n s"
  using assms(1)
proof (induction rule: rtranclp_induct)
  case base
  then show ?case using assms(2) by (simp add: log_ok_def log_init_def)
next
  case (step y z)
  then show ?case using log_ok_step assms(2) by blast
qed



end
