(* ===== verification/Trace_Exporter.thy ===== *)
theory Trace_Exporter
  imports Py_Values "HOL-Library.Multiset"
begin

text \<open>
  \<^verbatim>\<open>_lmt/mongo_trace_exporter.py\<close>: finished spans become documents in a bounded queue, and
  whoever empties it (the background thread, and every caller of \<^verbatim>\<open>force_flush\<close> or
  \<^verbatim>\<open>shutdown\<close>) collects them by tenant in a buffer of its own and inserts each tenant's
  documents into that tenant's collection. A step is one statement of one of them. The theorem says
  where every document is, and that it can only reach the collection of its own tenant.
\<close>

section \<open>A span and its document\<close>

record trace_span =
  sp_name :: string
  sp_kind :: string
  sp_trace_id :: nat
  sp_span_id :: nat
  sp_parent :: "nat option"
  sp_start_time :: int
  sp_end_time :: int
  sp_attributes :: pydict
  sp_status_code :: string
  sp_status_description :: pyval

abbreviation baggage_prefix :: string where
  "baggage_prefix \<equiv> ''baggage.''"

definition extract_baggage :: "trace_span \<Rightarrow> pydict" where
  "extract_baggage sp = fold (\<lambda>(k, v) d. if starts_with baggage_prefix k then AList.update (drop 8 k) v d else d)
     (sp_attributes sp) []"

text \<open>\<^verbatim>\<open>baggage_items.get("TenantId") or "miscellaneous"\<close>.\<close>

definition span_tenant :: "trace_span \<Rightarrow> pyval" where
  "span_tenant sp = (case map_of (extract_baggage sp) ''TenantId'' of
     None \<Rightarrow> PStr ''miscellaneous''
   | Some v \<Rightarrow> if truthy v then v else PStr ''miscellaneous'')"

text \<open>The conversions of nanoseconds, \<^verbatim>\<open>datetime.fromtimestamp(t / 1e9)\<close> and
  \<^verbatim>\<open>ns / 1e6\<close>, yield objects the model does not look into: they are parameters.\<close>

definition build_document :: "(int \<Rightarrow> pyval) \<Rightarrow> (int \<Rightarrow> pyval) \<Rightarrow> string \<Rightarrow> trace_span \<Rightarrow> pydict \<Rightarrow> pyval \<Rightarrow> pydict" where
  "build_document datetime milliseconds service_name sp baggage tenant =
     (let parent_span_id = (case sp_parent sp of Some i \<Rightarrow> show_hex 16 i | None \<Rightarrow> ''0000000000000000'');
          parent_id = (case sp_parent sp of
            Some i \<Rightarrow> ''00-'' @ show_hex 32 (sp_trace_id sp) @ ''-'' @ parent_span_id @ ''-01''
          | None \<Rightarrow> '''')
      in [(''Timestamp'', datetime (sp_end_time sp)),
          (''TraceId'', PStr (show_hex 32 (sp_trace_id sp))),
          (''SpanId'', PStr (show_hex 16 (sp_span_id sp))),
          (''ParentSpanId'', PStr parent_span_id),
          (''ParentId'', PStr parent_id),
          (''OperationName'', PStr (sp_name sp)),
          (''Kind'', PStr (sp_kind sp)),
          (''StartTime'', datetime (sp_start_time sp)),
          (''EndTime'', datetime (sp_end_time sp)),
          (''Duration'', milliseconds (sp_end_time sp - sp_start_time sp)),
          (''Attributes'', PDict (filter (\<lambda>(k, v). \<not> starts_with baggage_prefix k) (sp_attributes sp))),
          (''Baggage'', PDict baggage),
          (''Status'', PStr (sp_status_code sp)),
          (''StatusDescription'', sp_status_description sp),
          (''ServiceName'', PStr service_name),
          (''TenantId'', tenant)])"

section \<open>The queue\<close>

text \<open>\<^verbatim>\<open>put_nowait\<close> on a queue of bounded size (no bound when it is not positive).\<close>

definition put_nowait :: "nat \<Rightarrow> 'a list \<Rightarrow> 'a \<Rightarrow> 'a list option" where
  "put_nowait maxsize q x = (if 0 < maxsize \<and> maxsize \<le> length q then None else Some (q @ [x]))"

text \<open>A call of \<^verbatim>\<open>export\<close> that nobody interrupts: whether it reports success, and the queue.\<close>

fun export_spans :: "nat \<Rightarrow> (trace_span \<Rightarrow> pyval \<times> pydict) \<Rightarrow> trace_span list \<Rightarrow> (pyval \<times> pydict) list
    \<Rightarrow> bool \<times> (pyval \<times> pydict) list" where
  "export_spans maxsize document [] q = (True, q)"
| "export_spans maxsize document (sp # sps) q =
     (case put_nowait maxsize q (document sp) of
        None \<Rightarrow> (False, q)
      | Some q' \<Rightarrow> export_spans maxsize document sps q')"

section \<open>Buffers by tenant\<close>

text \<open>\<^verbatim>\<open>buffer.setdefault(tenant, []).append(doc)\<close>.\<close>

fun buffer_add :: "'k \<Rightarrow> 'd \<Rightarrow> ('k \<times> 'd list) list \<Rightarrow> ('k \<times> 'd list) list" where
  "buffer_add k d [] = [(k, [d])]"
| "buffer_add k d ((k', ds) # b) = (if k' = k then (k', ds @ [d]) # b else (k', ds) # buffer_add k d b)"

definition buffered :: "('k \<times> 'd list) list \<Rightarrow> nat" where
  "buffered b = sum_list (map (\<lambda>(k, ds). length ds) b)"

definition items_of :: "('k \<times> 'd list) list \<Rightarrow> ('k \<times> 'd) multiset" where
  "items_of b = (\<Sum>(k, ds)\<leftarrow>b. mset (map (Pair k) ds))"

section \<open>Who empties the queue\<close>

datatype drainer_place =
    AtLoop \<comment> \<open>the background thread at its loop test\<close>
  | Waiting \<comment> \<open>in the blocking \<open>get\<close>\<close>
  | Filling
  | Writing
  | Draining \<comment> \<open>in \<open>_flush_remaining\<close>\<close>
  | Final_Writing
  | Resting \<comment> \<open>a caller outside, or the thread after its end\<close>
  | Died

record ('k, 'd) drainer =
  dr_place :: drainer_place
  dr_buffer :: "('k \<times> 'd list) list"

datatype insert_outcome = Inserted | Driver_Error | Other_Failure

record ('k, 'd) trace_state =
  tr_queue :: "('k \<times> 'd) list"
  tr_drainers :: "('k, 'd) drainer list"
  tr_written :: "('k \<times> 'd) list"
  tr_refused :: "('k \<times> 'd) list"
  tr_stop :: bool
  tr_exported :: "('k \<times> 'd) list"

text \<open>Drainer 0 is the background thread.\<close>

definition trace_init :: "nat \<Rightarrow> ('k, 'd) trace_state" where
  "trace_init callers = \<lparr>tr_queue = [],
     tr_drainers = \<lparr>dr_place = AtLoop, dr_buffer = []\<rparr> # replicate callers \<lparr>dr_place = Resting, dr_buffer = []\<rparr>,
     tr_written = [], tr_refused = [], tr_stop = False, tr_exported = []\<rparr>"

definition go_to :: "nat \<Rightarrow> drainer_place \<Rightarrow> ('k, 'd) trace_state \<Rightarrow> ('k, 'd) trace_state" where
  "go_to i pl s = s\<lparr>tr_drainers := (tr_drainers s)[i := (tr_drainers s ! i)\<lparr>dr_place := pl\<rparr>]\<rparr>"

text \<open>\<^verbatim>\<open>get_nowait\<close> and the entry in the buffer.\<close>

definition take_item :: "nat \<Rightarrow> drainer_place \<Rightarrow> ('k, 'd) trace_state \<Rightarrow> ('k, 'd) trace_state" where
  "take_item i pl s = (case tr_queue s of
     [] \<Rightarrow> s
   | (k, d) # q \<Rightarrow> s\<lparr>tr_queue := q, tr_drainers := (tr_drainers s)[i :=
       \<lparr>dr_place = pl, dr_buffer = buffer_add k d (dr_buffer (tr_drainers s ! i))\<rparr>]\<rparr>)"

text \<open>One turn of \<^verbatim>\<open>_flush_to_mongo\<close>: the driver's errors drop one tenant's documents, any other
  failure ends the drainer.\<close>

definition insert_tenant :: "nat \<Rightarrow> insert_outcome \<Rightarrow> ('k, 'd) trace_state \<Rightarrow> ('k, 'd) trace_state" where
  "insert_tenant i outcome s = (case dr_buffer (tr_drainers s ! i) of
     [] \<Rightarrow> s
   | (k, ds) # b \<Rightarrow>
       (let rest = s\<lparr>tr_drainers := (tr_drainers s)[i := (tr_drainers s ! i)\<lparr>dr_buffer := b\<rparr>]\<rparr>
        in case outcome of
          Inserted \<Rightarrow> rest\<lparr>tr_written := tr_written s @ map (Pair k) ds\<rparr>
        | Driver_Error \<Rightarrow> rest\<lparr>tr_refused := tr_refused s @ map (Pair k) ds\<rparr>
        | Other_Failure \<Rightarrow> go_to i Died s))"

abbreviation at :: "nat \<Rightarrow> drainer_place \<Rightarrow> ('k, 'd) trace_state \<Rightarrow> bool" where
  "at i pl s \<equiv> i < length (tr_drainers s) \<and> dr_place (tr_drainers s ! i) = pl"

abbreviation buffer_at :: "nat \<Rightarrow> ('k, 'd) trace_state \<Rightarrow> ('k \<times> 'd list) list" where
  "buffer_at i s \<equiv> dr_buffer (tr_drainers s ! i)"

inductive trace_step :: "nat \<Rightarrow> nat \<Rightarrow> ('k, 'd) trace_state \<Rightarrow> ('k, 'd) trace_state \<Rightarrow> bool" for maxsize batch_size where
  put: "put_nowait maxsize (tr_queue s) x = Some q \<Longrightarrow>
    trace_step maxsize batch_size s (s\<lparr>tr_queue := q, tr_exported := tr_exported s @ [x]\<rparr>)"
| stop: "trace_step maxsize batch_size s (s\<lparr>tr_stop := True\<rparr>)"
| turn: "at i AtLoop s \<Longrightarrow> trace_step maxsize batch_size s (go_to i (if tr_stop s then Draining else Waiting) s)"
| get: "at i Waiting s \<Longrightarrow> tr_queue s \<noteq> [] \<Longrightarrow> trace_step maxsize batch_size s (take_item i Filling s)"
| timeout: "at i Waiting s \<Longrightarrow> tr_queue s = [] \<Longrightarrow> trace_step maxsize batch_size s (go_to i Writing s)"
| fill: "at i Filling s \<Longrightarrow> buffered (buffer_at i s) < batch_size \<Longrightarrow> tr_queue s \<noteq> [] \<Longrightarrow>
    trace_step maxsize batch_size s (take_item i Filling s)"
| full: "at i Filling s \<Longrightarrow> batch_size \<le> buffered (buffer_at i s) \<or> tr_queue s = [] \<Longrightarrow>
    trace_step maxsize batch_size s (go_to i Writing s)"
| drain: "at i Draining s \<Longrightarrow> tr_queue s \<noteq> [] \<Longrightarrow> trace_step maxsize batch_size s (take_item i Draining s)"
| drained: "at i Draining s \<Longrightarrow> tr_queue s = [] \<Longrightarrow> trace_step maxsize batch_size s (go_to i Final_Writing s)"
| insertion: "at i Writing s \<or> at i Final_Writing s \<Longrightarrow> buffer_at i s \<noteq> [] \<Longrightarrow>
    trace_step maxsize batch_size s (insert_tenant i outcome s)"
| finished: "at i Writing s \<Longrightarrow> buffer_at i s = [] \<Longrightarrow> trace_step maxsize batch_size s (go_to i AtLoop s)"
| ended: "at i Final_Writing s \<Longrightarrow> buffer_at i s = [] \<Longrightarrow> trace_step maxsize batch_size s (go_to i Resting s)"
| called: "at i Resting s \<Longrightarrow> i \<noteq> 0 \<Longrightarrow> trace_step maxsize batch_size s (go_to i Draining s)"

abbreviation trace_run :: "nat \<Rightarrow> nat \<Rightarrow> ('k, 'd) trace_state \<Rightarrow> ('k, 'd) trace_state \<Rightarrow> bool" where
  "trace_run maxsize batch_size \<equiv> (trace_step maxsize batch_size)\<^sup>*\<^sup>*"

section \<open>Lemmas\<close>

lemma items_of_simps [simp]:
  "items_of [] = {#}" "items_of ((k, ds) # b) = mset (map (Pair k) ds) + items_of b"
  by (simp_all add: items_of_def)

lemma items_of_buffer_add [simp]: "items_of (buffer_add k d b) = add_mset (k, d) (items_of b)"
  by (induction k d b rule: buffer_add.induct) simp_all

lemma buffered_simps [simp]: "buffered [] = 0" "buffered ((k, ds) # b) = length ds + buffered b"
  by (simp_all add: buffered_def)

lemma buffered_buffer_add [simp]: "buffered (buffer_add k d b) = Suc (buffered b)"
  by (induction k d b rule: buffer_add.induct) simp_all

lemma extract_baggage_fold:
  "distinct (map fst xs) \<Longrightarrow>
     map_of (fold (\<lambda>(k, v) d. if starts_with baggage_prefix k then AList.update (drop 8 k) v d else d) xs d) k =
       (case map_of xs (baggage_prefix @ k) of Some v \<Rightarrow> Some v | None \<Rightarrow> map_of d k)"
proof (induction xs arbitrary: d)
  case (Cons x xs)
  obtain a v where x: "x = (a, v)" by (cases x)
  have a: "a = baggage_prefix @ drop 8 a" if "starts_with baggage_prefix a"
  proof -
    have "take 8 a = baggage_prefix" using that by (simp add: starts_with_def eval_nat_numeral)
    then show ?thesis by (metis append_take_drop_id)
  qed
  have "map_of xs a = None" using Cons.prems x by (simp add: map_of_eq_None_iff)
  show ?case
  proof (cases "a = baggage_prefix @ k")
    case True
    moreover have "starts_with baggage_prefix (baggage_prefix @ k)" by (simp add: starts_with_def)
    ultimately show ?thesis using Cons x \<open>map_of xs a = None\<close> by (simp add: update_conv')
  next
    case False
    then have "starts_with baggage_prefix a \<Longrightarrow> drop 8 a \<noteq> k" using a by blast
    then show ?thesis using Cons x False
      by (cases "starts_with baggage_prefix a") (simp_all add: update_conv' split: option.split)
  qed
qed simp

lemma map_of_filter_keys: "map_of (filter (\<lambda>(k, v). P k) xs) k = (if P k then map_of xs k else None)"
  by (induction xs) auto

text \<open>The document of a span keeps every attribute, in one of its two parts: the baggage under its bare name,
  anything else under \<^verbatim>\<open>Attributes\<close>; and its ids have the widths of the W3C format.\<close>

lemma document_keeps_attributes:
  assumes "is_pydict (sp_attributes sp)"
  shows "map_of (extract_baggage sp) k = map_of (sp_attributes sp) (baggage_prefix @ k)"
    and "map_of (build_document dt ms sn sp bg t) ''Attributes'' = Some (PDict as) \<Longrightarrow>
      map_of as k = (if starts_with baggage_prefix k then None else map_of (sp_attributes sp) k)"
    and "\<exists>t i. map_of (build_document dt ms sn sp bg t') ''TraceId'' = Some (PStr t) \<and> length t = 32 \<and>
      map_of (build_document dt ms sn sp bg t') ''SpanId'' = Some (PStr i) \<and> length i = 16"
  using extract_baggage_fold [of "sp_attributes sp" "[]" k] assms
  by (auto simp: extract_baggage_def is_pydict_def build_document_def Let_def map_of_filter_keys split: option.splits)

text \<open>An uninterrupted export queues a prefix of its spans, all of them exactly when it reports success: after
  a reported failure the spans before the first refused one are still exported.\<close>

lemma export_spans_prefix:
  "export_spans m document sps q = (ok, q') \<Longrightarrow>
     \<exists>n \<le> length sps. q' = q @ map document (take n sps) \<and> (ok \<longleftrightarrow> n = length sps)"
proof (induction sps arbitrary: q)
  case (Cons sp sps)
  show ?case
  proof (cases "put_nowait m q (document sp)")
    case None
    with Cons.prems show ?thesis by (intro exI [of _ 0]) simp
  next
    case (Some r)
    with Cons.prems Cons.IH [of r] obtain n where "n \<le> length sps" "q' = r @ map document (take n sps)" "ok \<longleftrightarrow> n = length sps"
      by auto
    with Some show ?thesis by (intro exI [of _ "Suc n"]) (auto simp: put_nowait_def split: if_splits)
  qed
qed simp

text \<open>What the drainers hold together.\<close>

definition held :: "('k, 'd) drainer list \<Rightarrow> ('k \<times> 'd) multiset" where
  "held ds = (\<Sum>dr\<leftarrow>ds. items_of (dr_buffer dr))"

lemma held_update:
  "i < length ds \<Longrightarrow> held (ds[i := dr]) + items_of (dr_buffer (ds ! i)) = held ds + items_of (dr_buffer dr)"
proof (induction ds arbitrary: i)
  case (Cons x xs)
  then show ?case by (cases i) (auto simp: held_def ac_simps)
qed simp

lemma held_same: "i < length ds \<Longrightarrow> dr_buffer dr = dr_buffer (ds ! i) \<Longrightarrow> held (ds[i := dr]) = held ds"
  using held_update [of i ds dr] by simp

definition drainer_ok :: "nat \<Rightarrow> ('k, 'd) drainer \<Rightarrow> bool" where
  "drainer_ok batch_size dr \<longleftrightarrow>
     (dr_place dr \<in> {AtLoop, Waiting, Resting} \<longrightarrow> dr_buffer dr = []) \<and>
     (dr_place dr \<in> {Filling, Writing} \<longrightarrow> buffered (dr_buffer dr) \<le> max 1 batch_size)"

definition trace_ok :: "nat \<Rightarrow> nat \<Rightarrow> ('k, 'd) trace_state \<Rightarrow> bool" where
  "trace_ok maxsize batch_size s \<longleftrightarrow>
     mset (tr_exported s) = mset (tr_queue s) + held (tr_drainers s) + mset (tr_written s) + mset (tr_refused s) \<and>
     (0 < maxsize \<longrightarrow> length (tr_queue s) \<le> maxsize) \<and>
     (\<forall>dr \<in> set (tr_drainers s). drainer_ok batch_size dr)"

lemma drainer_ok_at: "trace_ok m n s \<Longrightarrow> i < length (tr_drainers s) \<Longrightarrow> drainer_ok n (tr_drainers s ! i)"
  by (simp add: trace_ok_def)

lemma trace_ok_go_to:
  assumes "trace_ok m n s" and "i < length (tr_drainers s)" and "drainer_ok n ((tr_drainers s ! i)\<lparr>dr_place := pl\<rparr>)"
  shows "trace_ok m n (go_to i pl s)"
  using assms set_update_subset_insert [of "tr_drainers s" i "(tr_drainers s ! i)\<lparr>dr_place := pl\<rparr>"]
  by (auto simp: trace_ok_def go_to_def held_same)

lemma trace_ok_take:
  assumes "trace_ok m n s" and "i < length (tr_drainers s)"
    and "pl = Filling \<and> buffered (buffer_at i s) < max 1 n \<or> pl = Draining"
  shows "trace_ok m n (take_item i pl s)"
proof (cases "tr_queue s")
  case Nil
  then show ?thesis using assms(1) by (simp add: take_item_def)
next
  case (Cons x q)
  obtain k d where x: "x = (k, d)" by (cases x)
  let ?dr = "\<lparr>dr_place = pl, dr_buffer = buffer_add k d (buffer_at i s)\<rparr>"
  have "held ((tr_drainers s)[i := ?dr]) = add_mset (k, d) (held (tr_drainers s))"
    using held_update [OF assms(2), of ?dr] by simp
  moreover have "drainer_ok n ?dr" using assms(3) by (auto simp: drainer_ok_def)
  ultimately show ?thesis
    using assms(1) set_update_subset_insert [of "tr_drainers s" i ?dr] Cons x
    by (auto simp: trace_ok_def take_item_def)
qed

lemma trace_ok_insert:
  assumes "trace_ok m n s" and "i < length (tr_drainers s)" and "dr_place (tr_drainers s ! i) \<in> {Writing, Final_Writing}"
  shows "trace_ok m n (insert_tenant i outcome s)"
proof (cases "buffer_at i s")
  case Nil
  then show ?thesis using assms(1) by (simp add: insert_tenant_def)
next
  case (Cons x b)
  obtain k ds where x: "x = (k, ds)" by (cases x)
  let ?dr = "(tr_drainers s ! i)\<lparr>dr_buffer := b\<rparr>"
  have h: "held (tr_drainers s) = held ((tr_drainers s)[i := ?dr]) + mset (map (Pair k) ds)"
    using held_update [OF assms(2), of ?dr] Cons x by (simp add: ac_simps)
  have ok: "drainer_ok n ?dr" using drainer_ok_at [OF assms(1,2)] assms(3) Cons x by (auto simp: drainer_ok_def)
  have died: "trace_ok m n (go_to i Died s)" by (rule trace_ok_go_to [OF assms(1,2)]) (simp add: drainer_ok_def)
  show ?thesis
    using assms(1) died h ok set_update_subset_insert [of "tr_drainers s" i ?dr] Cons x
    by (cases outcome) (auto simp: trace_ok_def insert_tenant_def Let_def ac_simps)
qed

lemma trace_ok_step: "trace_step m n s s' \<Longrightarrow> trace_ok m n s \<Longrightarrow> trace_ok m n s'"
proof (induction rule: trace_step.induct)
  case (put s x q)
  then show ?case by (auto simp: trace_ok_def put_nowait_def split: if_splits)
next
  case (stop s)
  then show ?case by (simp add: trace_ok_def)
next
  case (turn i s)
  then show ?case using drainer_ok_at [of m n s i] by (intro trace_ok_go_to) (auto simp: drainer_ok_def)
next
  case (get i s)
  then show ?case using drainer_ok_at [of m n s i] by (intro trace_ok_take) (auto simp: drainer_ok_def)
next
  case (timeout i s)
  then show ?case using drainer_ok_at [of m n s i] by (intro trace_ok_go_to) (auto simp: drainer_ok_def)
next
  case (fill i s)
  then show ?case by (intro trace_ok_take) auto
next
  case (full i s)
  then show ?case using drainer_ok_at [of m n s i] by (intro trace_ok_go_to) (auto simp: drainer_ok_def)
next
  case (drain i s)
  then show ?case by (intro trace_ok_take) auto
next
  case (drained i s)
  then show ?case by (intro trace_ok_go_to) (auto simp: drainer_ok_def)
next
  case (insertion i s outcome)
  then show ?case by (intro trace_ok_insert) auto
next
  case (finished i s)
  then show ?case by (intro trace_ok_go_to) (auto simp: drainer_ok_def)
next
  case (ended i s)
  then show ?case by (intro trace_ok_go_to) (auto simp: drainer_ok_def)
next
  case (called i s)
  then show ?case by (intro trace_ok_go_to) (auto simp: drainer_ok_def)
qed

lemma trace_ok_run: "trace_run m n (trace_init c) s \<Longrightarrow> trace_ok m n s"
proof (induction rule: rtranclp_induct)
  case base
  have "held (replicate c \<lparr>dr_place = Resting, dr_buffer = []\<rparr>) = {#}" by (induction c) (simp_all add: held_def)
  then have "held (tr_drainers (trace_init c)) = {#}" by (simp add: trace_init_def held_def)
  then show ?case by (auto simp: trace_ok_def drainer_ok_def) (auto simp: trace_init_def)
qed (rule trace_ok_step)

lemma resting_holds_nothing:
  assumes "\<forall>dr \<in> set ds. dr_buffer dr = []"
  shows "held ds = {#}"
  using assms by (induction ds) (auto simp: held_def)

text \<open>
  C24. Traces are accounted for and stay with their tenant: at any moment the documents exported are those
  queued, those in the buffers, those inserted and those the driver refused, each in the collection it
  was exported for; the queue never exceeds its bound and the background thread never collects more than
  a batch; and when everyone has finished with an empty queue, as after a shutdown, every document has
  been handed to the database, unlike the records of the log exporter.
\<close>

theorem trace_documents_accounted:
  assumes "trace_run maxsize batch_size (trace_init callers) s"
  shows "mset (tr_exported s) =
      mset (tr_queue s) + (\<Sum>dr\<leftarrow>tr_drainers s. items_of (dr_buffer dr)) + mset (tr_written s) + mset (tr_refused s) \<and>
    set (tr_written s) \<subseteq> set (tr_exported s) \<and>
    (0 < maxsize \<longrightarrow> length (tr_queue s) \<le> maxsize) \<and>
    (\<forall>dr \<in> set (tr_drainers s). dr_place dr \<in> {Filling, Writing} \<longrightarrow> buffered (dr_buffer dr) \<le> max 1 batch_size) \<and>
    ((\<forall>dr \<in> set (tr_drainers s). dr_place dr = Resting) \<and> tr_queue s = [] \<longrightarrow>
       mset (tr_exported s) = mset (tr_written s) + mset (tr_refused s))"
proof -
  from trace_ok_run [OF assms] have acc: "mset (tr_exported s) =
      mset (tr_queue s) + held (tr_drainers s) + mset (tr_written s) + mset (tr_refused s)"
    and small: "0 < maxsize \<longrightarrow> length (tr_queue s) \<le> maxsize"
    and ok: "\<forall>dr \<in> set (tr_drainers s). drainer_ok batch_size dr"
    by (simp_all add: trace_ok_def)
  have "set (tr_written s) \<subseteq> set (tr_exported s)" using arg_cong [OF acc, of set_mset] by auto
  moreover have "mset (tr_exported s) = mset (tr_written s) + mset (tr_refused s)"
    if "\<forall>dr \<in> set (tr_drainers s). dr_place dr = Resting" "tr_queue s = []"
  proof -
    have "\<forall>dr \<in> set (tr_drainers s). dr_buffer dr = []" using ok that(1) by (simp add: drainer_ok_def)
    then show ?thesis using acc that(2) resting_holds_nothing by simp
  qed
  ultimately show ?thesis using acc small ok by (simp add: held_def drainer_ok_def)
qed

text \<open>A queue of one, a batch of one: a span exported by the background thread, and a second one queued behind it.\<close>

theorem trace_documents_accounted_witness:
  "\<exists>s. trace_run 1 1 (trace_init 0) s \<and> tr_written s = [(''t1'', ''d'')] \<and> tr_queue s = [(''t2'', ''e'')] \<and>
    mset (tr_exported s) = mset (tr_queue s) + mset (tr_written s)"
proof -
  let ?D = "\<lambda>pl b. [\<lparr>dr_place = pl, dr_buffer = b\<rparr>]"
  let ?S = "\<lambda>q pl b w x. \<lparr>tr_queue = q, tr_drainers = ?D pl b, tr_written = w, tr_refused = [], tr_stop = False, tr_exported = x\<rparr>"
  let ?x = "(''t1'', ''d'')" and ?y = "(''t2'', ''e'')"
  note step = rtranclp.rtrancl_into_rtrancl [of "trace_step 1 1" "trace_init 0"]
  have s0: "trace_run 1 1 (trace_init 0) (?S [] AtLoop [] [] [])" by (simp add: trace_init_def)
  have "trace_step 1 1 (?S [] AtLoop [] [] []) (?S [?x] AtLoop [] [] [?x])"
    using trace_step.put [of 1 "?S [] AtLoop [] [] []" ?x "[?x]" 1] by (simp add: put_nowait_def)
  note s1 = step [OF s0 this]
  have "trace_step 1 1 (?S [?x] AtLoop [] [] [?x]) (?S [?x] Waiting [] [] [?x])"
    using trace_step.turn [of 0 "?S [?x] AtLoop [] [] [?x]" 1 1] by (simp add: go_to_def)
  note s2 = step [OF s1 this]
  have "trace_step 1 1 (?S [?x] Waiting [] [] [?x]) (?S [] Filling [(''t1'', [''d''])] [] [?x])"
    using trace_step.get [of 0 "?S [?x] Waiting [] [] [?x]" 1 1] by (simp add: take_item_def)
  note s3 = step [OF s2 this]
  have "trace_step 1 1 (?S [] Filling [(''t1'', [''d''])] [] [?x]) (?S [?y] Filling [(''t1'', [''d''])] [] [?x, ?y])"
    using trace_step.put [of 1 "?S [] Filling [(''t1'', [''d''])] [] [?x]" ?y "[?y]" 1] by (simp add: put_nowait_def)
  note s4 = step [OF s3 this]
  have "trace_step 1 1 (?S [?y] Filling [(''t1'', [''d''])] [] [?x, ?y]) (?S [?y] Writing [(''t1'', [''d''])] [] [?x, ?y])"
    using trace_step.full [of 0 "?S [?y] Filling [(''t1'', [''d''])] [] [?x, ?y]" 1 1] by (simp add: go_to_def)
  note s5 = step [OF s4 this]
  have "trace_step 1 1 (?S [?y] Writing [(''t1'', [''d''])] [] [?x, ?y]) (?S [?y] Writing [] [?x] [?x, ?y])"
    using trace_step.insertion [of 0 "?S [?y] Writing [(''t1'', [''d''])] [] [?x, ?y]" 1 1 Inserted] by (simp add: insert_tenant_def)
  note s6 = step [OF s5 this]
  from trace_documents_accounted [OF s6] have "mset (tr_exported (?S [?y] Writing [] [?x] [?x, ?y])) = mset [?y] + mset [?x]" by simp
  with s6 show ?thesis by (intro exI [of _ "?S [?y] Writing [] [?x] [?x, ?y]"]) simp
qed

end
