(* ===== verification/Activity.thy ===== *)
theory Activity
  imports Trace_Exporter Ambient
begin

text \<open>
  \<^verbatim>\<open>_lmt/activity.py\<close>, the span a block of code runs in, and
  \<^verbatim>\<open>_database/mongo_event_subscriber.py\<close>, which opens one for each command of the driver.
  Spans live in a store; the tracing context of the flow is its current span. OpenTelemetry is a parameter,
  a \<open>tracer\<close>: how a span is created, written and ended; \<open>tracer_ok\<close> is what its documentation promises,
  below its limit on the number of attributes. Attaching a context sets a context variable and detaching
  sets it back to what the token remembers.
\<close>

section \<open>Spans and the tracer\<close>

text \<open>A span that is not sampled has no attributes (\<open>ls_readable\<close>), and one that has ended does not record.\<close>

record live_span =
  ls_span :: trace_span
  ls_readable :: bool
  ls_recording :: bool

record tracer =
  ot_start :: "string \<Rightarrow> live_span option \<Rightarrow> nat \<Rightarrow> live_span"
  ot_put :: "string \<Rightarrow> pyval \<Rightarrow> live_span \<Rightarrow> live_span"
  ot_status :: "string \<Rightarrow> string \<Rightarrow> live_span \<Rightarrow> live_span"
  ot_exception :: "string \<Rightarrow> live_span \<Rightarrow> live_span"
  ot_end :: "live_span \<Rightarrow> live_span"

abbreviation span_attribute :: "live_span \<Rightarrow> string \<Rightarrow> pyval option" where
  "span_attribute s k \<equiv> map_of (sp_attributes (ls_span s)) k"

text \<open>Attribute values are texts, numbers and truth values (or lists, which the code does not use).\<close>

fun storable :: "pyval \<Rightarrow> bool" where
  "storable (PStr _) = True"
| "storable (PBool _) = True"
| "storable (PInt _) = True"
| "storable (PFloat _) = True"
| "storable _ = False"

definition tracer_ok :: "tracer \<Rightarrow> bool" where
  "tracer_ok T \<longleftrightarrow>
     (\<forall>n p i. ls_recording (ot_start T n p i) = ls_readable (ot_start T n p i) \<and>
        is_pydict (sp_attributes (ls_span (ot_start T n p i))) \<and>
        (\<forall>k. span_attribute (ot_start T n p i) (baggage_prefix @ k) = None)) \<and>
     (\<forall>k v s. ls_readable (ot_put T k v s) = ls_readable s \<and> ls_recording (ot_put T k v s) = ls_recording s \<and>
        (is_pydict (sp_attributes (ls_span s)) \<longrightarrow> is_pydict (sp_attributes (ls_span (ot_put T k v s)))) \<and>
        (\<forall>j. j \<noteq> k \<longrightarrow> span_attribute (ot_put T k v s) j = span_attribute s j) \<and>
        (ls_recording s \<longrightarrow> storable v \<longrightarrow> span_attribute (ot_put T k v s) k = Some v)) \<and>
     (\<forall>c d s. ls_readable (ot_status T c d s) = ls_readable s \<and> ls_recording (ot_status T c d s) = ls_recording s \<and>
        sp_attributes (ls_span (ot_status T c d s)) = sp_attributes (ls_span s)) \<and>
     (\<forall>d s. ls_readable (ot_exception T d s) = ls_readable s \<and> ls_recording (ot_exception T d s) = ls_recording s \<and>
        sp_attributes (ls_span (ot_exception T d s)) = sp_attributes (ls_span s)) \<and>
     (\<forall>s. ls_readable (ot_end T s) = ls_readable s \<and> \<not> ls_recording (ot_end T s) \<and>
        sp_attributes (ls_span (ot_end T s)) = sp_attributes (ls_span s))"

lemma tracer_okD:
  assumes "tracer_ok T"
  shows "ls_recording (ot_start T n p i) = ls_readable (ot_start T n p i)"
    and "is_pydict (sp_attributes (ls_span (ot_start T n p i)))"
    and "span_attribute (ot_start T n p i) (baggage_prefix @ k) = None"
    and "ls_readable (ot_put T k v s) = ls_readable s"
    and "ls_recording (ot_put T k v s) = ls_recording s"
    and "is_pydict (sp_attributes (ls_span s)) \<Longrightarrow> is_pydict (sp_attributes (ls_span (ot_put T k v s)))"
    and "j \<noteq> k \<Longrightarrow> span_attribute (ot_put T k v s) j = span_attribute s j"
    and "ls_recording s \<Longrightarrow> storable v \<Longrightarrow> span_attribute (ot_put T k v s) k = Some v"
    and "ls_readable (ot_status T c d s) = ls_readable s" "ls_recording (ot_status T c d s) = ls_recording s"
      "sp_attributes (ls_span (ot_status T c d s)) = sp_attributes (ls_span s)"
    and "ls_readable (ot_exception T d s) = ls_readable s" "ls_recording (ot_exception T d s) = ls_recording s"
      "sp_attributes (ls_span (ot_exception T d s)) = sp_attributes (ls_span s)"
    and "ls_readable (ot_end T s) = ls_readable s" "\<not> ls_recording (ot_end T s)"
      "sp_attributes (ls_span (ot_end T s)) = sp_attributes (ls_span s)"
  using assms by (auto simp: tracer_ok_def)

section \<open>An activity\<close>

record tracing =
  tc_spans :: "nat \<Rightarrow> live_span"
  tc_next :: nat
  tc_current :: "nat option"

record activity =
  ac_root :: pydict
  ac_span :: nat
  ac_token :: "nat option"

definition current_span :: "tracing \<Rightarrow> live_span option" where
  "current_span w = map_option (tc_spans w) (tc_current w)"

definition on_span :: "(live_span \<Rightarrow> live_span) \<Rightarrow> nat \<Rightarrow> tracing \<Rightarrow> tracing" where
  "on_span f i w = w\<lparr>tc_spans := (tc_spans w)(i := f (tc_spans w i))\<rparr>"

text \<open>The baggage of the parent, or all its attributes when it has none; an invalid span has no attributes.\<close>

definition find_root_attributes :: "live_span option \<Rightarrow> pydict" where
  "find_root_attributes parent = (case parent of
     None \<Rightarrow> []
   | Some s \<Rightarrow>
       if \<not> ls_readable s then []
       else let root_attrs = extract_baggage (ls_span s) in
         if root_attrs \<noteq> [] then root_attrs else sp_attributes (ls_span s))"

definition put_all :: "tracer \<Rightarrow> pydict \<Rightarrow> live_span \<Rightarrow> live_span" where
  "put_all T d = fold (\<lambda>(k, v). ot_put T k v) d"

definition inherit_baggage :: "tracer \<Rightarrow> pydict \<Rightarrow> live_span \<Rightarrow> live_span" where
  "inherit_baggage T root s =
     (if ls_recording s \<and> root \<noteq> [] then put_all T (map (\<lambda>(k, v). (baggage_prefix @ k, v)) root) s else s)"

definition start_activity :: "tracer \<Rightarrow> string \<Rightarrow> tracing \<Rightarrow> activity \<times> tracing" where
  "start_activity T name w =
     (let parent = current_span w;
          root = find_root_attributes parent;
          i = tc_next w
      in (\<lparr>ac_root = root, ac_span = i, ac_token = tc_current w\<rparr>,
          w\<lparr>tc_spans := (tc_spans w)(i := inherit_baggage T root (ot_start T name parent i)),
            tc_next := Suc i, tc_current := Some i\<rparr>))"

definition get_root_attribute :: "activity \<Rightarrow> string \<Rightarrow> pyval option" where
  "get_root_attribute a k = map_of (ac_root a) k"

definition if_recording :: "(live_span \<Rightarrow> live_span) \<Rightarrow> live_span \<Rightarrow> live_span" where
  "if_recording f s = (if ls_recording s then f s else s)"

definition set_property :: "tracer \<Rightarrow> activity \<Rightarrow> string \<Rightarrow> pyval \<Rightarrow> tracing \<Rightarrow> tracing" where
  "set_property T a k v = on_span (if_recording (ot_put T k v)) (ac_span a)"

definition set_properties :: "tracer \<Rightarrow> activity \<Rightarrow> pydict \<Rightarrow> tracing \<Rightarrow> tracing" where
  "set_properties T a d = on_span (if_recording (put_all T d)) (ac_span a)"

definition set_status :: "tracer \<Rightarrow> activity \<Rightarrow> string \<Rightarrow> string \<Rightarrow> tracing \<Rightarrow> tracing" where
  "set_status T a c d = on_span (ot_status T c d) (ac_span a)"

definition stop_activity :: "tracer \<Rightarrow> activity \<Rightarrow> tracing \<Rightarrow> tracing" where
  "stop_activity T a w = (on_span (ot_end T) (ac_span a) w)\<lparr>tc_current := ac_token a\<rparr>"

text \<open>\<^verbatim>\<open>__exit__\<close>, given the text of an exception that leaves the block.\<close>

definition exit_activity :: "tracer \<Rightarrow> activity \<Rightarrow> string option \<Rightarrow> tracing \<Rightarrow> tracing" where
  "exit_activity T a exc w = stop_activity T a (case exc of
     None \<Rightarrow> w
   | Some d \<Rightarrow> set_status T a ''ERROR'' d (on_span (ot_exception T d) (ac_span a) w))"

text \<open>\<^verbatim>\<open>with Activity(name) as activity:\<close>; what leaves the block is not suppressed.\<close>

definition with_activity ::
  "tracer \<Rightarrow> (py_exn \<Rightarrow> string) \<Rightarrow> string \<Rightarrow> (activity \<Rightarrow> (tracing, 'a) act) \<Rightarrow> (tracing, 'a) act" where
  "with_activity T str_of name body w =
     (let (a, w1) = start_activity T name w; (r, w2) = body a w1
      in (r, exit_activity T a (case r of Inl e \<Rightarrow> Some (str_of e) | Inr _ \<Rightarrow> None) w2))"

section \<open>The current span\<close>

definition set_current_property :: "tracer \<Rightarrow> string \<Rightarrow> pyval \<Rightarrow> tracing \<Rightarrow> tracing" where
  "set_current_property T k v w = (case tc_current w of None \<Rightarrow> w | Some i \<Rightarrow> on_span (if_recording (ot_put T k v)) i w)"

definition set_current_properties :: "tracer \<Rightarrow> pydict \<Rightarrow> tracing \<Rightarrow> tracing" where
  "set_current_properties T d w = (case tc_current w of None \<Rightarrow> w | Some i \<Rightarrow> on_span (if_recording (put_all T d)) i w)"

definition set_current_status :: "tracer \<Rightarrow> string \<Rightarrow> string \<Rightarrow> tracing \<Rightarrow> tracing" where
  "set_current_status T c d w = (case tc_current w of None \<Rightarrow> w | Some i \<Rightarrow> on_span (if_recording (ot_status T c d)) i w)"

text \<open>The invalid span, which is current when nothing is, is a true value and has zero ids.\<close>

definition get_trace_id :: "tracing \<Rightarrow> string" where
  "get_trace_id w = show_hex 32 (case current_span w of None \<Rightarrow> 0 | Some s \<Rightarrow> sp_trace_id (ls_span s))"

definition get_span_id :: "tracing \<Rightarrow> string" where
  "get_span_id w = show_hex 16 (case current_span w of None \<Rightarrow> 0 | Some s \<Rightarrow> sp_span_id (ls_span s))"

section \<open>Commands of the database and the cache\<close>

definition ambient_tenant :: "blocks_context option \<Rightarrow> ambient \<Rightarrow> pyval" where
  "ambient_tenant test_value a =
     (case get_context test_value a of Some c \<Rightarrow> PStr (tenant_id c) | None \<Rightarrow> PStr ''miscellaneous'')"

text \<open>\<^verbatim>\<open>RedisClient._create_activity\<close>.\<close>

definition create_activity :: "tracer \<Rightarrow> pyval \<Rightarrow> string \<Rightarrow> string \<Rightarrow> tracing \<Rightarrow> activity \<times> tracing" where
  "create_activity T tenant key operation w =
     (let (a, w) = start_activity T (''Redis::'' @ operation) w
      in (a, set_property T a ''baggage.TenantId'' tenant
            (set_property T a ''operation'' (PStr operation) (set_property T a ''key'' (PStr key) w))))"

text \<open>
  The events of the driver's monitor: a command started, with its name, request id and the clock's reading,
  and how it ended, with its duration in milliseconds.
\<close>

datatype command_event =
    Started string int pyval
  | Succeeded int pyval
  | Failed int pyval string

type_synonym subscriber = "(int \<Rightarrow> activity option) \<times> tracing"

fun handle_event :: "tracer \<Rightarrow> pyval \<Rightarrow> command_event \<Rightarrow> subscriber \<Rightarrow> subscriber" where
  "handle_event T tenant (Started name r time) (acts, w) =
     (let (a, w) = start_activity T (''MongoDb::'' @ name) w;
          w = set_properties T a
            [(''db.system'', PStr ''mongodb''), (''db.operation'', PStr name), (''db.request_id'', PStr (show_int r)),
             (''db.timestamp'', time), (''baggage.TenantId'', tenant)] w
      in (acts(r \<mapsto> a), w))"
| "handle_event T tenant (Succeeded r duration) (acts, w) =
     (case acts r of
        None \<Rightarrow> (acts, w)
      | Some a \<Rightarrow> (acts(r := None),
          stop_activity T a (set_status T a ''OK'' [] (set_property T a ''db.duration_ms'' duration w))))"
| "handle_event T tenant (Failed r duration failure) (acts, w) =
     (case acts r of
        None \<Rightarrow> (acts, w)
      | Some a \<Rightarrow> (acts(r := None),
          stop_activity T a (set_status T a ''ERROR'' failure
            (set_property T a ''exception.message'' (PStr failure) (set_property T a ''db.duration_ms'' duration w)))))"

definition command_events :: "tracer \<Rightarrow> pyval \<Rightarrow> command_event list \<Rightarrow> subscriber \<Rightarrow> subscriber" where
  "command_events T tenant evs S = fold (handle_event T tenant) evs S"

section \<open>Lemmas\<close>

lemma on_span_simps [simp]:
  "tc_current (on_span f i w) = tc_current w" "tc_next (on_span f i w) = tc_next w"
  "tc_spans (on_span f i w) j = (if j = i then f (tc_spans w i) else tc_spans w j)"
  by (simp_all add: on_span_def)

lemma put_all_keeps:
  assumes "tracer_ok T"
  shows "ls_readable (put_all T d s) = ls_readable s" and "ls_recording (put_all T d s) = ls_recording s"
    and "is_pydict (sp_attributes (ls_span s)) \<Longrightarrow> is_pydict (sp_attributes (ls_span (put_all T d s)))"
    and "k \<notin> fst ` set d \<Longrightarrow> span_attribute (put_all T d s) k = span_attribute s k"
  by (induction d arbitrary: s) (auto simp: put_all_def tracer_okD [OF assms])

lemma put_all_puts:
  assumes "tracer_ok T"
  shows "is_pydict d \<Longrightarrow> (k, v) \<in> set d \<Longrightarrow> ls_recording s \<Longrightarrow> storable v \<Longrightarrow> span_attribute (put_all T d s) k = Some v"
proof (induction d arbitrary: s)
  case (Cons x d)
  have run: "put_all T (x # d) s = put_all T d (ot_put T (fst x) (snd x) s)" by (simp add: put_all_def case_prod_beta)
  show ?case
  proof (cases "x = (k, v)")
    case True
    then have "k \<notin> fst ` set d" using Cons.prems(1) by (simp add: is_pydict_def)
    moreover from run True have "put_all T (x # d) s = put_all T d (ot_put T k v s)" by simp
    ultimately have "span_attribute (put_all T (x # d) s) k = span_attribute (ot_put T k v s) k"
      by (simp only: put_all_keeps(4) [OF assms] simp_thms)
    then show ?thesis using Cons.prems by (simp add: tracer_okD(8) [OF assms])
  next
    case False
    with Cons show ?thesis by (simp add: run is_pydict_def tracer_okD(5) [OF assms])
  qed
qed simp

lemma if_recording_keeps:
  assumes "tracer_ok T"
  shows "ls_readable (if_recording (ot_put T k v) s) = ls_readable s"
    and "ls_recording (if_recording (ot_put T k v) s) = ls_recording s"
    and "is_pydict (sp_attributes (ls_span s)) \<Longrightarrow> is_pydict (sp_attributes (ls_span (if_recording (ot_put T k v) s)))"
    and "j \<noteq> k \<Longrightarrow> span_attribute (if_recording (ot_put T k v) s) j = span_attribute s j"
  by (simp_all add: if_recording_def tracer_okD [OF assms])

lemma inherit_baggage_keeps:
  assumes "tracer_ok T"
  shows "ls_readable (inherit_baggage T root s) = ls_readable s" and "ls_recording (inherit_baggage T root s) = ls_recording s"
    and "is_pydict (sp_attributes (ls_span s)) \<Longrightarrow> is_pydict (sp_attributes (ls_span (inherit_baggage T root s)))"
  by (simp_all add: inherit_baggage_def put_all_keeps [OF assms])

lemma inherited_attribute:
  assumes "tracer_ok T" and "is_pydict root" and "ls_recording s"
    and "\<And>k. span_attribute s (baggage_prefix @ k) = None" and "\<And>k v. (k, v) \<in> set root \<Longrightarrow> storable v"
  shows "span_attribute (inherit_baggage T root s) (baggage_prefix @ k) = map_of root k"
proof -
  let ?d = "map (\<lambda>(k, v). (baggage_prefix @ k, v)) root"
  have d: "is_pydict ?d" using assms(2) by (simp add: is_pydict_def case_prod_beta comp_def distinct_map inj_on_def)
  show ?thesis
  proof (cases "map_of root k")
    case None
    then have "baggage_prefix @ k \<notin> fst ` set ?d" by (auto simp: map_of_eq_None_iff image_iff)
    with None assms(4) show ?thesis by (simp add: inherit_baggage_def put_all_keeps(4) [OF assms(1)])
  next
    case (Some v)
    then have kv: "(k, v) \<in> set root" by (rule map_of_SomeD)
    then have "(baggage_prefix @ k, v) \<in> set ?d" by force
    from put_all_puts [OF assms(1) d this assms(3) assms(5) [OF kv]] Some kv assms(3)
    show ?thesis by (auto simp: inherit_baggage_def)
  qed
qed

lemma extract_baggage_attribute:
  "is_pydict (sp_attributes (ls_span s)) \<Longrightarrow> map_of (extract_baggage (ls_span s)) k = span_attribute s (baggage_prefix @ k)"
  by (rule document_keeps_attributes(1))

lemma is_pydict_extract_baggage [simp]: "is_pydict (extract_baggage sp)"
proof -
  have fold_dict: "is_pydict d \<Longrightarrow> is_pydict (fold (\<lambda>(k, v) d. if P k then AList.update (f k) v d else d) xs d)"
    for P f and xs d :: pydict
    by (induction xs arbitrary: d) auto
  show ?thesis unfolding extract_baggage_def by (rule fold_dict) simp
qed

text \<open>What starting an activity leaves alone, and the span it makes.\<close>

lemma start_activity_frame:
  assumes "start_activity T name w = (a, w1)"
  shows "ac_span a = tc_next w" and "ac_token a = tc_current w" and "ac_root a = find_root_attributes (current_span w)"
    and "tc_next w1 = Suc (tc_next w)" and "tc_current w1 = Some (tc_next w)"
    and "i \<noteq> tc_next w \<Longrightarrow> tc_spans w1 i = tc_spans w i"
    and "tc_spans w1 (tc_next w) =
      inherit_baggage T (find_root_attributes (current_span w)) (ot_start T name (current_span w) (tc_next w))"
  using assms by (simp_all add: start_activity_def Let_def) auto

lemma stop_activity_simps [simp]:
  "tc_current (stop_activity T a w) = ac_token a" "tc_next (stop_activity T a w) = tc_next w"
  "tc_spans (stop_activity T a w) i = (if i = ac_span a then ot_end T (tc_spans w i) else tc_spans w i)"
  by (simp_all add: stop_activity_def)

section \<open>Nested activities\<close>

text \<open>Activities opened one inside the other, and closed from the innermost.\<close>

fun open_nested :: "tracer \<Rightarrow> string list \<Rightarrow> tracing \<Rightarrow> activity list \<times> tracing" where
  "open_nested T [] w = ([], w)"
| "open_nested T (name # names) w =
     (let (a, w1) = start_activity T name w; (as, w2) = open_nested T names w1 in (a # as, w2))"

definition close_nested :: "tracer \<Rightarrow> activity list \<Rightarrow> tracing \<Rightarrow> tracing" where
  "close_nested T as w = foldr (stop_activity T) as w"

text \<open>The current span is readable and carries this baggage.\<close>

definition carries :: "(string \<Rightarrow> pyval option) \<Rightarrow> tracing \<Rightarrow> bool" where
  "carries b w \<longleftrightarrow> (\<exists>p. tc_current w = Some p \<and> p < tc_next w \<and> ls_readable (tc_spans w p) \<and>
     is_pydict (sp_attributes (ls_span (tc_spans w p))) \<and> map_of (extract_baggage (ls_span (tc_spans w p))) = b)"

lemma start_carries:
  assumes T: "tracer_ok T" and "\<And>n p i. ls_recording (ot_start T n p i)"
    and c: "carries b w" and "b \<noteq> Map.empty" and "\<And>k v. b k = Some v \<Longrightarrow> storable v"
    and start: "start_activity T name w = (a, w1)"
  shows "carries b w1" and "map_of (ac_root a) = b" and "map_of (extract_baggage (ls_span (tc_spans w1 (ac_span a)))) = b"
proof -
  note F = start_activity_frame [OF start]
  from c obtain p where p: "tc_current w = Some p" "p < tc_next w" "ls_readable (tc_spans w p)"
      "map_of (extract_baggage (ls_span (tc_spans w p))) = b"
    by (auto simp: carries_def)
  let ?root = "extract_baggage (ls_span (tc_spans w p))"
  have "?root \<noteq> []" using p(4) assms(4) by auto
  then have root: "find_root_attributes (current_span w) = ?root"
    using p(1,3) by (simp add: find_root_attributes_def current_span_def Let_def)
  then show "map_of (ac_root a) = b" using F(3) p(4) by simp
  let ?born = "ot_start T name (current_span w) (tc_next w)"
  let ?s = "tc_spans w1 (tc_next w)"
  have s: "?s = inherit_baggage T ?root ?born" using F(7) by (simp add: root)
  have store: "storable v" if "(k, v) \<in> set ?root" for k v
    using that assms(5) [of k v] p(4) is_pydict_extract_baggage [of "ls_span (tc_spans w p)"] by (auto simp: is_pydict_def)
  have "span_attribute ?s (baggage_prefix @ k) = b k" for k
    unfolding s using inherited_attribute [OF T, of ?root ?born k] assms(2) tracer_okD(3) [OF T] store p(4) by simp
  moreover have dict: "is_pydict (sp_attributes (ls_span ?s))"
    unfolding s by (rule inherit_baggage_keeps(3) [OF T tracer_okD(2) [OF T]])
  ultimately have b: "map_of (extract_baggage (ls_span ?s)) = b"
    by (simp add: fun_eq_iff extract_baggage_attribute)
  then show "map_of (extract_baggage (ls_span (tc_spans w1 (ac_span a)))) = b" using F(1) by simp
  have "ls_readable ?s" unfolding s using assms(2) tracer_okD(1) [OF T] by (simp add: inherit_baggage_keeps [OF T])
  with b dict show "carries b w1" using F(4,5) by (auto simp: carries_def)
qed

lemma open_nested_frame:
  assumes "open_nested T names w = (as, w1)"
  shows "tc_next w1 = tc_next w + length names" and "\<And>i. i < tc_next w \<Longrightarrow> tc_spans w1 i = tc_spans w i"
    and "\<And>a. a \<in> set as \<Longrightarrow> tc_next w \<le> ac_span a"
proof -
  have "tc_next w1 = tc_next w + length names \<and> (\<forall>i<tc_next w. tc_spans w1 i = tc_spans w i) \<and>
      (\<forall>a\<in>set as. tc_next w \<le> ac_span a)"
    using assms
  proof (induction names arbitrary: w as)
    case (Cons name names)
    obtain a wa where a: "start_activity T name w = (a, wa)" by fastforce
    obtain bs where bs: "open_nested T names wa = (bs, w1)" "as = a # bs"
      using Cons.prems a by (auto split: prod.splits)
    note F = start_activity_frame [OF a]
    have "tc_spans w1 i = tc_spans w i" if "i < tc_next w" for i using Cons.IH [OF bs(1)] F(4) F(6) [of i] that by simp
    with Cons.IH [OF bs(1)] bs(2) F(1,4) show ?case by auto
  qed simp
  then show "tc_next w1 = tc_next w + length names" "\<And>i. i < tc_next w \<Longrightarrow> tc_spans w1 i = tc_spans w i"
    "\<And>a. a \<in> set as \<Longrightarrow> tc_next w \<le> ac_span a"
    by blast+
qed

lemma open_nested_carries:
  assumes "tracer_ok T" and "\<And>n p i. ls_recording (ot_start T n p i)"
    and "b \<noteq> Map.empty" and "\<And>k v. b k = Some v \<Longrightarrow> storable v"
    and "carries b w" and "open_nested T names w = (as, w1)" and "a \<in> set as"
  shows "map_of (ac_root a) = b \<and> map_of (extract_baggage (ls_span (tc_spans w1 (ac_span a)))) = b"
  using assms(5-7)
proof (induction names arbitrary: w as)
  case (Cons name names)
  obtain c wa where c: "start_activity T name w = (c, wa)" by fastforce
  obtain bs where bs: "open_nested T names wa = (bs, w1)" and as: "as = c # bs"
    using Cons.prems(2) c by (auto split: prod.splits)
  note S = start_carries [OF assms(1,2) Cons.prems(1) assms(3,4) c]
  show ?case
  proof (cases "a \<in> set bs")
    case True
    then show ?thesis using Cons.IH [OF S(1) bs] by simp
  next
    case False
    then have "a = c" using Cons.prems(3) as by simp
    moreover have "tc_spans w1 (ac_span c) = tc_spans wa (ac_span c)"
      using open_nested_frame(2) [OF bs] start_activity_frame(1,4) [OF c] by simp
    ultimately show ?thesis using S(2,3) by simp
  qed
qed simp

lemma close_nested_spans:
  assumes "tracer_ok T"
  shows "sp_attributes (ls_span (tc_spans (close_nested T as w) i)) = sp_attributes (ls_span (tc_spans w i))"
    and "a \<in> set as \<Longrightarrow> \<not> ls_recording (tc_spans (close_nested T as w) (ac_span a))"
  by (induction as) (auto simp: close_nested_def tracer_okD [OF assms])

lemma close_nested_current:
  "open_nested T names w = (as, w1) \<Longrightarrow> tc_current w2 = tc_current w1 \<Longrightarrow> tc_current (close_nested T as w2) = tc_current w"
  by (cases names) (auto simp: close_nested_def Let_def start_activity_frame split: prod.splits)

section \<open>The theorems on activities\<close>

text \<open>An OpenTelemetry that samples everything and stores what it is given.\<close>

definition blank_span :: "string \<Rightarrow> live_span option \<Rightarrow> nat \<Rightarrow> live_span" where
  "blank_span name parent i = \<lparr>ls_span = \<lparr>sp_name = name, sp_kind = ''INTERNAL'', sp_trace_id = 1, sp_span_id = Suc i,
     sp_parent = map_option (\<lambda>s. sp_span_id (ls_span s)) parent, sp_start_time = 0, sp_end_time = 0, sp_attributes = [],
     sp_status_code = ''UNSET'', sp_status_description = PNone\<rparr>, ls_readable = True, ls_recording = True\<rparr>"

definition plain_tracer :: tracer where
  "plain_tracer = \<lparr>ot_start = blank_span,
     ot_put = (\<lambda>k v s. s\<lparr>ls_span := (ls_span s)\<lparr>sp_attributes := AList.update k v (sp_attributes (ls_span s))\<rparr>\<rparr>),
     ot_status = (\<lambda>c d s. s\<lparr>ls_span := (ls_span s)\<lparr>sp_status_code := c, sp_status_description := PStr d\<rparr>\<rparr>),
     ot_exception = (\<lambda>d s. s), ot_end = (\<lambda>s. s\<lparr>ls_recording := False\<rparr>)\<rparr>"

lemma plain_tracer_ok: "tracer_ok plain_tracer"
  by (simp add: tracer_ok_def plain_tracer_def blank_span_def update_conv')

definition served_request :: tracing where
  "served_request = \<lparr>tc_spans = (\<lambda>i. ot_put plain_tracer ''baggage.TenantId'' (PStr ''t1'') (blank_span ''GET'' None i)),
     tc_next = 1, tc_current = Some 0\<rparr>"

text \<open>
  C26. Baggage reaches every activity opened under a span, however deep: where everything is sampled, each
  one has exactly the span's baggage as its root attributes, its own span is exported to the tenant of the
  first, and closing them from the innermost ends each span and makes the first one current again.
\<close>

theorem nested_activities:
  assumes "tracer_ok T" and "\<And>n p i. ls_recording (ot_start T n p i)"
    and "tc_current w = Some p" and "p < tc_next w" and "ls_readable (tc_spans w p)"
    and "is_pydict (sp_attributes (ls_span (tc_spans w p)))"
    and "baggage = extract_baggage (ls_span (tc_spans w p))" and "baggage \<noteq> []" and "\<forall>(k, v) \<in> set baggage. storable v"
    and "open_nested T names w = (as, w1)"
  shows "let w2 = close_nested T as w1 in tc_current w2 = Some p \<and>
    (\<forall>a\<in>set as. map_of (ac_root a) = map_of baggage \<and> \<not> ls_recording (tc_spans w2 (ac_span a)) \<and>
      span_tenant (ls_span (tc_spans w2 (ac_span a))) = span_tenant (ls_span (tc_spans w p)))"
proof -
  let ?b = "map_of baggage"
  have ne: "?b \<noteq> Map.empty" using assms(8) by simp
  have store: "storable v" if "?b k = Some v" for k v using assms(9) map_of_SomeD [OF that] by blast
  have c: "carries ?b w" using assms(3-7) by (auto simp: carries_def)
  have C: "map_of (ac_root a) = ?b \<and> map_of (extract_baggage (ls_span (tc_spans w1 (ac_span a)))) = ?b" if "a \<in> set as" for a
    by (rule open_nested_carries [OF assms(1,2) ne _ c assms(10) that]) (rule store)
  have "span_tenant (ls_span (tc_spans (close_nested T as w1) (ac_span a))) = span_tenant (ls_span (tc_spans w p))"
    if "a \<in> set as" for a
  proof -
    have "extract_baggage (ls_span (tc_spans (close_nested T as w1) (ac_span a))) =
        extract_baggage (ls_span (tc_spans w1 (ac_span a)))"
      by (simp add: extract_baggage_def close_nested_spans(1) [OF assms(1)])
    then show ?thesis using C [OF that] assms(7) by (simp add: span_tenant_def)
  qed
  then show ?thesis
    using C close_nested_spans(2) [OF assms(1)] close_nested_current [OF assms(10)] assms(3) by (simp add: Let_def)
qed

lemma nested_activities_witness:
  "let (as, w1) = open_nested plain_tracer [''a'', ''b''] served_request; w2 = close_nested plain_tracer as w1
   in tc_current w2 = Some 0 \<and> (\<forall>a\<in>set as. span_tenant (ls_span (tc_spans w2 (ac_span a))) = PStr ''t1'')"
proof -
  have s: "ls_span (tc_spans served_request 0) = (ls_span (blank_span ''GET'' None 0))\<lparr>sp_attributes := [(''baggage.TenantId'', PStr ''t1'')]\<rparr>"
    by (simp add: served_request_def plain_tracer_def blank_span_def)
  have b: "[(''TenantId'', PStr ''t1'')] = extract_baggage (ls_span (tc_spans served_request 0))"
    by (simp add: s extract_baggage_def starts_with_def)
  then have t: "span_tenant (ls_span (tc_spans served_request 0)) = PStr ''t1''" by (simp add: span_tenant_def flip: b)
  have *: "ls_recording (ot_start plain_tracer n p i)" for n p i by (simp add: plain_tracer_def blank_span_def)
  have cur: "tc_current served_request = Some 0" "0 < tc_next served_request" by (simp_all add: served_request_def)
  have rd: "ls_readable (tc_spans served_request 0)" by (simp add: served_request_def plain_tracer_def blank_span_def)
  have dict: "is_pydict (sp_attributes (ls_span (tc_spans served_request 0)))" by (simp add: s is_pydict_def)
  obtain as w1 where o: "open_nested plain_tracer [''a'', ''b''] served_request = (as, w1)" by fastforce
  show ?thesis
    using nested_activities [OF plain_tracer_ok * cur rd dict b _ _ o] by (simp add: o t Let_def del: open_nested.simps)
qed

text \<open>A block run in an activity: its outcome is the block's, exceptions included, and the context is the one before.\<close>

lemma with_activity_restores:
  assumes "start_activity T name w = (a, w1)"
  shows "fst (with_activity T str_of name body w) = fst (body a w1)"
    and "tc_current (snd (with_activity T str_of name body w)) = tc_current w"
  using assms start_activity_frame(2) [OF assms]
  by (simp_all add: with_activity_def exit_activity_def split: prod.split)

text \<open>An exception is recorded on the span and marks it as failed before the span ends.\<close>

lemma with_activity_records:
  assumes "start_activity T name w = (a, w1)" and "body a w1 = (Inl e, w2)"
  shows "tc_spans (snd (with_activity T str_of name body w)) (ac_span a) =
    ot_end T (ot_status T ''ERROR'' (str_of e) (ot_exception T (str_of e) (tc_spans w2 (ac_span a))))"
  using assms by (simp add: with_activity_def exit_activity_def set_status_def)

section \<open>The monitored commands\<close>

fun request_of :: "command_event \<Rightarrow> int" where
  "request_of (Started _ r _) = r"
| "request_of (Succeeded r _) = r"
| "request_of (Failed r _ _) = r"

fun is_start :: "command_event \<Rightarrow> bool" where
  "is_start (Started _ _ _) = True"
| "is_start _ = False"

text \<open>The events of one thread: a command ends after the commands it contains.\<close>

inductive nested_commands :: "command_event list \<Rightarrow> bool" where
  no_command: "nested_commands []"
| command: "nested_commands inner \<Longrightarrow> \<not> is_start ending \<Longrightarrow> request_of ending = r \<Longrightarrow>
    r \<notin> request_of ` set inner \<Longrightarrow> nested_commands rest \<Longrightarrow>
    nested_commands (Started name r time # inner @ ending # rest)"

definition started_count :: "command_event list \<Rightarrow> nat" where
  "started_count evs = length (filter is_start evs)"

text \<open>A command's span while it is open: it carries the tenant.\<close>

definition tagged :: "pyval \<Rightarrow> live_span \<Rightarrow> bool" where
  "tagged tenant s \<longleftrightarrow> is_pydict (sp_attributes (ls_span s)) \<and>
     (ls_readable s \<longrightarrow> span_attribute s ''baggage.TenantId'' = Some tenant)"

lemma tagged_tenant:
  assumes "tagged tenant s" and "ls_readable s"
  shows "span_tenant (ls_span s) = (if truthy tenant then tenant else PStr ''miscellaneous'')"
  using assms extract_baggage_attribute [of s "''TenantId''"] by (simp add: tagged_def span_tenant_def)

lemma command_started:
  assumes T: "tracer_ok T" and "storable tenant"
    and "handle_event T tenant (Started name r time) (acts, w) = (acts', w')"
  shows "\<exists>a. acts' = acts(r \<mapsto> a) \<and> ac_span a = tc_next w \<and> ac_token a = tc_current w \<and> tc_next w' = Suc (tc_next w) \<and>
    (\<forall>i<tc_next w. tc_spans w' i = tc_spans w i) \<and> tagged tenant (tc_spans w' (tc_next w))"
proof -
  obtain a w1 where a: "start_activity T (''MongoDb::'' @ name) w = (a, w1)" by fastforce
  note F = start_activity_frame [OF a]
  define d where "d = [(''db.system'', PStr ''mongodb''), (''db.operation'', PStr name), (''db.request_id'', PStr (show_int r)),
    (''db.timestamp'', time), (''baggage.TenantId'', tenant)]"
  have out: "acts' = acts(r \<mapsto> a)" "w' = set_properties T a d w1"
    using assms(3) a by (auto simp: d_def)
  let ?root = "find_root_attributes (current_span w)"
  let ?born = "ot_start T (''MongoDb::'' @ name) (current_span w) (tc_next w)"
  let ?s = "tc_spans w' (tc_next w)"
  have s: "?s = if_recording (put_all T d) (inherit_baggage T ?root ?born)"
    using F(1,7) by (simp add: out set_properties_def)
  have "is_pydict (sp_attributes (ls_span ?s))"
    by (simp add: s if_recording_def put_all_keeps [OF T] inherit_baggage_keeps [OF T] tracer_okD(2) [OF T])
  moreover have "span_attribute ?s ''baggage.TenantId'' = Some tenant" if "ls_readable ?s"
  proof -
    have "ls_recording ?born"
      using that by (simp add: s if_recording_def put_all_keeps [OF T] inherit_baggage_keeps [OF T] tracer_okD(1) [OF T] split: if_splits)
    then show ?thesis
      using put_all_puts [OF T, of d "''baggage.TenantId''" tenant "inherit_baggage T ?root ?born"] assms(2)
      by (simp add: s if_recording_def inherit_baggage_keeps [OF T] d_def is_pydict_def)
  qed
  ultimately have "tagged tenant ?s" by (simp add: tagged_def)
  moreover have "tc_spans w' i = tc_spans w i" if "i < tc_next w" for i
    using that F(1) F(6) [of i] by (simp add: out set_properties_def)
  ultimately show ?thesis using F(1,2,4) out by (auto simp: set_properties_def)
qed

lemma tagged_puts:
  assumes T: "tracer_ok T" and "tagged tenant s"
  shows "k \<noteq> ''baggage.TenantId'' \<Longrightarrow> tagged tenant (if_recording (ot_put T k v) s)"
    and "tagged tenant (ot_status T c d s)" and "tagged tenant (ot_end T s)"
  using assms(2) by (auto simp: tagged_def if_recording_keeps [OF T] tracer_okD [OF T])

lemma command_ended:
  assumes T: "tracer_ok T" and "\<not> is_start ending" and "acts (request_of ending) = Some a" and "tagged tenant (tc_spans w (ac_span a))"
    and "handle_event T t ending (acts, w) = (acts', w')"
  shows "acts' = acts(request_of ending := None) \<and> tc_current w' = ac_token a \<and> tc_next w' = tc_next w \<and>
    (\<forall>i. i \<noteq> ac_span a \<longrightarrow> tc_spans w' i = tc_spans w i) \<and>
    \<not> ls_recording (tc_spans w' (ac_span a)) \<and> tagged tenant (tc_spans w' (ac_span a))"
  using assms(2,3,5)
  by (cases ending)
     (auto simp: set_status_def set_property_def tracer_okD(16) [OF T] intro!: tagged_puts [OF T] assms(4))

lemma commands_run:
  assumes T: "tracer_ok T" and st: "storable tenant" and "nested_commands evs"
    and "\<forall>e\<in>set evs. acts (request_of e) = None" and "command_events T tenant evs (acts, w) = (acts', w')"
  shows "acts' = acts \<and> (evs = [] \<or> tc_current w' = tc_current w) \<and> tc_next w' = tc_next w + started_count evs \<and>
    (\<forall>i<tc_next w. tc_spans w' i = tc_spans w i) \<and>
    (\<forall>i. tc_next w \<le> i \<and> i < tc_next w' \<longrightarrow> \<not> ls_recording (tc_spans w' i) \<and> tagged tenant (tc_spans w' i))"
  using assms(3-5)
proof (induction evs arbitrary: acts w acts' w' rule: nested_commands.induct)
  case no_command
  then show ?case by (auto simp: command_events_def started_count_def)
next
  case (command inner ending r rest name time)
  obtain acts1 w1 where 1: "handle_event T tenant (Started name r time) (acts, w) = (acts1, w1)" by fastforce
  from command_started [OF T st this] obtain a where a: "acts1 = acts(r \<mapsto> a)" "ac_span a = tc_next w" "ac_token a = tc_current w"
      "tc_next w1 = Suc (tc_next w)" "\<forall>i<tc_next w. tc_spans w1 i = tc_spans w i" "tagged tenant (tc_spans w1 (tc_next w))"
    by blast
  obtain acts2 w2 where 2: "command_events T tenant inner (acts1, w1) = (acts2, w2)" by fastforce
  have "\<forall>e\<in>set inner. acts1 (request_of e) = None" using command.prems(1) command.hyps(4) a(1) by (auto simp: image_iff)
  from command.IH(1) [OF this 2] have i: "acts2 = acts1" "tc_next w2 = tc_next w1 + started_count inner"
      "\<forall>i<tc_next w1. tc_spans w2 i = tc_spans w1 i"
      "\<forall>i. tc_next w1 \<le> i \<and> i < tc_next w2 \<longrightarrow> \<not> ls_recording (tc_spans w2 i) \<and> tagged tenant (tc_spans w2 i)"
    by blast+
  obtain acts3 w3 where 3: "handle_event T tenant ending (acts2, w2) = (acts3, w3)" by fastforce
  have "acts2 (request_of ending) = Some a" "tagged tenant (tc_spans w2 (ac_span a))"
    using i(1,3) a command.hyps(3) by simp_all
  from command_ended [OF T command.hyps(2) this 3]
  have e: "acts3 = acts2(r := None)" "tc_current w3 = tc_current w" "tc_next w3 = tc_next w2"
      "\<forall>i. i \<noteq> tc_next w \<longrightarrow> tc_spans w3 i = tc_spans w2 i"
      "\<not> ls_recording (tc_spans w3 (tc_next w))" "tagged tenant (tc_spans w3 (tc_next w))"
    using a(2,3) command.hyps(3) by simp_all
  have acts3: "acts3 = acts" using e(1) i(1) a(1) command.prems(1) by (simp add: fun_upd_idem)
  have 4: "command_events T tenant rest (acts, w3) = (acts', w')"
    using command.prems(2) 1 2 3 acts3 by (simp add: command_events_def)
  have "\<forall>e\<in>set rest. acts (request_of e) = None" using command.prems(1) by simp
  from command.IH(2) [OF this 4] have r: "acts' = acts" "rest = [] \<or> tc_current w' = tc_current w3"
      "tc_next w' = tc_next w3 + started_count rest" "\<forall>i<tc_next w3. tc_spans w' i = tc_spans w3 i"
      "\<forall>i. tc_next w3 \<le> i \<and> i < tc_next w' \<longrightarrow> \<not> ls_recording (tc_spans w' i) \<and> tagged tenant (tc_spans w' i)"
    by blast+
  have cur: "tc_current w' = tc_current w" using r(2) e(2) 4 by (auto simp: command_events_def)
  have old: "tc_spans w' i = tc_spans w i" if "i < tc_next w" for i
    using that r(4) e(3,4) i(2,3) a(4,5) by simp
  have new: "\<not> ls_recording (tc_spans w' i) \<and> tagged tenant (tc_spans w' i)" if "tc_next w \<le> i" "i < tc_next w'" for i
  proof (cases "tc_next w3 \<le> i")
    case True
    then show ?thesis using r(5) that(2) by blast
  next
    case False
    then have "tc_spans w' i = tc_spans w3 i" using r(4) by simp
    moreover have "i = tc_next w \<or> tc_next w1 \<le> i \<and> i < tc_next w2" using that(1) False e(3) a(4) by auto
    ultimately show ?thesis using e(4,5,6) i(4) a(4) by auto
  qed
  have "started_count (Started name r time # inner @ ending # rest) = Suc (started_count inner + started_count rest)"
    using command.hyps(2) by (simp add: started_count_def)
  then show ?case using r(1,3) cur old new e(3) i(2) a(4) by simp
qed

text \<open>
  C27. What the driver's monitor leaves behind. After the events of a thread, commands nested in commands
  included, no activity is held, the context is the one before, spans of others are as they were, and every
  command has made one span, which has ended and, if it was sampled, is exported to the tenant of the
  ambient context (or to ``miscellaneous'' without one).
\<close>

theorem commands_traced:
  assumes "tracer_ok T" and "nested_commands evs"
    and "command_events T (ambient_tenant test_value amb) evs (Map.empty, w) = (acts, w')"
  shows "acts = Map.empty \<and> tc_current w' = tc_current w \<and> tc_next w' = tc_next w + started_count evs \<and>
    (\<forall>i<tc_next w. tc_spans w' i = tc_spans w i) \<and>
    (\<forall>i. tc_next w \<le> i \<and> i < tc_next w' \<longrightarrow> \<not> ls_recording (tc_spans w' i) \<and>
      (ls_readable (tc_spans w' i) \<longrightarrow> span_tenant (ls_span (tc_spans w' i)) =
        (case get_context test_value amb of
           Some c \<Rightarrow> if tenant_id c = [] then PStr ''miscellaneous'' else PStr (tenant_id c)
         | None \<Rightarrow> PStr ''miscellaneous'')))"
proof -
  have st: "storable (ambient_tenant test_value amb)" by (simp add: ambient_tenant_def split: option.split)
  have "(if truthy (ambient_tenant test_value amb) then ambient_tenant test_value amb else PStr ''miscellaneous'') =
      (case get_context test_value amb of
         Some c \<Rightarrow> if tenant_id c = [] then PStr ''miscellaneous'' else PStr (tenant_id c)
       | None \<Rightarrow> PStr ''miscellaneous'')"
    by (simp add: ambient_tenant_def split: option.split)
  moreover have "tc_current w' = tc_current w" if "evs = []" using assms(3) that by (simp add: command_events_def)
  ultimately show ?thesis
    using commands_run [OF assms(1) st assms(2) _ assms(3)] by (auto simp: tagged_tenant)
qed

lemma commands_traced_witness:
  "tc_current (snd (command_events plain_tracer (PStr ''miscellaneous'')
     [Started ''find'' 7 (PStr ''now''), Failed 7 (PInt 3) ''no master''] (Map.empty, served_request))) = Some 0"
proof -
  have "nested_commands [Started ''find'' 7 (PStr ''now''), Failed 7 (PInt 3) ''no master'']"
    using nested_commands.command [OF no_command _ _ _ no_command, of "Failed 7 (PInt 3) ''no master''" 7] by simp
  note C = commands_traced [OF plain_tracer_ok this, where test_value = None and amb = empty_ambient and w = served_request]
  have t: "ambient_tenant None empty_ambient = PStr ''miscellaneous''"
    by (simp add: ambient_tenant_def get_context_def get_test_mode_def empty_ambient_def)
  from C [OF prod.collapse [symmetric]] show ?thesis by (simp add: t served_request_def)
qed

text \<open>The tokens must come back in order: when a command ends before one that was opened inside it, the later
  end makes the span of the earlier command, long ended, the current one.\<close>

lemma interleaved_commands_leave_ended_span:
  "tc_current (snd (command_events plain_tracer (PStr ''t'')
     [Started ''a'' 1 PNone, Started ''b'' 2 PNone, Succeeded 1 PNone, Succeeded 2 PNone] (Map.empty, served_request))) = Some 1"
  by (simp add: command_events_def start_activity_def Let_def served_request_def set_properties_def)

end
