(* ===== verification/Log_Config.thy ===== *)
theory Log_Config
  imports Log_Exporter Activity
begin

text \<open>
  \<^verbatim>\<open>_lmt/log_config.py\<close>, \<^verbatim>\<open>_lmt/tracing.py\<close> and the handler of
  \<^verbatim>\<open>_lmt/mongo_log_exporter.py\<close>: what the root logger does with a record once it is configured, and
  what configuring a process a second time does. The logging module asks the handlers of the root logger in their order; a handler's
  filter runs before it emits. OpenTelemetry accepts the first tracer provider of a process only.
\<close>

section \<open>The root logger\<close>

text \<open>A Mongo handler holds the batch logger it enqueues to, by the number of its construction.\<close>

datatype log_sink = Console | Mongo nat

record log_handler =
  lh_sink :: log_sink
  lh_filtered :: bool \<comment> \<open>with the trace context filter\<close>
  lh_formatted :: bool \<comment> \<open>with the format below\<close>

record root_logger =
  rl_level :: string
  rl_handlers :: "log_handler list"
  rl_mongo_logger :: "nat option" \<comment> \<open>\<open>MongoHandler._mongo_logger\<close>\<close>
  rl_loggers :: "pydict log_state list" \<comment> \<open>every batch logger made, by number\<close>
  rl_lines :: "string list"

definition fresh_root :: "log_handler list \<Rightarrow> root_logger" where
  "fresh_root hs = \<lparr>rl_level = ''WARNING'', rl_handlers = hs, rl_mongo_logger = None, rl_loggers = [], rl_lines = []\<rparr>"

text \<open>\<^verbatim>\<open>MongoHandler()\<close>: the batch logger is made once; making it reads the secrets, which can fail.\<close>

definition mongo_handler :: "py_exn + unit \<Rightarrow> (root_logger, log_handler) act" where
  "mongo_handler made =
     seq (gets rl_mongo_logger) (\<lambda>known.
     seq (case known of
            Some _ \<Rightarrow> ret ()
          | None \<Rightarrow> seq (lift_exn made) (\<lambda>_.
              modify (\<lambda>w. w\<lparr>rl_mongo_logger := Some (length (rl_loggers w)), rl_loggers := rl_loggers w @ [log_init]\<rparr>))) (\<lambda>_.
     gets (\<lambda>w. \<lparr>lh_sink = Mongo (the (rl_mongo_logger w)), lh_filtered = False, lh_formatted = False\<rparr>)))"

definition configure_logger :: "py_exn + unit \<Rightarrow> (root_logger, unit) act" where
  "configure_logger made =
     seq (modify (\<lambda>w. w\<lparr>rl_level := ''INFO''\<rparr>)) (\<lambda>_.
     let console = \<lparr>lh_sink = Console, lh_filtered = False, lh_formatted = True\<rparr> in
     seq (mongo_handler made) (\<lambda>mongo.
     modify (\<lambda>w. w\<lparr>rl_handlers := [console\<lparr>lh_filtered := True\<rparr>, mongo\<lparr>lh_filtered := True\<rparr>]\<rparr>)))"

section \<open>A record\<close>

definition format_line :: "string \<Rightarrow> log_source \<Rightarrow> string" where
  "format_line asctime r = ''['' @ asctime @ ''] ['' @ lg_level r @ ''] ['' @ lg_tenant_id r @ ''] ['' @ lg_trace_id r @ ''] '' @ lg_message r"

text \<open>The context's tenant, the current span's ids and the clock, as text and as a value.\<close>

record log_moment =
  lm_tenant :: "string option"
  lm_trace_id :: string
  lm_span_id :: string
  lm_asctime :: string
  lm_now :: pyval

text \<open>\<^verbatim>\<open>MongoHandler.emit\<close>: the queue of a batch logger has no bound, so enqueueing does not fail.\<close>

definition emit_record :: "log_moment \<Rightarrow> log_source \<Rightarrow> log_handler \<Rightarrow> root_logger \<Rightarrow> root_logger" where
  "emit_record m r h w =
     (let r = (if lh_filtered h then filter_record (lm_tenant m) (lm_trace_id m) (lm_span_id m) r else r) in
      case lh_sink h of
        Console \<Rightarrow> w\<lparr>rl_lines := rl_lines w @ [if lh_formatted h then format_line (lm_asctime m) r else lg_message r]\<rparr>
      | Mongo i \<Rightarrow>
          let d = log_document (lm_now m) (lm_trace_id m) (lm_span_id m) r; s = rl_loggers w ! i
          in w\<lparr>rl_loggers := (rl_loggers w)[i := s\<lparr>ls_queue := ls_queue s @ [d], ls_enqueued := ls_enqueued s @ [d]\<rparr>]\<rparr>)"

definition handle_record :: "log_moment \<Rightarrow> log_source \<Rightarrow> root_logger \<Rightarrow> root_logger" where
  "handle_record m r w = fold (emit_record m r) (rl_handlers w) w"

section \<open>Tracing\<close>

text \<open>The tracer provider of the process by the number of its exporters: each call makes an exporter, and adds it to
  the provider of the first call.\<close>

definition configure_tracing :: "py_exn + string \<Rightarrow> (string \<times> nat) option \<Rightarrow> py_exn + (string \<times> nat)" where
  "configure_tracing service provider = (case service of
     Inl e \<Rightarrow> Inl e
   | Inr name \<Rightarrow> Inr (case provider of None \<Rightarrow> (name, 1) | Some (first, n) \<Rightarrow> (first, Suc n)))"

section \<open>What a configured process does\<close>

definition logging_configured :: "nat \<Rightarrow> root_logger \<Rightarrow> bool" where
  "logging_configured i w \<longleftrightarrow> rl_mongo_logger w = Some i \<and> i < length (rl_loggers w) \<and>
     rl_handlers w = [\<lparr>lh_sink = Console, lh_filtered = True, lh_formatted = True\<rparr>,
       \<lparr>lh_sink = Mongo i, lh_filtered = True, lh_formatted = False\<rparr>]"

text \<open>The first configuration replaces the handlers, whatever they were; a later one changes nothing: no handler is
  doubled and no second batch logger is started.\<close>

lemma configure_logger_first:
  "configure_logger (Inr ()) (fresh_root hs) = (r, w) \<Longrightarrow> r = Inr () \<and> logging_configured 0 w \<and> length (rl_loggers w) = 1"
  by (auto simp: configure_logger_def mongo_handler_def fresh_root_def logging_configured_def act_simps Let_def)

lemma configure_logger_again:
  "logging_configured i w \<Longrightarrow> rl_level w = ''INFO'' \<Longrightarrow> configure_logger made w = (Inr (), w)"
  by (simp add: configure_logger_def mongo_handler_def logging_configured_def act_simps Let_def)

text \<open>Before the secrets are there the configuration fails and leaves the handlers alone.\<close>

lemma configure_logger_fails:
  "configure_logger (Inl e) (fresh_root hs) = (Inl e, (fresh_root hs)\<lparr>rl_level := ''INFO''\<rparr>)"
  by (simp add: configure_logger_def mongo_handler_def fresh_root_def act_simps Let_def)

text \<open>A record is printed once and enqueued once, both with the tenant of the context, so the fields the format
  asks for are always there; and enqueueing is a step of the batch logger.\<close>

lemma record_handled:
  fixes m :: log_moment
  assumes "logging_configured i w"
  defines "t \<equiv> (case lm_tenant m of None \<Rightarrow> ''miscellaneous'' | Some t \<Rightarrow> t)"
  shows "rl_lines (handle_record m r w) = rl_lines w @
      [''['' @ lm_asctime m @ ''] ['' @ lg_level r @ ''] ['' @ t @ ''] ['' @ lm_trace_id m @ ''] '' @ lg_message r]"
    and "\<exists>d. map_of d ''TenantId'' = Some (PStr (if t = [] then ''miscellaneous'' else t)) \<and>
      ls_enqueued (rl_loggers (handle_record m r w) ! i) = ls_enqueued (rl_loggers w ! i) @ [d]"
    and "log_step n (rl_loggers w ! i) (rl_loggers (handle_record m r w) ! i)"
    and "logging_configured i (handle_record m r w)"
proof -
  let ?r = "filter_record (lm_tenant m) (lm_trace_id m) (lm_span_id m) r"
  let ?d = "log_document (lm_now m) (lm_trace_id m) (lm_span_id m) ?r"
  let ?s = "rl_loggers w ! i"
  have i: "i < length (rl_loggers w)" using assms(1) by (simp add: logging_configured_def)
  have w': "handle_record m r w = w\<lparr>rl_lines := rl_lines w @ [format_line (lm_asctime m) ?r],
      rl_loggers := (rl_loggers w)[i := ?s\<lparr>ls_queue := ls_queue ?s @ [?d], ls_enqueued := ls_enqueued ?s @ [?d]\<rparr>]\<rparr>"
    using assms(1) by (simp add: handle_record_def logging_configured_def emit_record_def Let_def)
  show "rl_lines (handle_record m r w) = rl_lines w @
      [''['' @ lm_asctime m @ ''] ['' @ lg_level r @ ''] ['' @ t @ ''] ['' @ lm_trace_id m @ ''] '' @ lg_message r]"
    by (simp add: w' format_line_def filter_record_def t_def)
  show "\<exists>d. map_of d ''TenantId'' = Some (PStr (if t = [] then ''miscellaneous'' else t)) \<and>
      ls_enqueued (rl_loggers (handle_record m r w) ! i) = ls_enqueued (rl_loggers w ! i) @ [d]"
    using i by (intro exI [of _ ?d]) (simp add: w' log_document_def filter_record_def t_def)
  show "log_step n ?s (rl_loggers (handle_record m r w) ! i)" using i log_step.enqueue by (simp add: w')
  show "logging_configured i (handle_record m r w)" using assms(1) by (simp add: w' logging_configured_def)
qed

text \<open>
  A batch logger that was stopped stays the one of the process: configured again, the root logger enqueues to a
  logger whose thread has ended, and nothing is ever written.
\<close>

lemma reconfigured_after_stop:
  assumes "logging_configured i w" and "rl_level w = ''INFO''" and "ls_place (rl_loggers w ! i) = Stopped"
    and "snd (configure_logger made w) = w1" and "log_run n (rl_loggers (handle_record m r w1) ! i) s"
  shows "ls_written s = ls_written (rl_loggers w ! i)"
proof -
  have w1: "w1 = w" using configure_logger_again [OF assms(1,2)] assms(4) by simp
  have "log_run n (rl_loggers w ! i) s"
    using record_handled(3) [OF assms(1)] assms(5) w1 by (meson converse_rtranclp_into_rtranclp)
  then show ?thesis using assms(3) stopped_run by blast
qed

text \<open>Configured twice, a process exports every span twice, under the first name.\<close>

lemma configure_tracing_twice:
  "configure_tracing (Inr b) (Some (projr (configure_tracing (Inr a) None))) = Inr (a, 2)"
  by (simp add: configure_tracing_def)

section \<open>The log collection\<close>

text \<open>\<^verbatim>\<open>_create_collection_for_logs\<close>: the commands sent to the database, given which of them it accepts; the
  first refused one ends the bootstrap, which never fails.\<close>

fun attempt :: "(log_setup \<Rightarrow> bool) \<Rightarrow> log_setup list \<Rightarrow> log_setup list \<times> bool" where
  "attempt ok [] = ([], True)"
| "attempt ok (x # xs) = (if ok x then (case attempt ok xs of (ys, b) \<Rightarrow> (x # ys, b)) else ([x], False))"

definition create_collection_for_logs :: "(log_setup \<Rightarrow> bool) \<Rightarrow> string \<Rightarrow> log_collection \<Rightarrow> log_setup list" where
  "create_collection_for_logs ok name c =
     (case attempt ok (create_collection_if_not_exists c) of
        (sent, False) \<Rightarrow> sent
      | (sent, True) \<Rightarrow>
          let indexes = (if lc_exists c \<and> lc_time_series c then lc_indexes c else [])
          in sent @ fst (attempt ok (create_index_if_needed name indexes)))"

text \<open>A log collection in place is left alone, apart from a missing index; an ordinary collection is dropped first.\<close>

lemma create_collection_for_logs_cases:
  "lc_exists c \<Longrightarrow> lc_time_series c \<Longrightarrow> set (create_collection_for_logs ok name c) \<subseteq> {CreateIndex}"
  "lc_exists c \<Longrightarrow> \<not> lc_time_series c \<Longrightarrow> hd (create_collection_for_logs ok name c) = DropCollection"
  "\<not> lc_exists c \<Longrightarrow> hd (create_collection_for_logs ok name c) = CreateCollection"
  by (auto simp: create_collection_for_logs_def create_collection_if_not_exists_def create_index_if_needed_def Let_def split: prod.split if_splits)

end
