(* ===== verification/Azure_Admin.thy ===== *)
theory Azure_Admin
  imports Rabbit_Service
begin

text \<open>
  \<^verbatim>\<open>_message/azure/config_azure_service_bus.py\<close>: before an Azure worker starts, the queues, the
  topics and a subscription for each topic are created unless they exist. The namespace is the list of
  its entities in the order of their creation. Proved: provisioning is the declarative one, creates
  nothing twice, and does nothing the second time.
\<close>

section \<open>The namespace and its administration\<close>

datatype bus_entity = Bus_Queue string | Bus_Topic string | Bus_Subscription string string

record entity_options =
  eo_max_size :: "int option"
  eo_max_delivery :: "int option"
  eo_ttl :: int
  eo_lock_seconds :: "int option"

type_synonym bus_namespace = "(bus_entity \<times> entity_options) list"

type_synonym 'a admin_act = "(bus_namespace, 'a) act"

definition has_entity :: "bus_entity \<Rightarrow> bus_namespace \<Rightarrow> bool" where
  "has_entity x n \<longleftrightarrow> map_of n x \<noteq> None"

text \<open>The administration client: whether it can be made from a connection string, whether a lookup of an
  existing entity gets its answer, and what it refuses to create. It refuses what exists, and a
  subscription of a topic that does not.\<close>

record bus_admin =
  ba_connect :: "string option \<Rightarrow> py_exn + unit"
  ba_visible :: "bus_entity \<Rightarrow> bool"
  ba_refuses :: "bus_entity \<Rightarrow> py_exn option"

definition create_entity :: "bus_admin \<Rightarrow> bus_entity \<Rightarrow> entity_options \<Rightarrow> unit admin_act" where
  "create_entity A x o' = (\<lambda>n.
     if has_entity x n then (Inl OtherError, n)
     else if (case x of Bus_Subscription t _ \<Rightarrow> \<not> has_entity (Bus_Topic t) n | _ \<Rightarrow> False) then (Inl OtherError, n)
     else case ba_refuses A x of Some e \<Rightarrow> (Inl e, n) | None \<Rightarrow> (Inr (), n @ [(x, o')]))"

section \<open>Provisioning\<close>

text \<open>Any failed lookup counts as absence.\<close>

definition check_exists :: "bus_admin \<Rightarrow> bus_entity \<Rightarrow> bool admin_act" where
  "check_exists A x = gets (\<lambda>n. has_entity x n \<and> ba_visible A x)"

definition LOCK_SECONDS :: int where
  "LOCK_SECONDS = 300"

definition queue_options :: "azure_configuration \<Rightarrow> entity_options" where
  "queue_options z = \<lparr>eo_max_size = Some (ac_queue_max_size z), eo_max_delivery = Some (ac_queue_max_delivery z),
     eo_ttl = ac_queue_ttl z, eo_lock_seconds = Some LOCK_SECONDS\<rparr>"

definition topic_options :: "azure_configuration \<Rightarrow> entity_options" where
  "topic_options z = \<lparr>eo_max_size = Some (ac_topic_max_size z), eo_max_delivery = None, eo_ttl = ac_topic_ttl z,
     eo_lock_seconds = None\<rparr>"

definition subscription_options :: "azure_configuration \<Rightarrow> entity_options" where
  "subscription_options z = \<lparr>eo_max_size = None, eo_max_delivery = Some (ac_subscription_max_delivery z),
     eo_ttl = ac_subscription_ttl z, eo_lock_seconds = Some LOCK_SECONDS\<rparr>"

definition ensure_entity :: "bus_admin \<Rightarrow> bus_entity \<Rightarrow> entity_options \<Rightarrow> unit admin_act" where
  "ensure_entity A x o' = seq (check_exists A x) (\<lambda>known. if known then ret () else create_entity A x o')"

definition create_queues :: "bus_admin \<Rightarrow> azure_configuration \<Rightarrow> unit admin_act" where
  "create_queues A z = for_each (\<lambda>q. ensure_entity A (Bus_Queue q) (queue_options z)) (ac_queues z)"

definition create_subscription :: "bus_admin \<Rightarrow> message_configuration \<Rightarrow> azure_configuration \<Rightarrow> string \<Rightarrow> unit admin_act" where
  "create_subscription A c z t =
     ensure_entity A (Bus_Subscription t (get_subscription_name c t)) (subscription_options z)"

definition create_topics_and_subscriptions :: "bus_admin \<Rightarrow> message_configuration \<Rightarrow> azure_configuration \<Rightarrow> unit admin_act" where
  "create_topics_and_subscriptions A c z =
     for_each (\<lambda>t. seq (ensure_entity A (Bus_Topic t) (topic_options z)) (\<lambda>_. create_subscription A c z t)) (ac_topics z)"

definition configure_queue_and_topic :: "bus_admin \<Rightarrow> message_configuration \<Rightarrow> unit admin_act" where
  "configure_queue_and_topic A c =
     seq (lift_exn (ba_connect A (mq_connection c))) (\<lambda>_.
     case mq_azure c of
       None \<Rightarrow> raise AttributeError
     | Some z \<Rightarrow> seq (create_queues A z) (\<lambda>_. create_topics_and_subscriptions A c z))"

section \<open>The specification\<close>

text \<open>What a configuration wants, and a namespace with what it lacks of it.\<close>

definition wanted :: "message_configuration \<Rightarrow> azure_configuration \<Rightarrow> bus_namespace" where
  "wanted c z = map (\<lambda>q. (Bus_Queue q, queue_options z)) (ac_queues z) @
     concat (map (\<lambda>t. [(Bus_Topic t, topic_options z),
       (Bus_Subscription t (get_subscription_name c t), subscription_options z)]) (ac_topics z))"

definition provide :: "bus_entity \<times> entity_options \<Rightarrow> bus_namespace \<Rightarrow> bus_namespace" where
  "provide x n = (if has_entity (fst x) n then n else n @ [x])"

abbreviation provided :: "bus_namespace \<Rightarrow> bus_namespace \<Rightarrow> bus_namespace" where
  "provided xs n \<equiv> fold provide xs n"

definition admin_answers :: "bus_admin \<Rightarrow> bool" where
  "admin_answers A \<longleftrightarrow> (\<forall>s. ba_connect A s = Inr ()) \<and> (\<forall>x. ba_visible A x \<and> ba_refuses A x = None)"

section \<open>Lemmas\<close>

lemma has_entity_iff: "has_entity x n \<longleftrightarrow> x \<in> fst ` set n"
  by (simp add: has_entity_def map_of_eq_None_iff)

lemma names_provide: "fst ` set (provide x n) = insert (fst x) (fst ` set n)"
  by (auto simp: provide_def has_entity_iff)

lemma names_provided: "fst ` set (provided xs n) = fst ` set n \<union> fst ` set xs"
  by (induction xs arbitrary: n) (auto simp: names_provide)

lemma provided_id: "fst ` set xs \<subseteq> fst ` set n \<Longrightarrow> provided xs n = n"
  by (induction xs) (auto simp: provide_def has_entity_iff)

lemma provided_new:
  "\<exists>new. provided xs n = n @ new \<and> distinct (map fst new) \<and> fst ` set new = fst ` set xs - fst ` set n \<and> set new \<subseteq> set xs"
proof (induction xs arbitrary: n)
  case (Cons x xs)
  from Cons.IH [of "provide x n"] obtain new where new: "provided xs (provide x n) = provide x n @ new" "distinct (map fst new)"
    "fst ` set new = fst ` set xs - insert (fst x) (fst ` set n)" "set new \<subseteq> set xs" by (auto simp: names_provide)
  show ?case
  proof (cases "fst x \<in> fst ` set n")
    case True
    then have "provide x n = n" by (simp add: provide_def has_entity_iff)
    moreover have "fst ` set new = fst ` set (x # xs) - fst ` set n" unfolding new(3) insert_absorb [OF True] using True by (metis image_insert insert_Diff_if list.simps(15))
    ultimately show ?thesis using new by (intro exI [of _ new]) auto
  next
    case False
    then have p: "provide x n = n @ [x]" by (simp add: provide_def has_entity_iff)
    have "fst ` set (x # new) = fst ` set (x # xs) - fst ` set n" using new(3) False by auto
    moreover have "distinct (map fst (x # new))" using new(2,3) by (metis DiffD2 distinct.simps(2) image_set insertI1 list.simps(9))
    moreover have "provided (x # xs) n = n @ x # new" using new(1) by (simp add: p)
    ultimately show ?thesis using new(4) by (intro exI [of _ "x # new"]) auto
  qed
qed simp

lemma ensure_provides:
  assumes "admin_answers A" and "case x of Bus_Subscription t _ \<Rightarrow> has_entity (Bus_Topic t) n | _ \<Rightarrow> True"
  shows "ensure_entity A x o' n = (Inr (), provide (x, o') n)"
  using assms
  by (auto simp: ensure_entity_def check_exists_def act_simps create_entity_def provide_def admin_answers_def
      split: bus_entity.splits)

lemma for_each_fold:
  assumes "\<And>x n. f x n = (Inr (), g x n)"
  shows "for_each f xs n = (Inr (), fold g xs n)"
  using assms by (induction xs arbitrary: n) (simp_all add: act_simps)

lemma fold_concat_map: "fold (\<lambda>x. fold g (h x)) xs n = fold g (concat (map h xs)) n"
  by (induction xs arbitrary: n) simp_all

lemma topic_provides:
  assumes "admin_answers A"
  shows "seq (ensure_entity A (Bus_Topic t) (topic_options z)) (\<lambda>_. create_subscription A c z t) n =
    (Inr (), provided [(Bus_Topic t, topic_options z), (Bus_Subscription t (get_subscription_name c t), subscription_options z)] n)"
  using ensure_provides [OF assms, where x = "Bus_Topic t" and n = n and o' = "topic_options z"]
    ensure_provides [OF assms, where x = "Bus_Subscription t (get_subscription_name c t)"
      and n = "provide (Bus_Topic t, topic_options z) n" and o' = "subscription_options z"]
  by (simp add: act_simps create_subscription_def has_entity_iff names_provide)

lemma configure_provides:
  assumes "admin_answers A" and "mq_azure c = Some z"
  shows "configure_queue_and_topic A c n = (Inr (), provided (wanted c z) n)"
proof -
  have q: "create_queues A z n = (Inr (), fold (\<lambda>q. provide (Bus_Queue q, queue_options z)) (ac_queues z) n)"
    unfolding create_queues_def by (rule for_each_fold) (simp add: ensure_provides [OF assms(1)])
  let ?t = "\<lambda>t. [(Bus_Topic t, topic_options z), (Bus_Subscription t (get_subscription_name c t), subscription_options z)]"
  have t: "create_topics_and_subscriptions A c z m = (Inr (), provided (concat (map ?t (ac_topics z))) m)" for m
    unfolding create_topics_and_subscriptions_def fold_concat_map [symmetric]
    by (rule for_each_fold) (rule topic_provides [OF assms(1)])
  have "ba_connect A s = Inr ()" for s using assms(1) by (simp add: admin_answers_def)
  then show ?thesis
    using assms(2) by (simp add: configure_queue_and_topic_def act_simps q t wanted_def fold_map o_def)
qed

text \<open>
  C35. Provisioning brings a namespace to what the configuration wants and no further: when the service
  answers, it adds exactly the missing queues, topics and subscriptions, each once and with the
  configured options, leaves what existed, and a second run, by another instance or a restart, changes
  nothing.
\<close>

theorem azure_provisioning:
  assumes "admin_answers A" and "mq_azure c = Some z"
  shows "\<exists>created. configure_queue_and_topic A c n = (Inr (), n @ created) \<and>
    distinct (map fst created) \<and> fst ` set created = fst ` set (wanted c z) - fst ` set n \<and> set created \<subseteq> set (wanted c z) \<and>
    configure_queue_and_topic A c (n @ created) = (Inr (), n @ created)"
proof -
  obtain new where new: "provided (wanted c z) n = n @ new" "distinct (map fst new)"
    "fst ` set new = fst ` set (wanted c z) - fst ` set n" "set new \<subseteq> set (wanted c z)"
    using provided_new by blast
  have "fst ` set (wanted c z) \<subseteq> fst ` set (n @ new)" using names_provided [of "wanted c z" n] unfolding new(1) by auto
  then have "provided (wanted c z) (n @ new) = n @ new" by (rule provided_id)
  with new configure_provides [OF assms] show ?thesis by auto
qed

text \<open>A lookup that fails for another reason than absence makes the creation run into the existing queue, and
  the worker does not start.\<close>

lemma unanswered_lookup_stops_start:
  assumes "ba_connect A (mq_connection c) = Inr ()" and "mq_azure c = Some z" and "ac_queues z = q # qs"
    and "has_entity (Bus_Queue q) n" and "\<not> ba_visible A (Bus_Queue q)"
  shows "configure_queue_and_topic A c n = (Inl OtherError, n)"
  using assms by (simp add: configure_queue_and_topic_def act_simps create_queues_def ensure_entity_def check_exists_def create_entity_def)

text \<open>A namespace that has the queue but not the topic.\<close>

definition sample_admin :: bus_admin where
  "sample_admin = \<lparr>ba_connect = (\<lambda>_. Inr ()), ba_visible = (\<lambda>_. True), ba_refuses = (\<lambda>_. None)\<rparr>"

theorem azure_provisioning_witness:
  "\<exists>c z n'. mq_azure c = Some z \<and> configure_queue_and_topic sample_admin c [(Bus_Queue ''jobs'', queue_options z)] = (Inr (), n') \<and>
    map fst n' = [Bus_Queue ''jobs'', Bus_Topic ''news'', Bus_Subscription ''news'' ''news_sub_svc''] \<and>
    configure_queue_and_topic sample_admin c n' = (Inr (), n')"
proof -
  define z where "z = default_azure\<lparr>ac_queues := [''jobs''], ac_topics := [''news'']\<rparr>"
  define c where "c = \<lparr>mq_connection = Some ''c'', mq_service_name = Some ''svc'', mq_queues = [], mq_topics = [],
    mq_consumer_subscriptions = None, mq_azure = Some z, mq_rabbit = None\<rparr>"
  let ?n = "[(Bus_Queue ''jobs'', queue_options z)]"
  have ok: "admin_answers sample_admin" by (simp add: admin_answers_def sample_admin_def)
  have cz: "mq_azure c = Some z" by (simp add: c_def)
  from azure_provisioning [OF ok cz, of ?n] obtain created where
    run: "configure_queue_and_topic sample_admin c ?n = (Inr (), ?n @ created)"
    and again: "configure_queue_and_topic sample_admin c (?n @ created) = (Inr (), ?n @ created)" by auto
  have eq: "?n @ created = provided (wanted c z) ?n" using run configure_provides [OF ok cz, of ?n] by simp
  have "map fst (provided (wanted c z) ?n) = [Bus_Queue ''jobs'', Bus_Topic ''news'', Bus_Subscription ''news'' ''news_sub_svc'']"
    by (simp add: wanted_def provide_def has_entity_def get_subscription_name_def c_def z_def)
  then have "map fst (?n @ created) = [Bus_Queue ''jobs'', Bus_Topic ''news'', Bus_Subscription ''news'' ''news_sub_svc'']"
    unfolding eq .
  with cz run again show ?thesis
    by - (rule exI [of _ c], rule exI [of _ z], rule exI [of _ "?n @ created"], intro conjI)
qed

end
