(* ===== verification/Secret_Loader.thy ===== *)
theory Secret_Loader
  imports Blocks_Context
begin

text \<open>
  The secrets of a process: \<^verbatim>\<open>_core/env_vault_config.py\<close>,
  \<^verbatim>\<open>azure_key_vault.py\<close>, \<^verbatim>\<open>secret_loader.py\<close> and the record of
  \<^verbatim>\<open>blocks_secret.py\<close>. The vault and the environment are parameters; every request to
  the vault is logged, so that loading once can be stated.
\<close>

section \<open>The record\<close>

text \<open>The fields of \<^verbatim>\<open>BlocksSecret\<close> in their order; a secret record gives each of them a text.\<close>

definition SECRET_FIELDS :: "string list" where
  "SECRET_FIELDS = [''CacheConnectionString'', ''MessageConnectionString'', ''LogConnectionString'',
     ''MetricConnectionString'', ''TraceConnectionString'', ''LogDatabaseName'', ''MetricDatabaseName'',
     ''TraceDatabaseName'', ''ServiceName'', ''DatabaseConnectionString'', ''DevDatabaseConnectionString'',
     ''OtherDatabaseConnectionString'', ''RootDatabaseName'']"

type_synonym blocks_secret = "(string \<times> string) list"

definition secret_field :: "blocks_secret \<Rightarrow> string \<Rightarrow> string" where
  "secret_field s f = (case map_of s f of None \<Rightarrow> [] | Some v \<Rightarrow> v)"

text \<open>\<^verbatim>\<open>BlocksSecret(**d)\<close>: a missing field is empty, a given one is converted by pydantic.\<close>

fun make_fields :: "model_env \<Rightarrow> pydict \<Rightarrow> string list \<Rightarrow> py_exn + blocks_secret" where
  "make_fields V d [] = Inr []"
| "make_fields V d (f # fs) =
     (case (case map_of d f of None \<Rightarrow> Inr [] | Some v \<Rightarrow> coerce_str V v) of
        Inl e \<Rightarrow> Inl e
      | Inr s \<Rightarrow> (case make_fields V d fs of Inl e \<Rightarrow> Inl e | Inr rest \<Rightarrow> Inr ((f, s) # rest)))"

definition make_secret :: "model_env \<Rightarrow> pydict \<Rightarrow> py_exn + blocks_secret" where
  "make_secret V d = make_fields V d SECRET_FIELDS"

section \<open>The environment\<close>

text \<open>A required variable that is missing or empty raises \<^verbatim>\<open>EnvironmentError\<close>.\<close>

definition env_config :: "(string \<times> string) list \<Rightarrow> string list option \<Rightarrow> py_exn + (string \<times> string option) list" where
  "env_config environ ks =
     (case ks of
        None \<Rightarrow> Inr (map (\<lambda>(k, v). (k, Some v)) environ)
      | Some ks \<Rightarrow>
          if ks = [] then Inr (map (\<lambda>(k, v). (k, Some v)) environ)
          else let config = map (\<lambda>k. (k, map_of environ k)) ks in
            if list_ex (\<lambda>(k, v). \<not> truthy_opt v) config then Inl OtherError else Inr config)"

definition VAULT_URL_KEY :: string where
  "VAULT_URL_KEY = ''KEYVAULT__KEYVAULTURL''"

definition vault_config :: "(string \<times> string) list \<Rightarrow> py_exn + (string \<times> string option) list" where
  "vault_config environ = env_config environ (Some [VAULT_URL_KEY])"

definition vault_url :: "(string \<times> string option) list \<Rightarrow> py_exn + string" where
  "vault_url config =
     (case map_of config VAULT_URL_KEY of
        Some (Some u) \<Rightarrow> if u \<noteq> [] then Inr u else Inl ValueError
      | _ \<Rightarrow> Inl ValueError)"

section \<open>The vault\<close>

record secret_env =
  se_model :: model_env
  se_environ :: "(string \<times> string) list"
  se_connect :: "string \<Rightarrow> py_exn + unit"
  se_vault :: "string \<Rightarrow> py_exn + string option"

record secret_world =
  sw_loaded :: "blocks_secret option"
  sw_requests :: "string list"

type_synonym 'a secret_act = "(secret_world, 'a) act"

text \<open>One secret: a failure is logged and yields the empty text.\<close>

definition get_secret :: "secret_env \<Rightarrow> string \<Rightarrow> string option secret_act" where
  "get_secret E key =
     seq (modify (\<lambda>w. w\<lparr>sw_requests := sw_requests w @ [key]\<rparr>)) (\<lambda>_.
     except_any (lift_exn (se_vault E key)) (\<lambda>_. ret (Some [])))"

fun secrets_from_vault :: "secret_env \<Rightarrow> string list \<Rightarrow> (string \<times> string) list secret_act" where
  "secrets_from_vault E [] = ret []"
| "secrets_from_vault E (key # ks) =
     seq (get_secret E key) (\<lambda>value.
     seq (secrets_from_vault E ks) (\<lambda>rest.
     ret (if truthy_opt value then (key, or_empty value) # rest else rest)))"

definition fetch_secrets :: "secret_env \<Rightarrow> string list \<Rightarrow> (string \<times> string) list secret_act" where
  "fetch_secrets E ks =
     seq (lift_exn (vault_config (se_environ E))) (\<lambda>config.
     seq (lift_exn (vault_url config)) (\<lambda>url.
     seq (lift_exn (se_connect E url)) (\<lambda>_.
     secrets_from_vault E ks)))"

section \<open>The loader\<close>

definition processed :: "string \<Rightarrow> pyval" where
  "processed value =
     (if py_lower value \<in> {''true'', ''false''} then PBool (py_lower value = ''true'') else PStr value)"

definition load_secrets :: "secret_env \<Rightarrow> string \<Rightarrow> string list option \<Rightarrow> unit secret_act" where
  "load_secrets E service_name names =
     seq (gets sw_loaded) (\<lambda>loaded.
     if loaded \<noteq> None then ret ()
     else
     seq (fetch_secrets E (case names of None \<Rightarrow> SECRET_FIELDS | Some fs \<Rightarrow> if fs = [] then SECRET_FIELDS else fs)) (\<lambda>raw.
     seq (lift_exn (make_secret (se_model E) (map (\<lambda>(k, v). (k, processed v)) raw))) (\<lambda>secret.
     modify (\<lambda>w. w\<lparr>sw_loaded := Some (AList.update ''ServiceName'' service_name secret)\<rparr>))))"

definition get_blocks_secret :: "blocks_secret secret_act" where
  "get_blocks_secret = seq (gets sw_loaded) (\<lambda>s. case s of None \<Rightarrow> raise RuntimeError | Some x \<Rightarrow> ret x)"

section \<open>The connection\<close>

text \<open>The vault object of a loader, and what was opened and closed: \<^verbatim>\<open>_connect\<close> opens credential and
  client anew, \<^verbatim>\<open>close\<close> closes those it holds and keeps them.\<close>

datatype vault_part = Credential | Vault_Client

record key_vault =
  kv_url :: "string option"
  kv_credential :: bool
  kv_client :: bool
  kv_opened :: "vault_part list"
  kv_closed :: "vault_part list"

definition new_key_vault :: key_vault where
  "new_key_vault = \<lparr>kv_url = None, kv_credential = False, kv_client = False, kv_opened = [], kv_closed = []\<rparr>"

definition connect_vault :: "(string \<Rightarrow> py_exn + unit) \<Rightarrow> string \<Rightarrow> (key_vault, unit) act" where
  "connect_vault make_client url =
     seq (modify (\<lambda>v. v\<lparr>kv_url := Some url, kv_credential := True, kv_opened := kv_opened v @ [Credential]\<rparr>)) (\<lambda>_.
     seq (lift_exn (make_client url)) (\<lambda>_.
     modify (\<lambda>v. v\<lparr>kv_client := True, kv_opened := kv_opened v @ [Vault_Client]\<rparr>)))"

definition close_part :: "(vault_part \<Rightarrow> py_exn + unit) \<Rightarrow> vault_part \<Rightarrow> (key_vault, unit) act" where
  "close_part answer x = seq (lift_exn (answer x)) (\<lambda>_. modify (\<lambda>v. v\<lparr>kv_closed := kv_closed v @ [x]\<rparr>))"

definition close_vault :: "(vault_part \<Rightarrow> py_exn + unit) \<Rightarrow> (key_vault, unit) act" where
  "close_vault answer =
     seq (gets kv_credential) (\<lambda>credential.
     seq (if credential then close_part answer Credential else ret ()) (\<lambda>_.
     seq (gets kv_client) (\<lambda>client.
     if client then close_part answer Vault_Client else ret ())))"

text \<open>What a fetch does to the vault object, given what the configuration says.\<close>

definition fetch_connection :: "secret_env \<Rightarrow> (key_vault, unit) act" where
  "fetch_connection E =
     seq (lift_exn (vault_config (se_environ E))) (\<lambda>config.
     seq (lift_exn (vault_url config)) (\<lambda>url.
     connect_vault (se_connect E) url))"

section \<open>Lemmas\<close>

text \<open>A fetch leaves credential and client open, and nothing that the program runs closes them; closing
  afterwards closes each once, but a credential that fails to close leaves the client open.\<close>

lemma fetch_leaves_open:
  assumes "fetch_connection E new_key_vault = (Inr (), v)"
  shows "kv_opened v = [Credential, Vault_Client] \<and> kv_closed v = [] \<and>
    kv_closed (snd (close_vault (\<lambda>_. Inr ()) v)) = [Credential, Vault_Client] \<and>
    (answer Credential = Inl e \<longrightarrow> close_vault answer v = (Inl e, v))"
  using assms
  by (auto simp: fetch_connection_def connect_vault_def close_vault_def close_part_def act_simps new_key_vault_def
      split: sum.splits)

text \<open>A client that cannot be made leaves the credential open.\<close>

lemma failed_client_leaves_credential:
  assumes "vault_config (se_environ E) = Inr config" and "vault_url config = Inr url" and "se_connect E url = Inl e"
  shows "\<exists>v. fetch_connection E new_key_vault = (Inl e, v) \<and> kv_opened v = [Credential] \<and> kv_credential v \<and> \<not> kv_client v"
  using assms by (simp add: fetch_connection_def connect_vault_def act_simps new_key_vault_def)

text \<open>What the vault gives for a field: a value, or nothing when it is empty, absent or unreadable.\<close>

definition vault_value :: "secret_env \<Rightarrow> string \<Rightarrow> string" where
  "vault_value E f = (case se_vault E f of Inr (Some v) \<Rightarrow> v | _ \<Rightarrow> [])"

lemma secrets_from_vault_run:
  assumes "secrets_from_vault E ks w = (Inr d, w')"
  shows "d = filter (\<lambda>(k, v). v \<noteq> []) (map (\<lambda>k. (k, vault_value E k)) ks) \<and>
    w' = w\<lparr>sw_requests := sw_requests w @ ks\<rparr>"
  using assms
proof (induction ks arbitrary: d w w')
  case (Cons k ks)
  let ?w = "w\<lparr>sw_requests := sw_requests w @ [k]\<rparr>"
  from Cons.prems obtain v d1 where g: "get_secret E k w = (Inr v, ?w)" and r: "secrets_from_vault E ks ?w = (Inr d1, w')"
    and d: "d = (if truthy_opt v then (k, or_empty v) # d1 else d1)"
    by (auto simp: act_simps get_secret_def split: prod.splits sum.splits if_splits)
  have "truthy_opt v \<longleftrightarrow> vault_value E k \<noteq> []" "truthy_opt v \<Longrightarrow> or_empty v = vault_value E k"
    using g by (auto simp: get_secret_def act_simps vault_value_def split: sum.splits if_splits option.splits)
  with Cons.IH [OF r] d show ?case by auto
qed simp

lemma secrets_from_vault_map:
  assumes "secrets_from_vault E ks w = (Inr d, w')"
  shows "map_of d f = (if f \<in> set ks \<and> vault_value E f \<noteq> [] then Some (vault_value E f) else None)"
proof -
  have "map_of (filter (\<lambda>(k, v). v \<noteq> []) (map (\<lambda>k. (k, vault_value E k)) ks)) f =
      (if f \<in> set ks \<and> vault_value E f \<noteq> [] then Some (vault_value E f) else None)"
    by (induction ks) auto
  with secrets_from_vault_run [OF assms] show ?thesis by simp
qed

lemma make_fields_value:
  "make_fields V d fs = Inr s \<Longrightarrow> map fst s = fs \<and> (f \<in> set fs \<longrightarrow>
     (\<exists>v. map_of s f = Some v \<and> (case map_of d f of None \<Rightarrow> Inr [] | Some x \<Rightarrow> coerce_str V x) = Inr v))"
  by (induction fs arbitrary: s) (auto split: sum.splits option.splits)

lemma map_of_processed: "map_of (map (\<lambda>(k, v). (k, processed v)) d) f = map_option processed (map_of d f)"
  by (induction d) auto

text \<open>
  A process loads its secrets once. The first load takes each field from the vault, a secret that
  cannot be read being empty, and the name of the service from the loader; every later one, of another
  loader, under another name and with a vault that has changed or fails, changes nothing and asks
  nothing.
\<close>

theorem secrets_loaded_once:
  assumes "load_secrets E service_name None w = (Inr (), w')" and "sw_loaded w = None" and "model_env_ok (se_model E)"
  shows "\<exists>s. get_blocks_secret w' = (Inr s, w') \<and> secret_field s ''ServiceName'' = service_name \<and>
    (\<forall>f \<in> set SECRET_FIELDS. f \<noteq> ''ServiceName'' \<and> py_lower (vault_value E f) \<notin> {''true'', ''false''} \<longrightarrow>
       secret_field s f = vault_value E f) \<and>
    sw_requests w' = sw_requests w @ SECRET_FIELDS \<and> load_secrets E2 other_name names w' = (Inr (), w')"
proof -
  obtain raw v secret where f: "fetch_secrets E SECRET_FIELDS w = (Inr raw, v)"
    and m: "make_secret (se_model E) (map (\<lambda>(k, v). (k, processed v)) raw) = Inr secret"
    and w': "w' = v\<lparr>sw_loaded := Some (AList.update ''ServiceName'' service_name secret)\<rparr>"
    using assms(1,2) by (auto simp: load_secrets_def act_simps split: prod.splits sum.splits)
  have r: "secrets_from_vault E SECRET_FIELDS w = (Inr raw, v)"
    using f by (auto simp: fetch_secrets_def act_simps split: prod.splits sum.splits)
  have field_value: "secret_field (AList.update ''ServiceName'' service_name secret) f = vault_value E f"
    if "f \<in> set SECRET_FIELDS" "f \<noteq> ''ServiceName''" "py_lower (vault_value E f) \<notin> {''true'', ''false''}" for f
  proof -
    have c: "coerce_str (se_model E) (PStr x) = Inr x" for x using assms(3) unfolding model_env_ok_def by blast
    note m [unfolded make_secret_def, THEN make_fields_value, of f]
    with that(1) obtain x where
      x: "map_of secret f = Some x"
      "(case map_of (map (\<lambda>(k, v). (k, processed v)) raw) f of None \<Rightarrow> Inr [] | Some y \<Rightarrow> coerce_str (se_model E) y) = Inr x"
      by (elim conjE impE exE) assumption+
    have "processed (vault_value E f) = PStr (vault_value E f)" using that(3) by (simp add: processed_def)
    with x(2) that(1) have "x = vault_value E f"
      by (auto simp: map_of_processed secrets_from_vault_map [OF r] c split: if_splits)
    with x(1) that(2) show ?thesis by (simp add: secret_field_def update_conv')
  qed
  have "sw_requests w' = sw_requests w @ SECRET_FIELDS" using secrets_from_vault_run [OF r] w' by simp
  moreover have "load_secrets E2 other_name names w' = (Inr (), w')" using w' by (simp add: load_secrets_def act_simps)
  moreover have "secret_field (AList.update ''ServiceName'' service_name secret) ''ServiceName'' = service_name"
    by (simp add: secret_field_def update_conv')
  ultimately show ?thesis using field_value w' by (auto simp: get_blocks_secret_def act_simps)
qed

text \<open>A secret whose value reads as a truth value becomes one before the record is built, which holds text
  only: with a conversion that does not turn a truth value into text, as pydantic's, one such
  secret makes the whole load fail.\<close>

lemma truth_value_secret_refused:
  assumes "coerce_str V (PBool True) = Inl ValidationError" and "model_env_ok V"
  shows "make_secret V [(''MessageConnectionString'', processed ''True'')] = Inl ValidationError"
proof -
  have "processed ''True'' = PBool True" by (simp add: processed_def py_lower_def lower_char_def py_eval)
  with assms show ?thesis by (simp add: make_secret_def SECRET_FIELDS_def)
qed

text \<open>A vault with one secret.\<close>

definition sample_secret_env :: secret_env where
  "sample_secret_env = \<lparr>se_model = strict_env, se_environ = [(VAULT_URL_KEY, ''https://v'')], se_connect = (\<lambda>_. Inr ()),
     se_vault = (\<lambda>k. if k = ''LogDatabaseName'' then Inr (Some ''Logs'') else Inl OtherError)\<rparr>"

lemma sample_secrets_load: "\<exists>w'. load_secrets sample_secret_env ''svc'' None \<lparr>sw_loaded = None, sw_requests = []\<rparr> = (Inr (), w')"
  by (simp add: load_secrets_def act_simps fetch_secrets_def vault_config_def env_config_def vault_url_def SECRET_FIELDS_def
      get_secret_def sample_secret_env_def make_secret_def processed_def strict_env_def py_lower_def lower_char_def py_eval Let_def)

theorem secrets_loaded_once_witness:
  "\<exists>w' s. load_secrets sample_secret_env ''svc'' None \<lparr>sw_loaded = None, sw_requests = []\<rparr> = (Inr (), w') \<and>
    get_blocks_secret w' = (Inr s, w') \<and> secret_field s ''LogDatabaseName'' = ''Logs'' \<and> secret_field s ''ServiceName'' = ''svc'' \<and>
    load_secrets (sample_secret_env\<lparr>se_vault := (\<lambda>_. Inr (Some ''x''))\<rparr>) ''other'' None w' = (Inr (), w')"
proof -
  let ?w = "\<lparr>sw_loaded = None, sw_requests = []\<rparr>"
  obtain w' where run: "load_secrets sample_secret_env ''svc'' None ?w = (Inr (), w')" using sample_secrets_load by blast
  have m: "model_env_ok (se_model sample_secret_env)" using strict_env_ok by (simp add: sample_secret_env_def)
  have v: "vault_value sample_secret_env ''LogDatabaseName'' = ''Logs''" by (simp add: vault_value_def sample_secret_env_def)
  have n: "py_lower ''Logs'' \<notin> {''true'', ''false''}" "''LogDatabaseName'' \<in> set SECRET_FIELDS"
    by (simp_all add: py_lower_def lower_char_def py_eval SECRET_FIELDS_def)
  from secrets_loaded_once [OF run _ m, of "sample_secret_env\<lparr>se_vault := (\<lambda>_. Inr (Some ''x''))\<rparr>" "''other''" None] run v n
  show ?thesis by force
qed

end
