(* ===== verification/Start_Up.thy ===== *)
theory Start_Up
  imports Azure_Worker Azure_Admin Secret_Loader Endpoint_Resolver
begin

text \<open>
  \<^verbatim>\<open>_core/worker.py\<close> and the life cycle of \<^verbatim>\<open>_core/api.py\<close>: the order
  in which a process brings its components up, what it registers and connects, and what it does on its
  way down. Steps that only call a library or construct a component are external: whether they succeed
  is a parameter, and each is logged when it is done.
\<close>

section \<open>The process\<close>

datatype start_step =
    Secrets_Loaded | Logger_Configured | Tracing_Configured | Cache_Client_Set | Tenants_Initialized
  | Providers_Initialized | Database_Set | Delegation_Checked
  | Handler_Registered string | Handler_Known string | Handler_Invalid string
  | Rabbit_Client_Made | Rabbit_Worker_Ready | Bus_Configured | Azure_Client_Made | Azure_Worker_Ready
  | Callback_Ran | Worker_Ran | Worker_Stopped | Rabbit_Client_Closed | Azure_Client_Closed | Log_Exporter_Stopped

datatype worker_kind = Rabbit_Kind | Azure_Kind

text \<open>How a worker's \<^verbatim>\<open>run\<close> ends.\<close>

datatype run_end = Run_Returned | Run_Cancelled | Run_Interrupted | Run_Raised py_exn

record start_env =
  sv_secrets :: secret_env
  sv_external :: "start_step \<Rightarrow> py_exn + unit"
  sv_endpoint :: endpoint_env
  sv_admin :: bus_admin
  sv_run :: run_end

record 'c start_world =
  st_secrets :: secret_world
  st_steps :: "start_step list"
  st_registry :: "'c registry"
  st_config :: message_configuration
  st_bus :: bus_namespace
  st_worker :: "worker_kind option"

type_synonym ('c, 'a) start_act = "('c start_world, 'a) act"

definition step_done :: "start_step \<Rightarrow> ('c, unit) start_act" where
  "step_done s = modify (\<lambda>w. w\<lparr>st_steps := st_steps w @ [s]\<rparr>)"

definition external :: "start_env \<Rightarrow> start_step \<Rightarrow> ('c, unit) start_act" where
  "external E s = seq (lift_exn (sv_external E s)) (\<lambda>_. step_done s)"

definition in_secrets :: "'a secret_act \<Rightarrow> ('c, 'a) start_act" where
  "in_secrets m = (\<lambda>w. case m (st_secrets w) of (r, s) \<Rightarrow> (r, w\<lparr>st_secrets := s\<rparr>))"

definition in_bus :: "'a admin_act \<Rightarrow> ('c, 'a) start_act" where
  "in_bus m = (\<lambda>w. case m (st_bus w) of (r, n) \<Rightarrow> (r, w\<lparr>st_bus := n\<rparr>))"

section \<open>Services\<close>

text \<open>What an application and a worker have in common.\<close>

definition common_services :: "start_env \<Rightarrow> string \<Rightarrow> ('c, unit) start_act" where
  "common_services E name =
     seq (in_secrets (load_secrets (sv_secrets E) name None)) (\<lambda>_.
     seq (step_done Secrets_Loaded) (\<lambda>_.
     seq (external E Logger_Configured) (\<lambda>_.
     seq (external E Tracing_Configured) (\<lambda>_.
     seq (external E Cache_Client_Set) (\<lambda>_.
     seq (external E Tenants_Initialized) (\<lambda>_.
     seq (external E Providers_Initialized) (\<lambda>_.
     seq (external E Database_Set) (\<lambda>_.
     seq (lift_exn (ensure_configured (sv_endpoint E))) (\<lambda>_.
     step_done Delegation_Checked)))))))))"

definition register_one :: "string \<times> 'c handler \<Rightarrow> ('c, unit) start_act" where
  "register_one x = (case x of (event_type, h) \<Rightarrow>
     if event_type \<noteq> [] \<and> (is_callable h \<or> has_handle h) then
       seq (gets (\<lambda>w. map_of (st_registry w) event_type)) (\<lambda>known.
         if known = None then
           seq (gets st_registry) (\<lambda>g.
           seq (lift_exn (register_handler event_type h g)) (\<lambda>g'.
           seq (modify (\<lambda>w. w\<lparr>st_registry := g'\<rparr>)) (\<lambda>_.
           step_done (Handler_Registered event_type))))
         else step_done (Handler_Known event_type))
     else step_done (Handler_Invalid event_type))"

definition register_consumers :: "(string \<times> 'c handler) list \<Rightarrow> ('c, unit) start_act" where
  "register_consumers hs = for_each register_one hs"

definition resolve_connection :: "('c, unit) start_act" where
  "resolve_connection =
     seq (gets (\<lambda>w. mq_connection (st_config w))) (\<lambda>own.
     seq (if truthy_opt own then ret own
          else seq (in_secrets get_blocks_secret) (\<lambda>s. ret (Some (secret_field s ''MessageConnectionString'')))) (\<lambda>connection.
     modify (\<lambda>w. w\<lparr>st_config := resolve_provider ((st_config w)\<lparr>mq_connection := connection\<rparr>)\<rparr>)))"

definition connect_rabbit :: "start_env \<Rightarrow> ('c, unit) start_act" where
  "connect_rabbit E =
     seq (external E Rabbit_Client_Made) (\<lambda>_.
     seq (modify (\<lambda>w. w\<lparr>st_worker := Some Rabbit_Kind\<rparr>)) (\<lambda>_.
     seq (gets st_config) (\<lambda>c.
     seq (lift_exn (initialize_worker c)) (\<lambda>_. step_done Rabbit_Worker_Ready))))"

definition connect_azure :: "start_env \<Rightarrow> ('c, unit) start_act" where
  "connect_azure E =
     seq (gets st_config) (\<lambda>c.
     seq (in_bus (configure_queue_and_topic (sv_admin E) c)) (\<lambda>_.
     seq (step_done Bus_Configured) (\<lambda>_.
     seq (external E Azure_Client_Made) (\<lambda>_.
     seq (modify (\<lambda>w. w\<lparr>st_worker := Some Azure_Kind\<rparr>)) (\<lambda>_.
     seq (in_secrets get_blocks_secret) (\<lambda>s.
     seq (lift_exn (fst (azure_initialize c (Some (secret_field s ''MessageConnectionString'')) new_azure_worker))) (\<lambda>_.
     external E Azure_Worker_Ready)))))))"

definition setup_services :: "start_env \<Rightarrow> string \<Rightarrow> (string \<times> 'c handler) list \<Rightarrow> ('c, unit) start_act" where
  "setup_services E name hs =
     seq (common_services E name) (\<lambda>_.
     seq (register_consumers hs) (\<lambda>_.
     seq resolve_connection (\<lambda>_.
     seq (gets (\<lambda>w. mq_rabbit (st_config w))) (\<lambda>rabbit.
     seq (if rabbit \<noteq> None then connect_rabbit E else ret ()) (\<lambda>_.
     seq (gets (\<lambda>w. mq_azure (st_config w))) (\<lambda>azure.
     if azure \<noteq> None then connect_azure E else ret ()))))))"

section \<open>A worker process\<close>

definition cleanup :: "start_env \<Rightarrow> ('c, unit) start_act" where
  "cleanup E =
     seq (gets st_worker) (\<lambda>worker.
     seq (if worker \<noteq> None then external E Worker_Stopped else ret ()) (\<lambda>_.
     seq (gets (\<lambda>w. Logger_Configured \<in> set (st_steps w))) (\<lambda>logging.
     if logging then external E Log_Exporter_Stopped else ret ())))"

text \<open>The callback when there is one, and the worker; a cancellation or an interrupt ends it quietly.\<close>

definition worker_body :: "start_env \<Rightarrow> bool \<Rightarrow> ('c, unit) start_act" where
  "worker_body E callback =
     seq (if callback then external E Callback_Ran else ret ()) (\<lambda>_.
     seq (gets st_worker) (\<lambda>worker.
     if worker = None then raise AttributeError
     else seq (step_done Worker_Ran) (\<lambda>_. case sv_run E of Run_Raised e \<Rightarrow> raise e | _ \<Rightarrow> ret ())))"

definition run_worker_app :: "start_env \<Rightarrow> string \<Rightarrow> (string \<times> 'c handler) list \<Rightarrow> bool \<Rightarrow> ('c, unit) start_act" where
  "run_worker_app E name hs callback =
     finally_act (seq (setup_services E name hs) (\<lambda>_. worker_body E callback)) (\<lambda>_. cleanup E)"

section \<open>An application process\<close>

definition configure_lifespan :: "start_env \<Rightarrow> string \<Rightarrow> bool \<Rightarrow> ('c, unit) start_act" where
  "configure_lifespan E name messaging =
     seq (common_services E name) (\<lambda>_.
     if \<not> messaging then ret ()
     else
     seq resolve_connection (\<lambda>_.
     seq (gets st_config) (\<lambda>c.
     seq (if mq_rabbit c \<noteq> None then external E Rabbit_Client_Made else ret ()) (\<lambda>_.
     if mq_azure c \<noteq> None then external E Azure_Client_Made else ret ()))))"

text \<open>A client that was never made raises \<^verbatim>\<open>RuntimeError\<close>, which is passed over like one
  its \<^verbatim>\<open>close\<close> raises.\<close>

definition close_client :: "start_env \<Rightarrow> start_step \<Rightarrow> start_step \<Rightarrow> ('c, unit) start_act" where
  "close_client E made closing =
     try_except
       (seq (gets (\<lambda>w. made \<in> set (st_steps w))) (\<lambda>known. if known then external E closing else raise RuntimeError))
       (\<lambda>e. if e = RuntimeError then ret () else raise e)"

definition close_lifespan :: "start_env \<Rightarrow> ('c, unit) start_act" where
  "close_lifespan E =
     seq (close_client E Rabbit_Client_Made Rabbit_Client_Closed) (\<lambda>_.
     seq (close_client E Azure_Client_Made Azure_Client_Closed) (\<lambda>_.
     seq (gets (\<lambda>w. Logger_Configured \<in> set (st_steps w))) (\<lambda>logging.
     if logging then external E Log_Exporter_Stopped else ret ())))"

section \<open>Lemmas\<close>

definition COMMON_STEPS :: "start_step list" where
  "COMMON_STEPS = [Secrets_Loaded, Logger_Configured, Tracing_Configured, Cache_Client_Set, Tenants_Initialized,
     Providers_Initialized, Database_Set, Delegation_Checked]"

text \<open>An action only adds steps of a set; one that also leaves registry, configuration, bus and worker alone.\<close>

definition appends :: "start_step set \<Rightarrow> ('c, 'a) start_act \<Rightarrow> bool" where
  "appends S m \<longleftrightarrow> (\<forall>w r w'. m w = (r, w') \<longrightarrow> (\<exists>xs. st_steps w' = st_steps w @ xs \<and> set xs \<subseteq> S))"

definition brings :: "start_step set \<Rightarrow> ('c, 'a) start_act \<Rightarrow> bool" where
  "brings S m \<longleftrightarrow> appends S m \<and> (\<forall>w r w'. m w = (r, w') \<longrightarrow>
     st_registry w' = st_registry w \<and> st_config w' = st_config w \<and> st_bus w' = st_bus w \<and> st_worker w' = st_worker w)"

lemma appendsD: "appends S m \<Longrightarrow> m w = (r, w') \<Longrightarrow> \<exists>xs. st_steps w' = st_steps w @ xs \<and> set xs \<subseteq> S"
  by (simp add: appends_def)

lemma bringsD:
  "brings S m \<Longrightarrow> m w = (r, w') \<Longrightarrow>
     st_registry w' = st_registry w \<and> st_config w' = st_config w \<and> st_bus w' = st_bus w \<and> st_worker w' = st_worker w"
  by (simp add: brings_def)

lemma appends_seq:
  assumes "appends S m" and "\<And>x. appends S (k x)"
  shows "appends S (seq m k)"
  unfolding appends_def
proof (intro allI impI)
  fix w r w'
  assume run: "seq m k w = (r, w')"
  obtain x w1 where m: "m w = (x, w1)" by fastforce
  from appendsD [OF assms(1) m] obtain xs where xs: "st_steps w1 = st_steps w @ xs" "set xs \<subseteq> S" by blast
  show "\<exists>xs. st_steps w' = st_steps w @ xs \<and> set xs \<subseteq> S"
  proof (cases x)
    case (Inl e)
    then show ?thesis using run m xs by (auto simp: seq_run)
  next
    case (Inr y)
    then have "k y w1 = (r, w')" using run m by (simp add: seq_run)
    from appendsD [OF assms(2) this] obtain ys where "st_steps w' = st_steps w1 @ ys" "set ys \<subseteq> S" by blast
    with xs show ?thesis by (intro exI [of _ "xs @ ys"]) simp
  qed
qed

lemma brings_seq: "brings S m \<Longrightarrow> (\<And>x. brings S (k x)) \<Longrightarrow> brings S (seq m k)"
  unfolding brings_def by (auto intro: appends_seq simp: seq_run split: prod.splits sum.splits)

lemma brings_rules:
  "brings S (ret x)" "brings S (raise e)" "brings S (lift_exn y)" "brings S (gets f)" "brings S (in_secrets m)"
  "s \<in> S \<Longrightarrow> brings S (step_done s)"
  by (auto simp: brings_def appends_def in_secrets_def step_done_def act_simps split: prod.splits)

lemma brings_external: "s \<in> S \<Longrightarrow> brings S (external E s)"
  unfolding external_def by (intro brings_seq brings_rules)

lemma brings_appends: "brings S m \<Longrightarrow> appends S m"
  by (simp add: brings_def)

lemma appends_modify: "(\<And>w. st_steps (f w) = st_steps w) \<Longrightarrow> appends S (modify f)"
  by (simp add: appends_def modify_run)

lemma appends_bus: "appends S (in_bus m)"
  by (auto simp: appends_def in_bus_def split: prod.splits)

lemmas appends_rules = brings_rules [THEN brings_appends] brings_external [THEN brings_appends] appends_modify appends_bus

lemma appends_for_each: "(\<And>x. appends S (f x)) \<Longrightarrow> appends S (for_each f xs)"
  by (induction xs) (auto intro: appends_seq appends_rules)

lemma brings_common: "brings (set COMMON_STEPS) (common_services E name)"
  unfolding common_services_def
  by (intro brings_seq brings_rules brings_external) (simp_all add: COMMON_STEPS_def)

lemma step_done_run: "step_done s w = (r, w') \<longleftrightarrow> r = Inr () \<and> w' = w\<lparr>st_steps := st_steps w @ [s]\<rparr>"
  by (auto simp: step_done_def modify_run)

lemma external_Inr:
  "external E s w = (Inr (), w') \<longleftrightarrow> sv_external E s = Inr () \<and> w' = w\<lparr>st_steps := st_steps w @ [s]\<rparr>"
  by (auto simp: external_def step_done_def act_simps split: sum.splits)

lemma common_Inr:
  assumes "common_services E name w = (Inr (), w')"
  shows "st_steps w' = st_steps w @ COMMON_STEPS \<and> ensure_configured (sv_endpoint E) = Inr ()"
proof -
  have secrets: "in_secrets m v = (Inr x, v') \<Longrightarrow> st_steps v' = st_steps v" for m :: "unit secret_act" and v v' :: "'a start_world" and x
    by (auto simp: in_secrets_def split: prod.splits)
  show ?thesis
    using assms unfolding common_services_def
    by (elim seq_Inr_elim) (auto simp: external_Inr step_done_run COMMON_STEPS_def dest!: secrets)
qed

abbreviation service_steps :: "start_step set" where
  "service_steps \<equiv> UNIV - {Worker_Ran, Worker_Stopped}"

lemma appends_register: "appends service_steps (register_consumers hs)"
  unfolding register_consumers_def
  by (rule appends_for_each)
    (auto simp: register_one_def intro!: appends_seq appends_rules split: prod.split)

lemma appends_connection: "appends service_steps resolve_connection"
  unfolding resolve_connection_def by (auto intro!: appends_seq appends_rules)

lemma appends_connect: "appends service_steps (connect_rabbit E)" "appends service_steps (connect_azure E)"
  unfolding connect_rabbit_def connect_azure_def by (auto intro!: appends_seq appends_rules)

text \<open>Registration keeps the handlers a registry has, adds the valid ones of a dict and never fails.\<close>

lemma register_consumers_run:
  assumes "distinct (map fst hs)"
  shows "\<exists>w'. register_consumers hs w = (Inr (), w') \<and> (\<forall>e. map_of (st_registry w') e =
    (case map_of (st_registry w) e of Some h \<Rightarrow> Some h
     | None \<Rightarrow> (case map_of hs e of None \<Rightarrow> None
        | Some h \<Rightarrow> if e \<noteq> [] \<and> (is_callable h \<or> has_handle h) then Some h else None)))"
  using assms
proof (induction hs arbitrary: w)
  case Nil
  then show ?case by (auto simp: register_consumers_def act_simps split: option.split)
next
  case (Cons x hs)
  obtain e h where x: "x = (e, h)" by (cases x)
  let ?valid = "e \<noteq> [] \<and> (is_callable h \<or> has_handle h)"
  have "\<exists>w1. register_one x w = (Inr (), w1) \<and>
      st_registry w1 = (if ?valid \<and> map_of (st_registry w) e = None then AList.update e h (st_registry w) else st_registry w)"
    by (auto simp: register_one_def x act_simps step_done_def register_handler_def)
  then obtain w1 where one: "register_one x w = (Inr (), w1)"
    and reg: "st_registry w1 = (if ?valid \<and> map_of (st_registry w) e = None then AList.update e h (st_registry w) else st_registry w)"
    by blast
  have "map_of hs e = None" using Cons.prems x by (simp add: map_of_eq_None_iff)
  from Cons.IH [of w1] Cons.prems obtain w' where w': "register_consumers hs w1 = (Inr (), w')"
    "\<forall>e. map_of (st_registry w') e = (case map_of (st_registry w1) e of Some h \<Rightarrow> Some h
       | None \<Rightarrow> (case map_of hs e of None \<Rightarrow> None
          | Some h \<Rightarrow> if e \<noteq> [] \<and> (is_callable h \<or> has_handle h) then Some h else None))" by auto
  have run: "register_consumers (x # hs) w = (Inr (), w')" using one w'(1) by (simp add: register_consumers_def act_simps)
  show ?case
    by (rule exI [of _ w'], rule conjI [OF run])
      (use w'(2) \<open>map_of hs e = None\<close> in \<open>auto simp: reg x update_conv' split: option.splits\<close>)
qed

text \<open>What starting leaves: before everything else the common services; and without them nothing.\<close>

lemma setup_run:
  assumes "setup_services E name hs w = (r, w')"
  shows "(\<exists>xs. st_steps w' = st_steps w @ xs \<and> set xs \<subseteq> service_steps) \<and>
    (r = Inr () \<longrightarrow> ensure_configured (sv_endpoint E) = Inr () \<and> (\<exists>xs. st_steps w' = st_steps w @ COMMON_STEPS @ xs)) \<and>
    (ensure_configured (sv_endpoint E) \<noteq> Inr () \<longrightarrow> (\<exists>e. r = Inl e) \<and> st_registry w' = st_registry w \<and>
      st_config w' = st_config w \<and> st_bus w' = st_bus w \<and> st_worker w' = st_worker w)"
proof -
  obtain rc wc where c: "common_services E name w = (rc, wc)" by fastforce
  let ?rest = "seq (register_consumers hs) (\<lambda>_.
     seq resolve_connection (\<lambda>_.
     seq (gets (\<lambda>w. mq_rabbit (st_config w))) (\<lambda>rabbit.
     seq (if rabbit \<noteq> None then connect_rabbit E else ret ()) (\<lambda>_.
     seq (gets (\<lambda>w. mq_azure (st_config w))) (\<lambda>azure.
     if azure \<noteq> None then connect_azure E else ret ())))))"
  have rest: "appends service_steps ?rest"
    by (intro appends_seq appends_register appends_connection appends_rules) (simp_all add: appends_connect appends_rules)
  have "set COMMON_STEPS \<subseteq> service_steps" by (auto simp: COMMON_STEPS_def)
  then obtain xs where xs: "st_steps wc = st_steps w @ xs" "set xs \<subseteq> service_steps"
    using appendsD [OF brings_appends [OF brings_common] c] by blast
  show ?thesis
  proof (cases rc)
    case (Inl e)
    then have "r = Inl e" "w' = wc" using assms c by (simp_all add: setup_services_def act_simps)
    with xs bringsD [OF brings_common c] show ?thesis by auto
  next
    case (Inr u)
    then have "common_services E name w = (Inr (), wc)" using c by simp
    note common = common_Inr [OF this]
    have "?rest wc = (r, w')" using assms c Inr by (simp add: setup_services_def act_simps)
    from appendsD [OF rest this] obtain ys where ys: "st_steps w' = st_steps wc @ ys" "set ys \<subseteq> service_steps" by blast
    have "\<exists>zs. st_steps w' = st_steps w @ zs \<and> set zs \<subseteq> service_steps" using xs ys by (intro exI [of _ "xs @ ys"]) simp
    moreover have "\<exists>zs. st_steps w' = st_steps w @ COMMON_STEPS @ zs" using common ys(1) by auto
    ultimately show ?thesis using common by simp
  qed
qed

lemma body_run:
  assumes "worker_body E callback w = (r, w')"
  shows "(\<exists>xs. st_steps w' = st_steps w @ xs \<and> set xs \<subseteq> {Callback_Ran, Worker_Ran} \<and> (Worker_Ran \<in> set xs \<longrightarrow> st_worker w \<noteq> None)) \<and>
    st_worker w' = st_worker w \<and> st_registry w' = st_registry w \<and> st_bus w' = st_bus w"
  using assms
  by (auto simp: worker_body_def act_simps external_def step_done_def split: if_splits sum.splits run_end.splits)

lemma cleanup_run:
  assumes "cleanup E w = (r, w')"
  shows "(\<exists>xs. st_steps w' = st_steps w @ xs \<and> set xs \<subseteq> {Worker_Stopped, Log_Exporter_Stopped} \<and>
      (st_worker w \<noteq> None \<and> sv_external E Worker_Stopped = Inr () \<longrightarrow> Worker_Stopped \<in> set xs)) \<and>
    st_worker w' = st_worker w \<and> st_registry w' = st_registry w \<and> st_bus w' = st_bus w"
  using assms
  by (auto simp: cleanup_def act_simps external_def step_done_def split: if_splits sum.splits option.splits)

lemma run_worker_app_split:
  "run_worker_app E name hs callback w =
     (case setup_services E name hs w of
        (Inl e, w1) \<Rightarrow> (case cleanup E w1 of (Inl f, w2) \<Rightarrow> (Inl f, w2) | (Inr _, w2) \<Rightarrow> (Inl e, w2))
      | (Inr _, w1) \<Rightarrow> (case worker_body E callback w1 of (r, w2) \<Rightarrow>
          (case cleanup E w2 of (Inl f, w3) \<Rightarrow> (Inl f, w3) | (Inr _, w3) \<Rightarrow> (r, w3))))"
  by (auto simp: run_worker_app_def finally_act_run act_simps split: prod.splits sum.splits)

text \<open>
  C23. A worker process serves messages only when it can act for their senders. Its worker runs after
  every common service has been brought up, in their order, and only when a token endpoint is
  configured; without one it raises before a handler is registered, the namespace of the bus is
  touched or a worker exists; and on its way down, however its start or its run ended, a worker that
  exists is stopped.
\<close>

theorem worker_serves_configured:
  assumes "run_worker_app E name hs callback w = (r, w')" and "st_steps w = []" and "st_worker w = None"
  shows "(Worker_Ran \<in> set (st_steps w') \<longrightarrow>
      ensure_configured (sv_endpoint E) = Inr () \<and> take 8 (st_steps w') = COMMON_STEPS \<and> st_worker w' \<noteq> None) \<and>
    (ensure_configured (sv_endpoint E) \<noteq> Inr () \<longrightarrow>
      (\<exists>e. r = Inl e) \<and> st_registry w' = st_registry w \<and> st_bus w' = st_bus w \<and> st_worker w' = None) \<and>
    (st_worker w' \<noteq> None \<and> sv_external E Worker_Stopped = Inr () \<longrightarrow> Worker_Stopped \<in> set (st_steps w'))"
proof -
  obtain rs ws where s: "setup_services E name hs w = (rs, ws)" by fastforce
  from setup_run [OF s] assms(2) have steps: "set (st_steps ws) \<subseteq> service_steps"
    and ok: "rs = Inr () \<longrightarrow> ensure_configured (sv_endpoint E) = Inr () \<and> (\<exists>xs. st_steps ws = COMMON_STEPS @ xs)"
    and bad: "ensure_configured (sv_endpoint E) \<noteq> Inr () \<longrightarrow> (\<exists>e. rs = Inl e) \<and> st_registry ws = st_registry w \<and>
      st_bus ws = st_bus w \<and> st_worker ws = None"
    using assms(3) by auto
  have len: "length COMMON_STEPS = 8" by (simp add: COMMON_STEPS_def)
  show ?thesis
  proof (cases rs)
    case (Inl e)
    obtain rc wc where c: "cleanup E ws = (rc, wc)" by fastforce
    have r: "\<exists>e. r = Inl e" "w' = wc" using assms(1) s Inl c by (auto simp: run_worker_app_split split: sum.splits)
    note cl = cleanup_run [OF c]
    have "Worker_Ran \<notin> set (st_steps w')" using cl steps r(2) by auto
    with r cl bad show ?thesis by auto
  next
    case (Inr u)
    with ok obtain xs where conf: "ensure_configured (sv_endpoint E) = Inr ()" and xs: "st_steps ws = COMMON_STEPS @ xs" by auto
    obtain rb wb where b: "worker_body E callback ws = (rb, wb)" by fastforce
    obtain rc wc where c: "cleanup E wb = (rc, wc)" by fastforce
    have w': "w' = wc" using assms(1) s Inr b c by (auto simp: run_worker_app_split split: sum.splits)
    note bd = body_run [OF b] and cl = cleanup_run [OF c]
    from bd obtain bs where bs: "st_steps wb = st_steps ws @ bs" "Worker_Ran \<in> set bs \<longrightarrow> st_worker ws \<noteq> None" by blast
    from cl obtain cs where cs: "st_steps wc = st_steps wb @ cs" "set cs \<subseteq> {Worker_Stopped, Log_Exporter_Stopped}" by blast
    from cs(2) have "Worker_Ran \<notin> set cs" by auto
    with bs cs(1) bd cl w' have ys: "st_steps w' = st_steps ws @ bs @ cs" "Worker_Ran \<in> set (bs @ cs) \<longrightarrow> st_worker w' \<noteq> None"
      by simp_all
    have "take 8 (st_steps w') = COMMON_STEPS" by (simp add: ys(1) xs len)
    moreover have "Worker_Ran \<in> set (st_steps w') \<longrightarrow> st_worker w' \<noteq> None" using ys steps by auto
    moreover have "st_worker w' \<noteq> None \<and> sv_external E Worker_Stopped = Inr () \<longrightarrow> Worker_Stopped \<in> set (st_steps w')"
      using cl w' by auto
    ultimately show ?thesis using conf by simp
  qed
qed

text \<open>An explicit configuration of both brokers: the Azure worker takes the place of the RabbitMQ one, which is
  neither run nor stopped.\<close>

lemma both_brokers_one_worker:
  assumes "connect_rabbit E w = (Inr (), w1)" and "connect_azure E w1 = (Inr (), w')"
  shows "st_worker w1 = Some Rabbit_Kind \<and> st_worker w' = Some Azure_Kind"
  using assms
  by (auto simp: connect_rabbit_def connect_azure_def external_Inr step_done_run in_bus_def in_secrets_def modify_run gets_run
      lift_exn_run elim!: seq_Inr_elim split: prod.splits)

text \<open>The application side: it does not start without a token endpoint either; and on its way down a client whose
  close raises anything but \<^verbatim>\<open>RuntimeError\<close> leaves the other client open and the log
  exporter running.\<close>

lemma lifespan_needs_endpoint:
  assumes "configure_lifespan E name messaging w = (Inr (), w')"
  shows "ensure_configured (sv_endpoint E) = Inr () \<and> (\<exists>xs. st_steps w' = st_steps w @ COMMON_STEPS @ xs)"
proof -
  from assms obtain v where c: "common_services E name w = (Inr (), v)"
    and k: "(if \<not> messaging then ret () else seq resolve_connection (\<lambda>_. seq (gets st_config) (\<lambda>c.
       seq (if mq_rabbit c \<noteq> None then external E Rabbit_Client_Made else ret ()) (\<lambda>_.
       if mq_azure c \<noteq> None then external E Azure_Client_Made else ret ())))) v = (Inr (), w')"
    unfolding configure_lifespan_def by (auto elim!: seq_Inr_elim)
  have "appends UNIV (if \<not> messaging then ret () else seq resolve_connection (\<lambda>_. seq (gets st_config) (\<lambda>c.
       seq (if mq_rabbit c \<noteq> None then external E Rabbit_Client_Made else ret ()) (\<lambda>_.
       if mq_azure c \<noteq> None then external E Azure_Client_Made else ret ()))))"
    by (auto simp: resolve_connection_def intro!: appends_seq appends_rules)
  from appendsD [OF this k] common_Inr [OF c] show ?thesis by auto
qed

lemma failed_close_stops_shutdown:
  assumes "Rabbit_Client_Made \<in> set (st_steps w)" and "sv_external E Rabbit_Client_Closed = Inl e" and "e \<noteq> RuntimeError"
  shows "close_lifespan E w = (Inl e, w)"
  using assms by (simp add: close_lifespan_def close_client_def act_simps external_def)

text \<open>A worker on RabbitMQ whose externals all succeed, with a token endpoint.\<close>

definition sample_start_env :: start_env where
  "sample_start_env = \<lparr>sv_secrets = sample_secret_env, sv_external = (\<lambda>_. Inr ()),
     sv_endpoint = \<lparr>ee_getenv = (\<lambda>k. if k = IAM_BASE_URL_KEY then Some ''https://iam'' else None),
       ee_configurations = None, ee_fetch = (\<lambda>_. Inl OtherError)\<rparr>,
     sv_admin = sample_admin, sv_run = Run_Returned\<rparr>"

definition sample_start :: "unit start_world" where
  "sample_start = \<lparr>st_secrets = \<lparr>sw_loaded = None, sw_requests = []\<rparr>, st_steps = [], st_registry = [],
     st_config = \<lparr>mq_connection = Some ''amqp://h'', mq_service_name = None, mq_queues = [''jobs''], mq_topics = [],
       mq_consumer_subscriptions = None, mq_azure = None,
       mq_rabbit = Some \<lparr>rc_consumer_subscriptions = [], rc_message_ttl_seconds = 0\<rparr>\<rparr>,
     st_bus = [], st_worker = None\<rparr>"

lemma sample_worker_runs:
  "\<exists>w'. run_worker_app sample_start_env ''svc'' [(''job'', PlainFunction (\<lambda>_. ret ()))] False sample_start = (Inr (), w') \<and>
    Worker_Ran \<in> set (st_steps w')"
proof -
  obtain s where s: "load_secrets sample_secret_env ''svc'' None \<lparr>sw_loaded = None, sw_requests = []\<rparr> = (Inr (), s)"
    using sample_secrets_load by blast
  have ok: "ensure_configured (sv_endpoint sample_start_env) = Inr ()"
    by (simp add: ensure_configured_def resolve_setting_def sample_start_env_def str_defs is_space_def)
  show ?thesis
    using s ok
    by (simp add: run_worker_app_split setup_services_def common_services_def in_secrets_def sample_start_def
        sample_start_env_def act_simps step_done_def external_def register_consumers_def register_one_def register_handler_def
        resolve_connection_def resolve_provider_def connect_rabbit_def initialize_worker_def worker_body_def cleanup_def)
qed

theorem worker_serves_configured_witness:
  "\<exists>w'. run_worker_app sample_start_env ''svc'' [(''job'', PlainFunction (\<lambda>_. ret ()))] False sample_start = (Inr (), w') \<and>
    Worker_Ran \<in> set (st_steps w') \<and> take 8 (st_steps w') = COMMON_STEPS \<and> Worker_Stopped \<in> set (st_steps w')"
proof -
  obtain w' where run: "run_worker_app sample_start_env ''svc'' [(''job'', PlainFunction (\<lambda>_. ret ()))] False sample_start = (Inr (), w')"
    and ran: "Worker_Ran \<in> set (st_steps w')"
    using sample_worker_runs by blast
  from worker_serves_configured [OF run] run ran show ?thesis by (simp add: sample_start_def sample_start_env_def)
qed

end
