(* ===== verification/Token_Flight.thy ===== *)
theory Token_Flight
  imports Token_Provider
begin

text \<open>
  Several calls of \<^verbatim>\<open>DelegatedTokenProvider.get_token_async\<close> in flight. A step is what
  runs between two awaits: a call up to its exchange or to the queue of its grant's lock, the return of
  an exchange, the wake-up of the first in a queue, \<^verbatim>\<open>invalidate\<close>, and the passing of time.
  The lock is the one of \<^verbatim>\<open>asyncio\<close>: releasing it wakes the first waiter, which takes it
  when it runs; meanwhile the lock is unlocked, and a newcomer queues. Cancellation is not modelled.
  Ghost state \<open>tf_lost\<close> collects the grants whose lock was dropped from the table while it was in use.
\<close>

section \<open>Calls and locks\<close>

datatype token_caller =
    Outside
  | Queued string nat
  | Exchanging string nat
  | Answered string "cached_token option"

record token_flight =
  tf_tokens :: "string \<Rightarrow> cached_token option"
  tf_locks :: "string \<Rightarrow> nat option"
  tf_held :: "nat \<Rightarrow> bool"
  tf_waiters :: "nat \<Rightarrow> nat list"
  tf_callers :: "nat \<Rightarrow> token_caller"
  tf_next :: nat
  tf_now :: real
  tf_count :: int
  tf_lost :: "string set"

definition token_flight_init :: "real \<Rightarrow> token_flight" where
  "token_flight_init now = \<lparr>tf_tokens = (\<lambda>_. None), tf_locks = (\<lambda>_. None), tf_held = (\<lambda>_. False), tf_waiters = (\<lambda>_. []),
     tf_callers = (\<lambda>_. Outside), tf_next = 0, tf_now = now, tf_count = 0, tf_lost = {}\<rparr>"

definition usable_now :: "token_flight \<Rightarrow> string \<Rightarrow> bool" where
  "usable_now s k \<longleftrightarrow> (case tf_tokens s k of None \<Rightarrow> False | Some t \<Rightarrow> is_usable (tf_now s) t)"

definition lock_in_use :: "token_flight \<Rightarrow> nat \<Rightarrow> bool" where
  "lock_in_use s l \<longleftrightarrow> tf_held s l \<or> tf_waiters s l \<noteq> []"

definition table_lock_in_use :: "token_flight \<Rightarrow> string \<Rightarrow> bool" where
  "table_lock_in_use s k \<longleftrightarrow> (case tf_locks s k of None \<Rightarrow> False | Some l \<Rightarrow> lock_in_use s l)"

section \<open>What a step does\<close>

text \<open>The sweep drops stale tokens, and the lock of one unless it is locked just now.\<close>

definition sweep_flight :: "token_flight \<Rightarrow> token_flight" where
  "sweep_flight s =
     (let stale = (\<lambda>k. tf_tokens s k \<noteq> None \<and> \<not> usable_now s k);
          dropped = (\<lambda>k. stale k \<and> (case tf_locks s k of None \<Rightarrow> False | Some l \<Rightarrow> \<not> tf_held s l))
      in s\<lparr>tf_tokens := (\<lambda>k. if stale k then None else tf_tokens s k),
           tf_locks := (\<lambda>k. if dropped k then None else tf_locks s k),
           tf_lost := tf_lost s \<union> {k. dropped k \<and> table_lock_in_use s k}\<rparr>)"

definition count_flight :: "token_flight \<Rightarrow> token_flight" where
  "count_flight s =
     (let s' = s\<lparr>tf_count := tf_count s + 1\<rparr>
      in if tf_count s' mod SWEEP_INTERVAL_CALLS = 0 then sweep_flight s' else s')"

text \<open>\<^verbatim>\<open>self._locks.setdefault(delegation_id, asyncio.Lock())\<close>.\<close>

definition lock_of :: "token_flight \<Rightarrow> string \<Rightarrow> nat" where
  "lock_of s k = (case tf_locks s k of Some l \<Rightarrow> l | None \<Rightarrow> tf_next s)"

definition with_lock :: "string \<Rightarrow> token_flight \<Rightarrow> token_flight" where
  "with_lock k s = (case tf_locks s k of
     Some _ \<Rightarrow> s
   | None \<Rightarrow> s\<lparr>tf_locks := (tf_locks s)(k \<mapsto> tf_next s), tf_next := Suc (tf_next s)\<rparr>)"

definition place_caller :: "nat \<Rightarrow> token_caller \<Rightarrow> token_flight \<Rightarrow> token_flight" where
  "place_caller p c s = s\<lparr>tf_callers := (tf_callers s)(p := c)\<rparr>"

text \<open>Under the lock: a token another caller has fetched, or the exchange.\<close>

definition enter_lock :: "nat \<Rightarrow> string \<Rightarrow> nat \<Rightarrow> token_flight \<Rightarrow> token_flight" where
  "enter_lock p k l s =
     (if usable_now s k then place_caller p (Answered k (tf_tokens s k)) s
      else place_caller p (Exchanging k l)
        (s\<lparr>tf_tokens := (tf_tokens s)(k := None), tf_held := (tf_held s)(l := True)\<rparr>))"

definition begin_call :: "nat \<Rightarrow> string \<Rightarrow> token_flight \<Rightarrow> token_flight" where
  "begin_call p k s =
     (let s1 = count_flight s in
      if usable_now s1 k then place_caller p (Answered k (tf_tokens s1 k)) s1
      else let l = lock_of s1 k; s2 = with_lock k s1 in
        if lock_in_use s2 l
        then place_caller p (Queued k l) (s2\<lparr>tf_waiters := (tf_waiters s2)(l := tf_waiters s2 l @ [p])\<rparr>)
        else enter_lock p k l s2)"

definition finish_exchange :: "nat \<Rightarrow> string \<Rightarrow> nat \<Rightarrow> cached_token option \<Rightarrow> token_flight \<Rightarrow> token_flight" where
  "finish_exchange p k l outcome s =
     place_caller p (Answered k outcome)
       (s\<lparr>tf_tokens := (case outcome of None \<Rightarrow> tf_tokens s | Some t \<Rightarrow> (tf_tokens s)(k \<mapsto> t)),
          tf_held := (tf_held s)(l := False)\<rparr>)"

definition invalidate_flight :: "string \<Rightarrow> token_flight \<Rightarrow> token_flight" where
  "invalidate_flight k s = s\<lparr>tf_tokens := (tf_tokens s)(k := None), tf_locks := (tf_locks s)(k := None),
     tf_lost := (if table_lock_in_use s k then insert k (tf_lost s) else tf_lost s)\<rparr>"

inductive token_step :: "token_flight \<Rightarrow> token_flight \<Rightarrow> bool" where
  start: "tf_callers s p = Outside \<Longrightarrow> token_step s (begin_call p k s)"
| wake: "tf_callers s p = Queued k l \<Longrightarrow> tf_waiters s l = p # ws \<Longrightarrow> \<not> tf_held s l \<Longrightarrow>
    token_step s (enter_lock p k l (s\<lparr>tf_waiters := (tf_waiters s)(l := ws)\<rparr>))"
| response: "tf_callers s p = Exchanging k l \<Longrightarrow> token_step s (finish_exchange p k l outcome s)"
| leave: "tf_callers s p = Answered k r \<Longrightarrow> token_step s (place_caller p Outside s)"
| invalidate: "token_step s (invalidate_flight k s)"
| pass: "token_step s (s\<lparr>tf_now := now\<rparr>)"

abbreviation token_run :: "token_flight \<Rightarrow> token_flight \<Rightarrow> bool" where
  "token_run \<equiv> token_step\<^sup>*\<^sup>*"

section \<open>The invariant\<close>

definition token_flight_ok :: "token_flight \<Rightarrow> bool" where
  "token_flight_ok s \<longleftrightarrow>
     (\<forall>p k l. tf_callers s p = Exchanging k l \<longrightarrow> tf_held s l) \<and>
     (\<forall>p k l. tf_callers s p = Exchanging k l \<longrightarrow> k \<notin> tf_lost s \<longrightarrow> tf_locks s k = Some l) \<and>
     (\<forall>p k l q j. tf_callers s p = Exchanging k l \<longrightarrow> tf_callers s q = Exchanging j l \<longrightarrow> p = q) \<and>
     (\<forall>p k l. tf_callers s p = Queued k l \<longrightarrow> p \<in> set (tf_waiters s l)) \<and>
     (\<forall>p k l. tf_callers s p = Queued k l \<longrightarrow> k \<notin> tf_lost s \<longrightarrow> tf_locks s k = Some l) \<and>
     (\<forall>p l. p \<in> set (tf_waiters s l) \<longrightarrow> (\<exists>k. tf_callers s p = Queued k l)) \<and>
     (\<forall>l. distinct (tf_waiters s l)) \<and>
     (\<forall>l. tf_held s l \<longrightarrow> (\<exists>p k. tf_callers s p = Exchanging k l)) \<and>
     (\<forall>l. tf_next s \<le> l \<longrightarrow> \<not> lock_in_use s l) \<and>
     (\<forall>k l. tf_locks s k = Some l \<longrightarrow> l < tf_next s)"

lemma token_flight_okI:
  assumes "\<And>p k l. tf_callers s p = Exchanging k l \<Longrightarrow> tf_held s l"
    and "\<And>p k l. tf_callers s p = Exchanging k l \<Longrightarrow> k \<notin> tf_lost s \<Longrightarrow> tf_locks s k = Some l"
    and "\<And>p q k j l. tf_callers s p = Exchanging k l \<Longrightarrow> tf_callers s q = Exchanging j l \<Longrightarrow> p = q"
    and "\<And>p k l. tf_callers s p = Queued k l \<Longrightarrow> p \<in> set (tf_waiters s l)"
    and "\<And>p k l. tf_callers s p = Queued k l \<Longrightarrow> k \<notin> tf_lost s \<Longrightarrow> tf_locks s k = Some l"
    and "\<And>p l. p \<in> set (tf_waiters s l) \<Longrightarrow> \<exists>k. tf_callers s p = Queued k l"
    and "\<And>l. distinct (tf_waiters s l)"
    and "\<And>l. tf_held s l \<Longrightarrow> \<exists>p k. tf_callers s p = Exchanging k l"
    and "\<And>l. tf_next s \<le> l \<Longrightarrow> \<not> lock_in_use s l"
    and "\<And>l k. tf_locks s k = Some l \<Longrightarrow> l < tf_next s"
  shows "token_flight_ok s"
  unfolding token_flight_ok_def by (intro conjI allI impI) (rule assms; assumption)+

lemma token_flight_okD:
  assumes "token_flight_ok s"
  shows "tf_callers s p = Exchanging k l \<Longrightarrow> tf_held s l"
    and "tf_callers s p = Exchanging k l \<Longrightarrow> k \<notin> tf_lost s \<Longrightarrow> tf_locks s k = Some l"
    and "tf_callers s p = Exchanging k l \<Longrightarrow> tf_callers s q = Exchanging j l \<Longrightarrow> p = q"
    and "tf_callers s p = Queued k l \<Longrightarrow> p \<in> set (tf_waiters s l)"
    and "tf_callers s p = Queued k l \<Longrightarrow> k \<notin> tf_lost s \<Longrightarrow> tf_locks s k = Some l"
    and "p \<in> set (tf_waiters s l) \<Longrightarrow> \<exists>k. tf_callers s p = Queued k l"
    and "distinct (tf_waiters s l)"
    and "tf_held s l \<Longrightarrow> \<exists>p k. tf_callers s p = Exchanging k l"
    and "tf_next s \<le> l \<Longrightarrow> \<not> lock_in_use s l"
    and "tf_locks s k = Some l \<Longrightarrow> l < tf_next s"
  using assms by - (unfold token_flight_ok_def, ((erule conjE)+, (simp; fail | blast | metis))+)

lemma token_flight_ok_init: "token_flight_ok (token_flight_init now)"
  by (rule token_flight_okI) (simp_all add: token_flight_init_def lock_in_use_def)

lemma lock_in_use_waiter: "p \<in> set (tf_waiters s l) \<Longrightarrow> lock_in_use s l"
  by (auto simp: lock_in_use_def)

lemma sweep_flight_simps [simp]:
  "tf_held (sweep_flight s) = tf_held s" "tf_waiters (sweep_flight s) = tf_waiters s" "tf_callers (sweep_flight s) = tf_callers s"
  "tf_next (sweep_flight s) = tf_next s" "lock_in_use (sweep_flight s) = lock_in_use s"
  by (simp_all add: sweep_flight_def Let_def lock_in_use_def fun_eq_iff)

lemma sweep_flight_lost: "tf_lost s \<subseteq> tf_lost (sweep_flight s)"
  by (auto simp: sweep_flight_def Let_def)

lemma sweep_flight_keeps:
  assumes "tf_locks s k = Some l" and "k \<notin> tf_lost (sweep_flight s)" and "lock_in_use s l"
  shows "tf_locks (sweep_flight s) k = Some l"
  using assms by (auto simp: sweep_flight_def Let_def table_lock_in_use_def)

lemma sweep_flight_locks: "tf_locks (sweep_flight s) k = Some l \<Longrightarrow> tf_locks s k = Some l"
  by (auto simp: sweep_flight_def Let_def split: if_splits)

lemma token_flight_ok_sweep:
  assumes "token_flight_ok s"
  shows "token_flight_ok (sweep_flight s)"
proof (rule token_flight_okI)
  note D = token_flight_okD [OF assms]
  show "tf_locks (sweep_flight s) k = Some l" if "tf_callers (sweep_flight s) p = Exchanging k l" "k \<notin> tf_lost (sweep_flight s)" for p k l
  proof (rule sweep_flight_keeps)
    have "k \<notin> tf_lost s" using that(2) sweep_flight_lost by blast
    then show "tf_locks s k = Some l" using D(2) that(1) by simp
    show "lock_in_use s l" using D(1) that by (auto simp: lock_in_use_def)
  qed (rule that(2))
  show "tf_locks (sweep_flight s) k = Some l" if "tf_callers (sweep_flight s) p = Queued k l" "k \<notin> tf_lost (sweep_flight s)" for p k l
  proof (rule sweep_flight_keeps)
    have "k \<notin> tf_lost s" using that(2) sweep_flight_lost by blast
    then show "tf_locks s k = Some l" using D(5) that(1) by simp
    show "lock_in_use s l" using D(4) that by (auto intro: lock_in_use_waiter)
  qed (rule that(2))
  show "l < tf_next (sweep_flight s)" if l: "tf_locks (sweep_flight s) k = Some l" for k l
    using D(10) [OF sweep_flight_locks [OF l]] by simp
qed (unfold sweep_flight_simps, (rule token_flight_okD [OF assms]; assumption)+)

lemma token_flight_ok_counted: "token_flight_ok (s\<lparr>tf_count := c\<rparr>) = token_flight_ok s"
  by (simp add: token_flight_ok_def lock_in_use_def)

lemma token_flight_ok_count: "token_flight_ok s \<Longrightarrow> token_flight_ok (count_flight s)"
  by (simp add: count_flight_def Let_def token_flight_ok_sweep token_flight_ok_counted)

lemma count_flight_simps [simp]:
  "tf_held (count_flight s) = tf_held s" "tf_waiters (count_flight s) = tf_waiters s" "tf_callers (count_flight s) = tf_callers s"
  by (simp_all add: count_flight_def Let_def)

lemma with_lock_simps [simp]:
  "tf_held (with_lock k s) = tf_held s" "tf_waiters (with_lock k s) = tf_waiters s" "tf_callers (with_lock k s) = tf_callers s"
  "tf_lost (with_lock k s) = tf_lost s" "lock_in_use (with_lock k s) = lock_in_use s"
  "tf_locks (with_lock k s) k = Some (lock_of s k)"
  by (simp_all add: with_lock_def lock_of_def lock_in_use_def fun_eq_iff split: option.split)

lemma token_flight_ok_with_lock:
  assumes "token_flight_ok s"
  shows "token_flight_ok (with_lock k s)"
proof (cases "tf_locks s k")
  case None
  note D = token_flight_okD [OF assms]
  show ?thesis
  proof (rule token_flight_okI)
    show "tf_locks (with_lock k s) j = Some l" if "tf_callers (with_lock k s) p = Exchanging j l" "j \<notin> tf_lost (with_lock k s)" for p j l
      using D(2) [of p j l] that None by (auto simp: with_lock_def)
    show "tf_locks (with_lock k s) j = Some l" if "tf_callers (with_lock k s) p = Queued j l" "j \<notin> tf_lost (with_lock k s)" for p j l
      using D(5) [of p j l] that None by (auto simp: with_lock_def)
    show "\<not> lock_in_use (with_lock k s) l" if "tf_next (with_lock k s) \<le> l" for l
      using D(9) [of l] that None by (simp add: with_lock_def lock_in_use_def)
    show "l < tf_next (with_lock k s)" if "tf_locks (with_lock k s) j = Some l" for j l
      using D(10) [of j l] that None by (auto simp: with_lock_def split: if_splits)
  qed (unfold with_lock_simps, (rule D; assumption)+)
next
  case (Some l)
  then show ?thesis using assms by (simp add: with_lock_def)
qed

lemma token_flight_ok_place:
  assumes "token_flight_ok s" and "\<And>k l. tf_callers s p \<noteq> Queued k l" and "\<And>k l. tf_callers s p \<noteq> Exchanging k l"
    and "c = Outside \<or> (\<exists>k r. c = Answered k r)"
  shows "token_flight_ok (place_caller p c s)"
proof (rule token_flight_okI)
  note D = token_flight_okD [OF assms(1)]
  show "\<exists>k. tf_callers (place_caller p c s) q = Queued k l" if "q \<in> set (tf_waiters (place_caller p c s) l)" for q l
  proof -
    have "q \<in> set (tf_waiters s l)" using that by (simp add: place_caller_def)
    from D(6) [OF this] obtain k where "tf_callers s q = Queued k l" by blast
    moreover then have "q \<noteq> p" using assms(2) by blast
    ultimately show ?thesis by (simp add: place_caller_def)
  qed
  show "\<exists>q k. tf_callers (place_caller p c s) q = Exchanging k l" if "tf_held (place_caller p c s) l" for l
  proof -
    have "tf_held s l" using that by (simp add: place_caller_def)
    from D(8) [OF this] obtain q k where "tf_callers s q = Exchanging k l" by blast
    moreover then have "q \<noteq> p" using assms(3) by blast
    ultimately show ?thesis by (auto simp: place_caller_def)
  qed
qed (use token_flight_okD [OF assms(1)] assms(4) in \<open>auto simp: place_caller_def lock_in_use_def split: if_splits\<close>)

text \<open>Entering under a free lock, as a newcomer or as the first waiter.\<close>

lemma token_flight_ok_exchange:
  assumes "token_flight_ok s" and "\<not> tf_held s l" and "l < tf_next s" and "k \<in> tf_lost s \<or> tf_locks s k = Some l"
    and "tf_callers s p = Outside \<and> ws = tf_waiters s l \<or> tf_callers s p = Queued k l \<and> tf_waiters s l = p # ws"
  shows "token_flight_ok (place_caller p (Exchanging k l)
    (s\<lparr>tf_waiters := (tf_waiters s)(l := ws), tf_tokens := tk, tf_held := (tf_held s)(l := True)\<rparr>))"
    (is "token_flight_ok ?s")
proof (rule token_flight_okI)
  note D = token_flight_okD [OF assms(1)]
  have free: "tf_callers s q \<noteq> Exchanging j l" for q j using D(1) assms(2) by blast
  have ws: "set ws \<subseteq> set (tf_waiters s l)" "p \<notin> set ws" "distinct ws" "set (tf_waiters s l) \<subseteq> insert p (set ws)"
    using assms(5) D(6) [of p l] D(7) [of l] by auto
  have w: "set (tf_waiters ?s m) \<subseteq> set (tf_waiters s m)" for m using ws(1) by (simp add: place_caller_def)
  show "tf_held ?s m" if "tf_callers ?s q = Exchanging j m" for q j m
    using that D(1) by (auto simp: place_caller_def split: if_splits)
  show "tf_locks ?s j = Some m" if "tf_callers ?s q = Exchanging j m" "j \<notin> tf_lost ?s" for q j m
    using that D(2) assms(4) by (auto simp: place_caller_def split: if_splits)
  show "q = q'" if "tf_callers ?s q = Exchanging j m" "tf_callers ?s q' = Exchanging j' m" for q q' j j' m
    using that D(3) free by (auto simp: place_caller_def split: if_splits)
  show "q \<in> set (tf_waiters ?s m)" if "tf_callers ?s q = Queued j m" for q j m
    using that D(4) ws(4) by (auto simp: place_caller_def split: if_splits)
  show "tf_locks ?s j = Some m" if "tf_callers ?s q = Queued j m" "j \<notin> tf_lost ?s" for q j m
    using that D(5) by (auto simp: place_caller_def split: if_splits)
  show "\<exists>j. tf_callers ?s q = Queued j m" if "q \<in> set (tf_waiters ?s m)" for q m
  proof -
    have "q \<in> set (tf_waiters s m)" using w that by blast
    from D(6) [OF this] obtain j where j: "tf_callers s q = Queued j m" by blast
    have "q \<noteq> p" using that j assms(5) ws(2) by (auto simp: place_caller_def split: if_splits)
    with j show ?thesis by (simp add: place_caller_def)
  qed
  show "distinct (tf_waiters ?s m)" for m using D(7) ws(3) by (simp add: place_caller_def)
  show "\<exists>q j. tf_callers ?s q = Exchanging j m" if "tf_held ?s m" for m
  proof (cases "m = l")
    case False
    then have "tf_held s m" using that by (simp add: place_caller_def)
    from D(8) [OF this] obtain q j where "tf_callers s q = Exchanging j m" by blast
    moreover then have "q \<noteq> p" using assms(5) by auto
    ultimately show ?thesis by (auto simp: place_caller_def)
  qed (auto simp: place_caller_def)
  show "\<not> lock_in_use ?s m" if "tf_next ?s \<le> m" for m
    using that D(9) [of m] assms(3) by (auto simp: place_caller_def lock_in_use_def)
  show "m < tf_next ?s" if "tf_locks ?s j = Some m" for j m
    using that D(10) by (simp add: place_caller_def)
qed

text \<open>A cache hit under the lock: a newcomer leaves the lock as it found it, a waiter leaves the queue.\<close>

lemma token_flight_ok_hit:
  assumes "token_flight_ok s"
    and "tf_callers s p = Outside \<and> ws = tf_waiters s l \<or> tf_callers s p = Queued k l \<and> tf_waiters s l = p # ws"
  shows "token_flight_ok (place_caller p (Answered k r) (s\<lparr>tf_waiters := (tf_waiters s)(l := ws)\<rparr>))"
    (is "token_flight_ok ?s")
proof (rule token_flight_okI)
  note D = token_flight_okD [OF assms(1)]
  have ws: "set ws \<subseteq> set (tf_waiters s l)" "p \<notin> set ws" "distinct ws" "set (tf_waiters s l) \<subseteq> insert p (set ws)"
    using assms(2) D(6) [of p l] D(7) [of l] by auto
  have w: "set (tf_waiters ?s m) \<subseteq> set (tf_waiters s m)" for m using ws(1) by (simp add: place_caller_def)
  show "tf_held ?s m" if "tf_callers ?s q = Exchanging j m" for q j m
    using that D(1) by (auto simp: place_caller_def split: if_splits)
  show "tf_locks ?s j = Some m" if "tf_callers ?s q = Exchanging j m" "j \<notin> tf_lost ?s" for q j m
    using that D(2) by (auto simp: place_caller_def split: if_splits)
  show "q = q'" if "tf_callers ?s q = Exchanging j m" "tf_callers ?s q' = Exchanging j' m" for q q' j j' m
    using that D(3) by (auto simp: place_caller_def split: if_splits)
  show "q \<in> set (tf_waiters ?s m)" if "tf_callers ?s q = Queued j m" for q j m
    using that D(4) ws(4) by (auto simp: place_caller_def split: if_splits)
  show "tf_locks ?s j = Some m" if "tf_callers ?s q = Queued j m" "j \<notin> tf_lost ?s" for q j m
    using that D(5) by (auto simp: place_caller_def split: if_splits)
  show "\<exists>j. tf_callers ?s q = Queued j m" if "q \<in> set (tf_waiters ?s m)" for q m
  proof -
    have "q \<in> set (tf_waiters s m)" using w that by blast
    from D(6) [OF this] obtain j where j: "tf_callers s q = Queued j m" by blast
    have "q \<noteq> p" using that j assms(2) ws(2) by (auto simp: place_caller_def split: if_splits)
    with j show ?thesis by (simp add: place_caller_def)
  qed
  show "distinct (tf_waiters ?s m)" for m using D(7) ws(3) by (simp add: place_caller_def)
  show "\<exists>q j. tf_callers ?s q = Exchanging j m" if "tf_held ?s m" for m
  proof -
    have "tf_held s m" using that by (simp add: place_caller_def)
    from D(8) [OF this] obtain q j where "tf_callers s q = Exchanging j m" by blast
    moreover then have "q \<noteq> p" using assms(2) by auto
    ultimately show ?thesis by (auto simp: place_caller_def)
  qed
  show "\<not> lock_in_use ?s m" if "tf_next ?s \<le> m" for m
    using that D(9) [of m] assms(2) by (auto simp: place_caller_def lock_in_use_def)
  show "m < tf_next ?s" if "tf_locks ?s j = Some m" for j m
    using that D(10) by (simp add: place_caller_def)
qed

lemma token_flight_ok_enter:
  assumes "token_flight_ok s" and "\<not> tf_held s l" and "l < tf_next s" and "k \<in> tf_lost s \<or> tf_locks s k = Some l"
    and "tf_callers s p = Outside \<and> ws = tf_waiters s l \<or> tf_callers s p = Queued k l \<and> tf_waiters s l = p # ws"
  shows "token_flight_ok (enter_lock p k l (s\<lparr>tf_waiters := (tf_waiters s)(l := ws)\<rparr>))"
  using token_flight_ok_hit [OF assms(1,5)] token_flight_ok_exchange [OF assms]
  by (simp add: enter_lock_def usable_now_def)

lemma token_flight_ok_queue:
  assumes "token_flight_ok s" and "tf_callers s p = Outside" and "l < tf_next s" and "tf_locks s k = Some l"
  shows "token_flight_ok (place_caller p (Queued k l) (s\<lparr>tf_waiters := (tf_waiters s)(l := tf_waiters s l @ [p])\<rparr>))"
    (is "token_flight_ok ?s")
proof (rule token_flight_okI)
  note D = token_flight_okD [OF assms(1)]
  have fresh: "p \<notin> set (tf_waiters s m)" for m using D(6) [of p m] assms(2) by auto
  show "\<exists>j. tf_callers ?s q = Queued j m" if q: "q \<in> set (tf_waiters ?s m)" for q m
  proof (cases "q = p")
    case True
    then show ?thesis using q fresh [of m] by (auto simp: place_caller_def split: if_splits)
  next
    case False
    then have "q \<in> set (tf_waiters s m)" using q by (auto simp: place_caller_def split: if_splits)
    from D(6) [OF this] False show ?thesis by (simp add: place_caller_def)
  qed
  show "distinct (tf_waiters ?s m)" for m using D(7) fresh by (simp add: place_caller_def)
  show "\<exists>q j. tf_callers ?s q = Exchanging j m" if "tf_held ?s m" for m
  proof -
    have "tf_held s m" using that by (simp add: place_caller_def)
    from D(8) [OF this] obtain q j where "tf_callers s q = Exchanging j m" by blast
    moreover then have "q \<noteq> p" using assms(2) by auto
    ultimately show ?thesis by (auto simp: place_caller_def)
  qed
  show "\<not> lock_in_use ?s m" if "tf_next ?s \<le> m" for m
    using that D(9) [of m] assms(3) by (auto simp: place_caller_def lock_in_use_def)
  show "m < tf_next ?s" if "tf_locks ?s j = Some m" for j m
    using that D(10) by (simp add: place_caller_def)
qed (use token_flight_okD [OF assms(1)] assms(4) in \<open>auto simp: place_caller_def split: if_splits\<close>)

lemma token_flight_ok_begin:
  assumes "token_flight_ok s" and "tf_callers s p = Outside"
  shows "token_flight_ok (begin_call p k s)"
proof -
  define s1 where "s1 = count_flight s"
  define s2 where "s2 = with_lock k s1"
  define l where "l = lock_of s1 k"
  have s1: "token_flight_ok s1" unfolding s1_def by (rule token_flight_ok_count [OF assms(1)])
  have s2: "token_flight_ok s2" unfolding s2_def by (rule token_flight_ok_with_lock [OF s1])
  have p1: "tf_callers s1 p = Outside" and p2: "tf_callers s2 p = Outside"
    using assms(2) by (simp_all add: s2_def s1_def)
  have l: "tf_locks s2 k = Some l" by (simp add: s2_def l_def)
  have ln: "l < tf_next s2" by (rule token_flight_okD(10) [OF s2 l])
  show ?thesis
  proof (cases "usable_now s1 k")
    case True
    have "token_flight_ok (place_caller p (Answered k (tf_tokens s1 k)) s1)"
      by (rule token_flight_ok_place [OF s1]) (simp_all add: p1)
    with True show ?thesis by (simp add: begin_call_def s1_def Let_def)
  next
    case False
    note b = begin_call_def [of p k s, folded s1_def, unfolded Let_def, folded s2_def l_def]
    show ?thesis
    proof (cases "lock_in_use s2 l")
      case True
      with False token_flight_ok_queue [OF s2 p2 ln l] show ?thesis by (simp add: b)
    next
      case free: False
      then have "\<not> tf_held s2 l" by (simp add: lock_in_use_def)
      from token_flight_ok_enter [OF s2 this ln, of k p "tf_waiters s2 l"] l p2 False free
      show ?thesis by (simp add: b)
    qed
  qed
qed

lemma token_flight_ok_finish:
  assumes "token_flight_ok s" and "tf_callers s p = Exchanging k l"
  shows "token_flight_ok (finish_exchange p k l outcome s)"
proof (rule token_flight_okI)
  note D = token_flight_okD [OF assms(1)]
  let ?s = "finish_exchange p k l outcome s"
  have other: "m \<noteq> l" if "tf_callers s q = Exchanging j m" "q \<noteq> p" for q j m
    using D(3) [OF that(1), of p k] assms(2) that(2) by auto
  show "tf_held ?s m" if "tf_callers ?s q = Exchanging j m" for q j m
    using that D(1) other by (auto simp: finish_exchange_def place_caller_def split: if_splits)
  show "\<exists>j. tf_callers ?s q = Queued j m" if "q \<in> set (tf_waiters ?s m)" for q m
  proof -
    have "q \<in> set (tf_waiters s m)" using that by (simp add: finish_exchange_def place_caller_def)
    from D(6) [OF this] obtain j where j: "tf_callers s q = Queued j m" by blast
    with assms(2) have "q \<noteq> p" by auto
    with j show ?thesis by (simp add: finish_exchange_def place_caller_def)
  qed
  show "\<exists>q j. tf_callers ?s q = Exchanging j m" if "tf_held ?s m" for m
  proof -
    have "tf_held s m" and m: "m \<noteq> l" using that by (simp_all add: finish_exchange_def place_caller_def split: if_splits)
    from D(8) [OF this(1)] obtain q j where q: "tf_callers s q = Exchanging j m" by blast
    with m assms(2) have "q \<noteq> p" by auto
    with q show ?thesis by (auto simp: finish_exchange_def place_caller_def)
  qed
  show "\<not> lock_in_use ?s m" if "tf_next ?s \<le> m" for m
    using that D(9) [of m] by (auto simp: finish_exchange_def place_caller_def lock_in_use_def)
qed (use token_flight_okD [OF assms(1)] in \<open>auto simp: finish_exchange_def place_caller_def split: if_splits\<close>)

lemma token_flight_ok_invalidate:
  assumes "token_flight_ok s"
  shows "token_flight_ok (invalidate_flight k s)"
proof (rule token_flight_okI)
  note D = token_flight_okD [OF assms]
  let ?s = "invalidate_flight k s"
  show "tf_locks ?s j = Some m" if e: "tf_callers ?s q = Exchanging j m" and n: "j \<notin> tf_lost ?s" for q j m
  proof -
    have j: "tf_locks s j = Some m" using D(2) e n by (auto simp: invalidate_flight_def split: if_splits)
    have "lock_in_use s m" using D(1) e by (auto simp: invalidate_flight_def lock_in_use_def)
    with j n show ?thesis by (auto simp: invalidate_flight_def table_lock_in_use_def split: if_splits)
  qed
  show "tf_locks ?s j = Some m" if e: "tf_callers ?s q = Queued j m" and n: "j \<notin> tf_lost ?s" for q j m
  proof -
    have j: "tf_locks s j = Some m" using D(5) e n by (auto simp: invalidate_flight_def split: if_splits)
    have "lock_in_use s m" using D(4) [of q j m] e by (auto simp: invalidate_flight_def intro: lock_in_use_waiter)
    with j n show ?thesis by (auto simp: invalidate_flight_def table_lock_in_use_def split: if_splits)
  qed
qed (use token_flight_okD [OF assms] in \<open>auto simp: invalidate_flight_def lock_in_use_def split: if_splits\<close>)

lemma token_flight_ok_step: "token_step s s' \<Longrightarrow> token_flight_ok s \<Longrightarrow> token_flight_ok s'"
proof (induction rule: token_step.induct)
  case (start s p k)
  then show ?case by (simp add: token_flight_ok_begin)
next
  case (wake s p k l ws)
  have "l < tf_next s" using token_flight_okD(9) [OF wake.prems, of l] wake.hyps by (force simp: lock_in_use_def)
  moreover have "k \<in> tf_lost s \<or> tf_locks s k = Some l" using token_flight_okD(5) [OF wake.prems wake.hyps(1)] by blast
  ultimately show ?case using wake by (simp add: token_flight_ok_enter)
next
  case (leave s p k r)
  then show ?case by (simp add: token_flight_ok_place)
next
  case (pass s now)
  then show ?case by (simp add: token_flight_ok_def lock_in_use_def)
qed (simp_all add: token_flight_ok_finish token_flight_ok_invalidate)

lemma token_flight_ok_run: "token_run s s' \<Longrightarrow> token_flight_ok s \<Longrightarrow> token_flight_ok s'"
  by (induction rule: rtranclp_induct) (blast intro: token_flight_ok_step)+

section \<open>A queued call gets its turn\<close>

lemma lock_freed:
  assumes "token_flight_ok s"
  obtains s1 where "token_run s s1" and "\<not> tf_held s1 l" and "tf_waiters s1 = tf_waiters s"
    and "\<And>q k m. tf_callers s q = Queued k m \<Longrightarrow> tf_callers s1 q = Queued k m"
proof (cases "tf_held s l")
  case True
  from token_flight_okD(8) [OF assms True] obtain p k where p: "tf_callers s p = Exchanging k l" by blast
  let ?s = "finish_exchange p k l None s"
  show thesis
  proof (rule that)
    show "token_run s ?s" using token_step.response [OF p] by blast
    show "tf_callers ?s q = Queued j m" if "tf_callers s q = Queued j m" for q j m
      using that p by (auto simp: finish_exchange_def place_caller_def)
  qed (simp_all add: finish_exchange_def place_caller_def)
next
  case False
  then show thesis by (intro that [of s]) simp_all
qed

lemma enter_lock_waiters [simp]: "tf_waiters (enter_lock p k l s) = tf_waiters s"
  by (simp add: enter_lock_def place_caller_def)

lemma enter_lock_callers:
  "tf_callers (enter_lock p k l s) q =
     (if q = p then if usable_now s k then Answered k (tf_tokens s k) else Exchanging k l else tf_callers s q)"
  by (simp add: enter_lock_def place_caller_def)

lemma queued_call_entered:
  assumes "token_flight_ok s" and "tf_callers s q = Queued k l"
  shows "\<exists>s'. token_run s s' \<and> (tf_callers s' q = Exchanging k l \<or> (\<exists>t. tf_callers s' q = Answered k (Some t)))"
  using assms
proof (induction "tf_waiters s l" arbitrary: s)
  case Nil
  then show ?case using token_flight_okD(4) by fastforce
next
  case (Cons p ws)
  obtain s1 where s1: "token_run s s1" "\<not> tf_held s1 l" "tf_waiters s1 = tf_waiters s" "tf_callers s1 q = Queued k l"
    using lock_freed [OF Cons.prems(1)] Cons.prems(2) by metis
  have ok1: "token_flight_ok s1" by (rule token_flight_ok_run [OF s1(1) Cons.prems(1)])
  have w1: "tf_waiters s1 l = p # ws" using Cons.hyps(2) s1(3) by simp
  from token_flight_okD(6) [OF ok1, of p l] w1 obtain j where j: "tf_callers s1 p = Queued j l" by auto
  define s0 where "s0 = s1\<lparr>tf_waiters := (tf_waiters s1)(l := ws)\<rparr>"
  define s2 where "s2 = enter_lock p j l s0"
  have "token_step s1 s2" unfolding s2_def s0_def by (rule token_step.wake [OF j w1 s1(2)])
  with s1(1) have run: "token_run s s2" by (rule rtranclp.rtrancl_into_rtrancl)
  have c2: "tf_callers s2 r = (if r = p then if usable_now s0 j then Answered j (tf_tokens s0 j) else Exchanging j l
      else tf_callers s1 r)" for r
    by (simp add: s2_def enter_lock_callers) (simp add: s0_def)
  show ?case
  proof (cases "q = p")
    case True
    with j s1(4) have "j = k" by simp
    moreover have "tf_tokens s0 j \<noteq> None" if "usable_now s0 j" using that by (auto simp: usable_now_def split: option.splits)
    ultimately have "tf_callers s2 q = Exchanging k l \<or> (\<exists>t. tf_callers s2 q = Answered k (Some t))"
      using True c2 [of q] by auto
    with run show ?thesis by blast
  next
    case False
    have "ws = tf_waiters s2 l" by (simp add: s2_def s0_def)
    moreover have "tf_callers s2 q = Queued k l" using c2 False s1(4) by simp
    ultimately obtain s' where "token_run s2 s'"
        "tf_callers s' q = Exchanging k l \<or> (\<exists>t. tf_callers s' q = Answered k (Some t))"
      using Cons.hyps(1) [of s2] token_flight_ok_run [OF run Cons.prems(1)] by blast
    with run show ?thesis by (meson rtranclp_trans)
  qed
qed

section \<open>What the locks give\<close>

text \<open>The first call for a grant takes a new lock and exchanges; a second one queues behind it.\<close>

definition two_calls :: "string \<Rightarrow> token_flight" where
  "two_calls k = begin_call 1 k (begin_call 0 k (token_flight_init 100))"

lemma two_calls_state:
  "tf_callers (two_calls k) 0 = Exchanging k 0" "tf_callers (two_calls k) (Suc 0) = Queued k 0" "tf_lost (two_calls k) = {}"
  by (simp_all add: two_calls_def begin_call_def count_flight_def token_flight_init_def Let_def usable_now_def lock_of_def
      with_lock_def lock_in_use_def enter_lock_def place_caller_def SWEEP_INTERVAL_CALLS_def)

lemma two_calls_run: "token_run (token_flight_init 100) (two_calls k)"
proof -
  have a: "token_step (token_flight_init 100) (begin_call 0 k (token_flight_init 100))"
    by (rule token_step.start) (simp add: token_flight_init_def)
  have b: "token_step (begin_call 0 k (token_flight_init 100)) (two_calls k)"
    unfolding two_calls_def
    by (rule token_step.start) (simp add: begin_call_def count_flight_def token_flight_init_def Let_def usable_now_def lock_of_def
      with_lock_def lock_in_use_def enter_lock_def place_caller_def SWEEP_INTERVAL_CALLS_def)
  from a b show ?thesis by (meson r_into_rtranclp rtranclp.rtrancl_into_rtrancl)
qed

text \<open>
  C15. While no lock in use has been dropped for a grant, at most one call exchanges it. That call holds the
  lock the table has for the grant, every other call inside is queued on this lock, and each of
  those can still be served: some schedule brings it to its own exchange or to a fetched token.
\<close>

theorem exchange_exclusive:
  assumes "token_run (token_flight_init now) s" and "k \<notin> tf_lost s" and "tf_callers s p = Exchanging k l"
  shows "tf_held s l \<and> tf_locks s k = Some l \<and>
    (\<forall>q m. tf_callers s q = Exchanging k m \<longrightarrow> q = p) \<and>
    (\<forall>q m. tf_callers s q = Queued k m \<longrightarrow> m = l \<and> q \<in> set (tf_waiters s l) \<and>
      (\<exists>s'. token_run s s' \<and> (tf_callers s' q = Exchanging k l \<or> (\<exists>t. tf_callers s' q = Answered k (Some t)))))"
proof -
  have ok: "token_flight_ok s" by (rule token_flight_ok_run [OF assms(1) token_flight_ok_init])
  note D = token_flight_okD [OF ok]
  have l: "tf_locks s k = Some l" using D(2) assms(2,3) by blast
  have "q = p" if "tf_callers s q = Exchanging k m" for q m
    using D(2) [OF that assms(2)] D(3) [of q k l p k] that assms(3) l by simp
  moreover have "m = l" if "tf_callers s q = Queued k m" for q m using D(5) [OF that assms(2)] l by simp
  ultimately show ?thesis using D(1,4) l assms(3) queued_call_entered [OF ok] by blast
qed

lemma exchange_exclusive_witness:
  "\<exists>s'. token_run (two_calls ''g'') s' \<and>
    (tf_callers s' 1 = Exchanging ''g'' 0 \<or> (\<exists>t. tf_callers s' 1 = Answered ''g'' (Some t)))"
  using exchange_exclusive [OF two_calls_run [of "''g''"], of "''g''" 0 0] by (simp add: two_calls_state)

text \<open>
  Dropping the lock with its holder still exchanging, as \<^verbatim>\<open>invalidate\<close> does when one of several messages with
  the grant settles, lets the next call for it make a second exchange beside the first.
\<close>

lemma invalidate_allows_second_exchange:
  "\<exists>s. token_run (token_flight_init 100) s \<and> tf_callers s 0 = Exchanging ''g'' 0 \<and> tf_callers s 1 = Exchanging ''g'' 1"
proof -
  define s1 where "s1 = begin_call 0 ''g'' (token_flight_init 100)"
  define s2 where "s2 = invalidate_flight ''g'' s1"
  have a: "token_step (token_flight_init 100) s1"
    unfolding s1_def by (rule token_step.start) (simp add: token_flight_init_def)
  have b: "token_step s1 s2" unfolding s2_def by (rule token_step.invalidate)
  note unfold = begin_call_def count_flight_def token_flight_init_def Let_def usable_now_def lock_of_def
      with_lock_def lock_in_use_def enter_lock_def place_caller_def SWEEP_INTERVAL_CALLS_def invalidate_flight_def
  have c: "token_step s2 (begin_call 1 ''g'' s2)"
    by (rule token_step.start) (simp add: s1_def s2_def unfold)
  have "token_run (token_flight_init 100) (begin_call 1 ''g'' s2)"
    using a b c by (meson r_into_rtranclp rtranclp.rtrancl_into_rtrancl)
  moreover have "tf_callers (begin_call 1 ''g'' s2) 0 = Exchanging ''g'' 0"
    "tf_callers (begin_call 1 ''g'' s2) 1 = Exchanging ''g'' 1"
    by (simp_all add: s1_def s2_def unfold)
  ultimately show ?thesis by blast
qed

end
