(* ===== verification/Provider_Rows.thy ===== *)
theory Provider_Rows
  imports Provider_Store
begin

text \<open>
  How the store builds its providers: the rows of the query, documents of any shape, become
  \<^verbatim>\<open>ThirdPartyJwtProvider\<close> objects (\<^verbatim>\<open>_auth/third_party_provider.py\<close>, over
  \<^verbatim>\<open>_entities/base_entity.py\<close>), all of them or none. What pydantic accepts for a truth value
  and for a time is a parameter; a text field takes a text, a list field a list of texts.
  A field is read under its alias or, without one, under its own name.
\<close>

section \<open>Fields\<close>

record conversions =
  cv_bool :: "pyval \<Rightarrow> bool option"
  cv_datetime :: "pyval \<Rightarrow> string option"

definition row_field :: "pydict \<Rightarrow> string \<Rightarrow> string \<Rightarrow> pyval option" where
  "row_field d alias name = (case map_of d alias of Some v \<Rightarrow> Some v | None \<Rightarrow> map_of d name)"

fun as_text :: "pyval \<Rightarrow> string option" where
  "as_text (PStr s) = Some s"
| "as_text _ = None"

fun as_texts :: "pyval \<Rightarrow> string list option" where
  "as_texts (PList vs) = those (map as_text vs)"
| "as_texts _ = None"

definition text_field :: "pydict \<Rightarrow> string \<Rightarrow> string \<Rightarrow> string option" where
  "text_field d alias name = (case row_field d alias name of None \<Rightarrow> Some [] | Some v \<Rightarrow> as_text v)"

definition texts_field :: "pydict \<Rightarrow> string \<Rightarrow> string \<Rightarrow> string list option" where
  "texts_field d alias name = (case row_field d alias name of None \<Rightarrow> Some [] | Some v \<Rightarrow> as_texts v)"

text \<open>\<^verbatim>\<open>Optional[str]\<close>, of fields nothing reads.\<close>

definition maybe_text_ok :: "pydict \<Rightarrow> string \<Rightarrow> string \<Rightarrow> bool" where
  "maybe_text_ok d alias name = (case row_field d alias name of None \<Rightarrow> True | Some v \<Rightarrow> v = PNone \<or> as_text v \<noteq> None)"

section \<open>Building a provider\<close>

text \<open>\<^verbatim>\<open>BaseEntity\<close>: only the id is required; of the rest only whether it is accepted matters.\<close>

definition base_entity_ok :: "conversions \<Rightarrow> pydict \<Rightarrow> bool" where
  "base_entity_ok V d \<longleftrightarrow>
     (case row_field d ''_id'' ''id'' of None \<Rightarrow> False | Some v \<Rightarrow> as_text v \<noteq> None) \<and>
     (case row_field d ''CreatedDate'' ''created_date'' of None \<Rightarrow> True | Some v \<Rightarrow> cv_datetime V v \<noteq> None) \<and>
     (case row_field d ''LastUpdatedDate'' ''last_updated_date'' of None \<Rightarrow> True | Some v \<Rightarrow> cv_datetime V v \<noteq> None) \<and>
     maybe_text_ok d ''CreatedBy'' ''created_by'' \<and>
     maybe_text_ok d ''Language'' ''language'' \<and>
     maybe_text_ok d ''LastUpdatedBy'' ''last_updated_by'' \<and>
     texts_field d ''OrganizationIds'' ''organization_ids'' \<noteq> None \<and>
     texts_field d ''Tags'' ''tags'' \<noteq> None"

definition mapping_of_row :: "pyval \<Rightarrow> claims_mapping option" where
  "mapping_of_row v = (case v of
     PDict d \<Rightarrow>
       Option.bind (text_field d ''UserId'' ''user_id'') (\<lambda>user_id.
       Option.bind (text_field d ''Email'' ''email'') (\<lambda>email.
       Option.bind (text_field d ''UserName'' ''user_name'') (\<lambda>user_name.
       Option.bind (text_field d ''Name'' ''name'') (\<lambda>name.
       Option.bind (text_field d ''Roles'' ''roles'') (\<lambda>roles.
       Some \<lparr>cm_user_id = user_id, cm_email = email, cm_user_name = user_name, cm_name = name, cm_roles = roles\<rparr>)))))
   | _ \<Rightarrow> None)"

text \<open>The validators run before the conversions, on what the row holds; a default is not validated.\<close>

definition row_organization :: "pydict \<Rightarrow> string" where
  "row_organization d = (case row_field d ''DefaultOrganizationId'' ''default_organization_id'' of
     None \<Rightarrow> DEFAULT_ORGANIZATION | Some v \<Rightarrow> normalise_organization v)"

definition row_algorithms :: "pydict \<Rightarrow> py_exn + jwt_alg list" where
  "row_algorithms d = (case row_field d ''Algorithms'' ''algorithms'' of
     None \<Rightarrow> Inr [] | Some v \<Rightarrow> drop_unknown_algorithms v)"

text \<open>The other fields; \<open>None\<close> where pydantic collects an error.\<close>

definition typed_fields :: "conversions \<Rightarrow> pydict \<Rightarrow> jwt_alg list \<Rightarrow> provider option" where
  "typed_fields V d algorithms =
     (if \<not> base_entity_ok V d then None else
       Option.bind (text_field d ''TenantId'' ''tenant_id'') (\<lambda>tenant_id.
       Option.bind (text_field d ''Key'' ''key'') (\<lambda>key.
       Option.bind (text_field d ''ProviderName'' ''provider_name'') (\<lambda>provider_name.
       Option.bind (case row_field d ''IsActive'' ''is_active'' of None \<Rightarrow> Some False | Some v \<Rightarrow> cv_bool V v) (\<lambda>is_active.
       Option.bind (text_field d ''Issuer'' ''issuer'') (\<lambda>issuer.
       Option.bind (texts_field d ''Audiences'' ''audiences'') (\<lambda>audiences.
       Option.bind (text_field d ''JwksUrl'' ''jwks_url'') (\<lambda>jwks_url.
       Option.bind (text_field d ''PublicCertificatePath'' ''public_certificate_path'') (\<lambda>path.
       Option.bind (text_field d ''PublicCertificatePasswordCipher'' ''public_certificate_password_cipher'') (\<lambda>password.
       Option.bind (text_field d ''SigningSecretCipher'' ''signing_secret_cipher'') (\<lambda>secret.
       Option.bind (text_field d ''CertificateSubject'' ''certificate_subject'') (\<lambda>subject.
       Option.bind (text_field d ''CertificateThumbprint'' ''certificate_thumbprint'') (\<lambda>thumbprint.
       Option.bind (case row_field d ''CertificateNotAfter'' ''certificate_not_after'' of
           None \<Rightarrow> Some None
         | Some v \<Rightarrow> if v = PNone then Some None else map_option Some (cv_datetime V v)) (\<lambda>not_after.
       Option.bind (text_field d ''CookieKey'' ''cookie_key'') (\<lambda>cookie_key.
       Option.bind (case row_field d ''ClaimsMapping'' ''claims_mapping'' of
           None \<Rightarrow> Some empty_mapping | Some v \<Rightarrow> mapping_of_row v) (\<lambda>mapping.
       Some \<lparr>p_tenant_id = tenant_id, p_key = key, p_provider_name = provider_name, p_is_active = is_active,
         p_issuer = issuer, p_audiences = audiences, p_algorithms = algorithms, p_jwks_url = jwks_url,
         p_public_certificate_path = path, p_public_certificate_password_cipher = password,
         p_signing_secret_cipher = secret, p_certificate_subject = subject, p_certificate_thumbprint = thumbprint,
         p_certificate_not_after = not_after, p_cookie_key = cookie_key,
         p_default_organization_id = row_organization d, p_claims_mapping = Some mapping\<rparr>))))))))))))))))"

text \<open>A \<^verbatim>\<open>TypeError\<close> of a validator is no validation error: it leaves pydantic at once.\<close>

definition provider_of_row :: "conversions \<Rightarrow> pydict \<Rightarrow> py_exn + provider" where
  "provider_of_row V d = (case row_algorithms d of
     Inl e \<Rightarrow> Inl e
   | Inr algorithms \<Rightarrow> (case typed_fields V d algorithms of None \<Rightarrow> Inl ValidationError | Some p \<Rightarrow> Inr p))"

text \<open>\<^verbatim>\<open>[ThirdPartyJwtProvider(**row) for row in rows]\<close>.\<close>

fun providers_of_rows :: "conversions \<Rightarrow> pydict list \<Rightarrow> py_exn + provider list" where
  "providers_of_rows V [] = Inr []"
| "providers_of_rows V (d # ds) = (case provider_of_row V d of
     Inl e \<Rightarrow> Inl e
   | Inr p \<Rightarrow> (case providers_of_rows V ds of Inl e \<Rightarrow> Inl e | Inr ps \<Rightarrow> Inr (p # ps)))"

definition query_providers :: "conversions \<Rightarrow> (string \<Rightarrow> py_exn + pydict list) \<Rightarrow> string \<Rightarrow> py_exn + provider list" where
  "query_providers V db tid = (case db tid of Inl e \<Rightarrow> Inl e | Inr rows \<Rightarrow> providers_of_rows V rows)"

section \<open>Properties\<close>

text \<open>What a provider's fields are, whatever the row held.\<close>

definition provider_typed :: "pydict \<Rightarrow> provider \<Rightarrow> bool" where
  "provider_typed d p \<longleftrightarrow>
     \<not> blank (p_default_organization_id p) \<and> py_strip (p_default_organization_id p) = p_default_organization_id p \<and>
     p_claims_mapping p \<noteq> None \<and>
     row_algorithms d = Inr (p_algorithms p) \<and>
     text_field d ''Issuer'' ''issuer'' = Some (p_issuer p) \<and>
     texts_field d ''Audiences'' ''audiences'' = Some (p_audiences p) \<and>
     text_field d ''JwksUrl'' ''jwks_url'' = Some (p_jwks_url p) \<and>
     text_field d ''SigningSecretCipher'' ''signing_secret_cipher'' = Some (p_signing_secret_cipher p)"

lemma row_organization_not_blank: "\<not> blank (row_organization d) \<and> py_strip (row_organization d) = row_organization d"
proof (cases "row_field d ''DefaultOrganizationId'' ''default_organization_id''")
  case None
  then show ?thesis by (simp add: row_organization_def DEFAULT_ORGANIZATION_def str_defs)
next
  case (Some v)
  then show ?thesis using normalise_organization_never_blank [of v] by (simp add: row_organization_def)
qed

lemma typed_fieldsD:
  assumes "typed_fields V d algorithms = Some p"
  shows "p_algorithms p = algorithms \<and> p_default_organization_id p = row_organization d \<and> p_claims_mapping p \<noteq> None \<and>
    text_field d ''Issuer'' ''issuer'' = Some (p_issuer p) \<and>
    texts_field d ''Audiences'' ''audiences'' = Some (p_audiences p) \<and>
    text_field d ''JwksUrl'' ''jwks_url'' = Some (p_jwks_url p) \<and>
    text_field d ''SigningSecretCipher'' ''signing_secret_cipher'' = Some (p_signing_secret_cipher p)"
  using assms unfolding typed_fields_def by (clarsimp simp only: bind_eq_Some_conv provider.simps option.inject split: if_split_asm) simp

lemma provider_of_row_typed: "provider_of_row V d = Inr p \<Longrightarrow> provider_typed d p"
  using row_organization_not_blank [of d]
  by (auto simp: provider_of_row_def provider_typed_def dest: typed_fieldsD split: sum.split_asm option.split_asm)

lemma providers_of_rows_Inr:
  "providers_of_rows V rows = Inr ps \<longleftrightarrow> list_all2 (\<lambda>d p. provider_of_row V d = Inr p) rows ps"
proof (induction rows arbitrary: ps)
  case (Cons d rows)
  then show ?case by (cases ps) (auto simp: Cons.IH [symmetric] split: sum.split)
qed auto


definition sample_row :: pydict where
  "sample_row = [(''_id'', PStr ''1''), (''TenantId'', PStr ''t''), (''issuer'', PStr ''https://idp/''),
     (''Algorithms'', PList [PInt 1, PInt 99]), (''DefaultOrganizationId'', PStr '' '')]"

definition plain_conversions :: conversions where
  "plain_conversions = \<lparr>cv_bool = (\<lambda>v. case v of PBool b \<Rightarrow> Some b | _ \<Rightarrow> None), cv_datetime = as_text\<rparr>"

lemma sample_row_built:
  "provider_of_row plain_conversions sample_row = Inr (default_provider\<lparr>p_tenant_id := ''t'', p_issuer := ''https://idp/'', p_algorithms := [RS256]\<rparr>)"
proof -
  have a: "row_algorithms sample_row = Inr [RS256]"
    by (simp add: row_algorithms_def row_field_def sample_row_def drop_unknown_algorithms_def alg_of_int_def all_algs_def
        List.map_filter_simps)
  have o: "row_organization sample_row = DEFAULT_ORGANIZATION"
    by (simp add: row_organization_def row_field_def sample_row_def normalise_organization_def str_defs)
  show ?thesis
    by (simp add: provider_of_row_def a [unfolded sample_row_def] typed_fields_def o [unfolded sample_row_def] base_entity_ok_def text_field_def texts_field_def maybe_text_ok_def
        row_field_def sample_row_def default_provider_def empty_mapping_def)
qed


text \<open>
  The validator that drops unknown algorithms is there so that one new row cannot lock every provider out; a row
  whose algorithms are a bare number still does.
\<close>

lemma bare_algorithm_refuses_all:
  assumes "db tid = Inr rows" and "d \<in> set rows" and "row_field d ''Algorithms'' ''algorithms'' = Some (PInt n)" and "n \<noteq> 0"
  shows "load_providers (query_providers V db) tid = []"
proof -
  have "provider_of_row V d = Inl TypeError" using assms(3,4) by (simp add: provider_of_row_def row_algorithms_def drop_unknown_algorithms_def)
  with assms(2) have "\<exists>e. providers_of_rows V rows = Inl e" by (induction rows) (auto split: sum.split)
  then show ?thesis using assms(1) by (auto simp: load_providers_def query_providers_def)
qed

end
