(* ===== verification/Process_Wide.thy ===== *)
theory Process_Wide
  imports Tenant_Service Http_Request
begin

text \<open>
  The variables of the process that hold its services: the message clients
  (\<^verbatim>\<open>_message/message_client.py\<close> and the two clients), the cache client, the database
  provider, the tenant service, the provider store, the services of \<^verbatim>\<open>_delegation\<close>, and the
  configuration of \<^verbatim>\<open>_core/configuration.py\<close>. Each is an optional value that is required, or
  made on first use.
\<close>

section \<open>Holders\<close>

text \<open>\<^verbatim>\<open>get_client\<close>, \<^verbatim>\<open>get_provider\<close>, \<^verbatim>\<open>get_instance\<close>,
  \<^verbatim>\<open>get_tenant_service\<close>, \<^verbatim>\<open>get_configurations\<close>: without a value they raise.\<close>

definition require_instance :: "'v option \<Rightarrow> py_exn + 'v" where
  "require_instance held = (case held of None \<Rightarrow> Inl RuntimeError | Some v \<Rightarrow> Inr v)"

text \<open>The services of \<^verbatim>\<open>_delegation\<close> are made on first use and can be replaced: the service, and
  what is held then.\<close>

definition get_or_create :: "'v \<Rightarrow> 'v option \<Rightarrow> 'v \<times> 'v option" where
  "get_or_create fresh held = (case held of Some v \<Rightarrow> (v, held) | None \<Rightarrow> (fresh, Some fresh))"

text \<open>\<^verbatim>\<open>initialize_tenant_service\<close>: made once, initialised at every call.\<close>

definition initialize_tenant_service :: "tenant_service option \<Rightarrow> tenant_service \<times> bool" where
  "initialize_tenant_service held = ts_initialize (case held of None \<Rightarrow> new_tenant_service | Some s \<Rightarrow> s)"

text \<open>\<^verbatim>\<open>initialize_third_party_provider_store\<close>: the database is that of the first call.\<close>

definition initialize_once :: "('d \<Rightarrow> 'v) \<Rightarrow> 'd \<Rightarrow> 'v option \<Rightarrow> 'v \<times> 'v option" where
  "initialize_once construct argument held = get_or_create (construct argument) held"

section \<open>The message clients\<close>

text \<open>The client of each broker, and the active one, which \<^verbatim>\<open>MessageClient.get_instance\<close> returns.\<close>

record ('r, 'z) message_clients =
  mc_rabbit :: "'r option"
  mc_azure :: "'z option"
  mc_active :: "('r + 'z) option"

definition no_clients :: "('r, 'z) message_clients" where
  "no_clients = \<lparr>mc_rabbit = None, mc_azure = None, mc_active = None\<rparr>"

text \<open>A call of \<^verbatim>\<open>initialize\<close>, given how the construction of the client would end.\<close>

datatype ('r, 'z) initialization =
    Init_Rabbit "py_exn + 'r"
  | Init_Azure "py_exn + 'z"

fun initialize_client :: "('r, 'z) initialization \<Rightarrow> (('r, 'z) message_clients, unit) act" where
  "initialize_client (Init_Rabbit made) =
     seq (gets mc_rabbit) (\<lambda>held. case held of
       Some _ \<Rightarrow> ret ()
     | None \<Rightarrow> seq (lift_exn made) (\<lambda>c. modify (\<lambda>w. w\<lparr>mc_rabbit := Some c, mc_active := Some (Inl c)\<rparr>)))"
| "initialize_client (Init_Azure made) =
     seq (gets mc_azure) (\<lambda>held. case held of
       Some _ \<Rightarrow> ret ()
     | None \<Rightarrow> seq (lift_exn made) (\<lambda>c. modify (\<lambda>w. w\<lparr>mc_azure := Some c, mc_active := Some (Inr c)\<rparr>)))"

definition after_initializations :: "('r, 'z) initialization list \<Rightarrow> ('r, 'z) message_clients \<Rightarrow> ('r, 'z) message_clients" where
  "after_initializations cs w = fold (\<lambda>c w. snd (initialize_client c w)) cs w"

section \<open>The configuration\<close>

text \<open>The file of the environment: the argument, else \<^verbatim>\<open>APP_ENV\<close>, else \<^verbatim>\<open>dev\<close>; reading and
  parsing it is a parameter. \<^verbatim>\<open>FileNotFoundError\<close> is an \<open>OtherError\<close>.\<close>

definition configuration_path :: "string option \<Rightarrow> string \<Rightarrow> string option \<Rightarrow> string" where
  "configuration_path app_env config_dir env =
     config_dir @ ''/'' @ (if truthy_opt env then or_empty env else case app_env of Some e \<Rightarrow> e | None \<Rightarrow> ''dev'') @ ''.json''"

definition load_configurations ::
  "(string \<Rightarrow> bool) \<Rightarrow> (string \<Rightarrow> py_exn + pyval) \<Rightarrow> string option \<Rightarrow> string \<Rightarrow> string option \<Rightarrow> (pyval option, unit) act" where
  "load_configurations file_exists parse app_env config_dir env =
     (let path = configuration_path app_env config_dir env in
      if \<not> file_exists path then raise OtherError
      else seq (lift_exn (parse path)) (\<lambda>v. modify (\<lambda>_. Some v)))"

section \<open>What they promise\<close>

text \<open>Whoever asks first decides: later callers get the same service.\<close>

lemma get_or_create_stable:
  assumes "get_or_create fresh held = (v, held')"
  shows "held' = Some v" and "get_or_create other held' = (v, held')" and "held = Some x \<Longrightarrow> v = x"
  using assms by (auto simp: get_or_create_def split: option.splits)

text \<open>A client once made stays, and initialisation schedules the tenant updates once.\<close>

lemma initialize_tenant_service_once:
  assumes "initialize_tenant_service held = (s, scheduled)"
  shows "initialize_tenant_service (Some s) = (s, False)" and "ts_initialized s"
  using assms by (auto simp: initialize_tenant_service_def ts_initialize_def split: option.splits if_splits)

lemma initialize_client_keeps:
  "mc_rabbit w = Some c \<Longrightarrow> mc_rabbit (snd (initialize_client i w)) = Some c"
  "mc_azure w = Some z \<Longrightarrow> mc_azure (snd (initialize_client i w)) = Some z"
  by (cases i; auto simp: act_simps split: option.split sum.split)+

text \<open>The active client is the client of one of the brokers, and there is one as soon as there is a client.\<close>

definition clients_ok :: "('r, 'z) message_clients \<Rightarrow> bool" where
  "clients_ok w \<longleftrightarrow> (case mc_active w of
     None \<Rightarrow> mc_rabbit w = None \<and> mc_azure w = None
   | Some (Inl c) \<Rightarrow> mc_rabbit w = Some c
   | Some (Inr z) \<Rightarrow> mc_azure w = Some z)"

lemma clients_ok_step: "clients_ok w \<Longrightarrow> clients_ok (snd (initialize_client i w))"
  by (cases i) (auto simp: clients_ok_def act_simps split: option.splits sum.splits)

lemma clients_ok_after: "clients_ok w \<Longrightarrow> clients_ok (after_initializations cs w)"
  unfolding after_initializations_def by (induction cs arbitrary: w) (simp_all add: clients_ok_step)

definition has_client :: "('r, 'z) message_clients \<Rightarrow> bool" where
  "has_client w \<longleftrightarrow> mc_rabbit w \<noteq> None \<or> mc_azure w \<noteq> None"

lemma has_client_step: "has_client w \<Longrightarrow> has_client (snd (initialize_client i w))"
  by (cases i) (auto simp: has_client_def act_simps split: option.split sum.split)

lemma has_client_after: "has_client w \<Longrightarrow> has_client (after_initializations cs w)"
  unfolding after_initializations_def by (induction cs arbitrary: w) (simp_all add: has_client_step)

lemma active_after_initialization:
  assumes "c \<in> {Init_Rabbit (Inr x), Init_Azure (Inr y)}"
  shows "\<exists>v. require_instance (mc_active (after_initializations (c # cs) no_clients)) = Inr v"
proof -
  have "has_client (snd (initialize_client c no_clients))" using assms by (auto simp: no_clients_def has_client_def act_simps)
  from has_client_after [OF this, of cs] have "has_client (after_initializations (c # cs) no_clients)"
    by (simp add: after_initializations_def)
  moreover have "clients_ok (after_initializations (c # cs) no_clients)"
    by (rule clients_ok_after) (simp add: clients_ok_def no_clients_def)
  ultimately show ?thesis by (auto simp: clients_ok_def has_client_def require_instance_def split: option.splits)
qed

text \<open>With both brokers configured, in the order of the start-up, Azure's client is the active one.\<close>

lemma azure_is_active:
  "mc_active (after_initializations [Init_Rabbit (Inr c), Init_Azure (Inr z)] no_clients) = Some (Inr z)"
  by (simp add: after_initializations_def no_clients_def act_simps)

lemma load_configurations_Inr:
  assumes "load_configurations file_exists parse app_env config_dir env w = (r, w')"
  shows "r = Inr () \<Longrightarrow> require_instance w' = parse (configuration_path app_env config_dir env)" and "r \<noteq> Inr () \<Longrightarrow> w' = w"
  using assms by (auto simp: load_configurations_def require_instance_def act_simps Let_def split: if_splits sum.splits)

end
