(* ===== verification/Provider_Flight.thy ===== *)
theory Provider_Flight
  imports Single_Flight Provider_Rows Process_Wide
begin

text \<open>
  Concurrent calls of \<^verbatim>\<open>ThirdPartyJwtProviderStore.get_active\<close>, the second instance of
  \<open>Single_Flight\<close>: its cache is the store together with the clock, and what may happen to it at any
  moment is that the clock advances or that a tenant is invalidated.
\<close>

type_synonym timed_store = "real \<times> provider_store"

definition store_usable :: "timed_store \<Rightarrow> string \<Rightarrow> provider list option" where
  "store_usable c tid = fresh_providers (fst c) tid (snd c)"

definition store_keep :: "string \<Rightarrow> provider list \<Rightarrow> timed_store \<Rightarrow> timed_store" where
  "store_keep tid ps c = (fst c, keep_providers (fst c) tid ps (snd c))"

definition clock_advances :: "real \<Rightarrow> timed_store \<Rightarrow> timed_store" where
  "clock_advances d c = (fst c + \<bar>d\<bar>, snd c)"

definition store_edits :: "(timed_store \<Rightarrow> timed_store) set" where
  "store_edits = range clock_advances \<union> range (\<lambda>tid c. (fst c, invalidate_providers tid (snd c)))"

abbreviation store_run where
  "store_run \<equiv> flight_run store_usable store_keep store_edits"

text \<open>\<^verbatim>\<open>_root_database\<close>: the root database, made on first use of the secrets'
  \<^verbatim>\<open>DatabaseConnectionString\<close> and \<^verbatim>\<open>RootDatabaseName\<close>.\<close>

definition root_database :: "(string \<times> string \<Rightarrow> 'd) \<Rightarrow> string \<times> string \<Rightarrow> 'd option \<Rightarrow> 'd \<times> 'd option" where
  "root_database connect secret held = get_or_create (connect secret) held"

text \<open>
  A call alone does what the sequential model does: it returns the value of \<open>get_active\<close>, leaves its cache and
  no load behind.
\<close>

theorem get_active_flight:
  assumes "\<not> blank tid"
  shows "\<exists>s'. store_run (flight_init (now, c) (load_providers db)) s' \<and>
    fl_callers s' p = Returned tid (fst (get_active db now now tid c)) \<and>
    fl_cache s' = (now, snd (get_active db now now tid c)) \<and> fl_loads s' = (\<lambda>_. None)"
proof (cases "fresh_providers now tid c")
  case (Some ps)
  let ?s = "flight_init (now, c) (load_providers db)"
  have "store_run ?s (?s\<lparr>fl_callers := (fl_callers ?s)(p := Returned tid ps)\<rparr>)"
    by (intro r_into_rtranclp hit) (simp_all add: flight_init_def store_usable_def Some)
  then show ?thesis using Some assms
    by (intro exI conjI) (assumption, simp_all add: get_active_def flight_init_def)
next
  case None
  let ?v = "load_providers db tid"
  have "store_usable (now, c) tid = None" using None by (simp add: store_usable_def)
  from start_load [where usable = store_usable and keep = store_keep and edits = store_edits and src = "load_providers db" and p = p, OF this] obtain s where
    s: "store_run (flight_init (now, c) (load_providers db)) s" "fl_callers s p = Awaiting tid 0"
      "fl_tasks s 0 = Some (Running tid)" "fl_cache s = (now, c)" "fl_source s = load_providers db" "fl_loads s = [tid \<mapsto> 0]"
    by blast
  define s1 where "s1 = s\<lparr>fl_tasks := (fl_tasks s)(0 \<mapsto> Done tid (fl_source s tid))\<rparr>"
  have "flight_step store_usable store_keep store_edits s s1" unfolding s1_def by (rule finish [OF s(3)])
  then have r: "store_run (flight_init (now, c) (load_providers db)) s1" using s(1) by simp
  obtain s2 where "store_run s1 s2" "fl_callers s2 p = Returned tid ?v" "fl_cache s2 = store_keep tid ?v (now, c)"
    "fl_loads s2 = (\<lambda>_. None)"
    using end_load [of s1 p tid 0 ?v store_usable store_keep store_edits] s by (auto simp: s1_def)
  then show ?thesis using r None assms
    by (intro exI [of _ s2]) (auto simp: get_active_def store_keep_def Let_def)
qed

text \<open>
  Invalidating a tenant drops what is cached, but not a load in progress: a caller that waits for an older read
  files it after the invalidation, with a fresh time, and the next read does not reload.
\<close>

theorem invalidated_providers_refiled:
  assumes "\<not> blank tid"
  shows "\<exists>s1 s2. store_run (flight_init (now, new_provider_store) (\<lambda>_. ps)) s1 \<and> fl_source s1 = (\<lambda>_. []) \<and>
    store_run (s1\<lparr>fl_cache := (fst (fl_cache s1), invalidate_providers tid (snd (fl_cache s1)))\<rparr>) s2 \<and>
    fl_source s2 = (\<lambda>_. []) \<and> fl_loads s2 = (\<lambda>_. None) \<and> store_usable (fl_cache s2) tid = Some ps"
proof -
  have "store_usable (now, new_provider_store) tid = None"
    by (simp add: store_usable_def fresh_providers_def new_provider_store_def)
  from start_load [where usable = store_usable and keep = store_keep and edits = store_edits and src = "\<lambda>_. ps" and p = 0, OF this] obtain s where
    s: "store_run (flight_init (now, new_provider_store) (\<lambda>_. ps)) s" "fl_callers s 0 = Awaiting tid 0"
      "fl_tasks s 0 = Some (Running tid)" "fl_cache s = (now, new_provider_store)" "fl_source s = (\<lambda>_. ps)"
      "fl_loads s = [tid \<mapsto> 0]"
    by blast
  define s1 where "s1 = s\<lparr>fl_tasks := (fl_tasks s)(0 \<mapsto> Done tid (fl_source s tid))\<rparr>"
  define s2 where "s2 = s1\<lparr>fl_source := (\<lambda>_. [])\<rparr>"
  define s3 where "s3 = s2\<lparr>fl_cache := (fst (fl_cache s2), invalidate_providers tid (snd (fl_cache s2)))\<rparr>"
  have "flight_step store_usable store_keep store_edits s s1" unfolding s1_def by (rule finish [OF s(3)])
  moreover have "flight_step store_usable store_keep store_edits s1 s2" unfolding s2_def by (rule change)
  ultimately have r: "store_run (flight_init (now, new_provider_store) (\<lambda>_. ps)) s2" using s(1) by simp
  obtain s4 where "store_run s3 s4" "fl_cache s4 = store_keep tid ps (fl_cache s3)"
    "fl_source s4 = (\<lambda>_. [])" "fl_loads s4 = (\<lambda>_. None)"
    using end_load [of s3 0 tid 0 ps store_usable store_keep store_edits] s by (auto simp: s3_def s2_def s1_def)
  then show ?thesis using r
    by (intro exI [of _ s2] exI [of _ s4])
      (auto simp: s3_def s2_def store_keep_def store_usable_def fresh_providers_def keep_providers_def CACHE_LIFETIME_SECONDS_def)
qed

end
