(* ===== verification/Cache_Interface.thy ===== *)
theory Cache_Interface
  imports Redis_Subscriptions
begin

text \<open>
  \<^verbatim>\<open>_cache/CacheClient.py\<close>, the interface of a cache client as a record of its methods, the
  Redis client as one, and its use in a \<^verbatim>\<open>with\<close> block, which disposes of it at the end. The
  theorems compare what the interface declares with what the Redis client does: the values it hands
  back, and what a failing shutdown does to the outcome of the block.
\<close>

section \<open>The interface\<close>

text \<open>A client over a state \<open>'w\<close>. Values read back are what the implementation returns, \<open>redis_value\<close>,
  where the interface declares texts.\<close>

record 'w cache_client =
  cc_key_exists :: "string \<Rightarrow> ('w, bool) act"
  cc_add_string_value :: "string \<Rightarrow> string \<Rightarrow> int option \<Rightarrow> ('w, bool) act"
  cc_get_string_value :: "string \<Rightarrow> ('w, redis_value option) act"
  cc_add_bytes_value :: "string \<Rightarrow> bytes \<Rightarrow> int option \<Rightarrow> ('w, bool) act"
  cc_get_bytes_value :: "string \<Rightarrow> ('w, bytes option) act"
  cc_remove_key :: "string \<Rightarrow> ('w, bool) act"
  cc_add_hash_value :: "string \<Rightarrow> (string \<times> redis_value) list \<Rightarrow> int option \<Rightarrow> ('w, bool) act"
  cc_get_hash_value :: "string \<Rightarrow> ('w, (string \<times> redis_value) list) act"
  cc_key_exists_async :: "string \<Rightarrow> ('w, bool) act"
  cc_add_string_value_async :: "string \<Rightarrow> string \<Rightarrow> int option \<Rightarrow> ('w, bool) act"
  cc_get_string_value_async :: "string \<Rightarrow> ('w, redis_value option) act"
  cc_add_bytes_value_async :: "string \<Rightarrow> bytes \<Rightarrow> int option \<Rightarrow> ('w, bool) act"
  cc_get_bytes_value_async :: "string \<Rightarrow> ('w, bytes option) act"
  cc_remove_key_async :: "string \<Rightarrow> ('w, bool) act"
  cc_add_hash_value_async :: "string \<Rightarrow> (string \<times> redis_value) list \<Rightarrow> int option \<Rightarrow> ('w, bool) act"
  cc_get_hash_value_async :: "string \<Rightarrow> ('w, (string \<times> redis_value) list) act"
  cc_publish_async :: "string \<Rightarrow> string \<Rightarrow> ('w, int) act"
  cc_subscribe_async :: "string \<Rightarrow> channel_handler option \<Rightarrow> ('w, unit) act"
  cc_unsubscribe_async :: "string \<Rightarrow> ('w, unit) act"
  cc_dispose :: "('w, unit) act"
  cc_dispose_async :: "('w, unit) act"

text \<open>\<^verbatim>\<open>class RedisClient(CacheClient)\<close>.\<close>

definition redis_cache_client :: "'s redis_server \<Rightarrow> 's redis_hub cache_client" where
  "redis_cache_client R = \<lparr>
     cc_key_exists = (\<lambda>k. on_client (key_exists R k)),
     cc_add_string_value = (\<lambda>k v ttl. on_client (add_string_value R k v ttl)),
     cc_get_string_value = (\<lambda>k. on_client (get_string_value R k)),
     cc_add_bytes_value = (\<lambda>k v ttl. on_client (add_bytes_value R k v ttl)),
     cc_get_bytes_value = (\<lambda>k. on_client (get_bytes_value R k)),
     cc_remove_key = (\<lambda>k. on_client (remove_key R k)),
     cc_add_hash_value = (\<lambda>k d ttl. on_client (add_hash_value R k d ttl)),
     cc_get_hash_value = (\<lambda>k. on_client (get_hash_value R k)),
     cc_key_exists_async = (\<lambda>k. on_client (key_exists_async R k)),
     cc_add_string_value_async = (\<lambda>k v ttl. on_client (add_string_value_async R k v ttl)),
     cc_get_string_value_async = (\<lambda>k. on_client (get_string_value_async R k)),
     cc_add_bytes_value_async = (\<lambda>k v ttl. on_client (add_bytes_value_async R k v ttl)),
     cc_get_bytes_value_async = (\<lambda>k. on_client (get_bytes_value_async R k)),
     cc_remove_key_async = (\<lambda>k. on_client (remove_key_async R k)),
     cc_add_hash_value_async = (\<lambda>k d ttl. on_client (add_hash_value_async R k d ttl)),
     cc_get_hash_value_async = (\<lambda>k. on_client (get_hash_value_async R k)),
     cc_publish_async = (\<lambda>c m. on_client (publish_async R c m)),
     cc_subscribe_async = subscribe_async R,
     cc_unsubscribe_async = unsubscribe_async,
     cc_dispose = modify dispose_client,
     cc_dispose_async = dispose_async\<rparr>"

text \<open>\<^verbatim>\<open>with client as c:\<close> and \<^verbatim>\<open>async with client as c:\<close>. The exits return
  nothing, so an exception of the block goes on, unless the exit raises one of its own.\<close>

definition exiting :: "('w, unit) act \<Rightarrow> ('w, 'a) act \<Rightarrow> ('w, 'a) act" where
  "exiting exit body = (\<lambda>w. case body w of (r, w1) \<Rightarrow> (case exit w1 of (Inl e, w2) \<Rightarrow> (Inl e, w2) | (Inr _, w2) \<Rightarrow> (r, w2)))"

definition with_client :: "'w cache_client \<Rightarrow> ('w, 'a) act \<Rightarrow> ('w, 'a) act" where
  "with_client C body = exiting (cc_dispose C) body"

definition async_with_client :: "'w cache_client \<Rightarrow> ('w, 'a) act \<Rightarrow> ('w, 'a) act" where
  "async_with_client C body = exiting (cc_dispose_async C) body"

section \<open>The Redis client behind the interface\<close>

text \<open>A block keeps its outcome and leaves a disposed client, whose further disposal changes nothing.\<close>

lemma with_client_disposes:
  assumes "with_client (redis_cache_client R) body w = (r, w')"
  shows "r = fst (body w) \<and> rh_disposed w' \<and> dispose_client w' = w'"
  using assms
  by (auto simp: with_client_def exiting_def redis_cache_client_def modify_run dispose_client_def split: prod.splits if_splits)

text \<open>An asynchronous block whose client lost a subscription to a failing handler does not keep its outcome: the
  exit raises what ended the subscription, and the client is not disposed of.\<close>

lemma async_exit_raises:
  assumes "body w = (r, w1)" and "\<not> rh_disposed w1" and "crashed w1 i e" and "(channel, i) \<in> set (rh_pubsub_tasks w1)"
  shows "\<exists>e' w'. async_with_client (redis_cache_client R) body w = (Inl e', w') \<and> \<not> rh_disposed w'"
  using cancel_all_crashed [OF assms(3,4)] assms(1,2)
  by (auto simp: async_with_client_def exiting_def redis_cache_client_def dispose_async_def act_simps split: prod.splits sum.splits)

text \<open>A text stored through the interface is read back as bytes, which \<open>Optional[str]\<close> does not allow.\<close>

lemma text_read_back_as_bytes:
  assumes "redis_ok R" and "cc_add_string_value (redis_cache_client R) k v ttl w = (Inr b, w')"
  shows "fst (cc_get_string_value (redis_cache_client R) k w') = Inr (Some (RBytes (utf8_encode v)))"
proof -
  have "rd_get R k (rl_server (rh_client w')) = Inr (Some (RBytes (utf8_encode v)), rl_server (rh_client w'))"
    using assms(2) redis_okD(2,4) [OF assms(1)]
    by (cases ttl) (fastforce simp: redis_cache_client_def on_client_def add_string_value_def redis_runs bytes_of_value_def
        split: sum.splits prod.splits)+
  then show ?thesis by (simp add: redis_cache_client_def on_client_def get_string_value_def redis_runs split: prod.split)
qed

text \<open>An absent key reads as absent through every reader.\<close>

lemma removed_key_absent:
  assumes "redis_ok R" and "cc_remove_key (redis_cache_client R) k w = (Inr b, w')"
  shows "fst (cc_get_string_value (redis_cache_client R) k w') = Inr None"
    and "fst (cc_get_bytes_value (redis_cache_client R) k w') = Inr None"
proof -
  have "rd_get R k (rl_server (rh_client w')) = Inr (None, rl_server (rh_client w'))"
    using assms(2) redis_okD(5) [OF assms(1)]
    by (fastforce simp: redis_cache_client_def on_client_def remove_key_def redis_runs split: sum.splits prod.splits)
  then show "fst (cc_get_string_value (redis_cache_client R) k w') = Inr None"
    "fst (cc_get_bytes_value (redis_cache_client R) k w') = Inr None"
    by (simp_all add: redis_cache_client_def on_client_def get_string_value_def get_bytes_value_def redis_runs coerce_bytes_def
        Let_def split: prod.split)
qed

end
