(* ===== verification/Service_Wiring.thy ===== *)
theory Service_Wiring
  imports Start_Up Process_Wide
begin

text \<open>
  How the services of a process find one another. A service is held by a variable of its module; what needs
  another reads that variable, some when they are constructed, and keep what they read, others at every
  use. Objects are numbered in the order in which they are made, so that it can be said which one is held. The
  theory gives every step of \<open>Start_Up\<close> its effect on these variables, and shows for which orders a
  start succeeds and what is then available.
\<close>

section \<open>The objects of a process\<close>

type_synonym obj = nat

record tenant_object =
  to_id :: obj
  to_cache :: obj \<comment> \<open>the cache client when it was made\<close>

record database_object =
  do_id :: obj
  do_tenants :: tenant_object \<comment> \<open>the tenant service when it was made\<close>

record store_object =
  so_id :: obj
  so_database :: "obj option"

record grants_object =
  go_id :: obj
  go_cache :: "obj option"

record factory_object =
  fo_id :: obj
  fo_store :: "grants_object option"

record token_object =
  tk_id :: obj
  tk_tenants :: "tenant_object option"
  tk_resolver :: "obj option"

record process =
  pr_secrets :: bool
  pr_log_exporter :: "obj option"
  pr_span_exporters :: "obj list"
  pr_cache :: "obj option"
  pr_tenants :: "tenant_object option"
  pr_subscribing :: "obj list" \<comment> \<open>the tenant services whose subscription was scheduled\<close>
  pr_providers :: "store_object option"
  pr_database :: "database_object option"
  pr_listeners :: nat \<comment> \<open>the command listeners registered with the driver\<close>
  pr_grants :: "grants_object option"
  pr_factory :: "factory_object option"
  pr_tokens :: "token_object option"
  pr_resolver :: "obj option"
  pr_made :: nat

definition empty_process :: process where
  "empty_process = \<lparr>pr_secrets = False, pr_log_exporter = None, pr_span_exporters = [], pr_cache = None, pr_tenants = None,
     pr_subscribing = [], pr_providers = None, pr_database = None, pr_listeners = 0, pr_grants = None, pr_factory = None,
     pr_tokens = None, pr_resolver = None, pr_made = 0\<rparr>"

type_synonym 'a process_act = "(process, 'a) act"

definition new_object :: "obj process_act" where
  "new_object = (\<lambda>p. (Inr (pr_made p), p\<lparr>pr_made := pr_made p + 1\<rparr>))"

definition required :: "(process \<Rightarrow> 'v option) \<Rightarrow> 'v process_act" where
  "required f = (\<lambda>p. (require_instance (f p), p))"

section \<open>The variables\<close>

definition loaded_secret :: "unit process_act" where
  "loaded_secret = (\<lambda>p. (if pr_secrets p then Inr () else Inl RuntimeError, p))"

definition set_cache_client :: "obj \<Rightarrow> unit process_act" where
  "set_cache_client c = modify (\<lambda>p. p\<lparr>pr_cache := Some c\<rparr>)"

definition get_cache_client :: "obj process_act" where
  "get_cache_client = required pr_cache"

definition clear_cache_client :: "unit process_act" where
  "clear_cache_client = modify (\<lambda>p. p\<lparr>pr_cache := None\<rparr>)"

definition set_database_provider :: "database_object \<Rightarrow> unit process_act" where
  "set_database_provider d = modify (\<lambda>p. p\<lparr>pr_database := Some d\<rparr>)"

definition get_database_provider :: "database_object process_act" where
  "get_database_provider = required pr_database"

definition clear_database_provider :: "unit process_act" where
  "clear_database_provider = modify (\<lambda>p. p\<lparr>pr_database := None\<rparr>)"

definition get_tenant_service :: "tenant_object process_act" where
  "get_tenant_service = required pr_tenants"

definition get_provider_store :: "store_object option process_act" where
  "get_provider_store = gets pr_providers"

definition reset_provider_store :: "unit process_act" where
  "reset_provider_store = modify (\<lambda>p. p\<lparr>pr_providers := None\<rparr>)"

text \<open>The services of \<^verbatim>\<open>_delegation\<close> are made on first use.\<close>

definition get_grant_store :: "grants_object process_act" where
  "get_grant_store =
     seq (gets pr_grants) (\<lambda>held. case held of
       Some g \<Rightarrow> ret g
     | None \<Rightarrow> seq new_object (\<lambda>i.
         let g = \<lparr>go_id = i, go_cache = None\<rparr>
         in seq (modify (\<lambda>p. p\<lparr>pr_grants := Some g\<rparr>)) (\<lambda>_. ret g)))"

definition set_grant_store :: "grants_object option \<Rightarrow> unit process_act" where
  "set_grant_store g = modify (\<lambda>p. p\<lparr>pr_grants := g\<rparr>)"

definition get_grant_factory :: "factory_object process_act" where
  "get_grant_factory =
     seq (gets pr_factory) (\<lambda>held. case held of
       Some f \<Rightarrow> ret f
     | None \<Rightarrow> seq new_object (\<lambda>i.
         let f = \<lparr>fo_id = i, fo_store = None\<rparr>
         in seq (modify (\<lambda>p. p\<lparr>pr_factory := Some f\<rparr>)) (\<lambda>_. ret f)))"

definition set_grant_factory :: "factory_object option \<Rightarrow> unit process_act" where
  "set_grant_factory f = modify (\<lambda>p. p\<lparr>pr_factory := f\<rparr>)"

definition get_token_provider :: "token_object process_act" where
  "get_token_provider =
     seq (gets pr_tokens) (\<lambda>held. case held of
       Some t \<Rightarrow> ret t
     | None \<Rightarrow> seq new_object (\<lambda>i.
         let t = \<lparr>tk_id = i, tk_tenants = None, tk_resolver = None\<rparr>
         in seq (modify (\<lambda>p. p\<lparr>pr_tokens := Some t\<rparr>)) (\<lambda>_. ret t)))"

definition set_token_provider :: "token_object option \<Rightarrow> unit process_act" where
  "set_token_provider t = modify (\<lambda>p. p\<lparr>pr_tokens := t\<rparr>)"

definition get_endpoint_resolver :: "obj process_act" where
  "get_endpoint_resolver =
     seq (gets pr_resolver) (\<lambda>held. case held of
       Some r \<Rightarrow> ret r
     | None \<Rightarrow> seq new_object (\<lambda>i. seq (modify (\<lambda>p. p\<lparr>pr_resolver := Some i\<rparr>)) (\<lambda>_. ret i)))"

definition set_endpoint_resolver :: "obj option \<Rightarrow> unit process_act" where
  "set_endpoint_resolver r = modify (\<lambda>p. p\<lparr>pr_resolver := r\<rparr>)"

text \<open>What they use: their own, or what the process holds at that moment.\<close>

definition cache_of_store :: "grants_object \<Rightarrow> obj process_act" where
  "cache_of_store g = (case go_cache g of Some c \<Rightarrow> ret c | None \<Rightarrow> get_cache_client)"

definition store_of_factory :: "factory_object \<Rightarrow> grants_object process_act" where
  "store_of_factory f = (case fo_store f of Some g \<Rightarrow> ret g | None \<Rightarrow> get_grant_store)"

definition tenants_of_provider :: "token_object \<Rightarrow> tenant_object process_act" where
  "tenants_of_provider t = (case tk_tenants t of Some s \<Rightarrow> ret s | None \<Rightarrow> get_tenant_service)"

definition resolver_of_provider :: "token_object \<Rightarrow> obj process_act" where
  "resolver_of_provider t = (case tk_resolver t of Some r \<Rightarrow> ret r | None \<Rightarrow> get_endpoint_resolver)"

section \<open>What a step does to them\<close>

text \<open>\<open>L\<close> says how the calls into libraries that a step makes end.\<close>

definition wire_logger :: "(start_step \<Rightarrow> py_exn + unit) \<Rightarrow> unit process_act" where
  "wire_logger L =
     seq (gets pr_log_exporter) (\<lambda>held.
     if held \<noteq> None then ret ()
     else seq loaded_secret (\<lambda>_.
       seq (lift_exn (L Logger_Configured)) (\<lambda>_.
       seq new_object (\<lambda>i. modify (\<lambda>p. p\<lparr>pr_log_exporter := Some i\<rparr>)))))"

definition wire_tracing :: "(start_step \<Rightarrow> py_exn + unit) \<Rightarrow> unit process_act" where
  "wire_tracing L =
     seq loaded_secret (\<lambda>_.
     seq (lift_exn (L Tracing_Configured)) (\<lambda>_.
     seq new_object (\<lambda>i. modify (\<lambda>p. p\<lparr>pr_span_exporters := pr_span_exporters p @ [i]\<rparr>))))"

definition new_redis_client :: "(start_step \<Rightarrow> py_exn + unit) \<Rightarrow> obj process_act" where
  "new_redis_client L = seq loaded_secret (\<lambda>_. seq (lift_exn (L Cache_Client_Set)) (\<lambda>_. new_object))"

definition new_tenants :: "(start_step \<Rightarrow> py_exn + unit) \<Rightarrow> tenant_object process_act" where
  "new_tenants L =
     seq loaded_secret (\<lambda>_.
     seq get_cache_client (\<lambda>c.
     seq (lift_exn (L Tenants_Initialized)) (\<lambda>_.
     seq new_object (\<lambda>i. ret \<lparr>to_id = i, to_cache = c\<rparr>))))"

definition initialize_tenants :: "tenant_object \<Rightarrow> unit process_act" where
  "initialize_tenants t = modify (\<lambda>p. if to_id t \<in> set (pr_subscribing p) then p
     else p\<lparr>pr_subscribing := pr_subscribing p @ [to_id t]\<rparr>)"

definition wire_tenants :: "(start_step \<Rightarrow> py_exn + unit) \<Rightarrow> unit process_act" where
  "wire_tenants L =
     seq (gets pr_tenants) (\<lambda>held.
     seq (case held of
            Some t \<Rightarrow> ret t
          | None \<Rightarrow> seq (new_tenants L) (\<lambda>t. seq (modify (\<lambda>p. p\<lparr>pr_tenants := Some t\<rparr>)) (\<lambda>_. ret t))) initialize_tenants)"

definition wire_providers :: "obj option \<Rightarrow> unit process_act" where
  "wire_providers database =
     seq (gets pr_providers) (\<lambda>held.
     if held \<noteq> None then ret ()
     else seq new_object (\<lambda>i. modify (\<lambda>p. p\<lparr>pr_providers := Some \<lparr>so_id = i, so_database = database\<rparr>\<rparr>)))"

definition new_mongo_provider :: "database_object process_act" where
  "new_mongo_provider =
     seq get_tenant_service (\<lambda>t.
     seq (modify (\<lambda>p. p\<lparr>pr_listeners := pr_listeners p + 1\<rparr>)) (\<lambda>_.
     seq new_object (\<lambda>i. ret \<lparr>do_id = i, do_tenants = t\<rparr>)))"

fun wire :: "(start_step \<Rightarrow> py_exn + unit) \<Rightarrow> start_step \<Rightarrow> unit process_act" where
  "wire L Secrets_Loaded = modify (\<lambda>p. p\<lparr>pr_secrets := True\<rparr>)"
| "wire L Logger_Configured = wire_logger L"
| "wire L Tracing_Configured = wire_tracing L"
| "wire L Cache_Client_Set = seq (new_redis_client L) set_cache_client"
| "wire L Tenants_Initialized = wire_tenants L"
| "wire L Providers_Initialized = wire_providers None"
| "wire L Database_Set = seq new_mongo_provider set_database_provider"
| "wire L Delegation_Checked = seq get_endpoint_resolver (\<lambda>_. lift_exn (L Delegation_Checked))"
| "wire L _ = ret ()"

definition wire_all :: "(start_step \<Rightarrow> py_exn + unit) \<Rightarrow> start_step list \<Rightarrow> unit process_act" where
  "wire_all L xs = for_each (wire L) xs"

section \<open>Orders that work\<close>

text \<open>What has to be there before a step.\<close>

fun needs :: "start_step \<Rightarrow> start_step set" where
  "needs Logger_Configured = {Secrets_Loaded}"
| "needs Tracing_Configured = {Secrets_Loaded}"
| "needs Cache_Client_Set = {Secrets_Loaded}"
| "needs Tenants_Initialized = {Secrets_Loaded, Cache_Client_Set}"
| "needs Database_Set = {Tenants_Initialized}"
| "needs _ = {}"

fun in_order :: "start_step set \<Rightarrow> start_step list \<Rightarrow> bool" where
  "in_order D [] \<longleftrightarrow> True"
| "in_order D (s # xs) \<longleftrightarrow> needs s \<subseteq> D \<and> in_order (insert s D) xs"

text \<open>The process after the steps \<open>D\<close>.\<close>

definition wired :: "start_step set \<Rightarrow> process \<Rightarrow> bool" where
  "wired D p \<longleftrightarrow> (\<forall>s \<in> D. needs s \<subseteq> D) \<and>
     (pr_secrets p \<longleftrightarrow> Secrets_Loaded \<in> D) \<and> (pr_log_exporter p \<noteq> None \<longleftrightarrow> Logger_Configured \<in> D) \<and>
     (pr_cache p \<noteq> None \<longleftrightarrow> Cache_Client_Set \<in> D) \<and> (pr_tenants p \<noteq> None \<longleftrightarrow> Tenants_Initialized \<in> D)"

lemmas wire_defs = wire_logger_def wire_tracing_def new_redis_client_def new_tenants_def initialize_tenants_def wire_tenants_def
  wire_providers_def new_mongo_provider_def get_endpoint_resolver_def loaded_secret_def set_cache_client_def get_cache_client_def
  set_database_provider_def get_tenant_service_def required_def new_object_def require_instance_def

lemma wire_step:
  assumes "wired D p" and "L s = Inr ()"
  shows "needs s \<subseteq> D \<Longrightarrow> \<exists>p'. wire L s p = (Inr (), p') \<and> wired (insert s D) p'"
    and "\<not> needs s \<subseteq> D \<Longrightarrow> fst (wire L s p) = Inl RuntimeError"
  using assms by (cases s; auto simp: wired_def wire_defs act_simps split: option.splits)+

lemma wiring_run:
  assumes "wired D p" and "\<forall>s \<in> set xs. L s = Inr ()"
  shows "fst (wire_all L xs p) = (if in_order D xs then Inr () else Inl RuntimeError)"
  using assms
proof (induction xs arbitrary: D p)
  case Nil
  then show ?case by (simp add: wire_all_def act_simps)
next
  case (Cons s xs)
  then have L: "L s = Inr ()" by simp
  show ?case
  proof (cases "needs s \<subseteq> D")
    case True
    from wire_step(1) [of D p L s, OF Cons.prems(1) L True] obtain p' where "wire L s p = (Inr (), p')" "wired (insert s D) p'" by blast
    with Cons True show ?thesis by (simp add: wire_all_def act_simps)
  next
    case False
    with wire_step(2) [of D p L s, OF Cons.prems(1) L] show ?thesis
      by (auto simp: wire_all_def act_simps split: prod.splits sum.splits)
  qed
qed

text \<open>
  C31. The orders in which a process can bring its services up are those that respect what each needs: with
  libraries that answer, a sequence of steps, with or without repetitions, succeeds if before every step the
  steps it needs have been taken, and ends in \<^verbatim>\<open>RuntimeError\<close> otherwise.
\<close>

theorem start_order:
  assumes "\<forall>s \<in> set xs. L s = Inr ()"
  shows "fst (wire_all L xs empty_process) = (if in_order {} xs then Inr () else Inl RuntimeError)"
  by (rule wiring_run [OF _ assms]) (simp add: wired_def empty_process_def)

section \<open>What a started process offers\<close>

text \<open>Every service is there, and those that keep another keep the one the process holds.\<close>

definition serves :: "process \<Rightarrow> bool" where
  "serves p \<longleftrightarrow> pr_secrets p \<and> pr_log_exporter p \<noteq> None \<and>
     (case (pr_cache p, pr_tenants p, pr_database p, pr_providers p) of
        (Some c, Some t, Some d, Some st) \<Rightarrow>
          to_cache t = c \<and> do_tenants d = t \<and> so_database st = None \<and>
          pr_subscribing p = [to_id t] \<and> pr_listeners p = 1 \<and> length (pr_span_exporters p) = 1 \<and>
          fst (seq get_grant_store cache_of_store p) = Inr c \<and>
          fst (seq get_grant_factory (\<lambda>f. seq (store_of_factory f) cache_of_store) p) = Inr c \<and>
          fst (seq get_token_provider tenants_of_provider p) = Inr t \<and>
          fst (seq get_token_provider resolver_of_provider p) = fst (get_endpoint_resolver p)
      | _ \<Rightarrow> False)"

lemmas holder_defs = get_grant_store_def get_grant_factory_def get_token_provider_def cache_of_store_def store_of_factory_def
  tenants_of_provider_def resolver_of_provider_def

lemma common_wiring:
  assumes "\<forall>s \<in> set COMMON_STEPS. L s = Inr ()"
  shows "\<exists>p. wire_all L COMMON_STEPS empty_process = (Inr (), p) \<and> serves p"
  using assms
  by (simp add: wire_all_def COMMON_STEPS_def wire_defs act_simps empty_process_def serves_def holder_defs Let_def)

text \<open>How the steps of a start ended.\<close>

definition step_outcome :: "start_env \<Rightarrow> start_step \<Rightarrow> py_exn + unit" where
  "step_outcome E s = (case s of
     Secrets_Loaded \<Rightarrow> Inr ()
   | Delegation_Checked \<Rightarrow> ensure_configured (sv_endpoint E)
   | _ \<Rightarrow> sv_external E s)"

lemma common_outcomes:
  assumes "common_services E name w = (Inr (), w')"
  shows "\<forall>s \<in> set COMMON_STEPS. step_outcome E s = Inr ()"
  using assms unfolding common_services_def
  by (elim seq_Inr_elim) (auto simp: external_Inr COMMON_STEPS_def step_outcome_def)

lemma setup_common:
  assumes "setup_services E name hs w = (Inr (), w')"
  shows "\<exists>v. common_services E name w = (Inr (), v)"
  using assms unfolding setup_services_def by (auto elim!: seq_Inr_elim)

lemma worker_ran:
  assumes "run_worker_app E name hs callback w = (r, w')" and "st_steps w = []" and "Worker_Ran \<in> set (st_steps w')"
  shows "\<exists>v xs. common_services E name w = (Inr (), v) \<and> st_steps w' = COMMON_STEPS @ xs"
proof -
  obtain rs ws where s: "setup_services E name hs w = (rs, ws)" by fastforce
  note st = setup_run [OF s]
  have "rs = Inr ()"
  proof (cases rs)
    case (Inl e)
    obtain rc wc where c: "cleanup E ws = (rc, wc)" by fastforce
    then have "w' = wc" using assms(1) s Inl by (auto simp: run_worker_app_split split: sum.splits)
    with cleanup_run [OF c] st assms(2,3) show ?thesis by auto
  qed simp
  moreover obtain rb wb where b: "worker_body E callback ws = (rb, wb)" by fastforce
  moreover obtain rc wc where c: "cleanup E wb = (rc, wc)" by fastforce
  ultimately have "w' = wc" using assms(1) s by (auto simp: run_worker_app_split split: sum.splits)
  with body_run [OF b] cleanup_run [OF c] st \<open>rs = Inr ()\<close> assms(2) obtain xs where "st_steps w' = COMMON_STEPS @ xs" by auto
  with setup_common s \<open>rs = Inr ()\<close> show ?thesis by blast
qed

text \<open>
  C22. A process that is up has all its services. When the start of an application returned, or the worker of a
  worker process ran, the first steps that were taken bring up, in their order, everything that requests and
  messages look up: the services agree on the cache client and on the tenant service, what
  \<^verbatim>\<open>_delegation\<close> makes on first use finds the same ones, and updates and commands are listened to
  once.
\<close>

theorem started_process_serves:
  assumes "configure_lifespan E name messaging w = (Inr (), w') \<or>
      run_worker_app E name hs callback w = (r, w') \<and> Worker_Ran \<in> set (st_steps w')"
    and "st_steps w = []"
  shows "\<exists>p. wire_all (step_outcome E) (take (length COMMON_STEPS) (st_steps w')) empty_process = (Inr (), p) \<and> serves p"
proof -
  have "\<exists>v xs. common_services E name w = (Inr (), v) \<and> st_steps w' = COMMON_STEPS @ xs"
    using assms(1)
  proof
    assume l: "configure_lifespan E name messaging w = (Inr (), w')"
    then obtain v where "common_services E name w = (Inr (), v)" unfolding configure_lifespan_def by (auto elim!: seq_Inr_elim)
    with lifespan_needs_endpoint [OF l] assms(2) show ?thesis by auto
  next
    assume "run_worker_app E name hs callback w = (r, w') \<and> Worker_Ran \<in> set (st_steps w')"
    with worker_ran assms(2) show ?thesis by blast
  qed
  then obtain v xs where c: "common_services E name w = (Inr (), v)" and xs: "st_steps w' = COMMON_STEPS @ xs" by blast
  from common_wiring [OF common_outcomes [OF c]] show ?thesis by (simp add: xs)
qed

section \<open>Orders that do not\<close>

text \<open>Tenants before the cache client, and the database before the tenants.\<close>

lemma tenants_before_cache: "\<not> in_order {} [Secrets_Loaded, Tenants_Initialized, Cache_Client_Set]"
  by simp

lemma database_before_tenants: "\<not> in_order {} [Secrets_Loaded, Cache_Client_Set, Database_Set, Tenants_Initialized]"
  by simp

text \<open>
  A second start in the same process, such as the lifespan of a second application, makes a new cache client and a new
  database provider, but keeps the tenant service: tenants stay with the first cache client, delegation uses the
  second one, and commands are listened to twice.
\<close>

lemma second_start_parts:
  assumes "\<forall>s \<in> set COMMON_STEPS. L s = Inr ()"
  shows "\<exists>p t c. wire_all L (COMMON_STEPS @ COMMON_STEPS) empty_process = (Inr (), p) \<and>
    pr_tenants p = Some t \<and> pr_cache p = Some c \<and> to_cache t \<noteq> c \<and>
    fst (seq get_grant_store cache_of_store p) = Inr c \<and> pr_listeners p = 2 \<and> length (pr_span_exporters p) = 2 \<and> \<not> serves p"
  using assms
  by (simp add: wire_all_def COMMON_STEPS_def wire_defs act_simps empty_process_def serves_def holder_defs Let_def)

text \<open>After the cache client is cleared the tenant service still has it, and delegation has none.\<close>

lemma cleared_cache:
  assumes "serves p"
  shows "\<exists>t c. pr_tenants p = Some t \<and> pr_cache p = Some c \<and> to_cache t = c \<and>
    pr_tenants (snd (clear_cache_client p)) = Some t \<and>
    fst (get_cache_client (snd (clear_cache_client p))) = Inl RuntimeError"
  using assms
  by (auto simp: serves_def clear_cache_client_def get_cache_client_def required_def require_instance_def act_simps split: option.splits)

text \<open>
  What \<^verbatim>\<open>authorize\<close> looks up for a request: it makes a tenant service of its own, with an empty
  cache and a database client, beside the process's, which nothing subscribes to updates and nothing disposes of.
\<close>

definition authorize_services :: "(start_step \<Rightarrow> py_exn + unit) \<Rightarrow> (tenant_object \<times> obj \<times> database_object) process_act" where
  "authorize_services L =
     seq (new_tenants L) (\<lambda>t. seq get_cache_client (\<lambda>c. seq get_database_provider (\<lambda>d. ret (t, c, d))))"

lemma service_per_authorization:
  assumes "serves p" and "L Tenants_Initialized = Inr ()"
  shows "\<exists>t c d. authorize_services L p = (Inr (t, c, d), p\<lparr>pr_made := pr_made p + 1\<rparr>) \<and> to_id t = pr_made p \<and>
    pr_cache p = Some c \<and> to_cache t = c \<and> pr_database p = Some d"
  using assms
  by (auto simp: serves_def authorize_services_def get_database_provider_def wire_defs act_simps split: option.splits)

text \<open>A service that is replaced is what callers get from then on.\<close>

lemma replaced_services:
  "fst (get_grant_store (snd (set_grant_store (Some g) p))) = Inr g"
  "fst (get_grant_factory (snd (set_grant_factory (Some f) p))) = Inr f"
  "fst (get_token_provider (snd (set_token_provider (Some t) p))) = Inr t"
  "fst (get_endpoint_resolver (snd (set_endpoint_resolver (Some r) p))) = Inr r"
  "fst (get_cache_client (snd (set_cache_client c p))) = Inr c"
  "fst (get_database_provider (snd (set_database_provider d p))) = Inr d"
  by (simp_all add: holder_defs wire_defs get_database_provider_def set_grant_store_def set_grant_factory_def
      set_token_provider_def set_endpoint_resolver_def act_simps)

section \<open>Starts\<close>

theorem start_order_witness:
  "fst (wire_all (\<lambda>_. Inr ()) COMMON_STEPS empty_process) = Inr () \<and>
   fst (wire_all (\<lambda>_. Inr ()) [Secrets_Loaded, Tenants_Initialized, Cache_Client_Set] empty_process) = Inl RuntimeError"
  using start_order [of COMMON_STEPS "\<lambda>_. Inr ()"]
    start_order [of "[Secrets_Loaded, Tenants_Initialized, Cache_Client_Set]" "\<lambda>_. Inr ()"]
  by (simp add: COMMON_STEPS_def)

theorem started_process_serves_witness:
  "\<exists>w' p. run_worker_app sample_start_env ''svc'' [(''job'', PlainFunction (\<lambda>_. ret ()))] False sample_start = (Inr (), w') \<and>
    wire_all (step_outcome sample_start_env) (take 8 (st_steps w')) empty_process = (Inr (), p) \<and> serves p"
proof -
  obtain w' where run: "run_worker_app sample_start_env ''svc'' [(''job'', PlainFunction (\<lambda>_. ret ()))] False sample_start = (Inr (), w')"
    and ran: "Worker_Ran \<in> set (st_steps w')"
    using sample_worker_runs by blast
  have "st_steps sample_start = []" by (simp add: sample_start_def)
  moreover have "length COMMON_STEPS = 8" by (simp add: COMMON_STEPS_def)
  ultimately show ?thesis using started_process_serves [OF disjI2 [OF conjI [OF run ran]]] run by metis
qed

end
