(* ===== verification/Web_App.thy ===== *)
theory Web_App
  imports Request_Pipeline
begin

text \<open>
  The web application of \<^verbatim>\<open>_core/api.py\<close>: what \<^verbatim>\<open>configure_genesis\<close> adds to it, the
  order its middlewares run in, and which of its routes answers a path. Starlette runs the middleware added
  last first, refuses to add one once the application has started, and asks its routes in the order
  of their registration; a mount answers every path below its own. The rendered documentation, the file
  system and the instrumentation of OpenTelemetry are parameters.
\<close>

section \<open>The application\<close>

datatype middleware =
    CORS
  | Global_Exception
  | Tenant_Validation "string list"
  | GZip
  | Proxy_Headers "string list"
  | Foreign string

datatype endpoint =
    Health
  | Get_Documentation bool \<comment> \<open>with the flag \<open>show_docs\<close>\<close>
  | Openapi bool

datatype route =
    Route string endpoint
  | Other_Route "string \<Rightarrow> bool" string \<comment> \<open>a route of the service or of FastAPI, by the paths it matches\<close>
  | Mounted string string \<comment> \<open>a path and the directory served under it\<close>

record web_app =
  wa_middlewares :: "middleware list"
  wa_routes :: "route list"
  wa_started :: bool

type_synonym 'a app_act = "(web_app, 'a) act"

definition add_middleware :: "middleware \<Rightarrow> unit app_act" where
  "add_middleware m = (\<lambda>a. if wa_started a then (Inl RuntimeError, a)
     else (Inr (), a\<lparr>wa_middlewares := m # wa_middlewares a\<rparr>))"

definition add_route :: "route \<Rightarrow> unit app_act" where
  "add_route r = modify (\<lambda>a. a\<lparr>wa_routes := wa_routes a @ [r]\<rparr>)"

text \<open>A directory as the file system resolves it, the working directory, and the instrumentation.\<close>

record host =
  ho_resolve :: "string \<Rightarrow> string"
  ho_cwd :: string
  ho_is_dir :: "string \<Rightarrow> bool"
  ho_instrument :: "web_app \<Rightarrow> web_app"

text \<open>\<^verbatim>\<open>fast_api_app\<close>: FastAPI makes an application with routes of its own; the ids of later routes
  are \<open>custom_generate_unique_id\<close>.\<close>

definition fast_api_app :: "route list \<Rightarrow> unit app_act" where
  "fast_api_app own = modify (\<lambda>_. \<lparr>wa_middlewares = [], wa_routes = own, wa_started = False\<rparr>)"

definition static_directory :: "host \<Rightarrow> string \<Rightarrow> string" where
  "static_directory H dir = (if dir \<noteq> [] then ho_resolve H dir else ho_cwd H @ ''/static'')"

text \<open>\<^verbatim>\<open>FileNotFoundError\<close> is an \<open>OtherError\<close>.\<close>

definition mount_static :: "host \<Rightarrow> string \<Rightarrow> string \<Rightarrow> unit app_act" where
  "mount_static H path dir =
     (if \<not> ho_is_dir H (static_directory H dir) then raise OtherError
      else add_route (Mounted path (static_directory H dir)))"

definition configure_genesis :: "host \<Rightarrow> bool \<Rightarrow> bool \<Rightarrow> string \<Rightarrow> string \<Rightarrow> unit app_act" where
  "configure_genesis H show_docs serve_static static_mount_path static_dir =
     seq (add_middleware (Proxy_Headers [''*''])) (\<lambda>_.
     seq (add_middleware GZip) (\<lambda>_.
     seq (add_middleware (Tenant_Validation [''/api''])) (\<lambda>_.
     seq (add_middleware Global_Exception) (\<lambda>_.
     seq (modify (ho_instrument H)) (\<lambda>_.
     seq (add_middleware CORS) (\<lambda>_.
     seq (if serve_static then mount_static H static_mount_path static_dir else ret ()) (\<lambda>_.
     seq (add_route (Route ''/ping'' Health)) (\<lambda>_.
     seq (add_route (Route ''/swagger/index.html'' (Get_Documentation show_docs))) (\<lambda>_.
     add_route (Route ''/openapi.json'' (Openapi show_docs)))))))))))"

text \<open>The id of a route: its name and its path with slashes for underscores.\<close>

definition custom_generate_unique_id :: "string \<Rightarrow> string \<Rightarrow> string" where
  "custom_generate_unique_id name path = name @ ''-'' @ map (\<lambda>c. if c = CHR ''/'' then CHR ''_'' else c) path"

section \<open>Answering a path\<close>

definition without_slash :: "string \<Rightarrow> string" where
  "without_slash p = rev (dropWhile (\<lambda>c. c = CHR ''/'') (rev p))"

fun route_matches :: "string \<Rightarrow> route \<Rightarrow> bool" where
  "route_matches path (Route p _) \<longleftrightarrow> path = p"
| "route_matches path (Other_Route P _) \<longleftrightarrow> P path"
| "route_matches path (Mounted p _) \<longleftrightarrow> starts_with (without_slash p @ ''/'') path"

definition route_of :: "web_app \<Rightarrow> string \<Rightarrow> route option" where
  "route_of a path = List.find (route_matches path) (wa_routes a)"

text \<open>What the three endpoints return, given the root path of the request's scope and the renderers.\<close>

record renderers =
  rn_swagger :: "string \<Rightarrow> pyval"
  rn_openapi :: pyval

fun run_endpoint :: "renderers \<Rightarrow> string option \<Rightarrow> endpoint \<Rightarrow> pyval" where
  "run_endpoint R root_path Health = PDict [(''status'', PStr ''healthy''), (''message'', PStr ''pong'')]"
| "run_endpoint R root_path (Get_Documentation show_docs) =
     (let openapi_url = (if truthy_opt root_path then or_empty root_path @ ''/openapi.json'' else ''/openapi.json'')
      in if show_docs then rn_swagger R openapi_url else PStr ''NOT_ALLOWED'')"
| "run_endpoint R root_path (Openapi show_docs) = (if show_docs then rn_openapi R else PDict [])"

section \<open>Running the middlewares\<close>

text \<open>One middleware around the rest; what is not of the program passes the request through a parameter.\<close>

fun wrap :: "auth_env \<Rightarrow> (string list \<Rightarrow> py_exn + tenant option) \<Rightarrow> (blocks_context \<Rightarrow> string) \<Rightarrow> datetime \<Rightarrow> request_view
    \<Rightarrow> (middleware \<Rightarrow> (auth_world, response) act \<Rightarrow> (auth_world, response) act) \<Rightarrow> request
    \<Rightarrow> middleware \<Rightarrow> (auth_world, response) act \<Rightarrow> (auth_world, response) act" where
  "wrap E dbd dict_text now q other r (Tenant_Validation paths) call_next = dispatch E dbd dict_text now paths call_next r"
| "wrap E dbd dict_text now q other r Global_Exception call_next = global_dispatch q call_next r"
| "wrap E dbd dict_text now q other r m call_next = other m call_next"

definition run_stack where
  "run_stack E dbd dict_text now q other r a endpoint = foldr (wrap E dbd dict_text now q other r) (wa_middlewares a) endpoint"

section \<open>Lemmas\<close>

text \<open>The instrumentation may add middlewares of its own and leaves the rest as it is.\<close>

definition instrument_ok :: "host \<Rightarrow> bool" where
  "instrument_ok H \<longleftrightarrow> (\<forall>a. wa_routes (ho_instrument H a) = wa_routes a \<and> wa_started (ho_instrument H a) = wa_started a \<and>
     (\<exists>ms. wa_middlewares (ho_instrument H a) = map Foreign ms @ wa_middlewares a))"

definition genesis_routes :: "bool \<Rightarrow> route list" where
  "genesis_routes show_docs = [Route ''/ping'' Health, Route ''/swagger/index.html'' (Get_Documentation show_docs),
     Route ''/openapi.json'' (Openapi show_docs)]"

lemma configure_genesis_Inr:
  assumes "configure_genesis H show_docs serve_static path dir a = (Inr (), a')" and "instrument_ok H"
  shows "\<exists>ms. wa_middlewares a' = CORS # map Foreign ms @
      [Global_Exception, Tenant_Validation [''/api''], GZip, Proxy_Headers [''*'']] @ wa_middlewares a"
    and "wa_routes a' = wa_routes a @ (if serve_static then [Mounted path (static_directory H dir)] else []) @ genesis_routes show_docs"
    and "\<not> wa_started a" and "serve_static \<Longrightarrow> ho_is_dir H (static_directory H dir)"
proof -
  have i: "wa_routes (ho_instrument H b) = wa_routes b" "wa_started (ho_instrument H b) = wa_started b"
    "\<exists>ms. wa_middlewares (ho_instrument H b) = map Foreign ms @ wa_middlewares b" for b
    using assms(2) by (auto simp: instrument_ok_def)
  show "\<not> wa_started a" using assms(1) by (auto simp: configure_genesis_def add_middleware_def act_simps)
  then show "\<exists>ms. wa_middlewares a' = CORS # map Foreign ms @
      [Global_Exception, Tenant_Validation [''/api''], GZip, Proxy_Headers [''*'']] @ wa_middlewares a"
    "wa_routes a' = wa_routes a @ (if serve_static then [Mounted path (static_directory H dir)] else []) @ genesis_routes show_docs"
    "serve_static \<Longrightarrow> ho_is_dir H (static_directory H dir)"
    using assms(1) i(3) [of "a\<lparr>wa_middlewares := [Global_Exception, Tenant_Validation [''/api''], GZip, Proxy_Headers [''*'']] @ wa_middlewares a\<rparr>"]
    by (auto simp: configure_genesis_def add_middleware_def add_route_def mount_static_def act_simps genesis_routes_def i(1,2)
        split: if_splits)
qed

lemma find_append: "List.find P (xs @ ys) = (case List.find P xs of None \<Rightarrow> List.find P ys | Some x \<Rightarrow> Some x)"
  by (induction xs) simp_all


definition bare_host :: host where
  "bare_host = \<lparr>ho_resolve = (\<lambda>p. p), ho_cwd = ''/srv'', ho_is_dir = (\<lambda>d. d = ''/srv/static''), ho_instrument = (\<lambda>a. a)\<rparr>"

definition bare_app :: web_app where
  "bare_app = \<lparr>wa_middlewares = [], wa_routes = [], wa_started = False\<rparr>"


text \<open>
  With the defaults of the static options the mount at the root is registered before the three endpoints and
  covers them: none of them can be reached.
\<close>

lemma static_root_hides_endpoints:
  assumes "configure_genesis H show_docs True ''/'' dir a = (Inr (), a')" and "instrument_ok H"
    and "p \<in> {''/ping'', ''/swagger/index.html'', ''/openapi.json''}"
  shows "\<exists>r. route_of a' p = Some r \<and> (r \<in> set (wa_routes a) \<or> r = Mounted ''/'' (static_directory H dir))"
proof -
  have "starts_with ''/'' p" using assms(3) by (auto simp: starts_with_def)
  then have m: "route_matches p (Mounted ''/'' (static_directory H dir))" by (simp add: without_slash_def)
  show ?thesis
  proof (cases "List.find (route_matches p) (wa_routes a)")
    case None
    with m show ?thesis by (simp add: route_of_def configure_genesis_Inr(2) [OF assms(1,2)] find_append)
  next
    case (Some r)
    then have "r \<in> set (wa_routes a)" by (auto simp: find_Some_iff)
    with Some show ?thesis by (simp add: route_of_def configure_genesis_Inr(2) [OF assms(1,2)] find_append)
  qed
qed

text \<open>Nor can any route that the service registers afterwards, as the sample application does.\<close>

lemma static_root_hides_later_routes:
  assumes "configure_genesis H show_docs True ''/'' dir a = (Inr (), a')" and "instrument_ok H" and "starts_with ''/'' p"
    and "route_of (a'\<lparr>wa_routes := wa_routes a' @ later\<rparr>) p = Some r"
  shows "r \<in> set (wa_routes a) \<or> r = Mounted ''/'' (static_directory H dir)"
proof -
  have m: "route_matches p (Mounted ''/'' (static_directory H dir))" using assms(3) by (simp add: without_slash_def)
  show ?thesis
  proof (cases "List.find (route_matches p) (wa_routes a)")
    case None
    with m assms(4) show ?thesis by (simp add: route_of_def configure_genesis_Inr(2) [OF assms(1,2)] find_append)
  next
    case (Some own)
    with assms(4) have "r = own" by (simp add: route_of_def configure_genesis_Inr(2) [OF assms(1,2)] find_append)
    with Some show ?thesis by (auto simp: find_Some_iff)
  qed
qed

text \<open>
  An application that already answers \<^verbatim>\<open>/openapi.json\<close>, as FastAPI registers when it is
  made without another \<^verbatim>\<open>openapi_url\<close>, keeps doing so, whatever \<^verbatim>\<open>show_docs\<close> says.
\<close>

lemma own_schema_stays:
  assumes "configure_genesis H show_docs serve_static path dir a = (Inr (), a')" and "instrument_ok H"
    and "route_of a ''/openapi.json'' = Some own"
  shows "route_of a' ''/openapi.json'' = Some own"
  using assms(3) by (simp add: route_of_def configure_genesis_Inr(2) [OF assms(1,2)] find_append)

text \<open>Without the static directory the configuration raises, after the middlewares were added.\<close>

lemma missing_static_directory:
  assumes "\<not> ho_is_dir H (static_directory H dir)" and "\<not> wa_started a" and "instrument_ok H"
  shows "fst (configure_genesis H show_docs True path dir a) = Inl OtherError"
  using assms by (simp add: configure_genesis_def add_middleware_def mount_static_def act_simps instrument_ok_def)

text \<open>Ids of routes of one name tell their paths apart up to underscores.\<close>

lemma unique_id_paths:
  assumes "custom_generate_unique_id n p = custom_generate_unique_id n p'" and "CHR ''_'' \<notin> set p" and "CHR ''_'' \<notin> set p'"
  shows "p = p'"
proof -
  have "map (\<lambda>c. if c = CHR ''/'' then CHR ''_'' else c) p = map (\<lambda>c. if c = CHR ''/'' then CHR ''_'' else c) p'"
    using assms(1) by (simp add: custom_generate_unique_id_def)
  then show ?thesis using assms(2,3)
  proof (induction p arbitrary: p')
    case (Cons c p)
    then show ?case by (cases p') (auto split: if_splits)
  qed simp
qed

lemma unique_id_collision: "custom_generate_unique_id ''get'' ''/a/b'' = custom_generate_unique_id ''get'' ''/a_b''"
  by (simp add: custom_generate_unique_id_def)

end
