(* ===== verification/Sample_Apps.thy ===== *)
theory Sample_Apps
  imports Web_App Start_Up Process_Wide Delegated_Call
begin

text \<open>
  The two programs that come with the package: the service of \<^verbatim>\<open>api.py\<close>, which sends a message
  when its root is visited, and the worker of \<^verbatim>\<open>worker.py\<close> and
  \<^verbatim>\<open>test_consumer.py\<close>, which handles it. They put the library's parts together as a service
  would, and the theory follows a message from one to the other, and says which of the service's routes can
  be reached.
\<close>

section \<open>The service\<close>

definition ai_configuration :: message_configuration where
  "ai_configuration = \<lparr>mq_connection = None, mq_service_name = None, mq_queues = [], mq_topics = [],
     mq_consumer_subscriptions = None, mq_azure = Some (default_azure\<lparr>ac_queues := [''ai_queue'']\<rparr>), mq_rabbit = None\<rparr>"

text \<open>Loading the module reads the configuration; the handler of a message comes from it too.\<close>

definition load_settings ::
  "(string \<Rightarrow> bool) \<Rightarrow> (string \<Rightarrow> py_exn + pyval) \<Rightarrow> string option \<Rightarrow> string \<Rightarrow> (pyval option, pyval) act" where
  "load_settings file_exists parse app_env here =
     seq (load_configurations file_exists parse app_env (here @ ''/config'') None) (\<lambda>_.
     seq (gets require_instance) lift_exn)"

definition lifespan :: "start_env \<Rightarrow> ('c, unit) start_act \<Rightarrow> ('c, unit) start_act" where
  "lifespan E serving =
     seq (configure_lifespan E ''blocks_ai_api'' True) (\<lambda>_. seq serving (\<lambda>_. close_lifespan E))"

text \<open>The application: FastAPI's own routes, those of \<^verbatim>\<open>configure_genesis\<close>, its own.\<close>

definition ai_routes :: "route list" where
  "ai_routes = [Other_Route (\<lambda>p. p = ''/'') ''root'', Other_Route (\<lambda>p. p = ''/health'') ''health'',
     Other_Route (\<lambda>p. p = ''/sse'') ''sse'']"

definition make_ai_api :: "host \<Rightarrow> route list \<Rightarrow> (web_app, unit) act" where
  "make_ai_api H own =
     seq (fast_api_app own) (\<lambda>_.
     seq (configure_genesis H True True ''/'' []) (\<lambda>_.
     for_each add_route ai_routes))"

definition greeting :: consumer_message where
  "greeting = \<lparr>msg_consumer_name = ''ai_queue'', msg_payload = [(''message'', PStr ''Hello from AI API!'')],
     msg_payload_type = ''AiMessage'', msg_context = None, msg_routing_key = [], msg_delegation_ttl_seconds = None\<rparr>"

text \<open>The root endpoint, given whether the client of the process was made.\<close>

definition root_endpoint :: "'c azure_client_env \<Rightarrow> bool \<Rightarrow> ('c, pyval) azure_client_act" where
  "root_endpoint V made =
     seq (if made then ret () else raise RuntimeError) (\<lambda>_.
     seq (azure_send V greeting) (\<lambda>_.
     ret (PDict [(''message'', PStr ''Hello World''), (''secrets_loaded'', PBool True)])))"

definition ai_health :: "auth_env \<Rightarrow> permission_db \<Rightarrow> bool \<Rightarrow> request \<Rightarrow> (auth_world, pyval) act" where
  "ai_health E db db_ready r =
     seq (authorize E db db_ready None True r) (\<lambda>_.
     ret (PDict [(''status'', PStr ''healthy''), (''secrets_status'', PStr ''loaded'')]))"

text \<open>The events of \<^verbatim>\<open>/sse\<close>, one a second.\<close>

definition gen_events :: "string \<Rightarrow> string list" where
  "gen_events message = map (\<lambda>i. ''data: '' @ message @ '' '' @ show_nat i @ [CHR 10, CHR 10]) [0..<5]"

section \<open>The worker\<close>

definition handle_user_created_event :: "model_env \<Rightarrow> pyval \<Rightarrow> ('c, unit) app_act" where
  "handle_user_created_event V event_data =
     (case event_data of
        PDict d \<Rightarrow> (case map_of d ''message'' of
          None \<Rightarrow> raise ValidationError
        | Some m \<Rightarrow> seq (lift_exn (coerce_str V m)) (\<lambda>_. ret ()))
      | _ \<Rightarrow> raise TypeError)"

definition ai_registry :: "model_env \<Rightarrow> (string \<times> 'c handler) list" where
  "ai_registry V = [(''AiMessage'', HandlerFunction (handle_user_created_event V))]"

text \<open>\<^verbatim>\<open>Logger.exception\<close> takes no argument \<^verbatim>\<open>file\<close> and raises
  \<^verbatim>\<open>TypeError\<close> when it is given one; the \<^verbatim>\<open>sys.exit(1)\<close> after it is not reached.\<close>

definition ai_worker_main :: "start_env \<Rightarrow> model_env \<Rightarrow> ('c, unit) start_act" where
  "ai_worker_main E V =
     except_any (run_worker_app E ''blocks_ai_worker'' (ai_registry V) True) (\<lambda>_. raise TypeError)"

section \<open>The message\<close>

lemma ai_handler_accepts:
  assumes "model_env_ok V"
  shows "handle_user_created_event V (PDict (msg_payload greeting)) a = (Inr (), a)"
proof -
  have "coerce_str V (PStr t) = Inr t" for t using assms unfolding model_env_ok_def by blast
  then show ?thesis by (simp add: handle_user_created_event_def greeting_def act_simps)
qed


text \<open>Visited without a context, as nothing establishes one for a path outside \<^verbatim>\<open>/api\<close>, the root endpoint
  raises and sends nothing.\<close>

lemma root_needs_context:
  assumes "get_context None (dl_ambient (az_delegation s)) = None"
  shows "root_endpoint V made s = (Inl (if made then AttributeError else RuntimeError), s)"
  using azure_send_needs_context [OF assms] by (simp add: root_endpoint_def act_simps)

section \<open>The routes\<close>

lemma for_each_add_route: "for_each add_route rs a = (Inr (), a\<lparr>wa_routes := wa_routes a @ rs\<rparr>)"
  by (induction rs arbitrary: a) (simp_all add: add_route_def act_simps)

text \<open>
  The service never answers with an endpoint of its own. Either there is no directory
  \<^verbatim>\<open>static\<close> where it is started, and loading the module raises; or the directory is mounted at the root
  before the routes are registered, and answers in their place.
\<close>

lemma ai_endpoints_unreachable:
  assumes "instrument_ok H" and "make_ai_api H own a = (r, a')" and "p \<in> {''/'', ''/health'', ''/sse''}"
    and "\<forall>x \<in> set own. \<not> route_matches p x"
  shows "if ho_is_dir H (ho_cwd H @ ''/static'') then r = Inr () \<and> route_of a' p = Some (Mounted ''/'' (ho_cwd H @ ''/static''))
    else r = Inl OtherError"
proof -
  let ?a = "\<lparr>wa_middlewares = [], wa_routes = own, wa_started = False\<rparr>"
  obtain x b where c: "configure_genesis H True True ''/'' [] ?a = (x, b)" by fastforce
  show ?thesis
  proof (cases "ho_is_dir H (ho_cwd H @ ''/static'')")
    case False
    with missing_static_directory [of H "[]" ?a True "''/''"] assms(1) have "x = Inl OtherError"
      by (simp add: c static_directory_def)
    with assms(2) False show ?thesis by (simp add: make_ai_api_def fast_api_app_def c act_simps)
  next
    case True
    then have x: "x = Inr ()"
      using c assms(1) by (auto simp: configure_genesis_def add_middleware_def mount_static_def add_route_def act_simps
          instrument_ok_def static_directory_def)
    with assms(2) have r: "r = Inr ()" "a' = b\<lparr>wa_routes := wa_routes b @ ai_routes\<rparr>"
      by (auto simp: make_ai_api_def fast_api_app_def c act_simps for_each_add_route)
    have "starts_with ''/'' p" using assms(3) by (auto simp: starts_with_def)
    moreover have "List.find (route_matches p) own = None" using assms(4) by (simp add: find_None_iff)
    ultimately have "route_of a' p = Some (Mounted ''/'' (ho_cwd H @ ''/static''))"
      using configure_genesis_Inr(2) [OF c [unfolded x] assms(1)]
      by (simp add: r route_of_def find_append static_directory_def without_slash_def)
    with True r(1) show ?thesis by simp
  qed
qed

section \<open>Failures\<close>

text \<open>Whatever ends the worker with an exception, it is a \<^verbatim>\<open>TypeError\<close> that leaves the program.\<close>

lemma worker_failure_reported_as_type_error:
  assumes "run_worker_app E ''blocks_ai_worker'' (ai_registry V) True w = (Inl e, w')" and "e \<noteq> Unmodelled"
  shows "ai_worker_main E V w = (Inl TypeError, w')"
  using assms by (simp add: ai_worker_main_def act_simps)

text \<open>A service whose run ends in an exception is not shut down: its clients stay open.\<close>

lemma failed_run_skips_shutdown:
  assumes "configure_lifespan E ''blocks_ai_api'' True w = (Inr (), w1)" and "serving w1 = (Inl e, w2)"
  shows "lifespan E serving w = (Inl e, w2)"
  using assms by (simp add: lifespan_def act_simps)

lemma gen_events_five: "length (gen_events m) = 5 \<and> distinct (gen_events m)"
proof -
  have "map show_nat [0..<5] = [''0'', ''1'', ''2'', ''3'', ''4'']" by code_simp
  then have "distinct (map show_nat [0..<5])" by simp
  then show ?thesis by (auto simp: gen_events_def distinct_map inj_on_def)
qed

text \<open>The configuration file that comes with the sample suffices for the check of delegation.\<close>

lemma development_settings_suffice:
  assumes "ee_configurations E = Some [(''check'', PStr ''working''), (''is_local'', PBool True),
      (''BLOCKS_IAM_BASE_URL'', PStr ''http://localhost:5000'')]"
  shows "ensure_configured E = Inr ()"
  using assms by (simp add: ensure_configured_def resolve_setting_def IAM_BASE_URL_KEY_def FRONTEND_RUNTIME_SECTION_def
      dget_def text_setting_def str_defs is_space_def Let_def)

section \<open>A greeting\<close>

definition ai_worker_env :: "(string \<times> string) list worker_env" where
  "ai_worker_env = \<lparr>we_delegation = table_env, we_registry = ai_registry (de_model table_env), we_settle = (\<lambda>_ _. Inr ())\<rparr>"

lemma ai_agree:
  "agree (av_send sample_azure_env) ai_worker_env (sanitized impersonating) greeting (handle_user_created_event (de_model (we_delegation ai_worker_env)))"
  using strict_env_ok
  by (simp add: agree_def sample_azure_env_def sample_send_env_def greeting_def truthy_opt_def impersonating_def sanitized_def user_context_def
      default_context_def ai_worker_env_def ai_registry_def resolve_handler_def)


end
