(* ===== verification/Package_Surface.thy ===== *)
theory Package_Surface
  imports Py_Prelude "HOL-Library.AList"
begin

text \<open>
  The names of the package: what \<^verbatim>\<open>__init__.py\<close> imports and exports, and likewise
  \<^verbatim>\<open>_delegation/__init__.py\<close> and \<^verbatim>\<open>_message/rabbit_mq/__init__.py\<close>. Downstream services use
  what is in these lists, so the theory says what the names are bound to. What a module offers is a parameter;
  module paths are relative to \<^verbatim>\<open>blocks_genesis\<close>.
\<close>

section \<open>Importing a name\<close>

text \<open>\<^verbatim>\<open>from m import n\<close> binds the attribute of the module when there is one, else the
  submodule of that name.\<close>

datatype binding =
    Defined string string \<comment> \<open>a module and a name it defines\<close>
  | Submodule string

type_synonym namespace = "(string \<times> binding) list"

text \<open>What a module offers: by its path, its names.\<close>

type_synonym modules = "(string \<times> namespace) list"

definition import_name :: "modules \<Rightarrow> string \<Rightarrow> string \<Rightarrow> py_exn + binding" where
  "import_name M m n =
     (case map_of M m of
        None \<Rightarrow> Inl OtherError
      | Some ns \<Rightarrow>
          (case map_of ns n of
             Some b \<Rightarrow> Inr b
           | None \<Rightarrow> if map_of M (m @ ''.'' @ n) \<noteq> None then Inr (Submodule (m @ ''.'' @ n)) else Inl OtherError))"

fun bind_names :: "modules \<Rightarrow> string \<Rightarrow> string list \<Rightarrow> namespace \<Rightarrow> py_exn + namespace" where
  "bind_names M m [] d = Inr d"
| "bind_names M m (n # ns) d =
     (case import_name M m n of Inl e \<Rightarrow> Inl e | Inr b \<Rightarrow> bind_names M m ns (AList.update n b d))"

fun run_imports :: "modules \<Rightarrow> (string \<times> string list) list \<Rightarrow> namespace \<Rightarrow> py_exn + namespace" where
  "run_imports M [] d = Inr d"
| "run_imports M ((m, ns) # xs) d =
     (case bind_names M m ns d of Inl e \<Rightarrow> Inl e | Inr d' \<Rightarrow> run_imports M xs d')"

section \<open>The lists\<close>

definition PACKAGE_IMPORTS :: "(string \<times> string list) list" where
  "PACKAGE_IMPORTS = [
    (''_auth.blocks_context'', [''BlocksContext'', ''BlocksContextManager'']),
    (''_auth.jwt_signing_algorithm'', [''JwtSigningAlgorithm'']),
    (''_auth.third_party_provider'', [''ThirdPartyClaimsMapping'', ''ThirdPartyJwtProvider'']),
    (''_auth.third_party_provider_store'', [''ThirdPartyJwtProviderStore'', ''get_third_party_provider_store'',
      ''initialize_third_party_provider_store'']),
    (''_cache'', [''CacheClient'']),
    (''_cache.cache_provider'', [''CacheProvider'']),
    (''_database.db_context'', [''DbContext'']),
    (''_tenant.tenant'', [''Tenant'']),
    (''_tenant.tenant_service'', [''TenantService'', ''get_tenant_service'']),
    (''_message.azure.azure_message_client'', [''AzureMessageClient'']),
    (''_message.rabbit_mq.rabbit_message_client'', [''RabbitMessageClient'']),
    (''_core.api'', [''close_lifespan'', ''configure_lifespan'', ''configure_genesis'', ''fast_api_app'']),
    (''_core.worker'', [''WorkerConsoleApp'']),
    (''_core.configuration'', [''get_configurations'', ''load_configurations'']),
    (''_entities.base_entity'', [''BaseEntity'']),
    (''_lmt.activity'', [''Activity'']),
    (''_message.consumer_message'', [''ConsumerMessage'']),
    (''_message.message_client'', [''MessageClient'']),
    (''_utilities.crypto_service'', [''CryptoService'']),
    (''_auth.auth'', [''authorize'', ''resolve_subscription_usage'', ''subscription_usage_snapshot'']),
    (''_message.message_configuration'', [''AzureServiceBusConfiguration'', ''RabbitMqConfiguration'', ''ConsumerSubscription'',
      ''MessageConfiguration'']),
    (''_core.azure_key_vault'', [''AzureKeyVault'']),
    (''_subscription.context'', [''SubscriptionUsageContext'']),
    (''_subscription.usage_service'', [''SubscriptionUsageService'']),
    (''_subscription.models'', [''UsageResult'']),
    (''_subscription.enums'', [''SubscriptionStatus'']),
    (''_delegation'', [''AuthClaimsContext'', ''DelegatedTokenContext'', ''DelegatedTokenProvider'',
      ''DelegationGrantFactory'', ''DelegationGrantRecord'', ''DelegationGrantStore'',
      ''DelegationTokenEndpointResolver'', ''delegated_auth_headers'', ''get_delegated_token_provider'',
      ''get_delegation_grant_factory'', ''get_delegation_grant_store'', ''get_endpoint_resolver''])]"

definition PACKAGE_ALL :: "string list" where
  "PACKAGE_ALL = [''BlocksContext'', ''BlocksContextManager'', ''JwtSigningAlgorithm'', ''ThirdPartyClaimsMapping'',
      ''ThirdPartyJwtProvider'', ''ThirdPartyJwtProviderStore'', ''get_third_party_provider_store'',
      ''initialize_third_party_provider_store'', ''CacheClient'', ''CacheProvider'', ''DbContext'',
      ''Tenant'', ''TenantService'', ''get_tenant_service'', ''AzureMessageClient'', ''RabbitMessageClient'',
      ''RabbitMqConfiguration'', ''ConsumerSubscription'', ''MessageConfiguration'', ''close_lifespan'',
      ''configure_lifespan'', ''configure_genesis'', ''WorkerConsoleApp'', ''get_configurations'',
      ''load_configurations'', ''BaseEntity'', ''Activity'', ''ConsumerMessage'', ''MessageClient'',
      ''CryptoService'', ''AzureServiceBusConfiguration'', ''authorize'', ''subscription_usage_snapshot'',
      ''resolve_subscription_usage'', ''fast_api_app'', ''AzureKeyVault'', ''SubscriptionUsageContext'',
      ''SubscriptionUsageService'', ''UsageResult'', ''SubscriptionStatus'', ''AuthClaimsContext'',
      ''DelegatedTokenContext'', ''DelegatedTokenProvider'', ''DelegationGrantFactory'',
      ''DelegationGrantRecord'', ''DelegationGrantStore'', ''DelegationTokenEndpointResolver'',
      ''delegated_auth_headers'', ''get_delegated_token_provider'', ''get_delegation_grant_factory'',
      ''get_delegation_grant_store'', ''get_endpoint_resolver'']"

definition DELEGATION_IMPORTS :: "(string \<times> string list) list" where
  "DELEGATION_IMPORTS = [
    (''_delegation.constants'', [''BLOCKS_KEY_HEADER'', ''CLOCK_WINDOW_SECONDS'', ''DEFAULT_GRANT_TTL_SECONDS'',
      ''DELEGATION_GRANT_HEADER'', ''DELEGATION_GRANT_TOKEN_TYPE'', ''GRANT_ID_PREFIX'', ''GRANT_KEY_PREFIX'',
      ''NONCE_KEY_PREFIX'', ''NONCE_TTL_SECONDS'', ''REDEMPTION_KEY_PREFIX'', ''TOKEN_EXCHANGE_GRANT_TYPE'',
      ''TOKEN_RENEWAL_MARGIN_SECONDS'', ''build_signature_input'', ''grant_key'']),
    (''_delegation.context'', [''AuthClaimsContext'', ''DelegatedTokenContext'']),
    (''_delegation.endpoint_resolver'', [''DelegationTokenEndpointResolver'', ''get_endpoint_resolver'', ''set_endpoint_resolver'']),
    (''_delegation.grant_factory'', [''DelegationGrantFactory'', ''get_delegation_grant_factory'', ''set_delegation_grant_factory'']),
    (''_delegation.grant_store'', [''DelegationGrantRecord'', ''DelegationGrantStore'', ''get_delegation_grant_store'',
      ''set_delegation_grant_store'']),
    (''_delegation.signature'', [''compute'', ''is_well_formed'', ''new_grant_id'', ''new_nonce'', ''sign'', ''verify'']),
    (''_delegation.token_provider'', [''DelegatedTokenProvider'', ''delegated_auth_headers'', ''get_delegated_token_provider'',
      ''set_delegated_token_provider''])]"

definition DELEGATION_ALL :: "string list" where
  "DELEGATION_ALL = [''AuthClaimsContext'', ''BLOCKS_KEY_HEADER'', ''CLOCK_WINDOW_SECONDS'', ''DEFAULT_GRANT_TTL_SECONDS'',
      ''DELEGATION_GRANT_HEADER'', ''DELEGATION_GRANT_TOKEN_TYPE'', ''DelegatedTokenContext'',
      ''DelegatedTokenProvider'', ''DelegationGrantFactory'', ''DelegationGrantRecord'',
      ''DelegationGrantStore'', ''DelegationTokenEndpointResolver'', ''GRANT_ID_PREFIX'',
      ''GRANT_KEY_PREFIX'', ''NONCE_KEY_PREFIX'', ''NONCE_TTL_SECONDS'', ''REDEMPTION_KEY_PREFIX'',
      ''TOKEN_EXCHANGE_GRANT_TYPE'', ''TOKEN_RENEWAL_MARGIN_SECONDS'', ''build_signature_input'', ''compute'',
      ''delegated_auth_headers'', ''get_delegated_token_provider'', ''get_delegation_grant_factory'',
      ''get_delegation_grant_store'', ''get_endpoint_resolver'', ''grant_key'', ''is_well_formed'',
      ''new_grant_id'', ''new_nonce'', ''set_delegated_token_provider'', ''set_delegation_grant_factory'',
      ''set_delegation_grant_store'', ''set_endpoint_resolver'', ''sign'', ''verify'']"

definition RABBIT_IMPORTS :: "(string \<times> string list) list" where
  "RABBIT_IMPORTS = [
    (''_message.rabbit_mq.rabbit_message_client'', [''RabbitMessageClient'']),
    (''_message.rabbit_mq.rabbit_message_worker'', [''RabbitMessageWorker'']),
    (''_message.rabbit_mq.rabbit_mq_service'', [''RabbitMqService''])]"

definition RABBIT_ALL :: "string list" where
  "RABBIT_ALL = [''RabbitMessageClient'', ''RabbitMessageWorker'', ''RabbitMqService'']"

section \<open>What is bound\<close>

lemma bind_names_run:
  assumes "bind_names M m ns d = Inr d'"
  shows "map_of d' n = (if n \<in> set ns then (case import_name M m n of Inl _ \<Rightarrow> None | Inr b \<Rightarrow> Some b) else map_of d n)"
    and "n \<in> set ns \<Longrightarrow> \<exists>b. import_name M m n = Inr b"
  using assms by (induction ns arbitrary: d) (auto simp: update_conv' split: sum.splits)

text \<open>After imports of distinct names every one of them is bound to what its own import found.\<close>

lemma run_imports_run:
  assumes "run_imports M xs d = Inr d'" and "distinct (concat (map snd xs))"
  shows "(\<forall>(m, ns) \<in> set xs. \<forall>n \<in> set ns. \<exists>b. import_name M m n = Inr b \<and> map_of d' n = Some b) \<and>
    (\<forall>n. n \<notin> set (concat (map snd xs)) \<longrightarrow> map_of d' n = map_of d n)"
  using assms
proof (induction xs arbitrary: d)
  case (Cons x xs)
  obtain m ns where x: "x = (m, ns)" by (cases x)
  with Cons.prems(1) obtain d1 where b: "bind_names M m ns d = Inr d1" and r: "run_imports M xs d1 = Inr d'"
    by (auto split: sum.splits)
  have IH: "(\<forall>(m, ns) \<in> set xs. \<forall>n \<in> set ns. \<exists>b. import_name M m n = Inr b \<and> map_of d' n = Some b) \<and>
    (\<forall>n. n \<notin> set (concat (map snd xs)) \<longrightarrow> map_of d' n = map_of d1 n)"
    using Cons.IH [OF r] Cons.prems(2) by (simp add: x)
  have "\<exists>b. import_name M m n = Inr b \<and> map_of d' n = Some b" if "n \<in> set ns" for n
  proof -
    have "n \<notin> set (concat (map snd xs))" using that Cons.prems(2) by (auto simp: x)
    with IH bind_names_run [OF b, of n] that show ?thesis by auto
  qed
  with IH bind_names_run(1) [OF b] show ?case by (auto simp: x)
qed simp

lemma package_imports_distinct: "distinct (concat (map snd PACKAGE_IMPORTS))"
  by (simp add: PACKAGE_IMPORTS_def)

text \<open>Nothing is exported that was not imported, or twice, and nothing imported is kept back.\<close>

lemma package_exports: "distinct PACKAGE_ALL \<and> set PACKAGE_ALL = set (concat (map snd PACKAGE_IMPORTS))"
proof -
  have "set (concat (map snd PACKAGE_IMPORTS)) \<subseteq> set PACKAGE_ALL" "set PACKAGE_ALL \<subseteq> set (concat (map snd PACKAGE_IMPORTS))"
    by (simp_all add: PACKAGE_IMPORTS_def PACKAGE_ALL_def)
  moreover have "distinct PACKAGE_ALL" by (simp add: PACKAGE_ALL_def)
  ultimately show ?thesis by blast
qed

lemma delegation_exports: "distinct DELEGATION_ALL \<and> set DELEGATION_ALL = set (concat (map snd DELEGATION_IMPORTS))"
proof -
  have "set (concat (map snd DELEGATION_IMPORTS)) \<subseteq> set DELEGATION_ALL" "set DELEGATION_ALL \<subseteq> set (concat (map snd DELEGATION_IMPORTS))"
    by (simp_all add: DELEGATION_IMPORTS_def DELEGATION_ALL_def)
  moreover have "distinct DELEGATION_ALL" by (simp add: DELEGATION_ALL_def)
  ultimately show ?thesis by blast
qed

lemma rabbit_exports: "distinct RABBIT_ALL \<and> set RABBIT_ALL = set (concat (map snd RABBIT_IMPORTS))"
  by (simp add: RABBIT_ALL_def RABBIT_IMPORTS_def insert_commute)

text \<open>So an export of the package, once it is loaded, is what its own import finds.\<close>

lemma export_bound:
  assumes "run_imports M PACKAGE_IMPORTS [] = Inr d" and "n \<in> set PACKAGE_ALL"
  shows "\<exists>m ns b. (m, ns) \<in> set PACKAGE_IMPORTS \<and> n \<in> set ns \<and> import_name M m n = Inr b \<and> map_of d n = Some b"
  using run_imports_run [OF assms(1) package_imports_distinct] assms(2) package_exports by fastforce

text \<open>The package \<^verbatim>\<open>_cache\<close> defines no name, and has a module \<^verbatim>\<open>CacheClient\<close>: what is
  exported under this name is the module in place of the class in it, and no service can derive its cache from it.\<close>

lemma cache_client_is_a_module:
  assumes "run_imports M PACKAGE_IMPORTS [] = Inr d" and "map_of M ''_cache'' = Some []" and "map_of M ''_cache.CacheClient'' \<noteq> None"
  shows "map_of d ''CacheClient'' = Some (Submodule ''_cache.CacheClient'')"
proof -
  have "import_name M ''_cache'' ''CacheClient'' = Inr (Submodule ''_cache.CacheClient'')"
    using assms(2,3) by (simp add: import_name_def)
  moreover have "(''_cache'', [''CacheClient'']) \<in> set PACKAGE_IMPORTS" by (simp add: PACKAGE_IMPORTS_def)
  ultimately show ?thesis using run_imports_run [OF assms(1) package_imports_distinct] by fastforce
qed

end
