(* ===== verification/Exchange_Signature.thy ===== *)
theory Exchange_Signature
  imports Delegation_Signature Crypto_Service
begin

text \<open>
  The signature of a token exchange in full: \<^verbatim>\<open>compute\<close> of
  \<^verbatim>\<open>_delegation/signature.py\<close> over a keyed hash of bytes, and what it means that a presented
  signature verifies. The keyed hash is a parameter, of which only the length of its digest is
  used.
\<close>

section \<open>The signature\<close>

definition compute :: "(bytes \<Rightarrow> bytes \<Rightarrow> bytes) \<Rightarrow> string \<Rightarrow> string \<Rightarrow> string" where
  "compute hmac tenant_salt signature_input = hex_of (hmac (utf8_encode tenant_salt) (utf8_encode signature_input))"

text \<open>The signature of an exchange, as the provider puts it into its form.\<close>

abbreviation exchange_signature ::
  "(bytes \<Rightarrow> bytes \<Rightarrow> bytes) \<Rightarrow> string \<Rightarrow> string \<Rightarrow> string \<Rightarrow> int \<Rightarrow> string \<Rightarrow> string" where
  "exchange_signature hmac tid delegation_id nonce ts salt \<equiv> sign (compute hmac) tid delegation_id nonce ts salt"

definition digest_ok :: "(bytes \<Rightarrow> bytes \<Rightarrow> bytes) \<Rightarrow> bool" where
  "digest_ok hmac \<longleftrightarrow> (\<forall>k m. length (hmac k m) = 32)"

section \<open>Lemmas\<close>

lemma hex_of_inj: "hex_of a = hex_of b \<Longrightarrow> a = b"
proof -
  have lt: "\<forall>x \<in> set (map unat bs). x < 256" for bs :: bytes by simp
  show "hex_of a = hex_of b \<Longrightarrow> a = b"
    unfolding hex_of_def using hex_bytes_inj [OF lt lt] inj_map_eq_map [OF inj_unsigned] by blast
qed

lemma compute_LOWER_HEX: "c \<in> set (compute hmac salt s) \<Longrightarrow> c \<in> LOWER_HEX"
  using hex_bytes_LOWER_HEX by (auto simp: compute_def hex_of_def)

text \<open>It is the lowercase hexadecimal form that \<^verbatim>\<open>CryptoService\<close> gives for the same key and message.\<close>

lemma py_lower_LOWER_HEX: "set s \<subseteq> LOWER_HEX \<Longrightarrow> py_lower s = s"
  by (induction s) (auto simp: py_lower_def lower_char_def LOWER_HEX_def)

lemma compute_is_hmac: "compute_hmac_sha256 hmac (Some s) (Some salt) False = compute hmac salt s"
proof -
  have "set (hex_of (hmac (utf8_encode salt) (utf8_encode s))) \<subseteq> LOWER_HEX"
    using hex_bytes_LOWER_HEX by (auto simp: hex_of_def)
  then show ?thesis by (simp add: compute_hmac_sha256_def compute_def or_blank_def Let_def py_lower_LOWER_HEX)
qed

text \<open>Signatures are compared without an error, and compare equal only when they are.\<close>

lemma verify_computed:
  assumes "digest_ok hmac"
  shows "verify (compute hmac k s) (Some (compute hmac k' s')) = Inr (compute hmac k s = compute hmac k' s')"
proof -
  have "length (compute hmac k' s') = 64" using assms by (simp add: compute_def hex_of_def digest_ok_def)
  then have "compute hmac k' s' \<noteq> []" by auto
  moreover have "code c < 128" if "c \<in> LOWER_HEX" for c using that by (auto simp: LOWER_HEX_def)
  ultimately show ?thesis using compute_LOWER_HEX by (force simp: verify_def list_all_iff)
qed

text \<open>The bytes that an exchange signs.\<close>

abbreviation signed_bytes :: "string \<Rightarrow> string \<Rightarrow> string \<Rightarrow> int \<Rightarrow> bytes" where
  "signed_bytes tid delegation_id nonce ts \<equiv> utf8_encode (build_signature_input tid delegation_id nonce ts)"

text \<open>
  C30. A signature binds the exchange it was made for. Comparing the signatures of two exchanges under one tenant's
  salt never raises; it succeeds exactly when the keyed hash takes the bytes they sign to the same digest; and
  these bytes are the same only for the same tenant, grant, nonce and time. So a signature that verifies for
  another exchange exhibits a collision on two given messages.
\<close>

theorem signature_binds_exchange:
  assumes "digest_ok hmac" and "is_well_formed (Some d1)" and "is_well_formed (Some d2)"
    and "n1 = new_nonce r1" and "n2 = new_nonce r2"
  shows "\<exists>b. verify (exchange_signature hmac t1 d1 n1 ts1 salt) (Some (exchange_signature hmac t2 d2 n2 ts2 salt)) = Inr b \<and>
    (b \<longleftrightarrow> hmac (utf8_encode salt) (signed_bytes t1 d1 n1 ts1) = hmac (utf8_encode salt) (signed_bytes t2 d2 n2 ts2)) \<and>
    (signed_bytes t1 d1 n1 ts1 = signed_bytes t2 d2 n2 ts2 \<longleftrightarrow> t1 = t2 \<and> d1 = d2 \<and> n1 = n2 \<and> ts1 = ts2)"
proof -
  have "signed_bytes t1 d1 n1 ts1 = signed_bytes t2 d2 n2 ts2 \<longleftrightarrow> t1 = t2 \<and> d1 = d2 \<and> n1 = n2 \<and> ts1 = ts2"
    using signature_input_unambiguous [OF assms(2-5), of t1 ts1 t2 ts2] utf8_encode_inj by blast
  moreover have "compute hmac salt x = compute hmac salt y \<longleftrightarrow> hmac (utf8_encode salt) (utf8_encode x) = hmac (utf8_encode salt) (utf8_encode y)"
    for x y by (auto simp: compute_def dest: hex_of_inj)
  ultimately show ?thesis using verify_computed [OF assms(1)] by (simp add: sign_def)
qed

text \<open>Under a hash that keeps the first bytes of the message, a signature of one tenant's exchange is refused for another's.\<close>

theorem signature_binds_exchange_witness:
  "verify (exchange_signature (\<lambda>k m. take 32 (m @ replicate 32 0)) ''t1'' (new_grant_id (replicate 32 7)) (new_nonce [1]) 5 ''salt'')
     (Some (exchange_signature (\<lambda>k m. take 32 (m @ replicate 32 0)) ''t2'' (new_grant_id (replicate 32 7)) (new_nonce [1]) 5 ''salt''))
   = Inr False"
proof -
  let ?h = "\<lambda>(k :: bytes) m :: bytes. take 32 (m @ replicate 32 0)"
  have d: "is_well_formed (Some (new_grant_id (replicate 32 7)))"
    using hex_bytes_LOWER_HEX by (auto simp: well_formed_iff new_grant_id_def)
  have h: "digest_ok ?h" by (auto simp: digest_ok_def min_def)
  have "?h (utf8_encode ''salt'') (signed_bytes ''t1'' (new_grant_id (replicate 32 7)) (new_nonce [1]) 5) \<noteq>
      ?h (utf8_encode ''salt'') (signed_bytes ''t2'' (new_grant_id (replicate 32 7)) (new_nonce [1]) 5)"
    by (simp add: build_signature_input_def utf8_encode_def utf8_char_def)
  with signature_binds_exchange [OF h d d refl refl, of "''t1''" "[1]" 5 "''salt''" "''t2''" "[1]" 5] show ?thesis by auto
qed

end
