(* ===== verification/Spec2Isabelle.thy ===== *)
theory Spec2Isabelle
  imports Request_Pipeline Single_Flight Delegated_Call Subscription_Usage Mongo_Context Redis_Subscriptions
    Log_Config Start_Up
    Token_Flight Provider_Flight Cache_Interface Service_Wiring Sample_Apps Package_Surface
    Exchange_Signature
begin

text \<open>
  A verification library for Blocks Genesis, the shared Python foundation of multi-tenant services under
  \<^verbatim>\<open>src/blocks_genesis\<close>.

  The program. A request enters through the tenant middleware, which resolves its tenant and leaves an
  anonymous context in an ambient variable; the \<^verbatim>\<open>authorize\<close> dependency authenticates the
  caller, by a token of the platform or of one of the tenant's external identity providers, replaces the
  context and checks access. Tenants and providers are read through caches. A message sent onward carries
  the context without its secrets and the id of a delegation grant, which the worker redeems for a
  short-lived token.

  The model. Python values are \<open>pyval\<close>, exceptions are the sum \<open>py_exn + 'a\<close>, stateful code is an
  action on an explicit world (\<open>act\<close>), classes are records, class state is threaded through. What is not
  under \<^verbatim>\<open>src\<close> (token verification, certificates, hashes and ciphers, databases, the
  Redis client, HTTP, pydantic's conversions, clocks, random bytes) is a parameter; what the program
  relies on is a named hypothesis (\<open>model_env_ok\<close>, \<open>aead_ok\<close>, \<open>cache_ops_ok\<close>), each shown to be satisfiable
  by a witness. Theories, in the order of their imports:

  \<^item> \<open>Py_Prelude\<close>, \<open>Py_Strings\<close>, \<open>Py_Values\<close>, \<open>Py_Json\<close>, \<open>Py_Url\<close>, \<open>Http_Request\<close>: the parts of Python the code
    uses: exceptions and handlers, string methods, truthiness, \<^verbatim>\<open>json\<close> (printer and parser, with
    their round trip; the parser's fuel is the length of the text and never runs out, \<open>json_loads_no_fuel\<close>),
    \<^verbatim>\<open>urlsplit\<close>, requests.
  \<^item> \<open>Signing_Algorithm\<close>, \<open>Third_Party_Provider\<close>, \<open>Provider_Selector\<close>, \<open>Provider_Store\<close>: external identity
    providers (\<^verbatim>\<open>_auth/jwt_signing_algorithm.py\<close>, \<^verbatim>\<open>third_party_*.py\<close>); the
    selector is proved to implement a declarative rule, the store to be at most a minute stale.
  \<^item> \<open>Blocks_Context\<close>, \<open>Context_Factory\<close>: \<^verbatim>\<open>_auth/blocks_context.py\<close>; the transport round trip,
    what it hides, what an external token can set.
  \<^item> \<open>Delegation_Signature\<close>, \<open>Ambient\<close>: the delegation constants and signatures, and the four context
    variables, instances of one locale (\<open>ambient_var\<close>).
  \<^item> \<open>Read_Through\<close>: the locale of every cache of the program, interpreted by the tenant service, the
    provider store, the endpoint resolver and the token provider.
  \<^item> \<open>Tenant\<close>, \<open>Tenant_Service\<close>, \<open>Single_Flight\<close>: \<^verbatim>\<open>_tenant\<close>; the cache invariant, update
    messages, and the concurrent loads as a step relation with its invariant.
  \<^item> \<open>Crypto_Service\<close>: \<^verbatim>\<open>_utilities/crypto_service.py\<close>; the envelope round trip.
  \<^item> \<open>Auth_World\<close>, \<open>Token_Extraction\<close>, \<open>Claim_Mapping\<close>, \<open>Third_Party_Validation\<close>, \<open>Authenticate\<close>,
    \<open>Access_Control\<close>: \<^verbatim>\<open>_auth/auth.py\<close> in its own order, ending in what an authenticated,
    authorized request has proved.
  \<^item> \<open>Tenant_Middleware\<close>: \<^verbatim>\<open>_middlewares/tenant_middleware.py\<close>.
  \<^item> \<open>Grant_Store\<close>, \<open>Grant_Factory\<close>, \<open>Endpoint_Resolver\<close>, \<open>Token_Provider\<close>: \<^verbatim>\<open>_delegation\<close>.
  \<^item> \<open>Messaging\<close>, \<open>Message_Worker\<close>, \<open>Rabbit_Service\<close>, \<open>Rabbit_Worker\<close>, \<open>Message_Client\<close>, \<open>Azure_Worker\<close>:
    \<^verbatim>\<open>_message\<close>; what is published or sent, the topology a worker declares, and what each
    worker does with a delivery, as a log of handlers run, settlements and grants released.
  \<^item> \<open>Message_Transport\<close>: the locale \<open>message_channel\<close> of what joins a sending client to a worker,
    interpreted by both brokers, and the composition: what was sent reaches its handler as its sender.
  \<^item> \<open>Delegated_Call\<close>: the send, the worker and the token provider composed: the handler redeems the grant
    that the send wrote.
  \<^item> \<open>Subscription_Usage\<close>: \<^verbatim>\<open>_subscription\<close>; a usage snapshot fails open.
  \<^item> \<open>Mongo_Context\<close>: \<^verbatim>\<open>_database\<close>; the registry with its lock as a step relation.
  \<^item> \<open>Redis_Client\<close>, \<open>Redis_Subscriptions\<close>: \<^verbatim>\<open>_cache\<close>; the client implements the cache
    that the delegation store and the tenant service assume (\<open>cache_ops_ok\<close> follows from \<open>redis_ok\<close>).
  \<^item> \<open>Log_Exporter\<close>, \<open>Trace_Exporter\<close>: \<^verbatim>\<open>_lmt\<close>; the exporters' queues and threads as step
    relations: where every record is, and which are lost.
  \<^item> \<open>Activity\<close>: \<^verbatim>\<open>_lmt/activity.py\<close> and the listener of the Mongo driver: baggage is inherited
    by nested activities, and every command leaves the context it found.
  \<^item> \<open>Log_Config\<close>: the root logger, its handlers and the bootstrap of the log collection.
  \<^item> \<open>Token_Flight\<close>: concurrent calls for delegated tokens and the locks of their grants.
  \<^item> \<open>Provider_Rows\<close>, \<open>Provider_Flight\<close>: how the rows of the provider collection become typed providers, all or
    none; concurrent reads of the store.
  \<^item> \<open>Azure_Admin\<close>: the provisioning of a bus namespace, which is idempotent.
  \<^item> \<open>Secret_Loader\<close>, \<open>Start_Up\<close>: \<^verbatim>\<open>_core\<close>; secrets, and the order in which processes
    start and stop.
  \<^item> \<open>Request_Pipeline\<close>: the outer middleware, and the composition of a request's whole way.
  \<^item> \<open>Web_App\<close>: what \<^verbatim>\<open>configure_genesis\<close> installs, and which route answers a path.
  \<^item> \<open>Cache_Interface\<close>, \<open>Process_Wide\<close>: the interface of a cache client and its context managers; the
    variables that hold the services of a process.
  \<^item> \<open>Service_Wiring\<close>: what each service takes from these variables, and when; a start succeeds in exactly the
    orders that respect these needs, and a process that is up has every service, sharing one cache and one tenant
    service.
  \<^item> \<open>Sample_Apps\<close>: \<^verbatim>\<open>src/api.py\<close>, \<^verbatim>\<open>src/worker.py\<close> and \<^verbatim>\<open>src/test_consumer.py\<close>: the
    sample service's message reaches the sample worker's handler, and its own routes are unreachable.
  \<^item> \<open>Exchange_Signature\<close>: what a verified signature of a token exchange says.
  \<^item> \<open>Package_Surface\<close>: what the exported names of the packages are bound to.

  Bounds. Strings hold code points up to 255; a run that meets a larger one ends in the exception
  \<open>Unmodelled\<close>, which no handler catches. The concurrency of the program is modelled where state is
  shared between callers or threads (\<open>Single_Flight\<close>, \<open>Token_Flight\<close>, \<open>Provider_Flight\<close>, \<open>Mongo_Context\<close> and the
  two exporters); elsewhere one call runs at a time.

  Not modelled. The rendering of the documentation, the connections to brokers, databases and the vault, and the prose of log
  lines: calls of a library without a decision of their own.
\<close>

end
